(* ===== verification/Prelude.thy ===== *)
theory Prelude
  imports Main "HOL-Library.Word" "HOL-Library.Signed_Division" "HOL-Library.Monad_Syntax"
begin

unbundle bit_operations_syntax

text \<open>
  Shared vocabulary of the development: Go's machine integers as words of their width, a
  run that may panic as an option (\<^theory_text>\<open>None\<close> is a run-time panic, which ends the process:
  nothing in the repository recovers from one), Go's error values as a datatype, slices as
  lists with checked indexing, and the generic lemmas on lists, maps and signed words that the
  component theories use.  The collections \<^theory_text>\<open>go_simps\<close> (unfolding of the language
  primitives) and \<^theory_text>\<open>run_simps\<close> (evaluation of panicking runs) are what the proofs of
  the components add to the simplifier.
\<close>

named_theorems go_simps
named_theorems run_simps

section \<open>Types\<close>

type_synonym byte = "8 word"
type_synonym int64 = "64 word"
type_synonym ShardIDType = int64
type_synonym PBInt = int64
type_synonym peer_ID = string
type_synonym bytes = "byte list"
type_synonym 'a run = "'a option"

text \<open>
  Error values.  The constructors without argument and those carrying data are the errors the
  repository (or the part of the standard library it uses) creates itself; \<open>External\<close> is an
  error returned by a library call, and \<open>Errorf\<close> an error that \<open>fmt.Errorf\<close> builds
  around another one.
\<close>

datatype go_error =
    InvalidShardID int64
  | ByteIndexTooBig byte nat
  | NumSyntax string
  | NumRange string
  | NotSubscribed
  | FailureResponse
  | NotEnoughBootstrapPeers
  | NewError string
  | External string
  | Errorf string go_error

section \<open>Signed integers\<close>

text \<open>Go's signed division and remainder truncate towards zero.\<close>

definition go_div :: "int64 \<Rightarrow> int64 \<Rightarrow> int64" where
  "go_div x y = word_of_int (sint x sdiv sint y)"

definition go_mod :: "int64 \<Rightarrow> int64 \<Rightarrow> int64" where
  "go_mod x y = word_of_int (sint x smod sint y)"

definition go_byte :: "int64 \<Rightarrow> byte" where
  "go_byte x = ucast x"

definition go_shl :: "byte \<Rightarrow> byte \<Rightarrow> byte" where
  "go_shl x n = push_bit (unat n) x"

lemmas go_int_defs [go_simps] = go_div_def go_mod_def go_byte_def go_shl_def

lemma sint64_bounds: "- 9223372036854775808 \<le> sint (x :: int64)" "sint (x :: int64) < 9223372036854775808"
  using sint_ge [of x] sint_lt [of x] by simp_all

lemma sint64_of_int:
  "- 9223372036854775808 \<le> k \<Longrightarrow> k < 9223372036854775808 \<Longrightarrow> sint (word_of_int k :: int64) = k"
  by (simp add: sint_sbintrunc' signed_take_bit_int_eq_self)

lemma sint64_eqI: "sint (x :: int64) = sint y \<Longrightarrow> x = y"
  by (metis of_int_sint scast_id)

lemma sint64_of_nat: "n < 9223372036854775808 \<Longrightarrow> sint (of_nat n :: int64) = int n"
  using sint64_of_int [of "int n"] by simp

lemma sint64_Suc: "sint x < 9223372036854775807 \<Longrightarrow> sint (x + 1 :: int64) = sint x + 1"
proof -
  assume h: "sint x < 9223372036854775807"
  have "x + 1 = word_of_int (sint x + 1)"
    by simp
  then show ?thesis
    using h sint64_bounds(1) [of x] by (simp add: sint64_of_int del: of_int_add)
qed

lemma uint_nonneg: "0 \<le> sint (x :: int64) \<Longrightarrow> uint x = sint x"
  using sint64_bounds(2) [of x] by (simp add: uint_sint take_bit_int_eq_self)

lemma go_byte_of_nat: "k < 256 \<Longrightarrow> go_byte (of_nat k) = of_nat k"
  by (simp add: go_byte_def unsigned_of_nat take_bit_nat_eq_self)

lemma uint_go_byte: "uint (go_byte (word_of_int k)) = k mod 256"
  by (simp add: go_byte_def unsigned_ucast_eq take_bit_eq_mod uint_word_of_int mod_mod_cancel)

lemma unat_go_byte: "unat (go_byte (word_of_int k)) = nat (k mod 256)"
  by (simp add: unat_eq_nat_uint uint_go_byte)

lemma sdiv_neg: "(k :: int) < 0 \<Longrightarrow> k sdiv 8 = - (- k div 8)"
  by (simp add: signed_divide_int_def)

lemma smod_neg: "(k :: int) < 0 \<Longrightarrow> k smod 8 = - (- k mod 8)"
  by (simp add: signed_modulo_int_def)

lemma unat_byte_of_nat: "k < 256 \<Longrightarrow> unat (of_nat k :: byte) = k"
  by (simp add: unat_of_nat)

section \<open>Slices\<close>

text \<open>Reading a slice out of range panics.\<close>

definition go_index :: "'a list \<Rightarrow> nat \<Rightarrow> 'a run" where
  "go_index xs i = (if i < length xs then Some (xs ! i) else None)"

lemma go_index_Some [simp]: "i < length xs \<Longrightarrow> go_index xs i = Some (xs ! i)"
  by (simp add: go_index_def)

lemma go_index_None [simp]: "length xs \<le> i \<Longrightarrow> go_index xs i = None"
  by (simp add: go_index_def)

lemma go_index_eq_Some_iff: "go_index xs i = Some x \<longleftrightarrow> i < length xs \<and> xs ! i = x"
  by (auto simp: go_index_def)

section \<open>Runs\<close>

lemmas run_bind_simps [run_simps] = Option.bind.simps

lemma bind_eq_Some_iff [run_simps]: "Option.bind m f = Some y \<longleftrightarrow> (\<exists>x. m = Some x \<and> f x = Some y)"
  by (cases m) auto

section \<open>Bits\<close>

lemma bit_set_position:
  "n < 8 \<Longrightarrow> bit ((w :: byte) OR 2 ^ n) m \<longleftrightarrow> bit w m \<or> m = n"
  by (auto simp: bit_simps)

lemma bit_clear_position:
  "n < 8 \<Longrightarrow> bit ((w :: byte) AND NOT (2 ^ n)) m \<longleftrightarrow> bit w m \<and> m \<noteq> n"
  by (auto simp: bit_simps dest: bit_imp_le_length)

lemma test_position: "((w :: byte) AND 2 ^ n \<noteq> 0) \<longleftrightarrow> bit w n"
  by (simp add: bit_iff_and_push_bit_not_eq_0)

end
