(* ===== verification/ListeningShards.thy ===== *)
theory ListeningShards
  imports Prelude
begin

text \<open>
  Model of \<open>src/shardpreftable.go\<close>, lines 10 to 97: the bit vector \<open>ListeningShards\<close> in which
  a peer's shard preference is kept and in which it travels over the network, with every
  operation on it.  A shard identifier is a signed 64-bit integer; the code checks it against
  \<open>numShards\<close> from above only, so the lemmas separate the valid identifiers, the ones
  that are too large and the negative ones.

  The interface the preference table relies on is the locale \<open>shard_set\<close>; its laws are
  discharged for the bit vector at the end of the theory.
\<close>

section \<open>Data and operations\<close>

definition byteSize :: int64 where
  "byteSize = 8"

definition numShards :: ShardIDType where
  "numShards = 100"

record ListeningShards =
  shardBits :: bytes

definition NewListeningShards :: ListeningShards where
  "NewListeningShards = \<lparr>shardBits = replicate (unat (go_div numShards 8 + 1)) 0\<rparr>"

definition shardIDToBitIndex :: "ShardIDType \<Rightarrow> go_error + byte \<times> byte" where
  "shardIDToBitIndex shardID =
     (if sint numShards \<le> sint shardID then Inl (InvalidShardID shardID)
      else Inr (go_byte (go_div shardID byteSize), go_byte (go_mod shardID byteSize)))"

text \<open>The mutating methods return the error (\<^theory_text>\<open>None\<close> for \<open>nil\<close>) and the new value.\<close>

definition unsetShard :: "ListeningShards \<Rightarrow> ShardIDType \<Rightarrow> go_error option \<times> ListeningShards" where
  "unsetShard ls shardID =
     (case shardIDToBitIndex shardID of
        Inl err \<Rightarrow> (Some err, ls)
      | Inr (byteIndex, bitIndex) \<Rightarrow>
          if length (shardBits ls) \<le> unat byteIndex
          then (Some (ByteIndexTooBig byteIndex (length (shardBits ls))), ls)
          else (None, ls\<lparr>shardBits := (shardBits ls)[unat byteIndex :=
                  (shardBits ls ! unat byteIndex) AND NOT (go_shl 1 bitIndex)]\<rparr>))"

definition setShard :: "ListeningShards \<Rightarrow> ShardIDType \<Rightarrow> go_error option \<times> ListeningShards" where
  "setShard ls shardID =
     (case shardIDToBitIndex shardID of
        Inl err \<Rightarrow> (Some err, ls)
      | Inr (byteIndex, bitIndex) \<Rightarrow>
          if length (shardBits ls) \<le> unat byteIndex
          then (Some (ByteIndexTooBig byteIndex (length (shardBits ls))), ls)
          else (None, ls\<lparr>shardBits := (shardBits ls)[unat byteIndex :=
                  (shardBits ls ! unat byteIndex) OR go_shl 1 bitIndex]\<rparr>))"

text \<open>Unlike its two siblings, \<open>isShardSet\<close> does not compare the index with the length.\<close>

definition isShardSet :: "ListeningShards \<Rightarrow> ShardIDType \<Rightarrow> bool run" where
  "isShardSet ls shardID =
     (case shardIDToBitIndex shardID of
        Inl err \<Rightarrow> Some False
      | Inr (byteIndex, bitIndex) \<Rightarrow> do {
          b \<leftarrow> go_index (shardBits ls) (unat byteIndex);
          Some (b AND go_shl 1 bitIndex \<noteq> 0)
        })"

text \<open>The loop of \<open>getShards\<close>, from \<open>shardID\<close> on, with the slice built so far.\<close>

function getShards_loop :: "ListeningShards \<Rightarrow> ShardIDType \<Rightarrow> ShardIDType list \<Rightarrow> ShardIDType list run" where
  "getShards_loop ls shardID shards =
     (if sint shardID < sint numShards then do {
        b \<leftarrow> isShardSet ls shardID;
        getShards_loop ls (shardID + 1) (if b then shards @ [shardID] else shards)
      } else Some shards)"
  by pat_completeness auto
termination
  by (relation "measure (\<lambda>(ls, shardID, shards). nat (sint numShards - sint shardID))")
    (auto simp: numShards_def sint64_Suc)

declare getShards_loop.simps [simp del]

definition getShards :: "ListeningShards \<Rightarrow> ShardIDType list run" where
  "getShards ls = getShards_loop ls 0 []"

fun fromSlice :: "ListeningShards \<Rightarrow> ShardIDType list \<Rightarrow> ListeningShards" where
  "fromSlice ls [] = ls"
| "fromSlice ls (shardID # shards) = fromSlice (snd (setShard ls shardID)) shards"

definition fromBytes :: "ListeningShards \<Rightarrow> bytes \<Rightarrow> ListeningShards" where
  "fromBytes ls bs = ls\<lparr>shardBits := bs\<rparr>"

definition toBytes :: "ListeningShards \<Rightarrow> bytes" where
  "toBytes ls = shardBits ls"

section \<open>Valid identifiers and well-formed vectors\<close>

definition valid_shard :: "ShardIDType \<Rightarrow> bool" where
  "valid_shard s \<longleftrightarrow> 0 \<le> sint s \<and> sint s < sint numShards"

definition wf_shards :: "ListeningShards \<Rightarrow> bool" where
  "wf_shards ls \<longleftrightarrow> unat (go_div numShards 8 + 1) \<le> length (shardBits ls)"

definition shards_of :: "ListeningShards \<Rightarrow> ShardIDType set" where
  "shards_of ls = {s. valid_shard s \<and> isShardSet ls s = Some True}"

lemma shardBits_eta [simp]: "\<lparr>shardBits = shardBits ls\<rparr> = ls"
  by (cases ls) simp

lemma numShards_int [simp]: "sint numShards = 100"
  by (simp add: numShards_def)

lemma vector_length [simp]: "unat (go_div numShards 8 + 1) = 13"
  by (simp add: numShards_def go_div_def)

lemma wf_shards_iff: "wf_shards ls \<longleftrightarrow> 13 \<le> length (shardBits ls)"
  by (simp add: wf_shards_def)

lemma valid_shard_unat:
  assumes "valid_shard s"
  shows "unat s < 100" "int (unat s) = sint s" "s = of_nat (unat s)"
proof -
  show u: "int (unat s) = sint s"
    using assms by (simp add: valid_shard_def uint_nonneg)
  then show "unat s < 100"
    using assms unfolding valid_shard_def numShards_int by linarith
  show "s = of_nat (unat s)" by simp
qed

lemma valid_shard_of_nat [simp]: "n < 100 \<Longrightarrow> valid_shard (of_nat n)"
  by (simp add: valid_shard_def sint64_of_nat)

lemma of_nat_shard_inject: "m < 100 \<Longrightarrow> n < 100 \<Longrightarrow> (of_nat m :: int64) = of_nat n \<longleftrightarrow> m = n"
proof
  assume eq: "(of_nat m :: int64) = of_nat n"
  assume "m < 100" "n < 100"
  then have "int m = sint (of_nat m :: int64)" "sint (of_nat n :: int64) = int n"
    by (simp_all add: sint64_of_nat)
  with eq show "m = n" by (metis of_nat_eq_iff)
qed simp

lemma valid_shardE:
  assumes "valid_shard s"
  obtains n where "n < 100" "s = of_nat n"
  using valid_shard_unat [OF assms] that by blast

lemma bit_index_valid:
  "n < 100 \<Longrightarrow> shardIDToBitIndex (of_nat n) = Inr (of_nat (n div 8), of_nat (n mod 8))"
proof -
  assume n: "n < 100"
  then have s: "sint (of_nat n :: int64) = int n"
    by (simp add: sint64_of_nat)
  have d: "int n sdiv 8 = int (n div 8)" and m: "int n smod 8 = int (n mod 8)"
    by (simp_all add: signed_divide_int_def signed_modulo_int_def sgn_if zdiv_int zmod_int)
  show ?thesis
    using n by (simp add: shardIDToBitIndex_def s go_div_def go_mod_def go_byte_of_nat byteSize_def d m
        del: of_nat_div of_nat_mod)
qed

section \<open>The vector as a set of bits\<close>

definition shard_bit :: "ListeningShards \<Rightarrow> nat \<Rightarrow> bool" where
  "shard_bit ls n = bit (shardBits ls ! (n div 8)) (n mod 8)"

lemma div_lt_length: "wf_shards ls \<Longrightarrow> n < 100 \<Longrightarrow> n div 8 < length (shardBits ls)"
  by (simp add: wf_shards_iff)

lemma unat_bit_index [simp]:
  "n < 100 \<Longrightarrow> unat (of_nat (n div 8) :: byte) = n div 8"
  "unat (of_nat (n mod 8) :: byte) = n mod 8"
  by (simp_all add: unat_byte_of_nat del: of_nat_div of_nat_mod)

lemma same_position: "(m :: nat) div 8 = n div 8 \<and> m mod 8 = n mod 8 \<longleftrightarrow> m = n"
  by (metis div_mult_mod_eq)

lemma isShardSet_of_nat:
  assumes "n < 100"
  shows "isShardSet ls (of_nat n) =
    (if n div 8 < length (shardBits ls) then Some (shard_bit ls n) else None)"
  using assms
  by (simp add: isShardSet_def bit_index_valid go_shl_def test_position shard_bit_def
      del: of_nat_div of_nat_mod)

lemma isShardSet_wf:
  "wf_shards ls \<Longrightarrow> n < 100 \<Longrightarrow> isShardSet ls (of_nat n) = Some (shard_bit ls n)"
  by (simp add: isShardSet_of_nat div_lt_length)

lemma setShard_of_nat:
  assumes "wf_shards ls" "n < 100"
  obtains ls' where "setShard ls (of_nat n) = (None, ls')"
    "length (shardBits ls') = length (shardBits ls)"
    "\<And>m. m < 100 \<Longrightarrow> shard_bit ls' m \<longleftrightarrow> shard_bit ls m \<or> m = n"
proof
  let ?ls' = "ls\<lparr>shardBits := (shardBits ls)[n div 8 := (shardBits ls ! (n div 8)) OR push_bit (n mod 8) 1]\<rparr>"
  show "setShard ls (of_nat n) = (None, ?ls')"
    using assms div_lt_length [OF assms]
    by (simp add: setShard_def bit_index_valid go_shl_def del: of_nat_div of_nat_mod)
  show "length (shardBits ?ls') = length (shardBits ls)" by simp
  show "shard_bit ?ls' m \<longleftrightarrow> shard_bit ls m \<or> m = n" if "m < 100" for m
    using div_lt_length [OF assms] same_position [of m n]
    by (cases "m div 8 = n div 8") (auto simp: shard_bit_def bit_set_position)
qed

lemma unsetShard_of_nat:
  assumes "wf_shards ls" "n < 100"
  obtains ls' where "unsetShard ls (of_nat n) = (None, ls')"
    "length (shardBits ls') = length (shardBits ls)"
    "\<And>m. m < 100 \<Longrightarrow> shard_bit ls' m \<longleftrightarrow> shard_bit ls m \<and> m \<noteq> n"
proof
  let ?ls' = "ls\<lparr>shardBits := (shardBits ls)[n div 8 := (shardBits ls ! (n div 8)) AND NOT (push_bit (n mod 8) 1)]\<rparr>"
  show "unsetShard ls (of_nat n) = (None, ?ls')"
    using assms div_lt_length [OF assms]
    by (simp add: unsetShard_def bit_index_valid go_shl_def del: of_nat_div of_nat_mod)
  show "length (shardBits ?ls') = length (shardBits ls)" by simp
  show "shard_bit ?ls' m \<longleftrightarrow> shard_bit ls m \<and> m \<noteq> n" if "m < 100" for m
    using div_lt_length [OF assms] same_position [of m n]
    by (cases "m div 8 = n div 8") (auto simp: shard_bit_def bit_clear_position)
qed

lemma shards_of_wf: "wf_shards ls \<Longrightarrow> shards_of ls = of_nat ` {n. n < 100 \<and> shard_bit ls n}"
  by (auto simp: shards_of_def isShardSet_wf elim!: valid_shardE)

lemma of_nat_in_shards_of: "wf_shards ls \<Longrightarrow> n < 100 \<Longrightarrow> of_nat n \<in> shards_of ls \<longleftrightarrow> shard_bit ls n"
  by (simp add: shards_of_def isShardSet_wf)

lemma shards_of_valid: "s \<in> shards_of ls \<Longrightarrow> valid_shard s"
  by (simp add: shards_of_def)

section \<open>The interface of a set of shards\<close>

text \<open>
  What the preference table relies on: setting and clearing a member, testing it, and the
  abstract set of members.  The laws hold for valid members only, because nothing is promised
  for the others.
\<close>

locale shard_set =
  fixes new_set :: 's
    and set_op :: "'s \<Rightarrow> 'k \<Rightarrow> 's"
    and unset_op :: "'s \<Rightarrow> 'k \<Rightarrow> 's"
    and test_op :: "'s \<Rightarrow> 'k \<Rightarrow> bool run"
    and elems :: "'s \<Rightarrow> 'k set"
    and wf :: "'s \<Rightarrow> bool"
    and valid :: "'k \<Rightarrow> bool"
  assumes wf_new: "wf new_set"
    and elems_new: "elems new_set = {}"
    and wf_set: "wf s \<Longrightarrow> wf (set_op s k)"
    and wf_unset: "wf s \<Longrightarrow> wf (unset_op s k)"
    and elems_set: "wf s \<Longrightarrow> valid k \<Longrightarrow> elems (set_op s k) = insert k (elems s)"
    and elems_unset: "wf s \<Longrightarrow> valid k \<Longrightarrow> elems (unset_op s k) = elems s - {k}"
    and test_elems: "wf s \<Longrightarrow> valid k \<Longrightarrow> test_op s k = Some (k \<in> elems s)"
begin

lemma wf_fold: "wf s \<Longrightarrow> wf (foldl set_op s ks)"
  by (induction ks arbitrary: s) (auto simp: wf_set)

lemma elems_fold:
  "wf s \<Longrightarrow> \<forall>k\<in>set ks. valid k \<Longrightarrow> elems (foldl set_op s ks) = elems s \<union> set ks"
  by (induction ks arbitrary: s) (auto simp: wf_set elems_set)

lemma test_after_set:
  "wf s \<Longrightarrow> valid k \<Longrightarrow> valid j \<Longrightarrow> test_op (set_op s k) j = Some (j = k \<or> j \<in> elems s)"
  by (simp add: test_elems wf_set elems_set)

lemma test_after_unset:
  "wf s \<Longrightarrow> valid k \<Longrightarrow> valid j \<Longrightarrow> test_op (unset_op s k) j = Some (j \<noteq> k \<and> j \<in> elems s)"
  by (auto simp: test_elems wf_unset elems_unset)

lemma unset_set: "wf s \<Longrightarrow> valid k \<Longrightarrow> elems (unset_op (set_op s k) k) = elems s - {k}"
  by (simp add: wf_set elems_set elems_unset)

lemma set_commute:
  "wf s \<Longrightarrow> valid j \<Longrightarrow> valid k \<Longrightarrow> elems (set_op (set_op s j) k) = elems (set_op (set_op s k) j)"
  by (auto simp: wf_set elems_set)

end

section \<open>The vector implements the interface\<close>

lemma length_setShard [simp]: "length (shardBits (snd (setShard ls s))) = length (shardBits ls)"
  by (auto simp: setShard_def split: sum.splits)

lemma length_unsetShard [simp]: "length (shardBits (snd (unsetShard ls s))) = length (shardBits ls)"
  by (auto simp: unsetShard_def split: sum.splits)

lemma wf_setShard [simp]: "wf_shards (snd (setShard ls s)) \<longleftrightarrow> wf_shards ls"
  by (simp add: wf_shards_iff)

lemma wf_unsetShard [simp]: "wf_shards (snd (unsetShard ls s)) \<longleftrightarrow> wf_shards ls"
  by (simp add: wf_shards_iff)

lemma length_New [simp]: "length (shardBits NewListeningShards) = 13"
  by (simp add: NewListeningShards_def)

lemma wf_New [simp]: "wf_shards NewListeningShards"
  by (simp add: wf_shards_iff NewListeningShards_def)

lemma shards_of_New [simp]: "shards_of NewListeningShards = {}"
  using shards_of_wf [OF wf_New] by (auto simp: shard_bit_def NewListeningShards_def)

lemma setShard_valid:
  assumes "wf_shards ls" "valid_shard s"
  shows "fst (setShard ls s) = None" "shards_of (snd (setShard ls s)) = insert s (shards_of ls)"
proof -
  from assms(2) obtain n where n: "n < 100" "s = of_nat n" by (rule valid_shardE)
  from setShard_of_nat [OF assms(1) n(1)] obtain ls' where ls': "setShard ls s = (None, ls')"
    "\<And>m. m < 100 \<Longrightarrow> shard_bit ls' m \<longleftrightarrow> shard_bit ls m \<or> m = n" by (metis n(2))
  then show "fst (setShard ls s) = None" by simp
  have "wf_shards ls'" using wf_setShard [of ls s] ls'(1) assms(1) by simp
  then show "shards_of (snd (setShard ls s)) = insert s (shards_of ls)"
    using assms(1) n ls' by (auto simp: shards_of_wf)
qed

lemma unsetShard_valid:
  assumes "wf_shards ls" "valid_shard s"
  shows "fst (unsetShard ls s) = None" "shards_of (snd (unsetShard ls s)) = shards_of ls - {s}"
proof -
  from assms(2) obtain n where n: "n < 100" "s = of_nat n" by (rule valid_shardE)
  from unsetShard_of_nat [OF assms(1) n(1)] obtain ls' where ls': "unsetShard ls s = (None, ls')"
    "\<And>m. m < 100 \<Longrightarrow> shard_bit ls' m \<longleftrightarrow> shard_bit ls m \<and> m \<noteq> n" by (metis n(2))
  then show "fst (unsetShard ls s) = None" by simp
  have "wf_shards ls'" using wf_unsetShard [of ls s] ls'(1) assms(1) by simp
  moreover have "of_nat m \<noteq> s" if "m < 100" "m \<noteq> n" for m
    using that n by (simp add: of_nat_shard_inject)
  ultimately show "shards_of (snd (unsetShard ls s)) = shards_of ls - {s}"
    using assms(1) n ls' by (auto simp: shards_of_wf)
qed

lemma test_valid: "wf_shards ls \<Longrightarrow> valid_shard s \<Longrightarrow> isShardSet ls s = Some (s \<in> shards_of ls)"
  by (auto simp: isShardSet_wf of_nat_in_shards_of elim!: valid_shardE)

interpretation lsh: shard_set NewListeningShards "\<lambda>ls s. snd (setShard ls s)"
  "\<lambda>ls s. snd (unsetShard ls s)" isShardSet shards_of wf_shards valid_shard
  by unfold_locales (simp_all add: setShard_valid unsetShard_valid test_valid)

lemma fromSlice_foldl: "fromSlice ls shards = foldl (\<lambda>ls s. snd (setShard ls s)) ls shards"
  by (induction shards arbitrary: ls) auto

lemma getShards_loop_wf:
  assumes "wf_shards ls" "n \<le> 100"
  shows "getShards_loop ls (of_nat n) acc = Some (acc @ map of_nat (filter (shard_bit ls) [n..<100]))"
  using assms(2)
proof (induction "100 - n" arbitrary: n acc)
  case 0
  then show ?case by (simp add: getShards_loop.simps [of ls 100])
next
  case (Suc k)
  then have n: "n < 100" "k = 100 - Suc n" "Suc n \<le> 100" by simp_all
  have step: "getShards_loop ls (of_nat n) acc =
      getShards_loop ls (of_nat (Suc n)) (if shard_bit ls n then acc @ [of_nat n] else acc)"
    using n(1) assms(1)
    by (simp add: getShards_loop.simps [of ls "of_nat n"] isShardSet_wf sint64_of_nat add.commute)
  have "[n..<100] = n # [Suc n..<100]"
    using n(1) by (rule upt_conv_Cons)
  then show ?case
    unfolding step Suc.hyps(1) [OF n(2,3)] by simp
qed

lemma getShards_eq:
  "wf_shards ls \<Longrightarrow> getShards ls = Some (map of_nat (filter (shard_bit ls) [0..<100]))"
  using getShards_loop_wf [of ls 0 "[]"] by (simp add: getShards_def)

lemma getShards_set: "wf_shards ls \<Longrightarrow> getShards ls = Some xs \<Longrightarrow> set xs = shards_of ls"
  by (auto simp: getShards_eq shards_of_wf)

lemma getShards_sorted:
  "wf_shards ls \<Longrightarrow> getShards ls = Some xs \<Longrightarrow> sorted_wrt (\<lambda>a b. sint a < sint b) xs"
proof -
  have "sorted_wrt (\<lambda>a b. sint (of_nat a :: int64) < sint (of_nat b :: int64)) (filter P [0..<100])" for P
    by (rule sorted_wrt_mono_rel [OF _ sorted_wrt_filter [OF sorted_wrt_upt]]) (auto simp: sint64_of_nat)
  then show "wf_shards ls \<Longrightarrow> getShards ls = Some xs \<Longrightarrow> ?thesis"
    by (auto simp: getShards_eq sorted_wrt_map)
qed

lemma shards_set_not_in: "\<not> valid_shard s \<Longrightarrow> s \<notin> shards_of ls"
  by (simp add: shards_of_def)

section \<open>Properties\<close>

text \<open>
  C11: on a vector long enough for all shards, \<open>setShard\<close> and \<open>unsetShard\<close> of a valid
  identifier succeed and implement insertion into and removal from the set of listened shards;
  both keep the length of the vector.
\<close>

theorem shard_vector_refines_set:
  assumes "wf_shards ls" and "valid_shard s"
  shows "fst (setShard ls s) = None \<and> shards_of (snd (setShard ls s)) = insert s (shards_of ls)
    \<and> fst (unsetShard ls s) = None \<and> shards_of (snd (unsetShard ls s)) = shards_of ls - {s}
    \<and> length (shardBits (snd (setShard ls s))) = length (shardBits ls)
    \<and> length (shardBits (snd (unsetShard ls s))) = length (shardBits ls)"
  using assms by (simp add: setShard_valid unsetShard_valid)

theorem shard_vector_refines_set_witness:
  "fst (setShard NewListeningShards 42) = None
    \<and> shards_of (snd (setShard NewListeningShards 42)) = {42}"
  using shard_vector_refines_set [of NewListeningShards 42] by (simp add: valid_shard_def)

text \<open>
  \<open>getShards\<close> of a vector long enough for all shards does not panic and lists the
  shards of the set, each once, in increasing order.
\<close>

lemma getShards_lists_members:
  assumes "wf_shards ls"
  shows "\<exists>xs. getShards ls = Some xs \<and> set xs = shards_of ls
    \<and> sorted_wrt (\<lambda>a b. sint a < sint b) xs"
  using assms getShards_eq [OF assms] getShards_set [OF assms] getShards_sorted [OF assms] by blast

text \<open>
  C28: a preference survives the way to another node: building the vector from a slice of valid
  shards, taking its bytes, and reading them back into any \<open>ListeningShards\<close> gives exactly the
  shards of the slice, sorted and without duplicates.
\<close>

theorem preference_roundtrip:
  assumes "\<forall>s\<in>set shards. valid_shard s"
  shows "\<exists>xs. getShards (fromBytes ls (toBytes (fromSlice NewListeningShards shards))) = Some xs
    \<and> set xs = set shards \<and> sorted_wrt (\<lambda>a b. sint a < sint b) xs"
proof -
  have "fromBytes ls (toBytes l) = l" for l
    by (simp add: fromBytes_def toBytes_def)
  moreover have "wf_shards (fromSlice NewListeningShards shards)"
    by (simp add: fromSlice_foldl lsh.wf_fold)
  moreover have "shards_of (fromSlice NewListeningShards shards) = set shards"
    using assms by (simp add: fromSlice_foldl lsh.elems_fold)
  ultimately show ?thesis
    using getShards_eq getShards_set getShards_sorted by metis
qed

theorem preference_roundtrip_witness:
  "\<exists>xs. getShards (fromBytes NewListeningShards
        (toBytes (fromSlice NewListeningShards [42, 1, 42]))) = Some xs
    \<and> set xs = {42, 1} \<and> sorted_wrt (\<lambda>a b. sint a < sint b) xs"
  using preference_roundtrip [of "[42, 1, 42]" NewListeningShards]
  by (simp add: valid_shard_def insert_commute)

text \<open>
  An identifier of \<open>numShards\<close> or more is rejected: both mutators return the error and
  leave the vector alone, and the test answers false without reading the vector, so it does not
  panic even on an empty one.
\<close>

lemma large_shard_rejected:
  assumes "sint numShards \<le> sint s"
  shows "setShard ls s = (Some (InvalidShardID s), ls)
    \<and> unsetShard ls s = (Some (InvalidShardID s), ls)
    \<and> isShardSet ls s = Some False"
  using assms by (simp add: setShard_def unsetShard_def isShardSet_def shardIDToBitIndex_def)

text \<open>
  C38: exactly when the test panics.  On a vector long enough for all shards it panics for the
  negative identifiers whose byte index, truncated to eight bits, lies behind the vector, and for
  no other: the guard of \<open>shardIDToBitIndex\<close> bounds the identifier from above only, and
  \<open>isShardSet\<close> does not compare the index with the length.
\<close>

theorem isShardSet_panics_iff:
  assumes "wf_shards ls"
  shows "isShardSet ls s = None \<longleftrightarrow>
    sint s < 0 \<and> length (shardBits ls) \<le> nat ((- (- sint s div 8)) mod 256)"
proof (cases "sint s < 0")
  case True
  then show ?thesis
    by (simp add: isShardSet_def shardIDToBitIndex_def byteSize_def go_div_def sdiv_neg unat_go_byte
        go_index_def del: of_int_minus)
next
  case False
  then have "valid_shard s \<or> sint numShards \<le> sint s"
    by (auto simp: valid_shard_def)
  then show ?thesis
    using False test_valid [OF assms, of s] by (auto simp: isShardSet_def shardIDToBitIndex_def)
qed

theorem isShardSet_panics_iff_witness:
  "isShardSet NewListeningShards (- 8) = None \<and> isShardSet NewListeningShards (- 7) \<noteq> None"
  using isShardSet_panics_iff [of NewListeningShards "- 8"]
    isShardSet_panics_iff [of NewListeningShards "- 7"]
  by simp

text \<open>
  C39: negative identifiers alias shards.  The identifier \<open>8 * j - 2048\<close> passes the guard and
  addresses the bit of shard \<open>8 * j\<close>, so setting, clearing or testing it acts on that shard.
\<close>

theorem negative_shard_aliases:
  assumes "j < 13" and "s = word_of_int (8 * int j - 2048)" and "t = of_nat (8 * j)"
  shows "setShard ls s = setShard ls t \<and> unsetShard ls s = unsetShard ls t
    \<and> isShardSet ls s = isShardSet ls t"
proof -
  have s: "sint s = 8 * int j - 2048"
    unfolding assms(2) by (rule sint64_of_int) (use assms(1) in simp_all)
  have t: "sint t = 8 * int j"
    unfolding assms(3) using assms(1) by (subst sint64_of_nat) simp_all
  have neg: "8 * int j - 2048 < 0"
    using assms(1) by simp
  have "sint s sdiv 8 = int j - 256" "sint s smod 8 = 0"
    unfolding s sdiv_neg [OF neg] smod_neg [OF neg] by presburger+
  moreover have "sint t sdiv 8 = int j" "sint t smod 8 = 0"
    unfolding t by (simp_all add: signed_divide_int_def signed_modulo_int_def sgn_if)
  moreover have "go_byte (word_of_int (int j - 256)) = go_byte (word_of_int (int j))"
    by (rule word_uint_eqI) (unfold uint_go_byte, rule minus_mod_self2)
  ultimately have "shardIDToBitIndex s = shardIDToBitIndex t"
    using assms(1) s t
    by (simp add: shardIDToBitIndex_def go_div_def go_mod_def byteSize_def del: of_int_diff of_int_of_nat_eq)
  then show ?thesis
    by (simp add: setShard_def unsetShard_def isShardSet_def)
qed

theorem negative_shard_aliases_witness:
  "setShard NewListeningShards (- 2048) = setShard NewListeningShards 0"
  using negative_shard_aliases [of 0 "- 2048" 0 NewListeningShards] by simp

end
