(* ===== verification/ShardPrefTable.thy ===== *)
theory ShardPrefTable
  imports ListeningShards
begin

text \<open>
  Model of \<open>src/shardpreftable.go\<close>, lines 99 to 192: the table of every peer's shard
  preference.  The map from peer identifiers to vectors is a partial function; dereferencing a
  missing entry panics.  Each method is one atomic step here (the interleavings its lock allows
  are the subject of a theory of its own); Go visits the keys of a map in an order it does not
  specify, so \<open>GetPeersInShard\<close> takes the order of the visit as an argument.

  The interface discovery relies on is the locale \<open>pref_table\<close>, interpreted here on the table.
\<close>

section \<open>Data and operations\<close>

record ShardPrefTable =
  shardPrefMap :: "peer_ID \<rightharpoonup> ListeningShards"

definition NewShardPrefTable :: ShardPrefTable where
  "NewShardPrefTable = \<lparr>shardPrefMap = Map.empty\<rparr>"

definition isPeerRecorded :: "ShardPrefTable \<Rightarrow> peer_ID \<Rightarrow> bool" where
  "isPeerRecorded n peerID \<longleftrightarrow> shardPrefMap n peerID \<noteq> None"

definition IsPeerListeningShard :: "ShardPrefTable \<Rightarrow> peer_ID \<Rightarrow> ShardIDType \<Rightarrow> bool run" where
  "IsPeerListeningShard n peerID shardID =
     (if \<not> isPeerRecorded n peerID then Some False
      else do {
        shardPref \<leftarrow> shardPrefMap n peerID;
        isShardSet shardPref shardID
      })"

definition AddPeerListeningShard ::
  "ShardPrefTable \<Rightarrow> peer_ID \<Rightarrow> ShardIDType \<Rightarrow> go_error option \<times> ShardPrefTable" where
  "AddPeerListeningShard n peerID shardID =
     (let shardPref = (case shardPrefMap n peerID of
                         None \<Rightarrow> NewListeningShards
                       | Some ls \<Rightarrow> ls)
      in case setShard shardPref shardID of
           (Some err, _) \<Rightarrow> (Some err, n)
         | (None, shardPref') \<Rightarrow> (None, n\<lparr>shardPrefMap := (shardPrefMap n)(peerID \<mapsto> shardPref')\<rparr>))"

definition RemovePeerListeningShard ::
  "ShardPrefTable \<Rightarrow> peer_ID \<Rightarrow> ShardIDType \<Rightarrow> (go_error option \<times> ShardPrefTable) run" where
  "RemovePeerListeningShard n peerID shardID =
     (if \<not> isPeerRecorded n peerID then Some (None, n)
      else do {
        b \<leftarrow> IsPeerListeningShard n peerID shardID;
        if \<not> b then Some (None, n)
        else do {
          shardPref \<leftarrow> shardPrefMap n peerID;
          let (err, shardPref') = unsetShard shardPref shardID;
          Some (err, n\<lparr>shardPrefMap := (shardPrefMap n)(peerID \<mapsto> shardPref')\<rparr>)
        }
      })"

definition GetPeerListeningShard :: "ShardPrefTable \<Rightarrow> peer_ID \<Rightarrow> ListeningShards run" where
  "GetPeerListeningShard n peerID =
     (if \<not> isPeerRecorded n peerID then Some NewListeningShards else shardPrefMap n peerID)"

definition GetPeerListeningShardSlice :: "ShardPrefTable \<Rightarrow> peer_ID \<Rightarrow> ShardIDType list run" where
  "GetPeerListeningShardSlice n peerID =
     (if \<not> isPeerRecorded n peerID then Some []
      else do {
        shardPref \<leftarrow> shardPrefMap n peerID;
        getShards shardPref
      })"

definition SetPeerListeningShard :: "ShardPrefTable \<Rightarrow> peer_ID \<Rightarrow> ListeningShards \<Rightarrow> ShardPrefTable" where
  "SetPeerListeningShard n peerID ls = n\<lparr>shardPrefMap := (shardPrefMap n)(peerID \<mapsto> ls)\<rparr>"

fun GetPeersInShard_loop ::
  "ShardPrefTable \<Rightarrow> ShardIDType \<Rightarrow> peer_ID list \<Rightarrow> peer_ID list \<Rightarrow> peer_ID list run" where
  "GetPeersInShard_loop n shardID [] peers = Some peers"
| "GetPeersInShard_loop n shardID (peerID # rest) peers = do {
     listeningShards \<leftarrow> shardPrefMap n peerID;
     b \<leftarrow> isShardSet listeningShards shardID;
     GetPeersInShard_loop n shardID rest (if b then peers @ [peerID] else peers)
   }"

definition GetPeersInShard :: "ShardPrefTable \<Rightarrow> peer_ID list \<Rightarrow> ShardIDType \<Rightarrow> peer_ID list run" where
  "GetPeersInShard n visit shardID = GetPeersInShard_loop n shardID visit []"

text \<open>A visit of a map by \<open>range\<close> is any listing of its keys.\<close>

definition range_visit :: "ShardPrefTable \<Rightarrow> peer_ID list \<Rightarrow> bool" where
  "range_visit n visit \<longleftrightarrow> distinct visit \<and> set visit = dom (shardPrefMap n)"

section \<open>Abstraction: every peer's set of shards\<close>

definition pref :: "ShardPrefTable \<Rightarrow> peer_ID \<Rightarrow> ShardIDType set" where
  "pref n p = (case shardPrefMap n p of None \<Rightarrow> {} | Some ls \<Rightarrow> shards_of ls)"

definition wf_table :: "ShardPrefTable \<Rightarrow> bool" where
  "wf_table n \<longleftrightarrow> (\<forall>ls\<in>ran (shardPrefMap n). wf_shards ls)"

lemma wf_tableD: "wf_table n \<Longrightarrow> shardPrefMap n p = Some ls \<Longrightarrow> wf_shards ls"
  by (auto simp: wf_table_def intro: ranI)

lemma wf_table_update:
  "wf_table n \<Longrightarrow> wf_shards ls \<Longrightarrow> wf_table (n\<lparr>shardPrefMap := (shardPrefMap n)(p \<mapsto> ls)\<rparr>)"
  by (auto simp: wf_table_def ran_def)

lemma pref_update:
  "pref (n\<lparr>shardPrefMap := (shardPrefMap n)(p \<mapsto> ls)\<rparr>) = (pref n)(p := shards_of ls)"
  by (auto simp: pref_def fun_eq_iff)

lemma wf_table_New [simp]: "wf_table NewShardPrefTable"
  by (simp add: wf_table_def NewShardPrefTable_def)

lemma pref_New [simp]: "pref NewShardPrefTable = (\<lambda>_. {})"
  by (simp add: pref_def NewShardPrefTable_def fun_eq_iff)

lemma pref_valid: "s \<in> pref n p \<Longrightarrow> valid_shard s"
  by (auto simp: pref_def shards_of_valid split: option.splits)

section \<open>The interface of a preference table\<close>

locale pref_table =
  fixes add :: "'t \<Rightarrow> 'p \<Rightarrow> 'k \<Rightarrow> 't"
    and remove :: "'t \<Rightarrow> 'p \<Rightarrow> 'k \<Rightarrow> 't run"
    and test :: "'t \<Rightarrow> 'p \<Rightarrow> 'k \<Rightarrow> bool run"
    and slice :: "'t \<Rightarrow> 'p \<Rightarrow> 'k list run"
    and members :: "'t \<Rightarrow> 'p \<Rightarrow> 'k set"
    and wf :: "'t \<Rightarrow> bool"
    and valid :: "'k \<Rightarrow> bool"
  assumes wf_add: "wf t \<Longrightarrow> wf (add t p k)"
    and members_add: "wf t \<Longrightarrow> valid k \<Longrightarrow> members (add t p k) = (members t)(p := insert k (members t p))"
    and remove_ok: "wf t \<Longrightarrow> valid k \<Longrightarrow>
      \<exists>t'. remove t p k = Some t' \<and> wf t' \<and> members t' = (members t)(p := members t p - {k})"
    and test_members: "wf t \<Longrightarrow> valid k \<Longrightarrow> test t p k = Some (k \<in> members t p)"
    and slice_members: "wf t \<Longrightarrow> \<exists>xs. slice t p = Some xs \<and> set xs = members t p"
begin

lemma test_after_add:
  "wf t \<Longrightarrow> valid k \<Longrightarrow> valid j \<Longrightarrow>
    test (add t p k) q j = Some (q = p \<and> j = k \<or> j \<in> members t q)"
  by (auto simp: wf_add test_members members_add)

lemma toggle:
  "wf t \<Longrightarrow> valid k \<Longrightarrow>
    \<exists>t'. (do { b \<leftarrow> test t p k; if b then remove t p k else Some (add t p k) }) = Some t' \<and> wf t'
      \<and> members t' = (members t)(p := (members t p - {k}) \<union> ({k} - members t p))"
  using remove_ok [of t k p] by (cases "k \<in> members t p") (auto simp: test_members members_add wf_add)

lemma toggle_twice:
  "wf t \<Longrightarrow> valid k \<Longrightarrow>
    \<exists>t'. (do { b \<leftarrow> test t p k; t1 \<leftarrow> (if b then remove t p k else Some (add t p k));
             b1 \<leftarrow> test t1 p k; if b1 then remove t1 p k else Some (add t1 p k) }) = Some t'
      \<and> wf t' \<and> members t' = members t"
proof -
  assume h: "wf t" "valid k"
  obtain t1 where t1: "(do { b \<leftarrow> test t p k; if b then remove t p k else Some (add t p k) }) = Some t1"
    "wf t1" "members t1 = (members t)(p := (members t p - {k}) \<union> ({k} - members t p))"
    using toggle [OF h, of p] by blast
  obtain t2 where t2: "(do { b \<leftarrow> test t1 p k; if b then remove t1 p k else Some (add t1 p k) }) = Some t2"
    "wf t2" "members t2 = (members t1)(p := (members t1 p - {k}) \<union> ({k} - members t1 p))"
    using toggle [OF t1(2) h(2), of p] by blast
  have "members t2 = members t"
    unfolding t2(3) t1(3) by (auto simp: fun_eq_iff)
  then show ?thesis
    using t1(1) t2 by (auto simp: test_members [OF h])
qed

lemma slice_test: "wf t \<Longrightarrow> valid k \<Longrightarrow> slice t p = Some xs \<Longrightarrow> test t p k = Some (k \<in> set xs)"
  using slice_members [of t p] by (auto simp: test_members)

end

section \<open>The table implements the interface\<close>

lemma AddPeerListeningShard_valid:
  assumes "wf_table n" "valid_shard s"
  shows "fst (AddPeerListeningShard n p s) = None"
    "pref (snd (AddPeerListeningShard n p s)) = (pref n)(p := insert s (pref n p))"
proof -
  let ?ls = "case shardPrefMap n p of None \<Rightarrow> NewListeningShards | Some ls \<Rightarrow> ls"
  have wf: "wf_shards ?ls"
    using wf_tableD [OF assms(1), of p] by (auto split: option.splits)
  have old: "shards_of ?ls = pref n p"
    by (auto simp: pref_def split: option.splits)
  obtain ls' where ls': "setShard ?ls s = (None, ls')" "shards_of ls' = insert s (pref n p)"
    using setShard_valid [OF wf assms(2)] old by (metis prod.collapse)
  show "fst (AddPeerListeningShard n p s) = None"
    "pref (snd (AddPeerListeningShard n p s)) = (pref n)(p := insert s (pref n p))"
    unfolding AddPeerListeningShard_def Let_def ls'(1) by (simp_all add: pref_update ls'(2))
qed

lemma wf_AddPeerListeningShard:
  assumes "wf_table n"
  shows "wf_table (snd (AddPeerListeningShard n p s))"
proof -
  let ?ls = "case shardPrefMap n p of None \<Rightarrow> NewListeningShards | Some ls \<Rightarrow> ls"
  obtain e ls' where ls': "setShard ?ls s = (e, ls')" by fastforce
  have "wf_shards (snd (setShard ?ls s))"
    using wf_tableD [OF assms, of p] by (auto split: option.splits)
  then have "wf_shards ls'" unfolding ls' by simp
  then show ?thesis
    using assms wf_table_update [OF assms]
    unfolding AddPeerListeningShard_def Let_def ls' by (auto split: option.split)
qed

lemma dom_AddPeerListeningShard:
  "AddPeerListeningShard n p s = (None, n') \<Longrightarrow> dom (shardPrefMap n') = insert p (dom (shardPrefMap n))"
  by (auto simp: AddPeerListeningShard_def Let_def split: prod.splits option.splits)

lemma dom_RemovePeerListeningShard:
  "RemovePeerListeningShard n p s = Some (e, n') \<Longrightarrow> dom (shardPrefMap n') = dom (shardPrefMap n)"
  by (auto simp: RemovePeerListeningShard_def isPeerRecorded_def bind_eq_Some_iff split: if_splits prod.splits)

lemma pref_dom: "s \<in> pref n p \<Longrightarrow> p \<in> dom (shardPrefMap n)"
  by (auto simp: pref_def split: option.splits)

lemma IsPeerListeningShard_valid:
  "wf_table n \<Longrightarrow> valid_shard s \<Longrightarrow> IsPeerListeningShard n p s = Some (s \<in> pref n p)"
  by (auto simp: IsPeerListeningShard_def isPeerRecorded_def pref_def test_valid dest: wf_tableD)

lemma RemovePeerListeningShard_valid:
  assumes "wf_table n" "valid_shard s"
  shows "\<exists>n'. RemovePeerListeningShard n p s = Some (None, n') \<and> wf_table n'
    \<and> pref n' = (pref n)(p := pref n p - {s})"
proof (cases "shardPrefMap n p")
  case None
  then have "pref n p = {}"
    by (simp add: pref_def)
  with None assms(1) show ?thesis
    by (auto simp: RemovePeerListeningShard_def isPeerRecorded_def fun_eq_iff)
next
  case (Some ls)
  have wf: "wf_shards ls"
    using assms(1) Some by (rule wf_tableD)
  have p: "pref n p = shards_of ls"
    using Some by (simp add: pref_def)
  show ?thesis
  proof (cases "s \<in> pref n p")
    case False
    then have "(pref n)(p := pref n p - {s}) = pref n"
      by (auto simp: fun_eq_iff)
    with False Some assms show ?thesis
      by (simp add: RemovePeerListeningShard_def isPeerRecorded_def IsPeerListeningShard_valid)
  next
    case True
    obtain ls' where ls': "unsetShard ls s = (None, ls')" "shards_of ls' = shards_of ls - {s}" "wf_shards ls'"
      using unsetShard_valid [OF wf assms(2)] wf_unsetShard [of ls s] wf by (metis prod.collapse)
    with True Some assms p show ?thesis
      by (simp add: RemovePeerListeningShard_def isPeerRecorded_def IsPeerListeningShard_valid
          wf_table_update pref_update)
  qed
qed

lemma GetPeerListeningShardSlice_wf:
  assumes "wf_table n"
  shows "\<exists>xs. GetPeerListeningShardSlice n p = Some xs \<and> set xs = pref n p
    \<and> sorted_wrt (\<lambda>a b. sint a < sint b) xs"
proof (cases "shardPrefMap n p")
  case None
  then show ?thesis
    by (simp add: GetPeerListeningShardSlice_def isPeerRecorded_def pref_def)
next
  case (Some ls)
  have wf: "wf_shards ls"
    using assms Some by (rule wf_tableD)
  obtain xs where "getShards ls = Some xs"
    using getShards_eq [OF wf] by blast
  then show ?thesis
    using Some getShards_set [OF wf] getShards_sorted [OF wf]
    by (simp add: GetPeerListeningShardSlice_def isPeerRecorded_def pref_def)
qed

interpretation spt: pref_table "\<lambda>n p s. snd (AddPeerListeningShard n p s)"
  "\<lambda>n p s. map_option snd (RemovePeerListeningShard n p s)"
  IsPeerListeningShard GetPeerListeningShardSlice pref wf_table valid_shard
proof unfold_locales
  fix n p s
  assume h: "wf_table n" "valid_shard s"
  show "\<exists>t'. map_option snd (RemovePeerListeningShard n p s) = Some t' \<and> wf_table t'
      \<and> pref t' = (pref n)(p := pref n p - {s})"
    using RemovePeerListeningShard_valid [OF h, of p] by auto
next
  fix n p
  assume h: "wf_table n"
  show "\<exists>xs. GetPeerListeningShardSlice n p = Some xs \<and> set xs = pref n p"
    using GetPeerListeningShardSlice_wf [OF h, of p] by auto
qed (simp_all add: wf_AddPeerListeningShard AddPeerListeningShard_valid IsPeerListeningShard_valid)

lemma wf_SetPeerListeningShard [simp]:
  "wf_table n \<Longrightarrow> wf_shards ls \<Longrightarrow> wf_table (SetPeerListeningShard n p ls)"
  by (simp add: SetPeerListeningShard_def wf_table_update)

lemma pref_SetPeerListeningShard [simp]:
  "pref (SetPeerListeningShard n p ls) = (pref n)(p := shards_of ls)"
  by (simp add: SetPeerListeningShard_def pref_update)

lemma GetPeerListeningShard_wf:
  "wf_table n \<Longrightarrow> \<exists>ls. GetPeerListeningShard n p = Some ls \<and> wf_shards ls \<and> shards_of ls = pref n p"
  by (auto simp: GetPeerListeningShard_def isPeerRecorded_def pref_def dest: wf_tableD)

section \<open>Peers in a shard\<close>

lemma GetPeersInShard_loop_wf:
  assumes "wf_table n" "valid_shard s" "set visit \<subseteq> dom (shardPrefMap n)"
  shows "GetPeersInShard_loop n s visit acc = Some (acc @ filter (\<lambda>p. s \<in> pref n p) visit)"
  using assms(3)
proof (induction visit arbitrary: acc)
  case Nil
  then show ?case by simp
next
  case (Cons p ps)
  then obtain ls where ls: "shardPrefMap n p = Some ls" by auto
  then have "isShardSet ls s = Some (s \<in> pref n p)"
    using assms(1,2) by (simp add: pref_def test_valid wf_tableD)
  with ls Cons show ?case by simp
qed

lemma GetPeersInShard_wf:
  assumes "wf_table n" "valid_shard s" "range_visit n visit"
  shows "GetPeersInShard n visit s = Some (filter (\<lambda>p. s \<in> pref n p) visit)"
  using GetPeersInShard_loop_wf [OF assms(1,2)] assms(3)
  by (simp add: GetPeersInShard_def range_visit_def)

lemma GetPeersInShard_loop_None:
  assumes "p \<in> set visit" "shardPrefMap n p = Some ls" "isShardSet ls s = None"
  shows "GetPeersInShard_loop n s visit acc = None"
  using assms(1)
proof (induction visit arbitrary: acc)
  case Nil
  then show ?case by simp
next
  case (Cons q qs)
  show ?case
  proof (cases "q = p")
    case True
    then show ?thesis by (simp add: assms(2,3))
  next
    case False
    with Cons show ?thesis
      by (cases "shardPrefMap n q"; cases "isShardSet (the (shardPrefMap n q)) s") auto
  qed
qed

lemma GetPeersInShard_short:
  assumes "range_visit n visit" "shardPrefMap n p = Some ls"
    "k < 100" "length (shardBits ls) \<le> k div 8"
  shows "GetPeersInShard n visit (of_nat k) = None"
proof -
  have "isShardSet ls (of_nat k) = None"
    using assms(3,4) by (simp add: isShardSet_of_nat)
  moreover have "p \<in> set visit"
    using assms(1,2) by (auto simp: range_visit_def)
  ultimately show ?thesis
    unfolding GetPeersInShard_def using assms(2) by (intro GetPeersInShard_loop_None)
qed

section \<open>Properties\<close>

text \<open>
  C8: the table is a map from peers to sets of shards.  For a valid shard, adding inserts it into
  the peer's set and removing takes it out, both without error or panic; every other peer's set,
  and the well-formedness of the table, are kept.
\<close>

theorem pref_table_refines_map:
  assumes "wf_table n" and "valid_shard s"
  shows "fst (AddPeerListeningShard n p s) = None
    \<and> wf_table (snd (AddPeerListeningShard n p s))
    \<and> pref (snd (AddPeerListeningShard n p s)) = (pref n)(p := insert s (pref n p))
    \<and> (\<exists>n'. RemovePeerListeningShard n p s = Some (None, n') \<and> wf_table n'
          \<and> pref n' = (pref n)(p := pref n p - {s}))"
  using AddPeerListeningShard_valid [OF assms, of p] wf_AddPeerListeningShard [OF assms(1), of p s]
    RemovePeerListeningShard_valid [OF assms, of p] by blast

theorem pref_table_refines_map_witness:
  "pref (snd (AddPeerListeningShard NewShardPrefTable ''p'' 42)) ''p'' = {42}
    \<and> pref (snd (AddPeerListeningShard NewShardPrefTable ''p'' 42)) ''q'' = {}"
  using pref_table_refines_map [of NewShardPrefTable 42 "''p''"] by (simp add: valid_shard_def)

text \<open>
  Whatever order the keys are visited in, \<open>GetPeersInShard\<close> of a valid shard lists
  exactly the peers whose set has the shard, each once.
\<close>

lemma GetPeersInShard_exact:
  assumes "wf_table n" and "valid_shard s" and "range_visit n visit"
  shows "\<exists>ps. GetPeersInShard n visit s = Some ps \<and> distinct ps \<and> set ps = {p. s \<in> pref n p}"
  using assms(3) by (auto simp: GetPeersInShard_wf [OF assms] range_visit_def dest: pref_dom)

text \<open>
  A rejected addition changes nothing.  When \<open>AddPeerListeningShard\<close> returns an error the
  table is the one it was called on: in particular an unknown peer stays unknown.
\<close>

lemma AddPeerListeningShard_error_frame:
  assumes "AddPeerListeningShard n p s = (Some err, n')"
  shows "n' = n"
  using assms by (auto simp: AddPeerListeningShard_def Let_def split: prod.splits option.splits)

end
