(* ===== verification/GoStrings.thy ===== *)
theory GoStrings
  imports Prelude
begin

text \<open>
  The parts of Go's standard library on strings that the repository uses: decimal printing and
  parsing of 64-bit integers (\<open>strconv\<close>), removing every occurrence of a substring
  (\<open>strings.Replace\<close> with an empty replacement) and splitting at a one-character separator
  (\<open>strings.Split\<close>).  The lemmas are the ones the topic names and the command line rest on:
  parsing inverts printing, and removing a substring that cannot occur changes nothing.
\<close>

section \<open>Printing and parsing decimals\<close>

definition digit_char :: "nat \<Rightarrow> char" where
  "digit_char d = char_of (48 + d)"

definition is_digit_char :: "char \<Rightarrow> bool" where
  "is_digit_char c \<longleftrightarrow> 48 \<le> (of_char c :: nat) \<and> (of_char c :: nat) \<le> 57"

definition digit_value :: "char \<Rightarrow> nat" where
  "digit_value c = of_char c - 48"

fun format_nat :: "nat \<Rightarrow> string" where
  "format_nat n = (if n < 10 then [digit_char n] else format_nat (n div 10) @ [digit_char (n mod 10)])"

declare format_nat.simps [simp del]

definition FormatInt :: "int64 \<Rightarrow> string" where
  "FormatInt x = (if sint x < 0 then CHR ''-'' # format_nat (nat (- sint x)) else format_nat (nat (sint x)))"

text \<open>
  The digit loop of \<open>ParseUint\<close>: it stops at the first character that is no digit (a syntax
  error) or at the first digit that takes the value out of 64 bits (a range error).
\<close>

fun parse_digits :: "string \<Rightarrow> string \<Rightarrow> nat \<Rightarrow> go_error + nat" where
  "parse_digits s0 [] n = Inr n"
| "parse_digits s0 (c # cs) n =
     (if \<not> is_digit_char c then Inl (NumSyntax s0)
      else if 2 ^ 64 \<le> 10 * n + digit_value c then Inl (NumRange s0)
      else parse_digits s0 cs (10 * n + digit_value c))"

definition ParseUint :: "string \<Rightarrow> go_error + 64 word" where
  "ParseUint s = (if s = [] then Inl (NumSyntax s) else map_sum id of_nat (parse_digits s s 0))"

definition ParseInt :: "string \<Rightarrow> go_error + int64" where
  "ParseInt s =
     (case s of
        [] \<Rightarrow> Inl (NumSyntax s)
      | c # cs \<Rightarrow>
          let neg = (c = CHR ''-'');
              digits = (if c = CHR ''+'' \<or> c = CHR ''-'' then cs else s)
          in if digits = [] then Inl (NumSyntax s)
             else case parse_digits s digits 0 of
                    Inl e \<Rightarrow> Inl e
                  | Inr un \<Rightarrow>
                      if \<not> neg \<and> 2 ^ 63 \<le> un then Inl (NumRange s)
                      else if neg \<and> 2 ^ 63 < un then Inl (NumRange s)
                      else Inr (word_of_int (if neg then - int un else int un)))"

text \<open>On a 64-bit platform \<open>Atoi\<close> agrees with \<open>ParseInt\<close> in base 10.\<close>

definition Atoi :: "string \<Rightarrow> go_error + int64" where
  "Atoi s = ParseInt s"

lemma digit_char_props:
  assumes "d < 10"
  shows "is_digit_char (digit_char d)" "digit_value (digit_char d) = d"
proof -
  have "(48 + d) mod 256 = 48 + d" using assms by simp
  then have "(of_char (digit_char d) :: nat) = 48 + d"
    by (simp add: digit_char_def of_char_of)
  then show "is_digit_char (digit_char d)" "digit_value (digit_char d) = d"
    using assms by (simp_all add: is_digit_char_def digit_value_def)
qed

lemma format_nat_digits: "c \<in> set (format_nat n) \<Longrightarrow> is_digit_char c"
proof (induction n rule: format_nat.induct)
  case (1 n)
  then show ?case
    by (subst (asm) (2) format_nat.simps) (auto simp: digit_char_props split: if_splits)
qed

lemma format_nat_nonempty [simp]: "format_nat n \<noteq> []"
  by (subst format_nat.simps) simp

lemma parse_digits_append:
  "parse_digits s0 (xs @ ys) n =
    (case parse_digits s0 xs n of Inl e \<Rightarrow> Inl e | Inr m \<Rightarrow> parse_digits s0 ys m)"
  by (induction xs arbitrary: n) auto

lemma parse_format_nat: "n < 2 ^ 64 \<Longrightarrow> parse_digits s0 (format_nat n) 0 = Inr n"
proof (induction n rule: format_nat.induct)
  case (1 n)
  show ?case
  proof (cases "n < 10")
    case True
    then show ?thesis by (subst format_nat.simps) (simp add: digit_char_props)
  next
    case False
    have "parse_digits s0 (format_nat (n div 10)) 0 = Inr (n div 10)"
      using "1.IH" [OF False] "1.prems" by (simp add: div_less_dividend less_imp_diff_less)
    then show ?thesis
      using False "1.prems"
      by (subst format_nat.simps) (simp add: parse_digits_append digit_char_props)
  qed
qed

lemma format_nat_no_sign: "format_nat n = c # cs \<Longrightarrow> c \<noteq> CHR ''-'' \<and> c \<noteq> CHR ''+''"
  using format_nat_digits [of c n] by (auto simp: is_digit_char_def)

lemma ParseInt_FormatInt: "ParseInt (FormatInt x) = Inr x"
proof (cases "sint x < 0")
  case True
  have "nat (- sint x) \<le> 2 ^ 63"
    using sint64_bounds(1) [of x] by simp
  then show ?thesis
    using True parse_format_nat [of "nat (- sint x)"]
    by (simp add: ParseInt_def FormatInt_def Let_def)
next
  case False
  obtain c cs where c: "format_nat (nat (sint x)) = c # cs"
    by (cases "format_nat (nat (sint x))") auto
  have "nat (sint x) < 2 ^ 63"
    using False sint64_bounds(2) [of x] by simp
  then show ?thesis
    using False c format_nat_no_sign [OF c] parse_format_nat [of "nat (sint x)"]
    by (simp add: ParseInt_def FormatInt_def Let_def)
qed

lemma FormatInt_inject [simp]: "FormatInt x = FormatInt y \<longleftrightarrow> x = y"
  by (metis ParseInt_FormatInt sum.inject(2))

lemma FormatInt_chars: "c \<in> set (FormatInt x) \<Longrightarrow> c = CHR ''-'' \<or> is_digit_char c"
  by (auto simp: FormatInt_def dest: format_nat_digits split: if_splits)

lemma FormatInt_nonempty [simp]: "FormatInt x \<noteq> []"
  by (simp add: FormatInt_def)

section \<open>Removing a substring\<close>

text \<open>\<open>remove_all old s\<close> is \<open>strings.Replace(s, old, "", -1)\<close>.\<close>

function remove_all :: "string \<Rightarrow> string \<Rightarrow> string" where
  "remove_all old s =
     (if old = [] then s
      else case s of
        [] \<Rightarrow> []
      | c # cs \<Rightarrow>
          if take (length old) s = old then remove_all old (drop (length old) s)
          else c # remove_all old cs)"
  by pat_completeness auto
termination
  by (relation "measure (\<lambda>(old, s). length s)") auto

declare remove_all.simps [simp del]

lemma remove_all_absent: "hd old \<notin> set s \<Longrightarrow> remove_all old s = s"
proof (induction s)
  case Nil
  then show ?case by (simp add: remove_all.simps [of old "[]"])
next
  case (Cons c cs)
  then have "old \<noteq> [] \<Longrightarrow> take (length old) (c # cs) \<noteq> old"
    by (cases old) auto
  with Cons show ?case
    by (simp add: remove_all.simps [of old "c # cs"])
qed

lemma remove_all_prefix: "old \<noteq> [] \<Longrightarrow> remove_all old (old @ s) = remove_all old s"
  by (subst remove_all.simps) (cases old, auto)

section \<open>Splitting\<close>

fun split_on :: "char \<Rightarrow> string \<Rightarrow> string list" where
  "split_on sep [] = [[]]"
| "split_on sep (c # cs) =
     (if c = sep then [] # split_on sep cs
      else case split_on sep cs of
             [] \<Rightarrow> [[c]]
           | w # ws \<Rightarrow> (c # w) # ws)"

lemma split_on_nonempty [simp]: "split_on sep s \<noteq> []"
  by (induction s) (auto split: list.splits)

lemma split_on_absent: "sep \<notin> set s \<Longrightarrow> split_on sep s = [s]"
  by (induction s) auto

lemma split_on_append: "sep \<notin> set s \<Longrightarrow> split_on sep (s @ sep # t) = s # split_on sep t"
  by (induction s) auto

section \<open>Formatting one integer\<close>

text \<open>\<open>fmt.Sprintf\<close> of a format with one verb \<open>%d\<close> and an integer.\<close>

fun sprintf_d :: "string \<Rightarrow> int64 \<Rightarrow> string" where
  "sprintf_d [] x = []"
| "sprintf_d [c] x = [c]"
| "sprintf_d (c # d # cs) x =
     (if c = CHR ''%'' \<and> d = CHR ''d'' then FormatInt x @ cs else c # sprintf_d (d # cs) x)"

end
