(* ===== verification/Utils.thy ===== *)
theory Utils
  imports GoStrings
begin

text \<open>
  Model of \<open>src/utils.go\<close> and of the topic names of \<open>src/shardmanager.go\<close> (lines 35, 36 and
  49 to 61): the topic of a shard's collations and the way back, the conversions between peer
  identifiers and their base-58 text, and the collation hash.  Base 58, protobuf encoding and
  Keccak are libraries and enter as parameters: \<open>decode\<close> and \<open>pretty\<close> for
  \<open>peer.IDB58Decode\<close> and \<open>ID.Pretty\<close>, \<open>marshal\<close> for \<open>proto.Marshal\<close>.
\<close>

section \<open>Topics\<close>

definition listeningShardTopic :: string where
  "listeningShardTopic = ''listeningShard''"

definition collationTopicFmt :: string where
  "collationTopicFmt = ''shardCollations_%d''"

definition getCollationsTopic :: "ShardIDType \<Rightarrow> string" where
  "getCollationsTopic shardID = sprintf_d collationTopicFmt shardID"

definition shardTopicToShardID :: "string \<Rightarrow> string" where
  "shardTopicToShardID topic =
     (let end = length collationTopicFmt - 2
      in remove_all (take end collationTopicFmt) topic)"

lemma getCollationsTopic_eq: "getCollationsTopic s = ''shardCollations_'' @ FormatInt s"
  by (simp add: getCollationsTopic_def collationTopicFmt_def)

lemma shardTopicToShardID_eq: "shardTopicToShardID topic = remove_all ''shardCollations_'' topic"
  by (simp add: shardTopicToShardID_def collationTopicFmt_def)

lemma remove_prefix_FormatInt [simp]: "remove_all ''shardCollations_'' (FormatInt s) = FormatInt s"
  using FormatInt_chars [of "CHR ''s''" s] by (intro remove_all_absent) (auto simp: is_digit_char_def)

lemma shardTopicToShardID_FormatInt [simp]: "shardTopicToShardID (FormatInt s) = FormatInt s"
  by (simp add: shardTopicToShardID_eq)

lemma shardTopicToShardID_topic [simp]: "shardTopicToShardID (getCollationsTopic s) = FormatInt s"
  using remove_all_prefix [of "''shardCollations_''" "FormatInt s"]
  by (simp add: shardTopicToShardID_eq getCollationsTopic_eq)

lemma getCollationsTopic_inject [simp]: "getCollationsTopic s = getCollationsTopic t \<longleftrightarrow> s = t"
  by (simp add: getCollationsTopic_eq)

lemma listeningShardTopic_neq [simp]:
  "getCollationsTopic s \<noteq> listeningShardTopic" "listeningShardTopic \<noteq> getCollationsTopic s"
  by (simp_all add: getCollationsTopic_eq listeningShardTopic_def)

section \<open>Peer identifiers and their text\<close>

type_synonym decoder = "string \<Rightarrow> go_error + peer_ID"
type_synonym printer = "peer_ID \<Rightarrow> string"

record PBPeers =
  Peers :: "string list"

definition peerIDToString :: "printer \<Rightarrow> peer_ID \<Rightarrow> string" where
  "peerIDToString pretty peerID = pretty peerID"

definition stringToPeerID :: "decoder \<Rightarrow> string \<Rightarrow> go_error + peer_ID" where
  "stringToPeerID decode peerIDStr =
     (case decode peerIDStr of Inl err \<Rightarrow> Inl err | Inr peerID \<Rightarrow> Inr peerID)"

fun peersStringToPeerIDs_loop :: "decoder \<Rightarrow> string list \<Rightarrow> peer_ID list \<Rightarrow> go_error + peer_ID list" where
  "peersStringToPeerIDs_loop decode [] peerIDs = Inr peerIDs"
| "peersStringToPeerIDs_loop decode (peerStr # peersStr) peerIDs =
     (case stringToPeerID decode peerStr of
        Inl err \<Rightarrow> Inl err
      | Inr peerID \<Rightarrow> peersStringToPeerIDs_loop decode peersStr (peerIDs @ [peerID]))"

definition peersStringToPeerIDs :: "decoder \<Rightarrow> string list \<Rightarrow> go_error + peer_ID list" where
  "peersStringToPeerIDs decode peersStr = peersStringToPeerIDs_loop decode peersStr []"

definition peerIDsToPeersString :: "printer \<Rightarrow> peer_ID list \<Rightarrow> string list" where
  "peerIDsToPeersString pretty peerIDs = map (peerIDToString pretty) peerIDs"

definition pbPeersToPeerIDs :: "decoder \<Rightarrow> PBPeers \<Rightarrow> go_error + peer_ID list" where
  "pbPeersToPeerIDs decode msg = peersStringToPeerIDs decode (Peers msg)"

definition peerIDsToPBPeers :: "printer \<Rightarrow> peer_ID list \<Rightarrow> PBPeers" where
  "peerIDsToPBPeers pretty peerIDs = \<lparr>Peers = peerIDsToPeersString pretty peerIDs\<rparr>"

text \<open>The documented relation of the two library functions: decoding reads back what was printed.\<close>

definition reads_back :: "decoder \<Rightarrow> printer \<Rightarrow> peer_ID list \<Rightarrow> bool" where
  "reads_back decode pretty peerIDs \<longleftrightarrow> (\<forall>p\<in>set peerIDs. decode (pretty p) = Inr p)"

lemma peersStringToPeerIDs_loop_print:
  "reads_back decode pretty ps \<Longrightarrow>
    peersStringToPeerIDs_loop decode (peerIDsToPeersString pretty ps) acc = Inr (acc @ ps)"
  by (induction ps arbitrary: acc)
    (auto simp: peerIDsToPeersString_def peerIDToString_def stringToPeerID_def reads_back_def)

lemma pbPeers_roundtrip:
  "reads_back decode pretty ps \<Longrightarrow> pbPeersToPeerIDs decode (peerIDsToPBPeers pretty ps) = Inr ps"
  by (simp add: pbPeersToPeerIDs_def peerIDsToPBPeers_def peersStringToPeerIDs_def
      peersStringToPeerIDs_loop_print)

definition first_failure :: "decoder \<Rightarrow> string list \<Rightarrow> go_error \<Rightarrow> bool" where
  "first_failure decode strs e \<longleftrightarrow>
     (\<exists>good bad rest. strs = good @ bad # rest \<and> decode bad = Inl e \<and> (\<forall>g\<in>set good. \<exists>p. decode g = Inr p))"

lemma first_failure_Nil [simp]: "\<not> first_failure decode [] e"
  by (simp add: first_failure_def)

lemma first_failure_bad: "decode x = Inl err \<Longrightarrow> first_failure decode (x # xs) e \<longleftrightarrow> err = e"
proof
  assume bad: "decode x = Inl err" and "first_failure decode (x # xs) e"
  then obtain good b rest where "x # xs = good @ b # rest" "decode b = Inl e"
    "\<forall>g\<in>set good. \<exists>p. decode g = Inr p"
    unfolding first_failure_def by blast
  with bad show "err = e" by (cases good) auto
next
  assume "decode x = Inl err" "err = e"
  then show "first_failure decode (x # xs) e"
    unfolding first_failure_def by (intro exI [of _ "[]"] exI [of _ x] exI [of _ xs]) simp
qed

lemma first_failure_good: "decode x = Inr p \<Longrightarrow> first_failure decode (x # xs) e \<longleftrightarrow> first_failure decode xs e"
proof
  assume ok: "decode x = Inr p" and "first_failure decode (x # xs) e"
  then obtain good b rest where h: "x # xs = good @ b # rest" "decode b = Inl e"
    "\<forall>g\<in>set good. \<exists>p. decode g = Inr p"
    unfolding first_failure_def by blast
  then have "xs = tl good @ b # rest" using ok by (cases good) auto
  with h show "first_failure decode xs e"
    unfolding first_failure_def by (metis list.set_sel(2) set_empty2 tl_Nil empty_iff empty_set)
next
  assume ok: "decode x = Inr p" and "first_failure decode xs e"
  then obtain good b rest where h: "xs = good @ b # rest" "decode b = Inl e"
    "\<forall>g\<in>set good. \<exists>p. decode g = Inr p"
    unfolding first_failure_def by blast
  then show "first_failure decode (x # xs) e"
    unfolding first_failure_def using ok
    by (intro exI [of _ "x # good"] exI [of _ b] exI [of _ rest]) auto
qed

lemma peersStringToPeerIDs_loop_error:
  "peersStringToPeerIDs_loop decode strs acc = Inl e \<longleftrightarrow> first_failure decode strs e"
proof (induction strs arbitrary: acc)
  case Nil
  then show ?case by simp
next
  case (Cons x xs)
  then show ?case
    by (cases "decode x") (auto simp: stringToPeerID_def first_failure_bad first_failure_good)
qed

section \<open>The collation hash\<close>

definition keccak :: "('m \<Rightarrow> go_error + bytes) \<Rightarrow> (bytes \<Rightarrow> go_error option) \<Rightarrow> (bytes \<Rightarrow> bytes)
    \<Rightarrow> 'm \<Rightarrow> go_error + bytes" where
  "keccak marshal hash_write hash_sum msg =
     (case marshal msg of
        Inl err \<Rightarrow> Inl err
      | Inr dataInBytes \<Rightarrow>
          (case hash_write dataInBytes of
             Some err \<Rightarrow> Inl err
           | None \<Rightarrow> Inr (hash_sum dataInBytes)))"

definition getCollationHash :: "('m \<Rightarrow> go_error + bytes) \<Rightarrow> (bytes \<Rightarrow> go_error option) \<Rightarrow> (bytes \<Rightarrow> bytes)
    \<Rightarrow> (bytes \<Rightarrow> string) \<Rightarrow> 'm \<Rightarrow> go_error + string" where
  "getCollationHash marshal hash_write hash_sum b58_encode msg =
     (case keccak marshal hash_write hash_sum msg of
        Inl err \<Rightarrow> Inl err
      | Inr hashBytes \<Rightarrow> Inr (b58_encode hashBytes))"

section \<open>Properties\<close>

text \<open>
  C37: shards and collation topics correspond one to one.  Different shards have different topics,
  none of them is the topic of the preferences, and from a topic, as well as from the bare
  number, the shard is read back.
\<close>

theorem topics_identify_shards:
  "inj getCollationsTopic \<and> listeningShardTopic \<notin> range getCollationsTopic
    \<and> ParseInt (shardTopicToShardID (getCollationsTopic s)) = Inr s
    \<and> ParseInt (shardTopicToShardID (FormatInt s)) = Inr s"
  by (auto simp: inj_def ParseInt_FormatInt)

end
