(* ===== verification/Services.thy ===== *)
theory Services
  imports Utils
begin

text \<open>
  The libraries the node is built on, as parameters.  go-libp2p's host and pubsub service,
  protobuf encoding and the streams between peers are not part of the repository; what the code
  calls of them is collected in records of functions over a state \<open>'w\<close> of the outside
  world, which every effect threads.  Nothing is assumed of these functions here; a theorem that
  relies on their documented behaviour names it as a hypothesis.
\<close>

section \<open>Peers, messages and codecs\<close>

record PeerInfo =
  pi_ID :: peer_ID
  pi_Addrs :: "string list"

record pubsub_message =
  msg_From :: peer_ID
  msg_Data :: bytes

text \<open>\<open>proto.Marshal\<close> returns a slice and an error, \<open>proto.Unmarshal\<close> fills a message.\<close>

record 'm codec =
  Marshal :: "'m \<Rightarrow> bytes \<times> go_error option"
  Unmarshal :: "bytes \<Rightarrow> go_error + 'm"

text \<open>The documented relation of the two: a message that was encoded decodes to itself.\<close>

definition decodes :: "'m codec \<Rightarrow> 'm \<Rightarrow> bool" where
  "decodes c m \<longleftrightarrow> (\<forall>bs. Marshal c m = (bs, None) \<longrightarrow> Unmarshal c bs = Inr m)"

section \<open>The pubsub service\<close>

type_synonym subscription = nat
type_synonym 'w validator = "pubsub_message \<Rightarrow> 'w \<Rightarrow> (bool \<times> 'w) run"

record 'w PubSub =
  ps_Subscribe :: "string \<Rightarrow> 'w \<Rightarrow> (go_error + subscription) \<times> 'w"
  ps_RegisterTopicValidator :: "string \<Rightarrow> 'w validator \<Rightarrow> 'w \<Rightarrow> go_error option \<times> 'w"
  ps_Publish :: "string \<Rightarrow> bytes \<Rightarrow> 'w \<Rightarrow> go_error option \<times> 'w"
  ps_ListPeers :: "string \<Rightarrow> 'w \<Rightarrow> peer_ID list"
  ps_GetTopics :: "'w \<Rightarrow> string list"
  sub_Cancel :: "subscription \<Rightarrow> 'w \<Rightarrow> 'w"

section \<open>The host\<close>

record 'w Host =
  h_ID :: peer_ID
  h_Addrs :: "'w \<Rightarrow> string list"
  h_PeerInfo :: "peer_ID \<Rightarrow> 'w \<Rightarrow> PeerInfo"
  h_PeerstorePeers :: "'w \<Rightarrow> peer_ID list"
  h_AddAddrs :: "peer_ID \<Rightarrow> string list \<Rightarrow> 'w \<Rightarrow> 'w"
  h_ConnsToPeer :: "peer_ID \<Rightarrow> 'w \<Rightarrow> nat"
  h_Connect :: "PeerInfo \<Rightarrow> 'w \<Rightarrow> go_error option \<times> 'w"
  h_NetworkPeers :: "'w \<Rightarrow> peer_ID list"
  h_ClosePeer :: "peer_ID \<Rightarrow> 'w \<Rightarrow> go_error option \<times> 'w"

text \<open>The peerstore answers for the peer it was asked about.\<close>

definition peerstore_ids :: "'w Host \<Rightarrow> 'w \<Rightarrow> bool" where
  "peerstore_ids h w \<longleftrightarrow> (\<forall>p. pi_ID (h_PeerInfo h p w) = p)"

section \<open>Streams between peers\<close>

type_synonym stream = nat

record 'w Network =
  net_NewStream :: "peer_ID \<Rightarrow> string \<Rightarrow> 'w \<Rightarrow> (go_error + stream) \<times> 'w"
  net_Close :: "stream \<Rightarrow> 'w \<Rightarrow> 'w"
  net_FullClose :: "stream \<Rightarrow> 'w \<Rightarrow> 'w"
  net_RemotePeer :: "stream \<Rightarrow> peer_ID"
  net_Flush :: "stream \<Rightarrow> 'w \<Rightarrow> go_error option \<times> 'w"

text \<open>The multicodec encoder and decoder of one message type on a buffered stream.\<close>

record ('m, 'w) wire =
  wire_Encode :: "stream \<Rightarrow> 'm \<Rightarrow> 'w \<Rightarrow> go_error option \<times> 'w"
  wire_Decode :: "stream \<Rightarrow> 'w \<Rightarrow> (go_error + 'm) \<times> 'w"

section \<open>Random numbers\<close>

text \<open>
  \<open>rand.Intn\<close> panics unless its bound is positive; the parameter \<open>r\<close> is the raw value drawn,
  so that every index below the bound is possible.
\<close>

definition rand_Intn :: "nat \<Rightarrow> nat \<Rightarrow> nat run" where
  "rand_Intn r n = (if n = 0 then None else Some (r mod n))"

section \<open>Sample services\<close>

text \<open>
  Concrete services on which the hypotheses of the theorems are exercised: the world is the list
  of what was published, every call succeeds, and the node's own identifier is \<open>self\<close>.
\<close>

type_synonym sample_world = "(string \<times> bytes) list"

definition sample_pubsub :: "sample_world PubSub" where
  "sample_pubsub = \<lparr>
     ps_Subscribe = (\<lambda>topic w. (Inr (length topic), w)),
     ps_RegisterTopicValidator = (\<lambda>topic v w. (None, w)),
     ps_Publish = (\<lambda>topic data w. (None, w @ [(topic, data)])),
     ps_ListPeers = (\<lambda>topic w. []),
     ps_GetTopics = (\<lambda>w. []),
     sub_Cancel = (\<lambda>sub w. w)\<rparr>"

definition sample_host :: "sample_world Host" where
  "sample_host = \<lparr>
     h_ID = ''self'',
     h_Addrs = (\<lambda>w. []),
     h_PeerInfo = (\<lambda>p w. \<lparr>pi_ID = p, pi_Addrs = []\<rparr>),
     h_PeerstorePeers = (\<lambda>w. []),
     h_AddAddrs = (\<lambda>p addrs w. w),
     h_ConnsToPeer = (\<lambda>p w. 0),
     h_Connect = (\<lambda>p w. (None, w)),
     h_NetworkPeers = (\<lambda>w. []),
     h_ClosePeer = (\<lambda>p w. (None, w))\<rparr>"

lemma sample_pubsub_simps [simp]:
  "ps_Subscribe sample_pubsub topic w = (Inr (length topic), w)"
  "ps_RegisterTopicValidator sample_pubsub topic v w = (None, w)"
  "ps_Publish sample_pubsub topic data w = (None, w @ [(topic, data)])"
  "ps_ListPeers sample_pubsub topic w = []"
  "sub_Cancel sample_pubsub sub w = w"
  by (simp_all add: sample_pubsub_def)

lemma sample_ID [simp]: "h_ID sample_host = ''self''"
  by (simp add: sample_host_def)

lemma sample_peerstore [simp]: "peerstore_ids sample_host w"
  by (simp add: peerstore_ids_def sample_host_def)

end
