(* ===== verification/Discovery.thy ===== *)
theory Discovery
  imports ShardPrefTable Services
begin

text \<open>
  Model of \<open>src/discovery.go\<close>: the Go interface \<open>Discovery\<close> as a record of its two
  methods, and its implementation \<open>GlobalTable\<close> on the table of preferences.  The table is
  shared by pointer between discovery and the shard manager, so it is threaded explicitly.

  \<open>Advertise\<close> is a toggle: called for a shard the node listens to it removes the shard,
  otherwise it adds it, and in both cases it publishes the resulting vector.  The law the shard
  manager relies on is in the locale \<open>discovery\<close>.
\<close>

section \<open>The interface and its implementation\<close>

record 'w Discovery =
  d_Advertise :: "string \<Rightarrow> ShardPrefTable \<Rightarrow> 'w \<Rightarrow> (go_error option \<times> ShardPrefTable \<times> 'w) run"
  d_FindPeers :: "peer_ID list \<Rightarrow> string \<Rightarrow> ShardPrefTable \<Rightarrow> 'w \<Rightarrow> (go_error + PeerInfo list) run"

definition Advertise :: "'w Host \<Rightarrow> 'w PubSub \<Rightarrow> string \<Rightarrow> ShardPrefTable \<Rightarrow> 'w
    \<Rightarrow> (go_error option \<times> ShardPrefTable \<times> 'w) run" where
  "Advertise h ps topic t w =
     (case ParseInt topic of
        Inl err \<Rightarrow> Some (Some err, t, w)
      | Inr shardID \<Rightarrow> do {
          listening \<leftarrow> IsPeerListeningShard t (h_ID h) shardID;
          (err, t1) \<leftarrow> (if listening then RemovePeerListeningShard t (h_ID h) shardID
                        else Some (AddPeerListeningShard t (h_ID h) shardID));
          (case err of
             Some e \<Rightarrow> Some (Some e, t1, w)
           | None \<Rightarrow> do {
               ls \<leftarrow> GetPeerListeningShard t1 (h_ID h);
               let (perr, w1) = ps_Publish ps listeningShardTopic (toBytes ls) w;
               Some (perr, t1, w1)
             })
        })"

text \<open>\<open>visit\<close> is the order in which \<open>GetPeersInShard\<close> ranges over the table.\<close>

definition FindPeers :: "'w Host \<Rightarrow> peer_ID list \<Rightarrow> string \<Rightarrow> ShardPrefTable \<Rightarrow> 'w
    \<Rightarrow> (go_error + PeerInfo list) run" where
  "FindPeers h visit topic t w =
     (case ParseInt (shardTopicToShardID topic) of
        Inl err \<Rightarrow> Some (Inl err)
      | Inr shardID \<Rightarrow> do {
          peerIDs \<leftarrow> GetPeersInShard t visit shardID;
          Some (Inr (map (\<lambda>p. h_PeerInfo h p w) (filter (\<lambda>p. p \<noteq> h_ID h) peerIDs)))
        })"

definition NewGlobalTable :: "'w Host \<Rightarrow> 'w PubSub \<Rightarrow> 'w Discovery" where
  "NewGlobalTable h ps = \<lparr>d_Advertise = Advertise h ps, d_FindPeers = FindPeers h\<rparr>"

section \<open>Advertising\<close>

definition toggled :: "'a set \<Rightarrow> 'a \<Rightarrow> 'a set" where
  "toggled A x = (if x \<in> A then A - {x} else insert x A)"

lemma toggled_twice [simp]: "toggled (toggled A x) x = A"
  by (auto simp: toggled_def)

lemma in_toggled [simp]: "x \<in> toggled A x \<longleftrightarrow> x \<notin> A"
  by (simp add: toggled_def)

lemma in_toggled_other [simp]: "y \<noteq> x \<Longrightarrow> y \<in> toggled A x \<longleftrightarrow> y \<in> A"
  by (simp add: toggled_def)

lemma Advertise_valid:
  assumes "wf_table t" "valid_shard s"
  obtains t' ls where "wf_table t'" "pref t' = (pref t)(h_ID h := toggled (pref t (h_ID h)) s)"
    "dom (shardPrefMap t') = insert (h_ID h) (dom (shardPrefMap t))"
    "wf_shards ls" "shards_of ls = pref t' (h_ID h)"
    "Advertise h ps (FormatInt s) t w =
      (let (perr, w1) = ps_Publish ps listeningShardTopic (toBytes ls) w in Some (perr, t', w1))"
proof (cases "s \<in> pref t (h_ID h)")
  case True
  obtain t' where t': "RemovePeerListeningShard t (h_ID h) s = Some (None, t')" "wf_table t'"
    "pref t' = (pref t)(h_ID h := pref t (h_ID h) - {s})"
    using RemovePeerListeningShard_valid [OF assms] by blast
  obtain ls where ls: "GetPeerListeningShard t' (h_ID h) = Some ls" "wf_shards ls" "shards_of ls = pref t' (h_ID h)"
    using GetPeerListeningShard_wf [OF t'(2)] by blast
  show thesis
    using True t' ls dom_RemovePeerListeningShard [OF t'(1)] pref_dom [OF True]
    by (intro that [of t' ls])
      (simp_all add: insert_absorb Advertise_def ParseInt_FormatInt IsPeerListeningShard_valid [OF assms] toggled_def)
next
  case False
  obtain t' where t': "AddPeerListeningShard t (h_ID h) s = (None, t')" "wf_table t'"
    "pref t' = (pref t)(h_ID h := insert s (pref t (h_ID h)))"
    using AddPeerListeningShard_valid [OF assms, of "h_ID h"] wf_AddPeerListeningShard [OF assms(1), of "h_ID h" s]
    by (metis prod.collapse)
  obtain ls where ls: "GetPeerListeningShard t' (h_ID h) = Some ls" "wf_shards ls" "shards_of ls = pref t' (h_ID h)"
    using GetPeerListeningShard_wf [OF t'(2)] by blast
  show thesis
    using False t' ls dom_AddPeerListeningShard [OF t'(1)]
    by (intro that [of t' ls])
      (simp_all add: Advertise_def ParseInt_FormatInt IsPeerListeningShard_valid [OF assms] toggled_def)
qed

lemma IsPeerListeningShard_large:
  "sint numShards \<le> sint s \<Longrightarrow> IsPeerListeningShard t p s = Some False"
  by (auto simp: IsPeerListeningShard_def isPeerRecorded_def isShardSet_def shardIDToBitIndex_def)

lemma AddPeerListeningShard_large:
  "sint numShards \<le> sint s \<Longrightarrow> AddPeerListeningShard t p s = (Some (InvalidShardID s), t)"
  by (simp add: AddPeerListeningShard_def setShard_def shardIDToBitIndex_def)

lemma Advertise_large:
  "sint numShards \<le> sint s \<Longrightarrow> Advertise h ps (FormatInt s) t w = Some (Some (InvalidShardID s), t, w)"
  by (simp add: Advertise_def ParseInt_FormatInt IsPeerListeningShard_large AddPeerListeningShard_large)

section \<open>Finding peers\<close>

lemma FindPeers_topic:
  "FindPeers h visit (getCollationsTopic s) t w = FindPeers h visit (FormatInt s) t w"
  by (simp add: FindPeers_def)

lemma FindPeers_valid:
  assumes "wf_table t" "valid_shard s" "range_visit t visit"
  shows "FindPeers h visit (FormatInt s) t w =
    Some (Inr (map (\<lambda>p. h_PeerInfo h p w) (filter (\<lambda>p. s \<in> pref t p \<and> p \<noteq> h_ID h) visit)))"
  by (simp add: FindPeers_def ParseInt_FormatInt GetPeersInShard_wf [OF assms])

section \<open>The law of the interface\<close>

locale discovery =
  fixes d :: "'w Discovery" and self :: peer_ID
  assumes advertise_toggles: "wf_table t \<Longrightarrow> valid_shard s \<Longrightarrow>
      \<exists>e t' w'. d_Advertise d (FormatInt s) t w = Some (e, t', w') \<and> wf_table t'
        \<and> pref t' = (pref t)(self := toggled (pref t self) s)
        \<and> dom (shardPrefMap t') = insert self (dom (shardPrefMap t))"
    and advertise_large: "sint numShards \<le> sint s \<Longrightarrow>
      d_Advertise d (FormatInt s) t w = Some (Some (InvalidShardID s), t, w)"
    and find_returns: "wf_table t \<Longrightarrow> valid_shard s \<Longrightarrow> range_visit t visit \<Longrightarrow>
      \<exists>ps. d_FindPeers d visit (FormatInt s) t w = Some (Inr ps)"
begin

lemma advertise_twice:
  assumes "wf_table t" "valid_shard s" "d_Advertise d (FormatInt s) t w = Some (e, t1, w1)"
    "d_Advertise d (FormatInt s) t1 w' = Some (e2, t2, w2)"
  shows "pref t2 = pref t"
proof -
  have "wf_table t1" "pref t1 = (pref t)(self := toggled (pref t self) s)"
    using advertise_toggles [OF assms(1,2), of w] assms(3) by auto
  then have "pref t2 = (pref t1)(self := toggled (pref t1 self) s)" "pref t1 self = toggled (pref t self) s"
    using advertise_toggles [of t1 s w'] assms(2,4) by auto
  with \<open>pref t1 = _\<close> show ?thesis by (simp add: fun_eq_iff)
qed

end

interpretation gt: discovery "NewGlobalTable h ps" "h_ID h" for h ps
proof unfold_locales
  fix t s w
  assume "wf_table t" "valid_shard s"
  then obtain t' ls where t': "wf_table t'" "pref t' = (pref t)(h_ID h := toggled (pref t (h_ID h)) s)"
      "dom (shardPrefMap t') = insert (h_ID h) (dom (shardPrefMap t))"
    and a: "Advertise h ps (FormatInt s) t w =
      (let (perr, w1) = ps_Publish ps listeningShardTopic (toBytes ls) w in Some (perr, t', w1))"
    by (rule Advertise_valid)
  then show "\<exists>e t' w'. d_Advertise (NewGlobalTable h ps) (FormatInt s) t w = Some (e, t', w') \<and> wf_table t'
      \<and> pref t' = (pref t)(h_ID h := toggled (pref t (h_ID h)) s)
      \<and> dom (shardPrefMap t') = insert (h_ID h) (dom (shardPrefMap t))"
    by (auto simp: NewGlobalTable_def split: prod.split)
qed (simp_all add: NewGlobalTable_def Advertise_large FindPeers_valid)

section \<open>Properties\<close>

text \<open>
  C9: advertising a valid shard toggles exactly the node's own membership of that shard and
  publishes, on the preference topic, a vector of the node's new set of shards.  The error
  returned is the one of the publication, and the toggle has happened even when it fails.
\<close>

theorem Advertise_toggles_and_publishes:
  assumes "wf_table t" and "valid_shard s"
  shows "\<exists>t' ls. wf_table t' \<and> pref t' = (pref t)(h_ID h := toggled (pref t (h_ID h)) s)
    \<and> shards_of ls = toggled (pref t (h_ID h)) s
    \<and> Advertise h ps (FormatInt s) t w =
        Some (fst (ps_Publish ps listeningShardTopic (toBytes ls) w), t',
              snd (ps_Publish ps listeningShardTopic (toBytes ls) w))"
proof -
  obtain t' ls where "wf_table t'" "pref t' = (pref t)(h_ID h := toggled (pref t (h_ID h)) s)"
    "dom (shardPrefMap t') = insert (h_ID h) (dom (shardPrefMap t))" "wf_shards ls"
    "shards_of ls = pref t' (h_ID h)" "Advertise h ps (FormatInt s) t w =
      (let (perr, w1) = ps_Publish ps listeningShardTopic (toBytes ls) w in Some (perr, t', w1))"
    by (rule Advertise_valid [OF assms, of h ps w])
  then show ?thesis
    by (intro exI [of _ t'] exI [of _ ls]) (simp add: split_beta)
qed

theorem Advertise_toggles_and_publishes_witness:
  "\<exists>t' ls. pref t' ''self'' = {42} \<and> shards_of ls = {42}
    \<and> Advertise sample_host sample_pubsub (FormatInt 42) NewShardPrefTable [] =
        Some (None, t', [(listeningShardTopic, toBytes ls)])"
proof -
  obtain t' ls where "pref t' = (pref NewShardPrefTable)(''self'' := {42})" "shards_of ls = {42}"
    "Advertise sample_host sample_pubsub (FormatInt 42) NewShardPrefTable [] =
      Some (None, t', [(listeningShardTopic, toBytes ls)])"
    using Advertise_toggles_and_publishes [of NewShardPrefTable 42 sample_host sample_pubsub "[]"]
    by (auto simp: valid_shard_def toggled_def)
  then show ?thesis
    by (intro exI [of _ t'] exI [of _ ls]) simp
qed

text \<open>
  An advertisement that is rejected, because its topic is no number or its shard is too large,
  neither changes the table nor publishes anything.
\<close>

lemma Advertise_rejects:
  assumes "ParseInt topic = Inl err \<or> (\<exists>s. ParseInt topic = Inr s \<and> sint numShards \<le> sint s)"
  shows "\<exists>e. Advertise h ps topic t w = Some (Some e, t, w)"
  using assms
  by (auto simp: Advertise_def IsPeerListeningShard_large AddPeerListeningShard_large)

text \<open>
  C12: for a valid shard, named by its number or by its collation topic, discovery finds exactly
  the other peers whose recorded preference has the shard, each once, and never the node itself.
\<close>

theorem FindPeers_exact:
  assumes "wf_table t" and "valid_shard s" and "range_visit t visit" and "peerstore_ids h w"
    and "topic \<in> {FormatInt s, getCollationsTopic s}"
  shows "\<exists>pinfos. FindPeers h visit topic t w = Some (Inr pinfos) \<and> distinct (map pi_ID pinfos)
    \<and> set (map pi_ID pinfos) = {p. p \<noteq> h_ID h \<and> s \<in> pref t p}"
proof -
  have "FindPeers h visit topic t w = FindPeers h visit (FormatInt s) t w"
    using assms(5) by (auto simp: FindPeers_topic)
  moreover have "map pi_ID (map (\<lambda>p. h_PeerInfo h p w) xs) = xs" for xs
    using assms(4) by (induction xs) (simp_all add: peerstore_ids_def)
  moreover have "s \<in> pref t p \<Longrightarrow> p \<in> set visit" for p
    using assms(3) by (auto simp: range_visit_def pref_def split: option.splits)
  ultimately show ?thesis
    using assms(3) unfolding FindPeers_valid [OF assms(1-3)]
    by (intro exI [of _ "map (\<lambda>p. h_PeerInfo h p w) (filter (\<lambda>p. s \<in> pref t p \<and> p \<noteq> h_ID h) visit)"])
      (auto simp: range_visit_def simp del: map_map)
qed

theorem FindPeers_exact_witness:
  "\<exists>pinfos. FindPeers sample_host [''p''] (getCollationsTopic 42)
        (SetPeerListeningShard NewShardPrefTable ''p'' (fromSlice NewListeningShards [42])) [] = Some (Inr pinfos)
    \<and> distinct (map pi_ID pinfos) \<and> set (map pi_ID pinfos) = {p. p \<noteq> ''self''
        \<and> 42 \<in> pref (SetPeerListeningShard NewShardPrefTable ''p'' (fromSlice NewListeningShards [42])) p}"
  using FindPeers_exact [of "SetPeerListeningShard NewShardPrefTable ''p'' (fromSlice NewListeningShards [42])"
      42 "[''p'']" sample_host "[]" "getCollationsTopic 42"]
  by (simp add: valid_shard_def range_visit_def SetPeerListeningShard_def NewShardPrefTable_def
      wf_table_def)

end
