(* ===== verification/EventNotifier.thy ===== *)
theory EventNotifier
  imports Services
begin

text \<open>
  Model of \<open>src/eventrpc.go\<close>: the Go interface \<open>EventNotifier\<close>, through which the node asks
  its host process about a received message, and its two implementations, the mock and the one
  over gRPC.  The interface is the locale \<open>event_notifier\<close>; its law is that a call returns.
  The gRPC implementation satisfies it exactly when the server always fills in the response
  field, which is the locale \<open>event_server\<close>; the repository's own test server does.
\<close>

section \<open>Messages of the event service\<close>

text \<open>Protobuf enumerations are open: a status is any 32-bit number.\<close>

type_synonym Response_Status = "32 word"

definition Response_SUCCESS :: Response_Status where
  "Response_SUCCESS = 0"

definition Response_FAILURE :: Response_Status where
  "Response_FAILURE = 1"

record Response =
  Status :: Response_Status
  Message :: string

record ReceiveRequest =
  rq_PeerID :: string
  rq_MsgType :: PBInt
  rq_Data :: bytes

text \<open>A message field of a message is a pointer, which is \<open>nil\<close> when the field is absent.\<close>

record ReceiveResponse =
  rs_Response :: "Response option"
  rs_Data :: bytes

section \<open>The two notifiers\<close>

type_synonym 'w EventNotifier = "peer_ID \<Rightarrow> int64 \<Rightarrow> bytes \<Rightarrow> 'w \<Rightarrow> ((go_error + bytes) \<times> 'w) run"
type_synonym 'w EventClient = "ReceiveRequest \<Rightarrow> 'w \<Rightarrow> (go_error + ReceiveResponse) \<times> 'w"

definition mockReceive :: "'w EventNotifier" where
  "mockReceive peerID msgType data w = Some (Inr [1], w)"

definition NewRpcEventNotifier ::
  "('w \<Rightarrow> (go_error + 'conn) \<times> 'w) \<Rightarrow> ('conn \<Rightarrow> 'w EventClient) \<Rightarrow> 'w
    \<Rightarrow> (go_error + 'w EventClient) \<times> 'w" where
  "NewRpcEventNotifier dial newEventClient w =
     (case dial w of
        (Inl err, w1) \<Rightarrow> (Inl err, w1)
      | (Inr conn, w1) \<Rightarrow> (Inr (newEventClient conn), w1))"

definition rpcReceive :: "printer \<Rightarrow> 'w EventClient \<Rightarrow> 'w EventNotifier" where
  "rpcReceive pretty client peerID msgType data w =
     (case client \<lparr>rq_PeerID = pretty peerID, rq_MsgType = msgType, rq_Data = data\<rparr> w of
        (Inl err, w1) \<Rightarrow> Some (Inl err, w1)
      | (Inr res, w1) \<Rightarrow> do {
          response \<leftarrow> rs_Response res;
          if Status response \<noteq> Response_SUCCESS then Some (Inl FailureResponse, w1)
          else Some (Inr (rs_Data res), w1)
        })"

section \<open>The interfaces\<close>

locale event_notifier =
  fixes receive :: "'w EventNotifier"
  assumes returns: "\<exists>r w'. receive peerID msgType data w = Some (r, w')"
begin

lemma returns_cases:
  obtains e w' where "receive peerID msgType data w = Some (Inl e, w')"
  | bs w' where "receive peerID msgType data w = Some (Inr bs, w')"
proof -
  obtain r w' where "receive peerID msgType data w = Some (r, w')"
    using returns by blast
  then show thesis
    using that by (cases r) auto
qed

end

locale event_server =
  fixes client :: "'w EventClient" and pretty :: printer
  assumes fills_response: "client req w = (Inr res, w') \<Longrightarrow> rs_Response res \<noteq> None"

sublocale event_server \<subseteq> rpc: event_notifier "rpcReceive pretty client"
proof unfold_locales
  fix peerID msgType data w
  obtain r w1 where r: "client \<lparr>rq_PeerID = pretty peerID, rq_MsgType = msgType, rq_Data = data\<rparr> w = (r, w1)"
    by fastforce
  show "\<exists>r w'. rpcReceive pretty client peerID msgType data w = Some (r, w')"
    using r fills_response by (cases r) (fastforce simp: rpcReceive_def)+
qed

interpretation mock: event_notifier mockReceive
  by unfold_locales (simp add: mockReceive_def)

section \<open>The test server\<close>

text \<open>
  The event server of \<open>src/main_test.go\<close>: it accepts every collation that decodes, answers a
  collation request outside shard 42 with a collation, and fails on every other message type.
  The blob it makes up is a parameter.
\<close>

record Collation =
  co_ShardID :: PBInt
  co_Period :: PBInt
  co_Blobs :: bytes

record CollationRequest =
  cr_ShardID :: PBInt
  cr_Period :: PBInt
  cr_Hash :: string

definition typeCollation :: int64 where
  "typeCollation = 1"

definition typeCollationRequest :: int64 where
  "typeCollationRequest = 2"

definition makeEventResponse :: "bool \<Rightarrow> Response" where
  "makeEventResponse success =
     (if success then \<lparr>Status = Response_SUCCESS, Message = ''''\<rparr>
      else \<lparr>Status = Response_FAILURE, Message = ''failed''\<rparr>)"

definition eventTestServer_Receive ::
  "Collation codec \<Rightarrow> CollationRequest codec \<Rightarrow> (PBInt \<Rightarrow> PBInt \<Rightarrow> bytes) \<Rightarrow> 'w EventClient" where
  "eventTestServer_Receive cc rc blobs req w =
     (let (success, resBytes) =
        (if rq_MsgType req = typeCollation then
           (case Unmarshal cc (rq_Data req) of Inl _ \<Rightarrow> (False, []) | Inr _ \<Rightarrow> (True, [1]))
         else if rq_MsgType req = typeCollationRequest then
           (case Unmarshal rc (rq_Data req) of
              Inl _ \<Rightarrow> (False, [])
            | Inr msg \<Rightarrow>
                if cr_ShardID msg \<noteq> 42 then
                  (case Marshal cc \<lparr>co_ShardID = cr_ShardID msg, co_Period = cr_Period msg,
                                   co_Blobs = blobs (cr_ShardID msg) (cr_Period msg)\<rparr> of
                     (bs, None) \<Rightarrow> (True, bs)
                   | (bs, Some _) \<Rightarrow> (False, bs))
                else (False, []))
         else (False, []))
      in (Inr \<lparr>rs_Response = Some (makeEventResponse success), rs_Data = resBytes\<rparr>, w))"

lemma test_server_fills_response:
  "eventTestServer_Receive cc rc blobs req w = (Inr res, w') \<Longrightarrow> rs_Response res \<noteq> None"
  by (auto simp: eventTestServer_Receive_def Let_def split: prod.splits)

interpretation test_server: event_server "eventTestServer_Receive cc rc blobs" pretty
  for cc rc blobs pretty
  by unfold_locales (rule test_server_fills_response)

end
