(* ===== verification/ShardManager.thy ===== *)
theory ShardManager
  imports Discovery EventNotifier "HOL-Library.Sublist"
begin

text \<open>
  Model of \<open>src/shardmanager.go\<close>, the shard manager: subscriptions to topics, the handlers and
  validators attached to them, listening to and leaving shards, and connecting to the peers of a
  shard.  (Collations, lines 338 to 492, are in the theory \<open>Collations\<close>.)

  The fields of the Go struct that never change are the environment \<open>SMEnv\<close>; the map of
  subscriptions, the table of preferences and the reader goroutines started so far are the state.
  Logging and tracing are left out.  What the scheduler and the random number generator decide is
  an argument: \<open>visit\<close>, the order in which the table is ranged over, \<open>rnd\<close>, the raw numbers
  drawn, and \<open>sched\<close>, the order in which the dialling goroutines run.
\<close>

section \<open>State\<close>

record MessageWithType =
  mt_MsgType :: PBInt
  mt_Data :: bytes

type_synonym TopicHandler = "pubsub_message \<Rightarrow> ShardPrefTable \<Rightarrow> ShardPrefTable"

record 'w SMEnv =
  e_host :: "'w Host"
  e_pubsub :: "'w PubSub"
  e_notifier :: "'w EventNotifier"
  e_discovery :: "'w Discovery"
  e_codec :: "MessageWithType codec"

record ShardManager =
  subs :: "string \<rightharpoonup> subscription"
  sm_table :: ShardPrefTable
  readers :: "(subscription \<times> TopicHandler) list"

abbreviation e_self :: "'w SMEnv \<Rightarrow> peer_ID" where
  "e_self e \<equiv> h_ID (e_host e)"

section \<open>Topics\<close>

definition SubscribeTopic :: "'w SMEnv \<Rightarrow> string \<Rightarrow> TopicHandler \<Rightarrow> 'w validator option
    \<Rightarrow> ShardManager \<Rightarrow> 'w \<Rightarrow> go_error option \<times> ShardManager \<times> 'w" where
  "SubscribeTopic e topic handler validator sm w =
     (case ps_Subscribe (e_pubsub e) topic w of
        (Inl err, w1) \<Rightarrow> (Some err, sm, w1)
      | (Inr sub, w1) \<Rightarrow>
          (None,
           sm\<lparr>subs := (subs sm)(topic \<mapsto> sub), readers := readers sm @ [(sub, handler)]\<rparr>,
           (case validator of
              None \<Rightarrow> w1
            | Some v \<Rightarrow> snd (ps_RegisterTopicValidator (e_pubsub e) topic v w1))))"

definition UnsubscribeTopic :: "'w SMEnv \<Rightarrow> string \<Rightarrow> ShardManager \<Rightarrow> 'w \<Rightarrow> ShardManager \<times> 'w" where
  "UnsubscribeTopic e topic sm w =
     (case subs sm topic of
        None \<Rightarrow> (sm, w)
      | Some sub \<Rightarrow>
          (sm\<lparr>subs := (subs sm)(topic := None)\<rparr>, sub_Cancel (e_pubsub e) sub w))"

text \<open>
  The goroutine of a subscription: what \<open>sub.Next\<close> and the check of the context deliver, one
  after the other, until the first error or cancellation.
\<close>

datatype next_result = NextMsg pubsub_message | NextErr go_error | CtxDone

fun reader_loop :: "TopicHandler \<Rightarrow> next_result list \<Rightarrow> ShardPrefTable \<Rightarrow> ShardPrefTable" where
  "reader_loop handler [] t = t"
| "reader_loop handler (CtxDone # rest) t = t"
| "reader_loop handler (NextErr err # rest) t = t"
| "reader_loop handler (NextMsg msg # rest) t = reader_loop handler rest (handler msg t)"

section \<open>The preference topic\<close>

definition makeShardPrefHandler :: TopicHandler where
  "makeShardPrefHandler msg t =
     (let shardPref = fromBytes NewListeningShards (msg_Data msg);
          peerID = msg_From msg
      in SetPeerListeningShard t peerID shardPref)"

definition makeShardPrefValidator :: "'w validator" where
  "makeShardPrefValidator msg w = Some (True, w)"

definition SubscribeListeningShards :: "'w SMEnv \<Rightarrow> ShardManager \<Rightarrow> 'w
    \<Rightarrow> go_error option \<times> ShardManager \<times> 'w" where
  "SubscribeListeningShards e sm w =
     SubscribeTopic e listeningShardTopic makeShardPrefHandler (Some makeShardPrefValidator) sm w"

definition UnsubscribeListeningShards :: "'w SMEnv \<Rightarrow> ShardManager \<Rightarrow> 'w \<Rightarrow> ShardManager \<times> 'w" where
  "UnsubscribeListeningShards e sm w = UnsubscribeTopic e listeningShardTopic sm w"

text \<open>The constructor ends the process (\<open>logger.Fatalf\<close>) when the subscription fails.\<close>

definition NewShardManager :: "'w SMEnv \<Rightarrow> ShardPrefTable \<Rightarrow> 'w \<Rightarrow> (ShardManager \<times> 'w) run" where
  "NewShardManager e t w =
     (case SubscribeListeningShards e \<lparr>subs = Map.empty, sm_table = t, readers = []\<rparr> w of
        (Some err, _, _) \<Rightarrow> None
      | (None, sm, w1) \<Rightarrow> Some (sm, w1))"

section \<open>The collation topics\<close>

definition makeGeneralHandler :: TopicHandler where
  "makeGeneralHandler msg t = t"

definition extractProtoMsg :: "'m codec \<Rightarrow> pubsub_message \<Rightarrow> go_error + 'm" where
  "extractProtoMsg codec pubsubMsg =
     (let bs = msg_Data pubsubMsg
      in case Unmarshal codec bs of Inl err \<Rightarrow> Inl err | Inr msg \<Rightarrow> Inr msg)"

definition makeGeneralValidator :: "'w SMEnv \<Rightarrow> string \<Rightarrow> 'w validator" where
  "makeGeneralValidator e topic msg w =
     (case extractProtoMsg (e_codec e) msg of
        Inl err \<Rightarrow> Some (False, w)
      | Inr typedMessage \<Rightarrow> do {
          (r, w1) \<leftarrow> e_notifier e (msg_From msg) (mt_MsgType typedMessage) (mt_Data typedMessage) w;
          (case r of
             Inl err \<Rightarrow> Some (False, w1)
           | Inr validityBytes \<Rightarrow>
               if length validityBytes \<noteq> 1 then Some (False, w1)
               else if validityBytes ! 0 = 0 then Some (False, w1)
               else Some (True, w1))
        })"

definition SubscribeGeneral :: "'w SMEnv \<Rightarrow> string \<Rightarrow> ShardManager \<Rightarrow> 'w
    \<Rightarrow> go_error option \<times> ShardManager \<times> 'w" where
  "SubscribeGeneral e topic sm w =
     SubscribeTopic e topic makeGeneralHandler (Some (makeGeneralValidator e topic)) sm w"

definition SubscribeCollation :: "'w SMEnv \<Rightarrow> ShardIDType \<Rightarrow> ShardManager \<Rightarrow> 'w
    \<Rightarrow> go_error option \<times> ShardManager \<times> 'w" where
  "SubscribeCollation e shardID sm w = SubscribeGeneral e (getCollationsTopic shardID) sm w"

definition UnsubscribeCollation :: "'w SMEnv \<Rightarrow> ShardIDType \<Rightarrow> ShardManager \<Rightarrow> 'w \<Rightarrow> ShardManager \<times> 'w" where
  "UnsubscribeCollation e shardID sm w = UnsubscribeTopic e (getCollationsTopic shardID) sm w"

definition IsCollationSubscribed :: "ShardManager \<Rightarrow> ShardIDType \<Rightarrow> bool" where
  "IsCollationSubscribed sm shardID \<longleftrightarrow> subs sm (getCollationsTopic shardID) \<noteq> None"

section \<open>Connecting to the peers of a shard\<close>

text \<open>Dropping peers at random: the loop over \<open>difCount\<close>.\<close>

fun drop_random :: "(nat \<Rightarrow> nat) \<Rightarrow> nat \<Rightarrow> 'a list \<Rightarrow> 'a list run" where
  "drop_random rnd 0 pinfos = Some pinfos"
| "drop_random rnd (Suc k) pinfos = do {
     index \<leftarrow> rand_Intn (rnd k) (length pinfos);
     drop_random rnd k (take index pinfos @ drop (Suc index) pinfos)
   }"

text \<open>
  The peers to dial: those found, less those already connected in the shard, cut down at random.
  The lengths are below \<open>2^63\<close> and the guard makes \<open>numShardPeerToConnect\<close> positive, so that
  the two subtractions of \<open>int\<close> values cannot overflow and are written on integers.
\<close>

definition shardPeersToDial :: "(nat \<Rightarrow> nat) \<Rightarrow> int64 \<Rightarrow> peer_ID list \<Rightarrow> PeerInfo list \<Rightarrow> PeerInfo list run" where
  "shardPeersToDial rnd numShardPeerToConnect connectedPIDs foundPeers =
     (let pinfos = filter (\<lambda>p. pi_ID p \<notin> set connectedPIDs) foundPeers;
          difCount = int (length pinfos) - (sint numShardPeerToConnect - int (length connectedPIDs))
      in drop_random rnd (nat difCount) pinfos)"

text \<open>
  Dialling: a goroutine is started for every peer without a connection, and the function waits
  for all of them.  Errors are logged and dropped.
\<close>

definition dial_all :: "'w Host \<Rightarrow> (PeerInfo list \<Rightarrow> PeerInfo list) \<Rightarrow> PeerInfo list \<Rightarrow> 'w \<Rightarrow> 'w" where
  "dial_all h sched pinfos w =
     fold (\<lambda>p w. snd (h_Connect h p w)) (sched (filter (\<lambda>p. h_ConnsToPeer h (pi_ID p) w = 0) pinfos)) w"

definition connectShardNodes :: "'w SMEnv \<Rightarrow> peer_ID list \<Rightarrow> (nat \<Rightarrow> nat) \<Rightarrow> (PeerInfo list \<Rightarrow> PeerInfo list)
    \<Rightarrow> int64 \<Rightarrow> ShardIDType \<Rightarrow> ShardManager \<Rightarrow> 'w \<Rightarrow> (go_error option \<times> 'w) run" where
  "connectShardNodes e visit rnd sched numShardPeerToConnect shardID sm w =
     (let connectedPIDs = ps_ListPeers (e_pubsub e) (getCollationsTopic shardID) w;
          mapConnectedPIDs = remdups connectedPIDs
      in if sint numShardPeerToConnect \<le> int (length mapConnectedPIDs) then Some (None, w)
         else do {
           found \<leftarrow> d_FindPeers (e_discovery e) visit (FormatInt shardID) (sm_table sm) w;
           (case found of
              Inl err \<Rightarrow> Some (Some err, w)
            | Inr foundPeers \<Rightarrow> do {
                pinfos \<leftarrow> shardPeersToDial rnd numShardPeerToConnect connectedPIDs foundPeers;
                Some (None, dial_all (e_host e) sched pinfos w)
              })
         })"

section \<open>Listening to a shard and leaving it\<close>

definition GetListeningShards :: "'w SMEnv \<Rightarrow> ShardManager \<Rightarrow> ShardIDType list run" where
  "GetListeningShards e sm = GetPeerListeningShardSlice (sm_table sm) (e_self e)"

fun inShards :: "ShardIDType \<Rightarrow> ShardIDType list \<Rightarrow> bool" where
  "inShards shardID [] = False"
| "inShards shardID (value # shards) = (if value = shardID then True else inShards shardID shards)"

definition IsShardListened :: "'w SMEnv \<Rightarrow> ShardManager \<Rightarrow> ShardIDType \<Rightarrow> bool run" where
  "IsShardListened e sm shardID = do {
     shards \<leftarrow> GetListeningShards e sm;
     Some (inShards shardID shards)
   }"

definition ListenShard :: "'w SMEnv \<Rightarrow> peer_ID list \<Rightarrow> (nat \<Rightarrow> nat) \<Rightarrow> (PeerInfo list \<Rightarrow> PeerInfo list)
    \<Rightarrow> int64 \<Rightarrow> ShardIDType \<Rightarrow> ShardManager \<Rightarrow> 'w \<Rightarrow> (go_error option \<times> ShardManager \<times> 'w) run" where
  "ListenShard e visit rnd sched numShardPeerToConnect shardID sm w = do {
     listened \<leftarrow> IsShardListened e sm shardID;
     if listened then Some (None, sm, w)
     else do {
       (err, t1, w1) \<leftarrow> d_Advertise (e_discovery e) (FormatInt shardID) (sm_table sm) w;
       let sm1 = sm\<lparr>sm_table := t1\<rparr>;
       (case err of
          Some er \<Rightarrow> Some (Some er, sm1, w1)
        | None \<Rightarrow> do {
            (cerr, w2) \<leftarrow> connectShardNodes e visit rnd sched numShardPeerToConnect shardID sm1 w1;
            Some (SubscribeCollation e shardID sm1 w2)
          })
     }
   }"

definition UnlistenShard :: "'w SMEnv \<Rightarrow> ShardIDType \<Rightarrow> ShardManager \<Rightarrow> 'w
    \<Rightarrow> (go_error option \<times> ShardManager \<times> 'w) run" where
  "UnlistenShard e shardID sm w = do {
     listened \<leftarrow> IsShardListened e sm shardID;
     if \<not> listened then Some (None, sm, w)
     else do {
       (err, t1, w1) \<leftarrow> d_Advertise (e_discovery e) (FormatInt shardID) (sm_table sm) w;
       let sm1 = sm\<lparr>sm_table := t1\<rparr>;
       (case err of
          Some er \<Rightarrow> Some (Some er, sm1, w1)
        | None \<Rightarrow> let (sm2, w2) = UnsubscribeCollation e shardID sm1 w1 in Some (None, sm2, w2))
     }
   }"

section \<open>Lemmas: subscriptions\<close>

lemma SubscribeTopic_ok:
  "SubscribeTopic e topic handler v sm w = (None, sm', w') \<Longrightarrow>
    \<exists>sub. subs sm' = (subs sm)(topic \<mapsto> sub) \<and> sm_table sm' = sm_table sm
      \<and> readers sm' = readers sm @ [(sub, handler)]"
  by (auto simp: SubscribeTopic_def split: prod.splits sum.splits option.splits)

lemma SubscribeTopic_error:
  "SubscribeTopic e topic handler v sm w = (Some err, sm', w') \<Longrightarrow> sm' = sm"
  by (auto simp: SubscribeTopic_def split: prod.splits sum.splits option.splits)

lemma SubscribeCollation_ok:
  "SubscribeCollation e s sm w = (None, sm', w') \<Longrightarrow>
    \<exists>sub. subs sm' = (subs sm)(getCollationsTopic s \<mapsto> sub) \<and> sm_table sm' = sm_table sm"
  unfolding SubscribeCollation_def SubscribeGeneral_def by (blast dest: SubscribeTopic_ok)

lemma SubscribeCollation_error:
  "SubscribeCollation e s sm w = (Some err, sm', w') \<Longrightarrow> sm' = sm"
  unfolding SubscribeCollation_def SubscribeGeneral_def by (rule SubscribeTopic_error)

lemma UnsubscribeTopic_subs [simp]:
  "subs (fst (UnsubscribeTopic e topic sm w)) = (subs sm)(topic := None)"
  "sm_table (fst (UnsubscribeTopic e topic sm w)) = sm_table sm"
  by (auto simp: UnsubscribeTopic_def split: option.splits)

lemma UnsubscribeCollation_subs [simp]:
  "subs (fst (UnsubscribeCollation e s sm w)) = (subs sm)(getCollationsTopic s := None)"
  "sm_table (fst (UnsubscribeCollation e s sm w)) = sm_table sm"
  by (simp_all add: UnsubscribeCollation_def)

section \<open>Lemmas: validation\<close>

lemma extractProtoMsg_eq [simp]: "extractProtoMsg codec msg = Unmarshal codec (msg_Data msg)"
  by (simp add: extractProtoMsg_def split: sum.splits)

section \<open>Lemmas: listened shards\<close>

lemma inShards_iff [simp]: "inShards s shards \<longleftrightarrow> s \<in> set shards"
  by (induction shards) auto

lemma IsShardListened_wf:
  assumes "wf_table (sm_table sm)"
  shows "IsShardListened e sm s = Some (s \<in> pref (sm_table sm) (e_self e))"
  using GetPeerListeningShardSlice_wf [OF assms, of "e_self e"]
  by (auto simp: IsShardListened_def GetListeningShards_def)

section \<open>Lemmas: choosing the peers to dial\<close>

lemma subseq_distinct: "subseq xs ys \<Longrightarrow> distinct ys \<Longrightarrow> distinct xs"
  by (auto simp: subseq_conv_nths intro: distinct_nthsI)

lemma subseq_set: "subseq xs ys \<Longrightarrow> set xs \<subseteq> set ys"
  by (auto simp: subseq_conv_nths dest: in_set_nthsD)

lemma drop_random_length:
  assumes "k \<le> length ps"
  shows "\<exists>ps'. drop_random rnd k ps = Some ps' \<and> length ps' = length ps - k \<and> subseq ps' ps"
  using assms
proof (induction k arbitrary: ps)
  case 0
  then show ?case by simp
next
  case (Suc k)
  let ?i = "rnd k mod length ps"
  let ?ps = "take ?i ps @ drop (Suc ?i) ps"
  have i: "?i < length ps"
    using Suc.prems by (intro mod_less_divisor) linarith
  then have len: "length ?ps = length ps - 1" by simp
  obtain ps' where ps': "drop_random rnd k ?ps = Some ps'" "length ps' = length ?ps - k" "subseq ps' ?ps"
    using Suc.IH [of ?ps] Suc.prems unfolding len by (metis diff_Suc_1 diff_le_mono)
  have "subseq ?ps (take ?i ps @ ps ! ?i # drop (Suc ?i) ps)"
    by (intro list_emb_append_mono) auto
  then have "subseq ?ps ps"
    using id_take_nth_drop [OF i] by simp
  then have "subseq ps' ps"
    using ps'(3) subseq_order.order_trans by blast
  moreover have "rand_Intn (rnd k) (length ps) = Some ?i"
    using Suc.prems by (auto simp: rand_Intn_def)
  ultimately show ?case
    using ps' len by simp
qed

lemma drop_random_panics: "length ps < k \<Longrightarrow> drop_random rnd k ps = None"
proof (induction k arbitrary: ps)
  case 0
  then show ?case by simp
next
  case (Suc k)
  show ?case
  proof (cases "ps = []")
    case True
    then show ?thesis by (simp add: rand_Intn_def)
  next
    case False
    then have "rnd k mod length ps < length ps" by simp
    then have "length (take (rnd k mod length ps) ps @ drop (Suc (rnd k mod length ps)) ps) < k"
      using Suc.prems by simp
    then show ?thesis
      using Suc.IH by (simp add: rand_Intn_def False)
  qed
qed

lemma shardPeersToDial_spec:
  assumes "distinct connectedPIDs" "int (length connectedPIDs) < sint num"
  shows "\<exists>ps. shardPeersToDial rnd num connectedPIDs foundPeers = Some ps
    \<and> subseq ps (filter (\<lambda>p. pi_ID p \<notin> set connectedPIDs) foundPeers)
    \<and> length ps = min (length (filter (\<lambda>p. pi_ID p \<notin> set connectedPIDs) foundPeers))
        (nat (sint num) - length connectedPIDs)"
proof -
  let ?f = "filter (\<lambda>p. pi_ID p \<notin> set connectedPIDs) foundPeers"
  let ?k = "nat (int (length ?f) - (sint num - int (length connectedPIDs)))"
  have k: "?k \<le> length ?f"
    using assms(2) by linarith
  have "length ?f - ?k = min (length ?f) (nat (sint num) - length connectedPIDs)"
    using assms(2) by (simp add: min_def nat_diff_distrib)
  then show ?thesis
    using drop_random_length [OF k, of rnd] by (auto simp: shardPeersToDial_def Let_def)
qed

end
