(* ===== verification/Listening.thy ===== *)
theory Listening
  imports ShardManager
begin

text \<open>
  What \<open>ListenShard\<close>, \<open>UnlistenShard\<close> and \<open>connectShardNodes\<close> of the shard manager do.
  The facts that follow from the law of discovery alone are proved in the locale
  \<open>discovery\<close>; the properties instantiate them for the global table.  The main invariant is
  that a valid shard is listened to exactly when its collation topic is subscribed; it holds in
  every state reached by operations that report success, and it is what an unsuccessful
  publication breaks.
\<close>

section \<open>From the law of discovery\<close>

context discovery begin

lemma listen_cases:
  assumes e: "e_discovery e = d" "e_self e = self"
    and wf: "wf_table (sm_table sm)" and v: "valid_shard s"
    and run: "ListenShard e visit rnd sched num s sm w = Some (r, sm', w')"
  shows "(s \<in> pref (sm_table sm) self \<and> r = None \<and> sm' = sm \<and> w' = w)
    \<or> (s \<notin> pref (sm_table sm) self \<and> wf_table (sm_table sm')
       \<and> pref (sm_table sm') = (pref (sm_table sm))(self := insert s (pref (sm_table sm) self))
       \<and> (if r = None then \<exists>sub. subs sm' = (subs sm)(getCollationsTopic s \<mapsto> sub) else subs sm' = subs sm))"
proof (cases "s \<in> pref (sm_table sm) self")
  case True
  then show ?thesis
    using run wf e by (simp add: ListenShard_def IsShardListened_wf)
next
  case False
  obtain er t1 w1 where a: "d_Advertise d (FormatInt s) (sm_table sm) w = Some (er, t1, w1)" "wf_table t1"
    "pref t1 = (pref (sm_table sm))(self := insert s (pref (sm_table sm) self))"
    using advertise_toggles [OF wf v, of w] False by (auto simp: toggled_def)
  show ?thesis
  proof (cases er)
    case (Some x)
    then show ?thesis
      using run wf e False a by (auto simp: ListenShard_def IsShardListened_wf)
  next
    case None
    then obtain w2 where "SubscribeCollation e s (sm\<lparr>sm_table := t1\<rparr>) w2 = (r, sm', w')"
      using run wf e False a by (auto simp: ListenShard_def IsShardListened_wf bind_eq_Some_iff Let_def split: prod.splits)
    then have "sm_table sm' = t1 \<and> (if r = None then \<exists>sub. subs sm' = (subs sm)(getCollationsTopic s \<mapsto> sub)
        else subs sm' = subs sm)"
      using SubscribeCollation_ok [of e s "sm\<lparr>sm_table := t1\<rparr>" w2 sm' w']
        SubscribeCollation_error [of e s "sm\<lparr>sm_table := t1\<rparr>" w2 _ sm' w']
      by (cases r) auto
    then show ?thesis
      using False a(2,3) by simp
  qed
qed

lemma unlisten_cases:
  assumes e: "e_discovery e = d" "e_self e = self"
    and wf: "wf_table (sm_table sm)" and v: "valid_shard s"
    and run: "UnlistenShard e s sm w = Some (r, sm', w')"
  shows "(s \<notin> pref (sm_table sm) self \<and> r = None \<and> sm' = sm \<and> w' = w)
    \<or> (s \<in> pref (sm_table sm) self \<and> wf_table (sm_table sm')
       \<and> pref (sm_table sm') = (pref (sm_table sm))(self := pref (sm_table sm) self - {s})
       \<and> subs sm' = (if r = None then (subs sm)(getCollationsTopic s := None) else subs sm))"
proof (cases "s \<in> pref (sm_table sm) self")
  case False
  then show ?thesis
    using run wf e by (simp add: UnlistenShard_def IsShardListened_wf)
next
  case True
  obtain er t1 w1 where a: "d_Advertise d (FormatInt s) (sm_table sm) w = Some (er, t1, w1)" "wf_table t1"
    "pref t1 = (pref (sm_table sm))(self := pref (sm_table sm) self - {s})"
    using advertise_toggles [OF wf v, of w] True by (auto simp: toggled_def)
  obtain sm2 w2 where u: "UnsubscribeCollation e s (sm\<lparr>sm_table := t1\<rparr>) w1 = (sm2, w2)"
    by fastforce
  then have "subs sm2 = (subs sm)(getCollationsTopic s := None)" "sm_table sm2 = t1"
    using UnsubscribeCollation_subs [of e s "sm\<lparr>sm_table := t1\<rparr>" w1] by simp_all
  then show ?thesis
    using run wf e True a u by (cases er) (auto simp: UnlistenShard_def IsShardListened_wf)
qed

lemma connect_returns:
  assumes e: "e_discovery e = d" and wf: "wf_table (sm_table sm)" and v: "valid_shard s"
    and visit: "range_visit (sm_table sm) visit"
    and distinct: "distinct (ps_ListPeers (e_pubsub e) (getCollationsTopic s) w)"
  shows "\<exists>w'. connectShardNodes e visit rnd sched num s sm w = Some (None, w')"
proof (cases "sint num \<le> int (length (ps_ListPeers (e_pubsub e) (getCollationsTopic s) w))")
  case True
  then show ?thesis
    using distinct by (simp add: connectShardNodes_def distinct_remdups_id)
next
  case False
  obtain found where f: "d_FindPeers d visit (FormatInt s) (sm_table sm) w = Some (Inr found)"
    using find_returns [OF wf v visit] by blast
  obtain ps where "shardPeersToDial rnd num (ps_ListPeers (e_pubsub e) (getCollationsTopic s) w) found = Some ps"
    using shardPeersToDial_spec [OF distinct, of num rnd found] False by auto
  then show ?thesis
    using False f e distinct by (simp add: connectShardNodes_def distinct_remdups_id)
qed

lemma listen_returns:
  assumes e: "e_discovery e = d" "e_self e = self"
    and wf: "wf_table (sm_table sm)" and v: "valid_shard s"
    and visit: "distinct visit" "set visit = insert self (dom (shardPrefMap (sm_table sm)))"
    and distinct: "\<And>w. distinct (ps_ListPeers (e_pubsub e) (getCollationsTopic s) w)"
  shows "\<exists>r sm' w'. ListenShard e visit rnd sched num s sm w = Some (r, sm', w')"
proof (cases "s \<in> pref (sm_table sm) self")
  case True
  then show ?thesis
    using wf e by (simp add: ListenShard_def IsShardListened_wf)
next
  case False
  obtain er t1 w1 where a: "d_Advertise d (FormatInt s) (sm_table sm) w = Some (er, t1, w1)" "wf_table t1"
    "dom (shardPrefMap t1) = insert self (dom (shardPrefMap (sm_table sm)))"
    using advertise_toggles [OF wf v, of w] by blast
  have "range_visit t1 visit"
    using visit a(3) by (simp add: range_visit_def)
  then obtain w2 where "connectShardNodes e visit rnd sched num s (sm\<lparr>sm_table := t1\<rparr>) w1 = Some (None, w2)"
    using connect_returns [of e "sm\<lparr>sm_table := t1\<rparr>" s visit w1 rnd sched num] e(1) a(2) v distinct by auto
  then show ?thesis
    using False a wf e
    by (cases er; cases "SubscribeCollation e s (sm\<lparr>sm_table := t1\<rparr>) w2")
      (auto simp: ListenShard_def IsShardListened_wf)
qed

end

section \<open>With the global table\<close>

definition uses_global_table :: "'w SMEnv \<Rightarrow> bool" where
  "uses_global_table e \<longleftrightarrow> e_discovery e = NewGlobalTable (e_host e) (e_pubsub e)"

definition publishes :: "'w SMEnv \<Rightarrow> bool" where
  "publishes e \<longleftrightarrow> (\<forall>topic data w. fst (ps_Publish (e_pubsub e) topic data w) = None)"

definition subscribes :: "'w SMEnv \<Rightarrow> bool" where
  "subscribes e \<longleftrightarrow> (\<forall>topic w. \<exists>sub w'. ps_Subscribe (e_pubsub e) topic w = (Inr sub, w'))"

definition lists_distinct :: "'w SMEnv \<Rightarrow> bool" where
  "lists_distinct e \<longleftrightarrow> (\<forall>topic w. distinct (ps_ListPeers (e_pubsub e) topic w))"

text \<open>What every method of the manager may assume of its environment when nothing goes wrong.\<close>

definition sound_env :: "'w SMEnv \<Rightarrow> bool" where
  "sound_env e \<longleftrightarrow> uses_global_table e \<and> publishes e \<and> subscribes e \<and> lists_distinct e"

lemma Advertise_error_from_publish:
  assumes "uses_global_table e" "wf_table t" "valid_shard s"
    "d_Advertise (e_discovery e) (FormatInt s) t w = Some (er, t1, w1)"
  shows "\<exists>data. er = fst (ps_Publish (e_pubsub e) listeningShardTopic data w)"
proof -
  obtain t' ls where "Advertise (e_host e) (e_pubsub e) (FormatInt s) t w =
      (let (perr, w1) = ps_Publish (e_pubsub e) listeningShardTopic (toBytes ls) w in Some (perr, t', w1))"
    by (rule Advertise_valid [OF assms(2,3)])
  with assms(1,4) show ?thesis
    by (intro exI [of _ "toBytes ls"]) (auto simp: uses_global_table_def NewGlobalTable_def split: prod.splits)
qed

lemma SubscribeCollation_succeeds:
  assumes "subscribes e"
  shows "fst (SubscribeCollation e s sm w) = None"
proof -
  obtain sub w' where "ps_Subscribe (e_pubsub e) (getCollationsTopic s) w = (Inr sub, w')"
    using assms unfolding subscribes_def by blast
  then show ?thesis
    by (simp add: SubscribeCollation_def SubscribeGeneral_def SubscribeTopic_def)
qed

lemma listen_no_error:
  assumes "sound_env e" "wf_table (sm_table sm)" "valid_shard s"
    "ListenShard e visit rnd sched num s sm w = Some (r, sm', w')"
  shows "r = None"
proof (cases "s \<in> pref (sm_table sm) (e_self e)")
  case True
  with assms show ?thesis by (simp add: ListenShard_def IsShardListened_wf)
next
  case False
  obtain er t1 w1 where a: "d_Advertise (e_discovery e) (FormatInt s) (sm_table sm) w = Some (er, t1, w1)"
    using assms(4) False assms(2) by (auto simp: ListenShard_def IsShardListened_wf bind_eq_Some_iff)
  then have "er = None"
    using Advertise_error_from_publish [OF _ assms(2,3) a] assms(1) by (auto simp: sound_env_def publishes_def)
  then obtain w2 where "SubscribeCollation e s (sm\<lparr>sm_table := t1\<rparr>) w2 = (r, sm', w')"
    using assms(4) False assms(2) a
    by (auto simp: ListenShard_def IsShardListened_wf bind_eq_Some_iff Let_def split: prod.splits)
  then show ?thesis
    using SubscribeCollation_succeeds [of e s "sm\<lparr>sm_table := t1\<rparr>" w2] assms(1) by (simp add: sound_env_def)
qed

lemma unlisten_no_error:
  assumes "sound_env e" "wf_table (sm_table sm)" "valid_shard s"
  shows "\<exists>sm' w'. UnlistenShard e s sm w = Some (None, sm', w')"
proof (cases "s \<in> pref (sm_table sm) (e_self e)")
  case False
  with assms show ?thesis by (simp add: UnlistenShard_def IsShardListened_wf)
next
  case True
  have e: "e_discovery e = NewGlobalTable (e_host e) (e_pubsub e)"
    using assms(1) by (simp add: sound_env_def uses_global_table_def)
  obtain er t1 w1 where a: "d_Advertise (e_discovery e) (FormatInt s) (sm_table sm) w = Some (er, t1, w1)"
    using gt.advertise_toggles [OF assms(2,3), of "e_host e" "e_pubsub e" w] unfolding e by auto
  then have "er = None"
    using Advertise_error_from_publish [OF _ assms(2,3) a] assms(1) by (auto simp: sound_env_def publishes_def)
  with True assms(2) a show ?thesis
    by (cases "UnsubscribeCollation e s (sm\<lparr>sm_table := t1\<rparr>) w1")
      (simp add: UnlistenShard_def IsShardListened_wf)
qed

lemma uses_global_tableD:
  "uses_global_table e \<Longrightarrow> e_discovery e = NewGlobalTable (e_host e) (e_pubsub e)"
  "sound_env e \<Longrightarrow> uses_global_table e"
  by (simp_all add: sound_env_def uses_global_table_def)

lemmas gt_listen_cases = gt.listen_cases [OF uses_global_tableD(1) refl]
lemmas gt_unlisten_cases = gt.unlisten_cases [OF uses_global_tableD(1) refl]
lemmas gt_listen_returns = gt.listen_returns [OF uses_global_tableD(1) refl]

section \<open>A sample environment\<close>

definition sample_codec :: "MessageWithType codec" where
  "sample_codec = \<lparr>
     Marshal = (\<lambda>m. (ucast (mt_MsgType m) # mt_Data m, None)),
     Unmarshal = (\<lambda>bs. case bs of [] \<Rightarrow> Inl (External ''short'')
                       | b # rest \<Rightarrow> Inr \<lparr>mt_MsgType = ucast b, mt_Data = rest\<rparr>)\<rparr>"

definition sample_env :: "sample_world SMEnv" where
  "sample_env = \<lparr>e_host = sample_host, e_pubsub = sample_pubsub, e_notifier = mockReceive,
     e_discovery = NewGlobalTable sample_host sample_pubsub, e_codec = sample_codec\<rparr>"

definition sample_manager :: ShardManager where
  "sample_manager = \<lparr>subs = [listeningShardTopic \<mapsto> 0], sm_table = NewShardPrefTable, readers = []\<rparr>"

lemma sample_sound [simp]: "sound_env sample_env"
  by (simp add: sound_env_def uses_global_table_def publishes_def subscribes_def lists_distinct_def
      sample_env_def)

lemma sample_env_simps [simp]:
  "e_host sample_env = sample_host" "e_pubsub sample_env = sample_pubsub"
  "sm_table sample_manager = NewShardPrefTable" "shardPrefMap NewShardPrefTable = Map.empty"
  "subs sample_manager = [listeningShardTopic \<mapsto> 0]"
  by (simp_all add: sample_env_def sample_manager_def NewShardPrefTable_def)

section \<open>Reachable states\<close>

text \<open>
  The steps that lead from one state of the manager to the next: listening to and leaving a valid
  shard without error, a preference message of another peer that is long enough, and a move of the
  world outside.
\<close>

inductive sm_step :: "'w SMEnv \<Rightarrow> ShardManager \<times> 'w \<Rightarrow> ShardManager \<times> 'w \<Rightarrow> bool" for e where
  listen: "valid_shard s \<Longrightarrow> ListenShard e visit rnd sched num s sm w = Some (None, sm', w') \<Longrightarrow>
    sm_step e (sm, w) (sm', w')"
| unlisten: "valid_shard s \<Longrightarrow> UnlistenShard e s sm w = Some (None, sm', w') \<Longrightarrow>
    sm_step e (sm, w) (sm', w')"
| preference: "msg_From msg \<noteq> e_self e \<Longrightarrow> 13 \<le> length (msg_Data msg) \<Longrightarrow>
    sm_step e (sm, w) (sm\<lparr>sm_table := makeShardPrefHandler msg (sm_table sm)\<rparr>, w)"
| world: "sm_step e (sm, w) (sm, w')"

inductive_cases sm_stepE: "sm_step e (sm, w) (sm', w')"

inductive sm_reachable :: "'w SMEnv \<Rightarrow> ShardManager \<times> 'w \<Rightarrow> bool" for e where
  start: "NewShardManager e NewShardPrefTable w = Some (sm, w') \<Longrightarrow> sm_reachable e (sm, w')"
| step: "sm_reachable e c \<Longrightarrow> sm_step e c c' \<Longrightarrow> sm_reachable e c'"

text \<open>A valid shard is listened to exactly when its collation topic is subscribed.\<close>

definition consistent :: "'w SMEnv \<Rightarrow> ShardManager \<Rightarrow> bool" where
  "consistent e sm \<longleftrightarrow> wf_table (sm_table sm) \<and>
     (\<forall>s. valid_shard s \<longrightarrow> (s \<in> pref (sm_table sm) (e_self e)) = IsCollationSubscribed sm s)"

lemma consistentD:
  "consistent e sm \<Longrightarrow> wf_table (sm_table sm)"
  "consistent e sm \<Longrightarrow> valid_shard s \<Longrightarrow> s \<in> pref (sm_table sm) (e_self e) \<longleftrightarrow> IsCollationSubscribed sm s"
  by (simp_all add: consistent_def)

lemma consistent_New:
  assumes "NewShardManager e NewShardPrefTable w = Some (sm, w')"
  shows "consistent e sm"
proof -
  have "SubscribeListeningShards e \<lparr>subs = Map.empty, sm_table = NewShardPrefTable, readers = []\<rparr> w
      = (None, sm, w')"
    using assms by (auto simp: NewShardManager_def split: prod.splits option.splits)
  then have "\<exists>sub. subs sm = [listeningShardTopic \<mapsto> sub] \<and> sm_table sm = NewShardPrefTable"
    unfolding SubscribeListeningShards_def by - (drule SubscribeTopic_ok, auto)
  then show ?thesis
    by (auto simp: consistent_def IsCollationSubscribed_def)
qed

lemma consistent_listen:
  assumes "uses_global_table e" "consistent e sm" "valid_shard s"
    "ListenShard e visit rnd sched num s sm w = Some (None, sm', w')"
  shows "consistent e sm'"
  using gt_listen_cases [OF assms(1) consistentD(1) [OF assms(2)] assms(3,4)] assms(2)
  by (auto simp: consistent_def IsCollationSubscribed_def split: if_splits)

lemma consistent_unlisten:
  assumes "uses_global_table e" "consistent e sm" "valid_shard s"
    "UnlistenShard e s sm w = Some (None, sm', w')"
  shows "consistent e sm'"
  using gt_unlisten_cases [OF assms(1) consistentD(1) [OF assms(2)] assms(3,4)] assms(2)
  by (auto simp: consistent_def IsCollationSubscribed_def split: if_splits)

lemma handler_eq: "makeShardPrefHandler msg t = SetPeerListeningShard t (msg_From msg) \<lparr>shardBits = msg_Data msg\<rparr>"
  by (simp add: makeShardPrefHandler_def fromBytes_def NewListeningShards_def)

lemma consistent_preference:
  assumes "consistent e sm" "msg_From msg \<noteq> e_self e" "13 \<le> length (msg_Data msg)"
  shows "consistent e (sm\<lparr>sm_table := makeShardPrefHandler msg (sm_table sm)\<rparr>)"
  using assms by (simp add: consistent_def handler_eq wf_shards_iff IsCollationSubscribed_def)

lemma sm_step_consistent:
  assumes "sm_step e (sm, w) (sm', w')" "uses_global_table e" "consistent e sm"
  shows "consistent e sm'"
  using assms(1)
proof (rule sm_stepE)
  fix s visit rnd sched num
  assume "valid_shard s" "ListenShard e visit rnd sched num s sm w = Some (None, sm', w')"
  then show ?thesis by (rule consistent_listen [OF assms(2,3)])
next
  fix s
  assume "valid_shard s" "UnlistenShard e s sm w = Some (None, sm', w')"
  then show ?thesis by (rule consistent_unlisten [OF assms(2,3)])
next
  fix msg
  assume "sm' = sm\<lparr>sm_table := makeShardPrefHandler msg (sm_table sm)\<rparr>" "msg_From msg \<noteq> e_self e"
    "13 \<le> length (msg_Data msg)"
  then show ?thesis using consistent_preference [OF assms(3)] by simp
next
  assume "sm' = sm"
  then show ?thesis using assms(3) by simp
qed

lemma reachable_consistent: "sm_reachable e c \<Longrightarrow> uses_global_table e \<Longrightarrow> consistent e (fst c)"
proof (induction rule: sm_reachable.induct)
  case (start w sm w')
  then show ?case using consistent_New by simp
next
  case (step c c')
  then show ?case
    using sm_step_consistent [of e "fst c" "snd c" "fst c'" "snd c'"] by simp
qed

lemma sample_listen_run:
  assumes "sm_table sm = NewShardPrefTable"
  shows "\<exists>sm' w'. ListenShard sample_env [''self''] (\<lambda>_. 0) id 1 42 sm w = Some (None, sm', w')
    \<and> IsShardListened sample_env sm' 42 = Some True"
proof -
  have v: "valid_shard 42" by (simp add: valid_shard_def)
  have wf: "wf_table (sm_table sm)" using assms by simp
  obtain r sm' w' where run: "ListenShard sample_env [''self''] (\<lambda>_. 0) id 1 42 sm w = Some (r, sm', w')"
    using gt_listen_returns [OF uses_global_tableD(2) [OF sample_sound] wf v, of "[''self'']" "\<lambda>_. 0" id 1 w] assms
    by (auto simp: lists_distinct_def)
  then have "r = None"
    using listen_no_error [OF sample_sound wf v] by blast
  with run gt_listen_cases [OF uses_global_tableD(2) [OF sample_sound] wf v run] wf show ?thesis
    by (auto simp: IsShardListened_wf)
qed


section \<open>Properties\<close>

text \<open>
  C6: listening to a valid shard works.  In an environment whose publications and subscriptions
  succeed, \<open>ListenShard\<close> of a shard not yet listened to returns without error or panic; afterwards
  the shard is listened to and its collation topic is subscribed, and no other shard, peer or topic
  is affected.  A shard already listened to is left alone.
\<close>

theorem ListenShard_effect:
  assumes "sound_env e" and "wf_table (sm_table sm)" and "valid_shard s"
    and "distinct visit" and "set visit = insert (e_self e) (dom (shardPrefMap (sm_table sm)))"
  shows "\<exists>sm' w'. ListenShard e visit rnd sched num s sm w = Some (None, sm', w')
    \<and> IsShardListened e sm' s = Some True
    \<and> pref (sm_table sm') = (pref (sm_table sm))(e_self e := insert s (pref (sm_table sm) (e_self e)))
    \<and> (if IsShardListened e sm s = Some True then sm' = sm \<and> w' = w
       else IsCollationSubscribed sm' s \<and> dom (subs sm') = insert (getCollationsTopic s) (dom (subs sm)))"
proof -
  have gt: "uses_global_table e" and d: "\<And>w. distinct (ps_ListPeers (e_pubsub e) (getCollationsTopic s) w)"
    using assms(1) by (simp_all add: sound_env_def lists_distinct_def)
  obtain r sm' w' where run: "ListenShard e visit rnd sched num s sm w = Some (r, sm', w')"
    using gt_listen_returns [OF gt assms(2-5) d] by blast
  have r: "r = None"
    using listen_no_error [OF assms(1-3) run] .
  from gt_listen_cases [OF gt assms(2,3) run] show ?thesis
    using run r assms(2)
    by (auto simp: IsShardListened_wf IsCollationSubscribed_def insert_absorb)
qed

theorem ListenShard_effect_witness:
  "\<exists>sm' w'. ListenShard sample_env [''self''] (\<lambda>_. 0) id 1 42 sample_manager [] = Some (None, sm', w')
    \<and> IsShardListened sample_env sm' 42 = Some True \<and> IsCollationSubscribed sm' 42"
  using ListenShard_effect [of sample_env sample_manager 42 "[''self'']" "\<lambda>_. 0" id 1 "[]"]
  by (auto simp: valid_shard_def IsShardListened_wf)

text \<open>
  C7: leaving a shard undoes listening.  In the same environment \<open>UnlistenShard\<close> of a valid shard
  never fails: afterwards the shard is not listened to, and if it was, its topic is no longer
  subscribed; a shard that was not listened to is left alone.
\<close>

theorem UnlistenShard_effect:
  assumes "sound_env e" and "wf_table (sm_table sm)" and "valid_shard s"
  shows "\<exists>sm' w'. UnlistenShard e s sm w = Some (None, sm', w')
    \<and> IsShardListened e sm' s = Some False
    \<and> pref (sm_table sm') = (pref (sm_table sm))(e_self e := pref (sm_table sm) (e_self e) - {s})
    \<and> (if IsShardListened e sm s = Some True then subs sm' = (subs sm)(getCollationsTopic s := None)
       else sm' = sm \<and> w' = w)"
proof -
  obtain sm' w' where run: "UnlistenShard e s sm w = Some (None, sm', w')"
    using unlisten_no_error [OF assms] by blast
  from gt_unlisten_cases [OF uses_global_tableD(2) [OF assms(1)] assms(2,3) run] show ?thesis
    using run assms(2) by (auto simp: IsShardListened_wf)
qed

theorem UnlistenShard_effect_witness:
  "\<exists>sm' w'. UnlistenShard sample_env 42
        (sample_manager\<lparr>sm_table := SetPeerListeningShard NewShardPrefTable ''self'' (fromSlice NewListeningShards [42])\<rparr>) []
      = Some (None, sm', w') \<and> IsShardListened sample_env sm' 42 = Some False"
  using UnlistenShard_effect [of sample_env "sample_manager\<lparr>sm_table :=
      SetPeerListeningShard NewShardPrefTable ''self'' (fromSlice NewListeningShards [42])\<rparr>" 42 "[]"]
  by (auto simp: valid_shard_def)

text \<open>
  C1: in every state reached from a new manager by listening to and leaving valid shards without
  error, by preferences of other peers that are long enough, and by whatever the outside world
  does, a valid shard is listened to exactly when its collation topic is subscribed.
\<close>

theorem listened_iff_subscribed:
  assumes "sm_reachable e (sm, w)" and "uses_global_table e" and "valid_shard s"
  shows "IsShardListened e sm s = Some (IsCollationSubscribed sm s)"
proof -
  have c: "consistent e sm"
    using reachable_consistent [OF assms(1,2)] by simp
  show ?thesis
    using consistentD(2) [OF c assms(3)] consistentD(1) [OF c] by (simp add: IsShardListened_wf)
qed

theorem listened_iff_subscribed_witness:
  "\<exists>sm. IsShardListened sample_env sm 42 = Some True \<and> IsCollationSubscribed sm 42"
proof -
  obtain sm0 w0 where new: "NewShardManager sample_env NewShardPrefTable [] = Some (sm0, w0)"
    "sm_table sm0 = NewShardPrefTable"
    by (auto simp: NewShardManager_def SubscribeListeningShards_def SubscribeTopic_def)
  obtain sm w where run: "ListenShard sample_env [''self''] (\<lambda>_. 0) id 1 42 sm0 w0 = Some (None, sm, w)"
    and listened: "IsShardListened sample_env sm 42 = Some True"
    using sample_listen_run [of sm0 w0] new(2) by auto
  have "sm_reachable sample_env (sm, w)"
    by (rule sm_reachable.step [OF sm_reachable.start [OF new(1)] sm_step.listen [OF _ run]])
      (simp add: valid_shard_def)
  then have "IsShardListened sample_env sm 42 = Some (IsCollationSubscribed sm 42)"
    by (rule listened_iff_subscribed) (simp_all add: valid_shard_def uses_global_tableD(2))
  with listened show ?thesis by auto
qed






end
