(* ===== verification/NegativeShards.thy ===== *)
theory NegativeShards
  imports Listening
begin

text \<open>
  Negative shard identifiers.  The guard of \<open>shardIDToBitIndex\<close> bounds identifiers from above
  only, and the RPC interface and the command line pass any signed 64-bit number through, so what
  the manager does with a negative identifier is part of its behaviour: from -7 to -1 it subscribes
  a topic it can never leave, and further down it may panic.
\<close>

section \<open>Identifiers from -7 to -1\<close>

definition small_negative :: "ShardIDType \<Rightarrow> bool" where
  "small_negative s \<longleftrightarrow> - 8 < sint s \<and> sint s < 0"

lemma small_negative_invalid: "small_negative s \<Longrightarrow> \<not> valid_shard s"
  by (simp add: small_negative_def valid_shard_def)

lemma shl_overflow: "8 \<le> unat n \<Longrightarrow> go_shl 1 n = 0"
  by (simp add: go_shl_def exp_eq_zero_iff)

lemma small_negative_index:
  assumes "small_negative s"
  obtains n where "shardIDToBitIndex s = Inr (0, n)" "go_shl 1 n = 0"
proof -
  have s: "- 8 < sint s" "sint s < 0"
    using assms by (simp_all add: small_negative_def)
  have "sint s sdiv 8 = 0" "sint s smod 8 = sint s"
    unfolding sdiv_neg [OF s(2)] smod_neg [OF s(2)] using s by simp_all
  then have idx: "shardIDToBitIndex s = Inr (0, go_byte (word_of_int (sint s)))"
    using s(2) by (simp add: shardIDToBitIndex_def go_div_def go_mod_def byteSize_def go_byte_def)
  have "sint s mod 256 = (sint s + 256) mod 256" by simp
  also have "\<dots> = sint s + 256" using s by (intro mod_pos_pos_trivial) simp_all
  finally have "8 \<le> nat (sint s mod 256)" using s by simp
  then have "go_shl 1 (go_byte (word_of_int (sint s))) = 0"
    by (intro shl_overflow) (simp only: unat_go_byte)
  with idx show thesis by (rule that)
qed

lemma small_negative_vector:
  assumes "small_negative s" "wf_shards ls"
  shows "setShard ls s = (None, ls)" "isShardSet ls s = Some False"
proof -
  obtain n where n: "shardIDToBitIndex s = Inr (0, n)" "go_shl 1 n = 0"
    using assms(1) by (rule small_negative_index)
  have "0 < length (shardBits ls)"
    using assms(2) unfolding wf_shards_iff by linarith
  with n show "setShard ls s = (None, ls)" "isShardSet ls s = Some False"
    by (simp_all add: setShard_def isShardSet_def)
qed

lemma small_negative_peers:
  assumes "small_negative s" "wf_table t" "set visit \<subseteq> dom (shardPrefMap t)"
  shows "GetPeersInShard_loop t s visit acc = Some acc"
  using assms(3)
proof (induction visit)
  case Nil
  then show ?case by simp
next
  case (Cons p ps)
  then obtain ls where "shardPrefMap t p = Some ls" by auto
  with Cons show ?case
    using small_negative_vector(2) [OF assms(1) wf_tableD [OF assms(2)]] by simp
qed

lemma small_negative_advertise:
  assumes "small_negative s" "wf_table t"
  obtains t' ls where "wf_table t'" "pref t' = pref t"
    "dom (shardPrefMap t') = insert (h_ID h) (dom (shardPrefMap t))"
    "Advertise h ps (FormatInt s) t w =
      (let (perr, w1) = ps_Publish ps listeningShardTopic (toBytes ls) w in Some (perr, t', w1))"
proof -
  let ?ls = "case shardPrefMap t (h_ID h) of None \<Rightarrow> NewListeningShards | Some ls \<Rightarrow> ls"
  let ?t = "t\<lparr>shardPrefMap := (shardPrefMap t)(h_ID h \<mapsto> ?ls)\<rparr>"
  have wf: "wf_shards ?ls"
    using wf_tableD [OF assms(2), of "h_ID h"] by (auto split: option.splits)
  have "IsPeerListeningShard t (h_ID h) s = Some False"
    using small_negative_vector(2) [OF assms(1) wf_tableD [OF assms(2)]]
    by (auto simp: IsPeerListeningShard_def isPeerRecorded_def)
  moreover have "AddPeerListeningShard t (h_ID h) s = (None, ?t)"
    unfolding AddPeerListeningShard_def Let_def small_negative_vector(1) [OF assms(1) wf] by simp
  moreover have "GetPeerListeningShard ?t (h_ID h) = Some ?ls"
    by (simp add: GetPeerListeningShard_def isPeerRecorded_def)
  ultimately have "Advertise h ps (FormatInt s) t w =
      (let (perr, w1) = ps_Publish ps listeningShardTopic (toBytes ?ls) w in Some (perr, ?t, w1))"
    by (simp add: Advertise_def ParseInt_FormatInt)
  moreover have "pref ?t = pref t"
    by (auto simp: pref_update pref_def fun_eq_iff split: option.splits)
  ultimately show thesis
    using that [of ?t ?ls] wf_table_update [OF assms(2) wf] by simp
qed

section \<open>Properties\<close>

text \<open>
  C25: from -7 to -1 the manager subscribes what it can never leave.  In an environment in which
  nothing fails, \<open>ListenShard\<close> of such an identifier reports success and subscribes its topic, but the
  shard does not become listened to; hence \<open>UnlistenShard\<close> reports success without doing anything and
  the subscription stays.
\<close>

theorem negative_shard_never_left:
  assumes "sound_env e" and "wf_table (sm_table sm)" and "small_negative s"
    and "distinct visit" and "set visit = insert (e_self e) (dom (shardPrefMap (sm_table sm)))"
  shows "\<exists>sm' w'. ListenShard e visit rnd sched num s sm w = Some (None, sm', w')
    \<and> IsShardListened e sm' s = Some False \<and> IsCollationSubscribed sm' s
    \<and> (\<forall>w2. UnlistenShard e s sm' w2 = Some (None, sm', w2))"
proof -
  have e: "e_discovery e = NewGlobalTable (e_host e) (e_pubsub e)" "lists_distinct e" "publishes e" "subscribes e"
    using assms(1) by (simp_all add: sound_env_def uses_global_table_def)
  obtain t' ls where t': "wf_table t'" "pref t' = pref (sm_table sm)"
    "dom (shardPrefMap t') = insert (e_self e) (dom (shardPrefMap (sm_table sm)))"
    "Advertise (e_host e) (e_pubsub e) (FormatInt s) (sm_table sm) w = (let (perr, w1) =
        ps_Publish (e_pubsub e) listeningShardTopic (toBytes ls) w in Some (perr, t', w1))"
    by (rule small_negative_advertise [OF assms(3,2)])
  obtain w1 where pub: "ps_Publish (e_pubsub e) listeningShardTopic (toBytes ls) w = (None, w1)"
    using e(3) unfolding publishes_def by (metis prod.collapse)
  let ?sm = "sm\<lparr>sm_table := t'\<rparr>"
  have out: "s \<notin> pref t (e_self e)" for t
    using small_negative_invalid [OF assms(3)] pref_valid by blast
  have found: "d_FindPeers (e_discovery e) visit (FormatInt s) t' w1 = Some (Inr [])"
    unfolding e(1) using small_negative_peers [OF assms(3) t'(1), of visit "[]"] assms(5) t'(3)
    by (simp add: NewGlobalTable_def FindPeers_def ParseInt_FormatInt GetPeersInShard_def)
  obtain w2 where conn: "connectShardNodes e visit rnd sched num s ?sm w1 = Some (None, w2)"
  proof (cases "sint num \<le> int (length (ps_ListPeers (e_pubsub e) (getCollationsTopic s) w1))")
    case True
    with that show thesis
      using e(2) by (simp add: connectShardNodes_def lists_distinct_def distinct_remdups_id)
  next
    case False
    with that show thesis
      using e(2) found
      by (simp add: connectShardNodes_def lists_distinct_def distinct_remdups_id shardPeersToDial_def)
  qed
  obtain sm' w' where sub: "SubscribeCollation e s ?sm w2 = (None, sm', w')"
    using SubscribeCollation_succeeds [OF e(4), of s ?sm w2] by (metis prod.collapse)
  have sm': "sm_table sm' = t'" "IsCollationSubscribed sm' s"
    using SubscribeCollation_ok [OF sub] by (auto simp: IsCollationSubscribed_def)
  have adv: "d_Advertise (e_discovery e) (FormatInt s) (sm_table sm) w = Some (None, t', w1)"
    unfolding e(1) using t'(4) pub by (simp add: NewGlobalTable_def)
  have "ListenShard e visit rnd sched num s sm w = Some (None, sm', w')"
    using out assms(2) adv conn sub by (simp add: ListenShard_def IsShardListened_wf)
  then show ?thesis
    using out sm' t'(1) by (auto simp: IsShardListened_wf UnlistenShard_def)
qed

theorem negative_shard_never_left_witness:
  "\<exists>sm' w'. ListenShard sample_env [''self''] (\<lambda>_. 0) id 1 (- 1) sample_manager [] = Some (None, sm', w')
    \<and> IsShardListened sample_env sm' (- 1) = Some False \<and> IsCollationSubscribed sm' (- 1)
    \<and> (\<forall>w2. UnlistenShard sample_env (- 1) sm' w2 = Some (None, sm', w2))"
  by (rule negative_shard_never_left) (simp_all add: small_negative_def)

text \<open>
  A negative identifier can end the process.  If the node's own vector is recorded and is too
  short for the truncated byte index of a negative identifier, \<open>ListenShard\<close> of it panics.
\<close>

lemma negative_shard_panics:
  assumes "uses_global_table e" and "wf_table (sm_table sm)"
    and "shardPrefMap (sm_table sm) (e_self e) = Some ls"
    and "sint s < 0" and "length (shardBits ls) \<le> nat ((- (- sint s div 8)) mod 256)"
  shows "ListenShard e visit rnd sched num s sm w = None"
proof -
  have "isShardSet ls s = None"
    using assms(4,5) by (simp add: isShardSet_def shardIDToBitIndex_def byteSize_def go_div_def
        sdiv_neg unat_go_byte go_index_def del: of_int_minus)
  then have "Advertise (e_host e) (e_pubsub e) (FormatInt s) (sm_table sm) w = None"
    using assms(3)
    by (simp add: Advertise_def ParseInt_FormatInt IsPeerListeningShard_def isPeerRecorded_def)
  moreover have "s \<notin> pref (sm_table sm) (e_self e)"
    using assms(4) pref_valid by (fastforce simp: valid_shard_def)
  ultimately show ?thesis
    using assms(2) unfolding ListenShard_def uses_global_tableD(1) [OF assms(1)]
    by (simp add: IsShardListened_wf NewGlobalTable_def)
qed

end
