(* ===== verification/Bootstrapping.thy ===== *)
theory Bootstrapping
  imports Listening "HOL-Library.Multiset"
begin

text \<open>
  Model of \<open>src/bootstrap.go\<close> and of the bootstrapping half of \<open>src/node.go\<close>: reading the
  addresses of the bootnodes, dialling them, and switching the DHT's bootstrapping process on and
  off.  Switching is a two-state machine whose cancel function is present exactly in the state
  \<open>on\<close>; the locale \<open>switch\<close> states that contract, and the node's operations satisfy it.
\<close>

section \<open>Addresses\<close>

text \<open>
  \<open>ma.StringCast\<close> panics on a text that is no multiaddress and \<open>InfoFromP2pAddr\<close> returns an
  error on an address without a peer; both are parameters.
\<close>

type_synonym multiaddr = string

fun convertPeers_loop :: "(string \<Rightarrow> multiaddr run) \<Rightarrow> (multiaddr \<Rightarrow> go_error + PeerInfo)
    \<Rightarrow> string list \<Rightarrow> PeerInfo list \<Rightarrow> (go_error + PeerInfo list) run" where
  "convertPeers_loop stringCast infoFromAddr [] pinfos = Some (Inr pinfos)"
| "convertPeers_loop stringCast infoFromAddr (peer # peers) pinfos = do {
     maddr \<leftarrow> stringCast peer;
     (case infoFromAddr maddr of
        Inl err \<Rightarrow> Some (Inl err)
      | Inr p \<Rightarrow> convertPeers_loop stringCast infoFromAddr peers (pinfos @ [p]))
   }"

definition convertPeers :: "(string \<Rightarrow> multiaddr run) \<Rightarrow> (multiaddr \<Rightarrow> go_error + PeerInfo)
    \<Rightarrow> string list \<Rightarrow> (go_error + PeerInfo list) run" where
  "convertPeers stringCast infoFromAddr peers = convertPeers_loop stringCast infoFromAddr peers []"

section \<open>Dialling the bootnodes\<close>

text \<open>
  One goroutine per peer, run in the order \<open>sched\<close> gives: it records the peer's addresses,
  connects, and sends the error, if any, on the channel \<open>errs\<close>.
\<close>

fun bootstrap_dials :: "'w Host \<Rightarrow> PeerInfo list \<Rightarrow> 'w \<Rightarrow> go_error list \<times> 'w" where
  "bootstrap_dials ph [] w = ([], w)"
| "bootstrap_dials ph (p # ps) w =
     (let w1 = h_AddAddrs ph (pi_ID p) (pi_Addrs p) w;
          (err, w2) = h_Connect ph p w1;
          (errs, w3) = bootstrap_dials ph ps w2
      in (case err of None \<Rightarrow> errs | Some e \<Rightarrow> e # errs, w3))"

definition bootstrapConnect :: "'w Host \<Rightarrow> (PeerInfo list \<Rightarrow> PeerInfo list) \<Rightarrow> PeerInfo list \<Rightarrow> 'w
    \<Rightarrow> go_error option \<times> 'w" where
  "bootstrapConnect ph sched peers w =
     (if length peers < 1 then (Some NotEnoughBootstrapPeers, w)
      else
        let (errs, w1) = bootstrap_dials ph (sched peers) w;
            count = length errs
        in if count = length peers then (Some (Errorf ''Failed to bootstrap'' (last errs)), w1)
           else (None, w1))"

section \<open>Switching on and off\<close>

type_synonym go_context = nat
type_synonym cancel_func = nat

text \<open>The contexts and the DHT of the node.\<close>

record 'w NodeEnv =
  ne_sm :: "'w SMEnv"
  ne_ctx :: go_context
  ne_WithCancel :: "go_context \<Rightarrow> 'w \<Rightarrow> (go_context \<times> cancel_func) \<times> 'w"
  ne_cancel :: "cancel_func \<Rightarrow> 'w \<Rightarrow> 'w"
  ne_dht_Bootstrap :: "go_context \<Rightarrow> 'w \<Rightarrow> go_error option \<times> 'w"

record Node =
  n_manager :: ShardManager
  doBootstrapping :: bool
  cancelBootstrapping :: "cancel_func option"

abbreviation ne_host :: "'w NodeEnv \<Rightarrow> 'w Host" where
  "ne_host ne \<equiv> e_host (ne_sm ne)"

definition StartBootstrapping :: "'w NodeEnv \<Rightarrow> (PeerInfo list \<Rightarrow> PeerInfo list) \<Rightarrow> go_context
    \<Rightarrow> PeerInfo list \<Rightarrow> Node \<Rightarrow> 'w \<Rightarrow> go_error option \<times> Node \<times> 'w" where
  "StartBootstrapping ne sched ctx bootstrapPeers n w =
     (if doBootstrapping n then (None, n, w)
      else
        let (_, w1) = bootstrapConnect (ne_host ne) sched bootstrapPeers w;
            ((bootstrapCtx, cancel), w2) = ne_WithCancel ne ctx w1;
            (err, w3) = ne_dht_Bootstrap ne bootstrapCtx w2
        in (case err of
              Some e \<Rightarrow> (Some e, n, w3)
            | None \<Rightarrow> (None, n\<lparr>doBootstrapping := True, cancelBootstrapping := Some cancel\<rparr>, w3)))"

definition IsBootstrapping :: "Node \<Rightarrow> bool" where
  "IsBootstrapping n = doBootstrapping n"

text \<open>Calling a \<open>nil\<close> cancel function panics.\<close>

definition StopBootstrapping :: "'w NodeEnv \<Rightarrow> Node \<Rightarrow> 'w \<Rightarrow> (go_error option \<times> Node \<times> 'w) run" where
  "StopBootstrapping ne n w =
     (if \<not> doBootstrapping n then Some (None, n, w)
      else do {
        cancel \<leftarrow> cancelBootstrapping n;
        let w1 = ne_cancel ne cancel w;
        Some (None, n\<lparr>doBootstrapping := False, cancelBootstrapping := None\<rparr>, w1)
      })"

section \<open>The contract of a switch\<close>

text \<open>
  Something that can be started and stopped: starting may fail and then changes nothing, stopping
  never fails, and both lead to a state of which the other holds.
\<close>

locale switch =
  fixes start :: "'n \<Rightarrow> 'w \<Rightarrow> go_error option \<times> 'n \<times> 'w"
    and stop :: "'n \<Rightarrow> 'w \<Rightarrow> (go_error option \<times> 'n \<times> 'w) run"
    and is_on :: "'n \<Rightarrow> bool" and ok :: "'n \<Rightarrow> bool"
  assumes start_ok: "ok n \<Longrightarrow> start n w = (r, n', w') \<Longrightarrow> ok n' \<and> (r = None \<longrightarrow> is_on n') \<and> (r \<noteq> None \<longrightarrow> n' = n)"
    and start_on: "is_on n \<Longrightarrow> start n w = (None, n, w)"
    and stop_ok: "ok n \<Longrightarrow> \<exists>n' w'. stop n w = Some (None, n', w') \<and> ok n' \<and> \<not> is_on n'"
    and stop_off: "\<not> is_on n \<Longrightarrow> stop n w = Some (None, n, w)"
begin

lemma start_twice:
  assumes "ok n" "start n w = (None, n', w')"
  shows "start n' w2 = (None, n', w2)"
  using start_ok [OF assms] start_on by simp

lemma stop_twice:
  assumes "ok n" "stop n w = Some (r, n', w')"
  shows "stop n' w2 = Some (None, n', w2)"
  using stop_ok [OF assms(1), of w] assms(2) stop_off by auto

lemma restart:
  assumes "ok n" "start n w = (None, n1, w1)"
  shows "\<exists>n2 w2. stop n1 w1 = Some (None, n2, w2) \<and> ok n2 \<and> \<not> is_on n2"
  using start_ok [OF assms] stop_ok by blast

end

definition bootstrap_ok :: "Node \<Rightarrow> bool" where
  "bootstrap_ok n \<longleftrightarrow> (cancelBootstrapping n \<noteq> None \<longleftrightarrow> doBootstrapping n)"

lemma StartBootstrapping_cases:
  assumes "StartBootstrapping ne sched ctx peers n w = (r, n', w')"
  obtains "doBootstrapping n" "r = None" "n' = n" "w' = w"
  | "\<not> doBootstrapping n" "r \<noteq> None" "n' = n"
  | c where "\<not> doBootstrapping n" "r = None" "n' = n\<lparr>doBootstrapping := True, cancelBootstrapping := Some c\<rparr>"
  using assms by (auto simp: StartBootstrapping_def Let_def split: if_splits prod.splits option.splits)

interpretation dht: switch "StartBootstrapping ne sched ctx peers" "StopBootstrapping ne"
    IsBootstrapping bootstrap_ok
  for ne sched ctx peers
proof unfold_locales
  fix n n' :: Node and w w' r
  assume "bootstrap_ok n" "StartBootstrapping ne sched ctx peers n w = (r, n', w')"
  then show "bootstrap_ok n' \<and> (r = None \<longrightarrow> IsBootstrapping n') \<and> (r \<noteq> None \<longrightarrow> n' = n)"
    by (elim StartBootstrapping_cases) (auto simp: bootstrap_ok_def IsBootstrapping_def)
next
  fix n :: Node and w
  assume "IsBootstrapping n"
  then show "StartBootstrapping ne sched ctx peers n w = (None, n, w)"
    by (simp add: IsBootstrapping_def StartBootstrapping_def)
next
  fix n :: Node and w
  assume "bootstrap_ok n"
  then show "\<exists>n' w'. StopBootstrapping ne n w = Some (None, n', w') \<and> bootstrap_ok n' \<and> \<not> IsBootstrapping n'"
    by (auto simp: bootstrap_ok_def IsBootstrapping_def StopBootstrapping_def)
next
  fix n :: Node and w
  assume "\<not> IsBootstrapping n"
  then show "StopBootstrapping ne n w = Some (None, n, w)"
    by (simp add: IsBootstrapping_def StopBootstrapping_def)
qed

section \<open>Lemmas\<close>

text \<open>The addresses that convert, and to what.\<close>

definition converts :: "(string \<Rightarrow> multiaddr run) \<Rightarrow> (multiaddr \<Rightarrow> go_error + PeerInfo) \<Rightarrow> string \<Rightarrow> PeerInfo \<Rightarrow> bool" where
  "converts stringCast infoFromAddr s p \<longleftrightarrow> (\<exists>m. stringCast s = Some m \<and> infoFromAddr m = Inr p)"

lemma convertPeers_loop_ok:
  "convertPeers_loop cast info peers acc = Some (Inr ps) \<longleftrightarrow>
    (\<exists>qs. ps = acc @ qs \<and> list_all2 (converts cast info) peers qs)"
proof (induction peers arbitrary: acc)
  case Nil
  then show ?case by auto
next
  case (Cons s peers)
  show ?case
  proof (cases "\<exists>p. converts cast info s p")
    case True
    then obtain m p where p: "cast s = Some m" "info m = Inr p"
      by (auto simp: converts_def)
    then have "converts cast info s q \<longleftrightarrow> q = p" for q
      by (auto simp: converts_def)
    with p Cons show ?thesis by (auto simp: list_all2_Cons1)
  next
    case False
    then show ?thesis
      by (cases "cast s") (auto simp: converts_def list_all2_Cons1 split: sum.splits)
  qed
qed

lemma convertPeers_loop_panics:
  "convertPeers_loop cast info peers acc = None \<longleftrightarrow>
    (\<exists>good bad rest. peers = good @ bad # rest \<and> cast bad = None \<and> (\<forall>g\<in>set good. \<exists>p. converts cast info g p))"
proof (induction peers arbitrary: acc)
  case Nil
  then show ?case by simp
next
  case (Cons s peers)
  show ?case (is "?l \<longleftrightarrow> ?r")
  proof (cases "\<exists>p. converts cast info s p")
    case True
    then obtain m p where p: "cast s = Some m" "info m = Inr p"
      by (auto simp: converts_def)
    show ?thesis
    proof
      assume ?l
      then obtain good bad rest where "peers = good @ bad # rest" "cast bad = None"
        "\<forall>g\<in>set good. \<exists>p. converts cast info g p"
        using p Cons.IH by auto
      with True show ?r
        by (intro exI [of _ "s # good"] exI [of _ bad] exI [of _ rest]) simp
    next
      assume ?r
      then obtain good bad rest where r: "s # peers = good @ bad # rest" "cast bad = None"
        "\<forall>g\<in>set good. \<exists>p. converts cast info g p"
        by (elim exE conjE)
      with p obtain good' where "good = s # good'" by (cases good) auto
      with r have "convertPeers_loop cast info peers (acc @ [p]) = None"
        unfolding Cons.IH by (intro exI [of _ good'] exI [of _ bad] exI [of _ rest]) simp
      with p show ?l by simp
    qed
  next
    case False
    show ?thesis
    proof
      assume ?l
      with False have "cast s = None"
        by (cases "cast s") (auto simp: converts_def split: sum.splits)
      then show ?r by (intro exI [of _ "[]"] exI [of _ s] exI [of _ peers]) simp
    next
      assume ?r
      then obtain good bad rest where r: "s # peers = good @ bad # rest" "cast bad = None"
        "\<forall>g\<in>set good. \<exists>p. converts cast info g p"
        by (elim exE conjE)
      with False have "good = []" by (cases good) auto
      with r show ?l by simp
    qed
  qed
qed

lemma bootstrap_dials_errors:
  assumes "\<forall>p w. fst (h_Connect h p w) = conn p"
  shows "length (fst (bootstrap_dials h ps w)) = length (filter (\<lambda>p. conn p \<noteq> None) ps)"
proof (induction ps arbitrary: w)
  case (Cons p ps)
  obtain err w2 where c: "h_Connect h p (h_AddAddrs h (pi_ID p) (pi_Addrs p) w) = (err, w2)"
    by fastforce
  with assms have "conn p = err" by (metis fst_conv)
  with c Cons [of w2] show ?case
    by (auto simp: Let_def split: prod.splits option.splits)
qed simp

section \<open>Properties\<close>

text \<open>
  Reading the list of bootnodes.  The conversion succeeds exactly when every text is a
  multiaddress with a peer, and then gives these peers in order; it ends the process exactly when
  it meets a text that is no multiaddress before any other failure.
\<close>

lemma convertPeers_result:
  "(convertPeers cast info peers = Some (Inr ps) \<longleftrightarrow> list_all2 (converts cast info) peers ps)
   \<and> (convertPeers cast info peers = None \<longleftrightarrow>
       (\<exists>good bad rest. peers = good @ bad # rest \<and> cast bad = None
          \<and> (\<forall>g\<in>set good. \<exists>p. converts cast info g p)))"
  unfolding convertPeers_def using convertPeers_loop_ok convertPeers_loop_panics by simp

text \<open>
  C30: when dialling the bootnodes counts as failed.  If every dial's outcome depends on the peer
  alone, \<open>bootstrapConnect\<close> reports an error exactly when there is no peer or no dial succeeds,
  in whatever order the goroutines run.
\<close>

theorem bootstrapConnect_fails_iff:
  assumes "mset (sched peers) = mset peers" and "\<forall>p w. fst (h_Connect h p w) = conn p"
  shows "fst (bootstrapConnect h sched peers w) \<noteq> None \<longleftrightarrow> (\<forall>p\<in>set peers. conn p \<noteq> None)"
proof -
  have len: "length (filter P (sched peers)) = length (filter P peers)" for P
    using assms(1) by (metis mset_filter size_mset)
  obtain errs w1 where d: "bootstrap_dials h (sched peers) w = (errs, w1)"
    by fastforce
  then have "length errs = length (filter (\<lambda>p. conn p \<noteq> None) peers)"
    using bootstrap_dials_errors [OF assms(2), of "sched peers" w] len by simp
  moreover have "length (filter (\<lambda>p. conn p \<noteq> None) peers) = length peers \<longleftrightarrow> (\<forall>p\<in>set peers. conn p \<noteq> None)"
    by (metis (mono_tags, lifting) filter_True length_filter_less less_irrefl)
  ultimately show ?thesis
    using d by (cases peers) (auto simp: bootstrapConnect_def Let_def)
qed

theorem bootstrapConnect_fails_iff_witness:
  "fst (bootstrapConnect sample_host rev [\<lparr>pi_ID = ''a'', pi_Addrs = []\<rparr>] []) = None
    \<and> fst (bootstrapConnect sample_host rev [] []) \<noteq> None"
  using bootstrapConnect_fails_iff [of rev "[\<lparr>pi_ID = ''a'', pi_Addrs = []\<rparr>]" sample_host "\<lambda>_. None" "[]"]
    bootstrapConnect_fails_iff [of rev "[]" sample_host "\<lambda>_. None" "[]"]
  by (simp add: sample_host_def)

text \<open>
  C29: bootstrapping is a switch.  From a node on which it is off, a successful start turns it on and
  touches nothing else of the node; started again it does nothing; stopping then calls the cancel
  function of the very context the start created and gives back the node as it was.  A start that
  fails leaves the node unchanged, and a stop of a node whose bootstrapping is off does nothing.
\<close>

theorem bootstrapping_switch:
  assumes "bootstrap_ok n" and "\<not> IsBootstrapping n" and "StartBootstrapping ne sched ctx peers n w = (r, n1, w1)"
  shows "(r \<noteq> None \<longrightarrow> n1 = n) \<and> StopBootstrapping ne n w2 = Some (None, n, w2)
    \<and> (r = None \<longrightarrow> IsBootstrapping n1 \<and> n_manager n1 = n_manager n
        \<and> StartBootstrapping ne sched2 ctx2 peers2 n1 w2 = (None, n1, w2)
        \<and> (\<exists>c v v' bctx. ne_WithCancel ne ctx v = ((bctx, c), v')
             \<and> StopBootstrapping ne n1 w2 = Some (None, n, ne_cancel ne c w2)))"
proof (intro conjI impI)
  show "n1 = n" if "r \<noteq> None"
    using dht.start_ok [OF assms(1,3)] that by simp
  show "StopBootstrapping ne n w2 = Some (None, n, w2)"
    using assms(2) by (rule dht.stop_off)
  assume r: "r = None"
  show "IsBootstrapping n1" using dht.start_ok [OF assms(1,3)] r by simp
  show "StartBootstrapping ne sched2 ctx2 peers2 n1 w2 = (None, n1, w2)"
    using dht.start_ok [OF assms(1,3)] r by (intro dht.start_on) simp
  have off: "\<not> doBootstrapping n" "cancelBootstrapping n = None"
    using assms(1,2) by (auto simp: bootstrap_ok_def IsBootstrapping_def)
  then obtain c v v' bctx where c: "ne_WithCancel ne ctx v = ((bctx, c), v')"
    "n1 = n\<lparr>doBootstrapping := True, cancelBootstrapping := Some c\<rparr>"
    using assms(3) r by (auto simp: StartBootstrapping_def Let_def split: prod.splits option.splits)
  then show "n_manager n1 = n_manager n" by simp
  have "n1\<lparr>doBootstrapping := False, cancelBootstrapping := None\<rparr> = n"
    using c(2) off by (cases n) simp
  then have "StopBootstrapping ne n1 w2 = Some (None, n, ne_cancel ne c w2)"
    using c(2) by (simp add: StopBootstrapping_def Let_def)
  with c(1) show "\<exists>c v v' bctx. ne_WithCancel ne ctx v = ((bctx, c), v')
      \<and> StopBootstrapping ne n1 w2 = Some (None, n, ne_cancel ne c w2)" by blast
qed

section \<open>Sample node\<close>

definition sample_node_env :: "sample_world NodeEnv" where
  "sample_node_env = \<lparr>ne_sm = sample_env, ne_ctx = 0, ne_WithCancel = (\<lambda>ctx w. ((Suc ctx, 7), w)),
     ne_cancel = (\<lambda>c w. w @ [(''cancelled'', [of_nat c])]), ne_dht_Bootstrap = (\<lambda>ctx w. (None, w))\<rparr>"

definition sample_node :: Node where
  "sample_node = \<lparr>n_manager = sample_manager, doBootstrapping = False, cancelBootstrapping = None\<rparr>"

lemma sample_node_ok [simp]: "bootstrap_ok sample_node" "\<not> IsBootstrapping sample_node"
  by (simp_all add: bootstrap_ok_def IsBootstrapping_def sample_node_def)

lemma sample_start:
  "StartBootstrapping sample_node_env id 0 [] sample_node w =
    (None, sample_node\<lparr>doBootstrapping := True, cancelBootstrapping := Some 7\<rparr>, w)"
  by (simp add: StartBootstrapping_def sample_node_env_def sample_node_def bootstrapConnect_def)

theorem bootstrapping_switch_witness:
  "IsBootstrapping (sample_node\<lparr>doBootstrapping := True, cancelBootstrapping := Some 7\<rparr>)
    \<and> (\<exists>w2. StopBootstrapping sample_node_env (sample_node\<lparr>doBootstrapping := True, cancelBootstrapping := Some 7\<rparr>) []
        = Some (None, sample_node, w2))"
  using bootstrapping_switch [OF sample_node_ok sample_start, of "[]" id 0 "[]"] by blast

end
