(* ===== verification/Requests.thy ===== *)
theory Requests
  imports ShardManager
begin

text \<open>
  Model of \<open>src/requests.go\<close>, the request protocols between two peers: asking a peer which peers
  it knows in some shards, and the general request that is answered by the host of the other peer.
  A stream is a number, the two ends of a connection are two streams, and the multicodec encoders
  and decoders on them are parameters (\<open>wire\<close>).  Both sides are modelled, handler and requester, and
  composed by \<open>await\<close>: while the requester blocks in reading the response, the handler of the
  other node runs.
\<close>

section \<open>Messages and protocols\<close>

record ShardPeerRequest =
  sr_ShardIDs :: "PBInt list"

record ShardPeerResponse =
  sp_Response :: "Response option"
  sp_ShardPeers :: "PBInt \<rightharpoonup> PBPeers option"

record GeneralRequest =
  gr_MsgType :: PBInt
  gr_Data :: bytes

record GeneralResponse =
  gs_Data :: bytes

definition shardPeerRequestProtocol :: string where
  "shardPeerRequestProtocol = ''/shardPeerRequest/1.0.0''"

definition generalRequestProtocol :: string where
  "generalRequestProtocol = ''/generalRequest/1.0.0''"

text \<open>The two methods a new request protocol registers as stream handlers of the node.\<close>

datatype request_handler = OnShardPeerRequest | OnGeneralRequest

definition NewRequestProtocol :: "(string \<Rightarrow> request_handler \<Rightarrow> 'w \<Rightarrow> 'w) \<Rightarrow> 'w \<Rightarrow> 'w" where
  "NewRequestProtocol setStreamHandler w =
     setStreamHandler generalRequestProtocol OnGeneralRequest
       (setStreamHandler shardPeerRequestProtocol OnShardPeerRequest w)"

section \<open>Reading and writing messages\<close>

definition readProtoMessage :: "('m, 'w) wire \<Rightarrow> stream \<Rightarrow> 'w \<Rightarrow> (go_error + 'm) \<times> 'w" where
  "readProtoMessage c s w = wire_Decode c s w"

text \<open>The result of \<open>writer.Flush\<close> is dropped.\<close>

definition sendProtoMessage :: "'w Network \<Rightarrow> ('m, 'w) wire \<Rightarrow> 'm \<Rightarrow> stream \<Rightarrow> 'w \<Rightarrow> go_error option \<times> 'w" where
  "sendProtoMessage net c data s w =
     (case wire_Encode c s data w of
        (Some err, w1) \<Rightarrow> (Some err, w1)
      | (None, w1) \<Rightarrow> (None, snd (net_Flush net s w1)))"

section \<open>Peers of shards\<close>

text \<open>
  The answer is collected shard by shard; \<open>visits\<close> gives the order in which each of the calls ranges
  over the table.
\<close>

fun shardPeers_loop :: "printer \<Rightarrow> (nat \<Rightarrow> peer_ID list) \<Rightarrow> ShardPrefTable \<Rightarrow> ShardIDType list
    \<Rightarrow> (ShardIDType \<rightharpoonup> PBPeers option) \<Rightarrow> (ShardIDType \<rightharpoonup> PBPeers option) run" where
  "shardPeers_loop pretty visits t [] shardPeers = Some shardPeers"
| "shardPeers_loop pretty visits t (shardID # rest) shardPeers = do {
     peerIDs \<leftarrow> GetPeersInShard t (visits (length rest)) shardID;
     shardPeers_loop pretty visits t rest (shardPeers(shardID \<mapsto> Some (peerIDsToPBPeers pretty peerIDs)))
   }"

definition onShardPeerRequest :: "'w Network \<Rightarrow> (ShardPeerRequest, 'w) wire \<Rightarrow> (ShardPeerResponse, 'w) wire
    \<Rightarrow> printer \<Rightarrow> (nat \<Rightarrow> peer_ID list) \<Rightarrow> ShardPrefTable \<Rightarrow> stream \<Rightarrow> 'w \<Rightarrow> 'w run" where
  "onShardPeerRequest net reqw resw pretty visits t s w = do {
     w' \<leftarrow> (case readProtoMessage reqw s w of
              (Inl err, w1) \<Rightarrow> Some w1
            | (Inr req, w1) \<Rightarrow> do {
                shardPeers \<leftarrow> shardPeers_loop pretty visits t (sr_ShardIDs req) Map.empty;
                let res = \<lparr>sp_Response = Some \<lparr>Status = Response_SUCCESS, Message = ''''\<rparr>,
                           sp_ShardPeers = shardPeers\<rparr>;
                Some (snd (sendProtoMessage net resw res s w1))
              });
     Some (net_FullClose net s w')
   }"

text \<open>Decoding the response: \<open>keys\<close> is the order in which its map is ranged over.\<close>

fun convertShardPeers_loop :: "decoder \<Rightarrow> (ShardIDType \<rightharpoonup> PBPeers option) \<Rightarrow> ShardIDType list
    \<Rightarrow> (ShardIDType \<rightharpoonup> peer_ID list) \<Rightarrow> (go_error + (ShardIDType \<rightharpoonup> peer_ID list)) run" where
  "convertShardPeers_loop decode res [] shardPeers = Some (Inr shardPeers)"
| "convertShardPeers_loop decode res (shardID # keys) shardPeers = do {
     entry \<leftarrow> res shardID;
     peers \<leftarrow> entry;
     (case pbPeersToPeerIDs decode peers of
        Inl err \<Rightarrow> Some (Inl (Errorf ''Failed to convert peer ID from PB string to peerID format'' err))
      | Inr peerIDs \<Rightarrow> convertShardPeers_loop decode res keys (shardPeers(shardID \<mapsto> peerIDs)))
   }"

definition requestShardPeer :: "'w Network \<Rightarrow> (ShardPeerRequest, 'w) wire \<Rightarrow> (ShardPeerResponse, 'w) wire
    \<Rightarrow> decoder \<Rightarrow> ((ShardIDType \<rightharpoonup> PBPeers option) \<Rightarrow> ShardIDType list) \<Rightarrow> peer_ID \<Rightarrow> ShardIDType list \<Rightarrow> 'w
    \<Rightarrow> ((go_error + (ShardIDType \<rightharpoonup> peer_ID list)) \<times> 'w) run" where
  "requestShardPeer net reqw resw decode keys peerID shardIDs w =
     (case net_NewStream net peerID shardPeerRequestProtocol w of
        (Inl err, w1) \<Rightarrow> Some (Inl (NewError ''failed to open new stream''), w1)
      | (Inr s, w1) \<Rightarrow> do {
          (r, w') \<leftarrow> (case sendProtoMessage net reqw \<lparr>sr_ShardIDs = shardIDs\<rparr> s w1 of
             (Some err, w2) \<Rightarrow> Some (Inl (Errorf ''failed to send request'' err), w2)
           | (None, w2) \<Rightarrow>
               (case readProtoMessage resw s w2 of
                  (Inl err, w3) \<Rightarrow> Some (Inl (NewError ''failed to read response proto''), w3)
                | (Inr res, w3) \<Rightarrow> do {
                    shardPeers \<leftarrow> convertShardPeers_loop decode (sp_ShardPeers res) (keys (sp_ShardPeers res)) Map.empty;
                    Some (shardPeers, w3)
                  }));
          Some (r, net_Close net s w')
        })"

section \<open>General requests\<close>

definition onGeneralRequest :: "'w Network \<Rightarrow> (GeneralRequest, 'w) wire \<Rightarrow> (GeneralResponse, 'w) wire
    \<Rightarrow> 'w EventNotifier \<Rightarrow> stream \<Rightarrow> 'w \<Rightarrow> 'w run" where
  "onGeneralRequest net reqw resw receive s w = do {
     w' \<leftarrow> (case readProtoMessage reqw s w of
              (Inl err, w1) \<Rightarrow> Some w1
            | (Inr req, w1) \<Rightarrow> do {
                let peerID = net_RemotePeer net s;
                (r, w2) \<leftarrow> receive peerID (gr_MsgType req) (gr_Data req) w1;
                (case r of
                   Inl err \<Rightarrow> Some w2
                 | Inr dataBytes \<Rightarrow> Some (snd (sendProtoMessage net resw \<lparr>gs_Data = dataBytes\<rparr> s w2)))
              });
     Some (net_FullClose net s w')
   }"

text \<open>The requester does not close its stream.\<close>

definition generalRequest :: "'w Network \<Rightarrow> (GeneralRequest, 'w) wire \<Rightarrow> (GeneralResponse, 'w) wire
    \<Rightarrow> peer_ID \<Rightarrow> int64 \<Rightarrow> bytes \<Rightarrow> 'w \<Rightarrow> (go_error + bytes) \<times> 'w" where
  "generalRequest net reqw resw peerID msgType data w =
     (case net_NewStream net peerID generalRequestProtocol w of
        (Inl err, w1) \<Rightarrow> (Inl (Errorf ''failed to open new stream'' err), w1)
      | (Inr s, w1) \<Rightarrow>
          (case sendProtoMessage net reqw \<lparr>gr_MsgType = msgType, gr_Data = data\<rparr> s w1 of
             (Some err, w2) \<Rightarrow> (Inl (Errorf ''failed to send request'' err), w2)
           | (None, w2) \<Rightarrow>
               (case readProtoMessage resw s w2 of
                  (Inl err, w3) \<Rightarrow> (Inl (NewError ''failed to read response proto''), w3)
                | (Inr resp, w3) \<Rightarrow> (Inr (gs_Data resp), w3))))"

section \<open>The two ends together\<close>

text \<open>
  While a requester is blocked in reading, the handler of the other node runs; if that node dies
  in it, the stream breaks.
\<close>

definition await :: "('m, 'w) wire \<Rightarrow> (stream \<Rightarrow> 'w \<Rightarrow> 'w run) \<Rightarrow> ('m, 'w) wire" where
  "await c handle = c\<lparr>wire_Decode := (\<lambda>s w.
     case handle s w of
       None \<Rightarrow> (Inl (External ''stream reset''), w)
     | Some w1 \<Rightarrow> wire_Decode c s w1)\<rparr>"

text \<open>
  A working connection carries a message: sending it on one end succeeds, and the other end then
  reads it, also after the sender has closed its end.
\<close>

definition carries :: "'w Network \<Rightarrow> ('m, 'w) wire \<Rightarrow> (stream \<Rightarrow> stream) \<Rightarrow> 'm \<Rightarrow> bool" where
  "carries net c far m \<longleftrightarrow> (\<forall>s w. \<exists>w1. sendProtoMessage net c m s w = (None, w1)
     \<and> fst (readProtoMessage c (far s) w1) = Inr m
     \<and> fst (readProtoMessage c (far s) (net_FullClose net s w1)) = Inr m)"

text \<open>The contract of a handler: when it returns it has closed its stream, on every branch.\<close>

locale stream_handler =
  fixes net :: "'w Network" and handle :: "stream \<Rightarrow> 'w \<Rightarrow> 'w run"
  assumes closes: "handle s w = Some w' \<Longrightarrow> \<exists>w1. w' = net_FullClose net s w1"
begin

lemma await_reads_closed:
  assumes "readProtoMessage (await c (\<lambda>s. handle (far s))) s w = (Inr m, w2)"
  shows "\<exists>w1. readProtoMessage c s (net_FullClose net (far s) w1) = (Inr m, w2)"
  using assms closes by (force simp: readProtoMessage_def await_def split: option.splits)

lemma await_crashed:
  "handle (far s) w = None \<Longrightarrow>
    readProtoMessage (await c (\<lambda>s. handle (far s))) s w = (Inl (External ''stream reset''), w)"
  by (simp add: readProtoMessage_def await_def)

lemma await_returned:
  "handle (far s) w = Some w1 \<Longrightarrow> readProtoMessage (await c (\<lambda>s. handle (far s))) s w = readProtoMessage c s w1"
  by (simp add: readProtoMessage_def await_def)

end

interpretation shard_peer: stream_handler net "onShardPeerRequest net reqw resw pretty visits t"
  for net reqw resw pretty visits t
  by unfold_locales (auto simp: onShardPeerRequest_def bind_eq_Some_iff)

interpretation general: stream_handler net "onGeneralRequest net reqw resw receive"
  for net reqw resw receive
  by unfold_locales (auto simp: onGeneralRequest_def bind_eq_Some_iff)

section \<open>Lemmas\<close>

lemma send_ignores_close:
  "sendProtoMessage (net\<lparr>net_Close := close, net_FullClose := fullClose\<rparr>) = sendProtoMessage net"
  by (intro ext) (simp add: sendProtoMessage_def split: prod.splits option.splits)

lemma carriesE:
  assumes "carries net c far m"
  obtains w1 w2 w3 where "sendProtoMessage net c m s w = (None, w1)"
    "readProtoMessage c (far s) w1 = (Inr m, w2)"
    "readProtoMessage c (far s) (net_FullClose net s w1) = (Inr m, w3)"
  using assms unfolding carries_def by (metis prod.collapse)

definition peers_of_shard :: "printer \<Rightarrow> ShardPrefTable \<Rightarrow> ShardIDType \<Rightarrow> PBPeers option \<Rightarrow> bool" where
  "peers_of_shard pretty t s entry \<longleftrightarrow> (\<exists>ps. entry = Some (peerIDsToPBPeers pretty ps)
     \<and> distinct ps \<and> set ps = {p. s \<in> pref t p})"

lemma shardPeers_loop_wf:
  assumes "wf_table t" "\<forall>n. range_visit t (visits n)"
    and "\<forall>s\<in>set ss. valid_shard s" "\<forall>s e. m s = Some e \<longrightarrow> peers_of_shard pretty t s e"
  shows "\<exists>m'. shardPeers_loop pretty visits t ss m = Some m' \<and> dom m' = dom m \<union> set ss
    \<and> (\<forall>s e. m' s = Some e \<longrightarrow> peers_of_shard pretty t s e)"
  using assms(3,4)
proof (induction ss arbitrary: m)
  case Nil
  then show ?case by simp
next
  case (Cons s ss)
  let ?ps = "filter (\<lambda>p. s \<in> pref t p) (visits (length ss))"
  let ?m = "m(s \<mapsto> Some (peerIDsToPBPeers pretty ?ps))"
  have v: "range_visit t (visits (length ss))" using assms(2) by blast
  have "GetPeersInShard t (visits (length ss)) s = Some ?ps"
    using GetPeersInShard_wf [OF assms(1) _ v] Cons.prems(1) by simp
  moreover have "peers_of_shard pretty t s (Some (peerIDsToPBPeers pretty ?ps))"
    unfolding peers_of_shard_def using v
    by (intro exI [of _ ?ps]) (auto simp: range_visit_def dest: pref_dom)
  then have "\<exists>m'. shardPeers_loop pretty visits t ss ?m = Some m' \<and> dom m' = dom ?m \<union> set ss
    \<and> (\<forall>s e. m' s = Some e \<longrightarrow> peers_of_shard pretty t s e)"
    using Cons.prems by (intro Cons.IH) auto
  ultimately show ?case by auto
qed

lemma shardPeers_loop_panics:
  assumes "s \<in> set ss" "\<forall>n. GetPeersInShard t (visits n) s = None"
  shows "shardPeers_loop pretty visits t ss m = None"
  using assms(1)
proof (induction ss arbitrary: m)
  case (Cons x xs)
  then show ?case
    using assms(2) by (cases "GetPeersInShard t (visits (length xs)) x") auto
qed simp

lemma convertShardPeers_loop_ok:
  assumes "\<forall>s\<in>set keys. \<exists>e ids. res s = Some (Some e) \<and> pbPeersToPeerIDs decode e = Inr ids"
  shows "\<exists>m'. convertShardPeers_loop decode res keys m = Some (Inr m') \<and> dom m' = dom m \<union> set keys
    \<and> (\<forall>s. s \<notin> set keys \<longrightarrow> m' s = m s)
    \<and> (\<forall>s\<in>set keys. \<exists>e ids. res s = Some (Some e) \<and> pbPeersToPeerIDs decode e = Inr ids \<and> m' s = Some ids)"
  using assms
proof (induction keys arbitrary: m)
  case Nil
  then show ?case by simp
next
  case (Cons s keys)
  obtain e ids where e: "res s = Some (Some e)" "pbPeersToPeerIDs decode e = Inr ids"
    using Cons.prems by auto
  have "\<forall>s\<in>set keys. \<exists>e ids. res s = Some (Some e) \<and> pbPeersToPeerIDs decode e = Inr ids"
    using Cons.prems by simp
  then have "\<exists>m'. convertShardPeers_loop decode res keys (m(s \<mapsto> ids)) = Some (Inr m')
      \<and> dom m' = dom (m(s \<mapsto> ids)) \<union> set keys \<and> (\<forall>k. k \<notin> set keys \<longrightarrow> m' k = (m(s \<mapsto> ids)) k)
      \<and> (\<forall>k\<in>set keys. \<exists>e ids. res k = Some (Some e) \<and> pbPeersToPeerIDs decode e = Inr ids \<and> m' k = Some ids)"
    by (rule Cons.IH)
  then obtain m' where m': "convertShardPeers_loop decode res keys (m(s \<mapsto> ids)) = Some (Inr m')"
    "dom m' = dom (m(s \<mapsto> ids)) \<union> set keys" "\<forall>k. k \<notin> set keys \<longrightarrow> m' k = (m(s \<mapsto> ids)) k"
    "\<forall>k\<in>set keys. \<exists>e ids. res k = Some (Some e) \<and> pbPeersToPeerIDs decode e = Inr ids \<and> m' k = Some ids"
    by (elim exE conjE)
  have "m' s = Some ids"
    using m'(3,4) e by (cases "s \<in> set keys") auto
  moreover have "convertShardPeers_loop decode res (s # keys) m = Some (Inr m')"
    using e m'(1) by simp
  moreover have "dom m' = dom m \<union> set (s # keys)" "\<forall>k. k \<notin> set (s # keys) \<longrightarrow> m' k = m k"
    using m'(2,3) by auto
  ultimately show ?case using m'(4) e by auto
qed

lemma convertShardPeers_loop_answer:
  assumes "\<forall>s e. res s = Some e \<longrightarrow> peers_of_shard pretty t s e"
    and "\<forall>p\<in>dom (shardPrefMap t). decode (pretty p) = Inr p" and "set keys = dom res"
  shows "\<exists>m. convertShardPeers_loop decode res keys Map.empty = Some (Inr m) \<and> dom m = set keys
    \<and> (\<forall>s\<in>set keys. \<exists>ps. m s = Some ps \<and> distinct ps \<and> set ps = {q. s \<in> pref t q})"
proof -
  have entry: "\<exists>ps. res s = Some (Some (peerIDsToPBPeers pretty ps))
      \<and> pbPeersToPeerIDs decode (peerIDsToPBPeers pretty ps) = Inr ps
      \<and> distinct ps \<and> set ps = {q. s \<in> pref t q}" if s: "s \<in> set keys" for s
  proof -
    obtain e where "res s = Some e" using assms(3) s by blast
    then obtain ps where ps: "res s = Some (Some (peerIDsToPBPeers pretty ps))" "distinct ps"
      "set ps = {q. s \<in> pref t q}"
      using assms(1) unfolding peers_of_shard_def by blast
    then have "reads_back decode pretty ps"
      using assms(2) by (auto simp: reads_back_def dest: pref_dom)
    with ps show ?thesis using pbPeers_roundtrip by blast
  qed
  then have "\<forall>s\<in>set keys. \<exists>e ids. res s = Some (Some e) \<and> pbPeersToPeerIDs decode e = Inr ids"
    by blast
  from convertShardPeers_loop_ok [OF this, of Map.empty] obtain m where
    m: "convertShardPeers_loop decode res keys Map.empty = Some (Inr m)" "dom m = set keys"
      "\<forall>s\<in>set keys. \<exists>e ids. res s = Some (Some e) \<and> pbPeersToPeerIDs decode e = Inr ids \<and> m s = Some ids"
    by (elim exE conjE) simp
  have "\<forall>s\<in>set keys. \<exists>ps. m s = Some ps \<and> distinct ps \<and> set ps = {q. s \<in> pref t q}"
  proof
    fix s assume s: "s \<in> set keys"
    from bspec [OF m(3) s] entry [OF s]
    show "\<exists>ps. m s = Some ps \<and> distinct ps \<and> set ps = {q. s \<in> pref t q}" by auto
  qed
  with m(1,2) show ?thesis by blast
qed

section \<open>A sample connection\<close>

text \<open>
  The world remembers the last message sent on each end; stream 0 of the requester is connected
  to stream 1 of the handler.
\<close>

definition sample_far :: "stream \<Rightarrow> stream" where
  "sample_far s = (if s = 0 then 1 else if s = 1 then 0 else s)"

definition sample_network :: "'w Network" where
  "sample_network = \<lparr>net_NewStream = (\<lambda>p proto w. (Inr 0, w)), net_Close = (\<lambda>s w. w),
     net_FullClose = (\<lambda>s w. w), net_RemotePeer = (\<lambda>s. ''requester''), net_Flush = (\<lambda>s w. (None, w))\<rparr>"

definition sample_wire :: "('m \<Rightarrow> 'c) \<Rightarrow> ('c \<Rightarrow> 'm option) \<Rightarrow> ('m, stream \<Rightarrow> 'c option) wire" where
  "sample_wire pack unpack = \<lparr>
     wire_Encode = (\<lambda>s m w. (None, w(s \<mapsto> pack m))),
     wire_Decode = (\<lambda>s w. (case Option.bind (w (sample_far s)) unpack of
        None \<Rightarrow> Inl (External ''EOF'') | Some m \<Rightarrow> Inr m, w))\<rparr>"

lemma sample_far_far [simp]: "sample_far (sample_far s) = s"
  by (simp add: sample_far_def)

lemma sample_carries:
  "unpack (pack m) = Some m \<Longrightarrow> carries sample_network (sample_wire pack unpack) sample_far m"
  by (simp add: carries_def sendProtoMessage_def readProtoMessage_def sample_network_def sample_wire_def)

lemma sample_NewStream: "net_NewStream sample_network p proto w = (Inr 0, w)"
  by (simp add: sample_network_def)

datatype sample_packet = ShardPacket ShardPeerRequest | PeersPacket ShardPeerResponse
  | AskPacket GeneralRequest | AnswerPacket GeneralResponse

fun unShardPacket where
  "unShardPacket (ShardPacket m) = Some m"
| "unShardPacket _ = None"

fun unPeersPacket where
  "unPeersPacket (PeersPacket m) = Some m"
| "unPeersPacket _ = None"

fun unAskPacket where
  "unAskPacket (AskPacket m) = Some m"
| "unAskPacket _ = None"

fun unAnswerPacket where
  "unAnswerPacket (AnswerPacket m) = Some m"
| "unAnswerPacket _ = None"

section \<open>Properties\<close>

text \<open>
  C13: asking a peer for the peers of shards.  Over a working connection, a request for valid shards
  to a node whose table is well-formed succeeds.  The answer has exactly the shards asked for, and
  for each of them the peers that the asked node has recorded in it, each once; the requester's
  stream is closed.
\<close>

theorem requestShardPeer_exact:
  assumes "wf_table t" and "\<forall>n. range_visit t (visits n)" and "\<forall>s\<in>set shardIDs. valid_shard s"
    and "\<forall>p\<in>dom (shardPrefMap t). decode (pretty p) = Inr p"
    and "carries net reqw far \<lparr>sr_ShardIDs = shardIDs\<rparr>" and "\<forall>res. carries net resw far res"
    and "\<forall>s. far (far s) = s" and "net_NewStream net p shardPeerRequestProtocol w = (Inr st, w0)"
    and "\<forall>m. dom m = set shardIDs \<longrightarrow> distinct (keys m) \<and> set (keys m) = dom m"
  shows "\<exists>m w1. requestShardPeer net reqw
        (await resw (\<lambda>s. onShardPeerRequest net reqw resw pretty visits t (far s))) decode keys p shardIDs w
      = Some (Inr m, net_Close net st w1)
    \<and> dom m = set shardIDs
    \<and> (\<forall>s\<in>set shardIDs. \<exists>ps. m s = Some ps \<and> distinct ps \<and> set ps = {q. s \<in> pref t q})"
proof -
  obtain sp where sp: "shardPeers_loop pretty visits t shardIDs Map.empty = Some sp" "dom sp = set shardIDs"
    "\<forall>s e. sp s = Some e \<longrightarrow> peers_of_shard pretty t s e"
    using shardPeers_loop_wf [OF assms(1,2,3), of Map.empty pretty] by auto
  let ?res = "\<lparr>sp_Response = Some \<lparr>Status = Response_SUCCESS, Message = ''''\<rparr>, sp_ShardPeers = sp\<rparr>"
  obtain w1 w2 where req: "sendProtoMessage net reqw \<lparr>sr_ShardIDs = shardIDs\<rparr> st w0 = (None, w1)"
    "readProtoMessage reqw (far st) w1 = (Inr \<lparr>sr_ShardIDs = shardIDs\<rparr>, w2)"
    by (rule carriesE [OF assms(5)])
  obtain w3 w4 where res: "sendProtoMessage net resw ?res (far st) w2 = (None, w3)"
    "readProtoMessage resw (far (far st)) (net_FullClose net (far st) w3) = (Inr ?res, w4)"
    by (rule carriesE [OF spec [OF assms(6)]])
  have "onShardPeerRequest net reqw resw pretty visits t (far st) w1 = Some (net_FullClose net (far st) w3)"
    using req(2) sp(1) res(1) by (simp add: onShardPeerRequest_def)
  from shard_peer.await_returned [where c = resw and far = far, OF this]
  have read: "readProtoMessage (await resw (\<lambda>s. onShardPeerRequest net reqw resw pretty visits t (far s))) st w1
      = (Inr ?res, w4)"
    using res(2) assms(7) by simp
  have keys: "set (keys sp) = set shardIDs" using assms(9) sp(2) by blast
  obtain m where m: "convertShardPeers_loop decode sp (keys sp) Map.empty = Some (Inr m)"
    "dom m = set shardIDs"
    "\<forall>s\<in>set shardIDs. \<exists>ps. m s = Some ps \<and> distinct ps \<and> set ps = {q. s \<in> pref t q}"
    using convertShardPeers_loop_answer [OF sp(3) assms(4), of "keys sp"] sp(2) unfolding keys by auto
  then have "requestShardPeer net reqw
      (await resw (\<lambda>s. onShardPeerRequest net reqw resw pretty visits t (far s))) decode keys p shardIDs w
      = Some (Inr m, net_Close net st w4)"
    using assms(8) req(1) read by (simp add: requestShardPeer_def)
  with m(2,3) show ?thesis by blast
qed

theorem requestShardPeer_exact_witness:
  "\<exists>m w1. requestShardPeer sample_network (sample_wire ShardPacket unShardPacket)
      (await (sample_wire PeersPacket unPeersPacket) (\<lambda>s. onShardPeerRequest sample_network
         (sample_wire ShardPacket unShardPacket) (sample_wire PeersPacket unPeersPacket) id (\<lambda>_. [''q''])
         (SetPeerListeningShard NewShardPrefTable ''q'' (fromSlice NewListeningShards [42])) (sample_far s)))
      Inr (\<lambda>m. [42]) ''p'' [42] Map.empty = Some (Inr m, net_Close sample_network 0 w1)
    \<and> dom m = set [42] \<and> (\<forall>s\<in>set [42]. \<exists>ps. m s = Some ps \<and> distinct ps
        \<and> set ps = {q. s \<in> pref (SetPeerListeningShard NewShardPrefTable ''q'' (fromSlice NewListeningShards [42])) q})"
  by (rule requestShardPeer_exact)
    (simp_all add: valid_shard_def range_visit_def SetPeerListeningShard_def NewShardPrefTable_def
      sample_carries sample_NewStream wf_table_def)

text \<open>
  C24: a single preference message can end a node.  Suppose the last preference a node received from
  some peer has too few bytes for shard \<open>k\<close>.  Then a request for shard \<open>k\<close> from any peer ends the
  node, whatever else is in its table and in the request; the requester is told that the response
  could not be read.
\<close>

theorem short_preference_ends_node:
  assumes "\<forall>n. range_visit (makeShardPrefHandler msg t) (visits n)"
    and "k < 100" and "length (msg_Data msg) \<le> k div 8" and "of_nat k \<in> set shardIDs"
    and "carries net reqw far \<lparr>sr_ShardIDs = shardIDs\<rparr>"
    and "net_NewStream net p shardPeerRequestProtocol w = (Inr st, w0)"
  shows "\<exists>w1. onShardPeerRequest net reqw resw pretty visits (makeShardPrefHandler msg t) (far st) w1 = None
    \<and> requestShardPeer net reqw
        (await resw (\<lambda>s. onShardPeerRequest net reqw resw pretty visits (makeShardPrefHandler msg t) (far s)))
        decode keys p shardIDs w
      = Some (Inl (NewError ''failed to read response proto''), net_Close net st w1)"
proof -
  have "\<forall>n. GetPeersInShard (makeShardPrefHandler msg t) (visits n) (of_nat k) = None"
    using assms(1-3) GetPeersInShard_short [of "makeShardPrefHandler msg t" _ "msg_From msg" "\<lparr>shardBits = msg_Data msg\<rparr>" k]
    by (simp add: makeShardPrefHandler_def fromBytes_def SetPeerListeningShard_def NewListeningShards_def)
  from shardPeers_loop_panics [OF assms(4) this, of pretty Map.empty]
  have panics: "shardPeers_loop pretty visits (makeShardPrefHandler msg t) shardIDs Map.empty = None" .
  obtain w1 w2 where req: "sendProtoMessage net reqw \<lparr>sr_ShardIDs = shardIDs\<rparr> st w0 = (None, w1)"
    "readProtoMessage reqw (far st) w1 = (Inr \<lparr>sr_ShardIDs = shardIDs\<rparr>, w2)"
    by (rule carriesE [OF assms(5)])
  have crash: "onShardPeerRequest net reqw resw pretty visits (makeShardPrefHandler msg t) (far st) w1 = None"
    using req(2) panics by (simp add: onShardPeerRequest_def)
  moreover have "requestShardPeer net reqw
        (await resw (\<lambda>s. onShardPeerRequest net reqw resw pretty visits (makeShardPrefHandler msg t) (far s)))
        decode keys p shardIDs w
      = Some (Inl (NewError ''failed to read response proto''), net_Close net st w1)"
    using assms(6) req(1) shard_peer.await_crashed [where c = resw and far = far, OF crash]
    by (simp add: requestShardPeer_def)
  ultimately show ?thesis by blast
qed

theorem short_preference_ends_node_witness:
  "\<exists>w1. onShardPeerRequest sample_network (sample_wire ShardPacket unShardPacket)
      (sample_wire PeersPacket unPeersPacket) id (\<lambda>_. [''evil''])
      (makeShardPrefHandler \<lparr>msg_From = ''evil'', msg_Data = []\<rparr> NewShardPrefTable) (sample_far 0) w1 = None"
  using short_preference_ends_node [of "\<lparr>msg_From = ''evil'', msg_Data = []\<rparr>" NewShardPrefTable "\<lambda>_. [''evil'']"
      0 "[0]" sample_network "sample_wire ShardPacket unShardPacket" sample_far "''p''" Map.empty 0 Map.empty
      "sample_wire PeersPacket unPeersPacket" id Inr "\<lambda>m. [0]"]
  by (auto simp: range_visit_def makeShardPrefHandler_def SetPeerListeningShard_def NewShardPrefTable_def
      sample_carries sample_NewStream)

text \<open>
  Which side closes its stream.  Both handlers, on every branch on which they return, close
  theirs as the last thing they do, and \<open>requestShardPeer\<close> closes the stream it opened on every
  branch; \<open>generalRequest\<close> does the same whatever closing a stream means, so it leaks every stream it
  opens.
\<close>

lemma streams_closed:
  assumes "net_NewStream net p shardPeerRequestProtocol w = (Inr st, w0)"
    and "onShardPeerRequest net reqw resw pretty visits t s ws = Some w1"
    and "onGeneralRequest net greqw gresw receive s wg = Some w2"
    and "requestShardPeer net reqw resw decode keys p shardIDs w = Some (r, w3)"
  shows "(\<exists>v. w1 = net_FullClose net s v) \<and> (\<exists>v. w2 = net_FullClose net s v) \<and> (\<exists>v. w3 = net_Close net st v)
    \<and> generalRequest (net\<lparr>net_Close := close, net_FullClose := fullClose\<rparr>) greqw gresw p msgType data w
        = generalRequest net greqw gresw p msgType data w"
proof (intro conjI)
  show "\<exists>v. w1 = net_FullClose net s v" using assms(2) by (rule shard_peer.closes)
  show "\<exists>v. w2 = net_FullClose net s v" using assms(3) by (rule general.closes)
  show "\<exists>v. w3 = net_Close net st v"
    using assms(1,4) by (auto simp: requestShardPeer_def bind_eq_Some_iff)
  show "generalRequest (net\<lparr>net_Close := close, net_FullClose := fullClose\<rparr>) greqw gresw p msgType data w
      = generalRequest net greqw gresw p msgType data w"
    unfolding generalRequest_def send_ignores_close by simp
qed

text \<open>
  C27: a general request is answered by the other host.  Over a working connection, the notifier of
  the asked node is called once, with the identity of the requester and the type and data of the
  request; when it answers with data, the requester receives these data.  When it fails, or when
  the request cannot be read, the handler sends nothing.
\<close>

theorem general_request_answered:
  assumes "carries net reqw far \<lparr>gr_MsgType = msgType, gr_Data = data\<rparr>"
    and "\<forall>res. carries net resw far res" and "\<forall>s. far (far s) = s"
    and "net_NewStream net p generalRequestProtocol w = (Inr st, w0)"
    and "\<forall>w. receive (net_RemotePeer net (far st)) msgType data w = Some (Inr answer, host w)"
  shows "fst (generalRequest net reqw (await resw (\<lambda>s. onGeneralRequest net reqw resw receive (far s)))
      p msgType data w) = Inr answer"
proof -
  obtain w1 w2 where req: "sendProtoMessage net reqw \<lparr>gr_MsgType = msgType, gr_Data = data\<rparr> st w0 = (None, w1)"
    "readProtoMessage reqw (far st) w1 = (Inr \<lparr>gr_MsgType = msgType, gr_Data = data\<rparr>, w2)"
    by (rule carriesE [OF assms(1)])
  obtain w3 w4 where res: "sendProtoMessage net resw \<lparr>gs_Data = answer\<rparr> (far st) (host w2) = (None, w3)"
    "readProtoMessage resw (far (far st)) (net_FullClose net (far st) w3) = (Inr \<lparr>gs_Data = answer\<rparr>, w4)"
    by (rule carriesE [OF spec [OF assms(2)]])
  have "onGeneralRequest net reqw resw receive (far st) w1 = Some (net_FullClose net (far st) w3)"
    using req(2) assms(5) res(1) by (simp add: onGeneralRequest_def)
  from general.await_returned [where c = resw and far = far, OF this]
  show ?thesis
    using assms(3,4) req(1) res(2) by (simp add: generalRequest_def)
qed

theorem general_request_answered_witness:
  "fst (generalRequest sample_network (sample_wire AskPacket unAskPacket)
      (await (sample_wire AnswerPacket unAnswerPacket) (\<lambda>s. onGeneralRequest sample_network
        (sample_wire AskPacket unAskPacket) (sample_wire AnswerPacket unAnswerPacket) mockReceive (sample_far s)))
      ''p'' 2 [5] Map.empty) = Inr [1]"
  by (rule general_request_answered [where host = id]) (simp_all add: sample_carries sample_NewStream mockReceive_def)

end
