(* ===== verification/NodeSetup.thy ===== *)
theory NodeSetup
  imports Bootstrapping Requests
begin

text \<open>
  Model of the construction of a node: \<open>NewNode\<close> and \<open>IsPeer\<close> of \<open>src/node.go\<close>, and of
  \<open>src/main.go\<close> the parsed command line, the choice between client and server, the choice of the
  event notifier, \<open>makeKey\<close>, \<open>makeNode\<close> and \<open>runServer\<close> up to the call that serves.  The
  constructors of the libraries (host, pubsub, DHT, keys) are parameters; tracing is left out.
\<close>

section \<open>Nodes\<close>

text \<open>
  The constructor wires the table of preferences to the discovery and to the shard manager, and
  registers the request handlers before the subscription to the preference topic; it ends the
  process when the pubsub service cannot be made or that subscription fails.
\<close>

definition NewNode :: "('w Host \<Rightarrow> 'w \<Rightarrow> (go_error + 'w PubSub) \<times> 'w) \<Rightarrow> (string \<Rightarrow> request_handler \<Rightarrow> 'w \<Rightarrow> 'w)
    \<Rightarrow> MessageWithType codec \<Rightarrow> 'w Host \<Rightarrow> 'w EventNotifier \<Rightarrow> 'w \<Rightarrow> ('w SMEnv \<times> Node \<times> 'w) run" where
  "NewNode newGossipSub setStreamHandler codec h eventNotifier w =
     (let shardPrefTable = NewShardPrefTable
      in case newGossipSub h w of
           (Inl err, w1) \<Rightarrow> None
         | (Inr pubsubService, w1) \<Rightarrow>
             let e = \<lparr>e_host = h, e_pubsub = pubsubService, e_notifier = eventNotifier,
                      e_discovery = NewGlobalTable h pubsubService, e_codec = codec\<rparr>;
                 w2 = NewRequestProtocol setStreamHandler w1
             in do {
               (sm, w3) \<leftarrow> NewShardManager e shardPrefTable w2;
               Some (e, \<lparr>n_manager = sm, doBootstrapping = False, cancelBootstrapping = None\<rparr>, w3)
             })"

fun is_peer_loop :: "peer_ID list \<Rightarrow> peer_ID \<Rightarrow> bool" where
  "is_peer_loop [] peerID = False"
| "is_peer_loop (value # rest) peerID = (if value = peerID then True else is_peer_loop rest peerID)"

definition IsPeer :: "'w Host \<Rightarrow> 'w \<Rightarrow> peer_ID \<Rightarrow> bool" where
  "IsPeer h w peerID = is_peer_loop (h_PeerstorePeers h w) peerID"

section \<open>Keys and hosts\<close>

text \<open>Everything about a key comes from the seed: a generator, a key pair, and the identity.\<close>

definition makeKey :: "(int64 \<Rightarrow> 'r) \<Rightarrow> ('r \<Rightarrow> go_error + 'key) \<Rightarrow> ('key \<Rightarrow> go_error + peer_ID)
    \<Rightarrow> int64 \<Rightarrow> go_error + 'key \<times> peer_ID" where
  "makeKey newRand generateKeyPair idFromPrivateKey seed =
     (let r = newRand seed
      in case generateKeyPair r of
           Inl err \<Rightarrow> Inl err
         | Inr priv \<Rightarrow>
             (case idFromPrivateKey priv of
                Inl err \<Rightarrow> Inl err
              | Inr pid \<Rightarrow> Inr (priv, pid)))"

text \<open>The libraries a node is made from.\<close>

record ('key, 'w) NodeLibs =
  nl_makeKey :: "int64 \<Rightarrow> go_error + 'key \<times> peer_ID"
  nl_newHost :: "'key \<Rightarrow> string \<Rightarrow> 'w \<Rightarrow> (go_error + 'w Host) \<times> 'w"
  nl_newGossipSub :: "'w Host \<Rightarrow> 'w \<Rightarrow> (go_error + 'w PubSub) \<times> 'w"
  nl_setStreamHandler :: "string \<Rightarrow> request_handler \<Rightarrow> 'w \<Rightarrow> 'w"
  nl_codec :: "MessageWithType codec"
  nl_WithCancel :: "go_context \<Rightarrow> 'w \<Rightarrow> (go_context \<times> cancel_func) \<times> 'w"
  nl_cancel :: "cancel_func \<Rightarrow> 'w \<Rightarrow> 'w"
  nl_dht_Bootstrap :: "go_context \<Rightarrow> 'w \<Rightarrow> go_error option \<times> 'w"

definition listenAddr :: "string \<Rightarrow> int64 \<Rightarrow> string" where
  "listenAddr listenIP listenPort = ''/ip4/'' @ listenIP @ ''/tcp/'' @ FormatInt listenPort"

definition makeNode :: "('key, 'w) NodeLibs \<Rightarrow> (PeerInfo list \<Rightarrow> PeerInfo list) \<Rightarrow> go_context \<Rightarrow> string \<Rightarrow> int64
    \<Rightarrow> int64 \<Rightarrow> 'w EventNotifier \<Rightarrow> bool \<Rightarrow> PeerInfo list \<Rightarrow> 'w \<Rightarrow> (go_error + 'w NodeEnv \<times> Node \<times> 'w) run" where
  "makeNode libs sched ctx listenIP listenPort randseed eventNotifier bootstrapping bootstrapPeers w =
     (case nl_makeKey libs randseed of
        Inl err \<Rightarrow> Some (Inl err)
      | Inr (priv, _) \<Rightarrow>
          (case nl_newHost libs priv (listenAddr listenIP listenPort) w of
             (Inl err, w1) \<Rightarrow> Some (Inl err)
           | (Inr h, w1) \<Rightarrow> do {
               (e, node, w2) \<leftarrow> NewNode (nl_newGossipSub libs) (nl_setStreamHandler libs) (nl_codec libs) h eventNotifier w1;
               let ne = \<lparr>ne_sm = e, ne_ctx = ctx, ne_WithCancel = nl_WithCancel libs,
                         ne_cancel = nl_cancel libs, ne_dht_Bootstrap = nl_dht_Bootstrap libs\<rparr>;
               if bootstrapping then
                 (let (_, node1, w3) = StartBootstrapping ne sched ctx bootstrapPeers node w2
                  in Some (Inr (ne, node1, w3)))
               else Some (Inr (ne, node, w2))
             }))"

section \<open>The server\<close>

text \<open>
  The notifier is the mock if the second component of its address, split at colons, is \<open>0\<close>; an
  address without a colon makes the indexing panic.
\<close>

definition choose_mock :: "string \<Rightarrow> bool run" where
  "choose_mock notifierAddr = do {
     port \<leftarrow> go_index (split_on (CHR '':'') notifierAddr) 1;
     Some (port = ''0'')
   }"

definition runServer :: "('key, 'w) NodeLibs \<Rightarrow> (string \<Rightarrow> 'w \<Rightarrow> (go_error + 'w EventClient) \<times> 'w) \<Rightarrow> printer
    \<Rightarrow> (string \<Rightarrow> multiaddr run) \<Rightarrow> (multiaddr \<Rightarrow> go_error + PeerInfo) \<Rightarrow> (PeerInfo list \<Rightarrow> PeerInfo list)
    \<Rightarrow> (('w NodeEnv \<times> Node) \<Rightarrow> string \<Rightarrow> 'w \<Rightarrow> 'a run)
    \<Rightarrow> string \<Rightarrow> int64 \<Rightarrow> int64 \<Rightarrow> bool \<Rightarrow> string \<Rightarrow> string \<Rightarrow> string \<Rightarrow> 'w \<Rightarrow> 'a run" where
  "runServer libs dial pretty stringCast infoFromAddr sched serve
     listenIP listenPort seed bootstrapping bootnodesStr rpcAddr notifierAddr w = do {
     mock \<leftarrow> choose_mock notifierAddr;
     (eventNotifier, w1) \<leftarrow>
       (if mock then Some (mockReceive, w)
        else case NewRpcEventNotifier (dial notifierAddr) id w of
               (Inl err, w1) \<Rightarrow> None
             | (Inr client, w1) \<Rightarrow> Some (rpcReceive pretty client, w1));
     bootnodes \<leftarrow>
       (if bootnodesStr \<noteq> '''' then do {
          r \<leftarrow> convertPeers stringCast infoFromAddr (split_on (CHR '','') bootnodesStr);
          (case r of Inl err \<Rightarrow> Some [] | Inr pinfos \<Rightarrow> Some pinfos)
        } else Some []);
     made \<leftarrow> makeNode libs sched 0 listenIP listenPort seed eventNotifier bootstrapping bootnodes w1;
     (case made of
        Inl err \<Rightarrow> None
      | Inr (ne, node, w2) \<Rightarrow> serve (ne, node) rpcAddr w2)
   }"

section \<open>The command line\<close>

record flags =
  f_seed :: int64
  f_ip :: string
  f_port :: int64
  f_rpcip :: string
  f_rpcport :: int64
  f_notifierport :: int64
  f_bootstrap :: bool
  f_bootnodes :: string
  f_client :: bool

definition default_flags :: flags where
  "default_flags = \<lparr>f_seed = 0, f_ip = ''127.0.0.1'', f_port = 10000, f_rpcip = ''127.0.0.1'',
     f_rpcport = 13000, f_notifierport = 0, f_bootstrap = False, f_bootnodes = '''', f_client = False\<rparr>"

datatype main_action = PrintVersion string
  | RunClient string "string list"
  | RunServer string int64 int64 bool string string string

definition joinAddr :: "string \<Rightarrow> int64 \<Rightarrow> string" where
  "joinAddr ip port = ip @ '':'' @ FormatInt port"

definition go_main :: "string \<Rightarrow> flags \<Rightarrow> string list \<Rightarrow> main_action" where
  "go_main gitCommit f cliArgs =
     (let rpcAddr = joinAddr (f_rpcip f) (f_rpcport f);
          notifierAddr = joinAddr (f_rpcip f) (f_notifierport f)
      in if 0 < length cliArgs \<and> cliArgs ! 0 = ''version'' then PrintVersion (''0.0.0 - '' @ gitCommit)
         else if f_client f then RunClient rpcAddr cliArgs
         else RunServer (f_ip f) (f_port f) (f_seed f) (f_bootstrap f) (f_bootnodes f) rpcAddr notifierAddr)"

section \<open>Lemmas\<close>

lemma is_peer_loop_iff [simp]: "is_peer_loop ps p \<longleftrightarrow> p \<in> set ps"
  by (induction ps) auto

lemma NewNode_cases:
  assumes "NewNode newGossipSub setStreamHandler codec h notifier w = Some (e, n, w')"
  obtains ps w2 where "e = \<lparr>e_host = h, e_pubsub = ps, e_notifier = notifier,
      e_discovery = NewGlobalTable h ps, e_codec = codec\<rparr>"
    "NewShardManager e NewShardPrefTable w2 = Some (n_manager n, w')"
    "\<not> doBootstrapping n" "cancelBootstrapping n = None"
  using assms by (auto simp: NewNode_def Let_def bind_eq_Some_iff split: prod.splits sum.splits)

lemma NewNode_uses_global_table:
  "NewNode newGossipSub setStreamHandler codec h notifier w = Some (e, n, w') \<Longrightarrow> uses_global_table e"
  by (elim NewNode_cases) (simp add: uses_global_table_def)

lemma NewNode_reachable:
  assumes "NewNode newGossipSub setStreamHandler codec h notifier w = Some (e, n, w')"
  shows "sm_reachable e (n_manager n, w')"
  using assms by (elim NewNode_cases) (rule sm_reachable.start)

lemma NewNode_bootstrap_ok:
  "NewNode newGossipSub setStreamHandler codec h notifier w = Some (e, n, w') \<Longrightarrow>
    bootstrap_ok n \<and> \<not> IsBootstrapping n"
  by (elim NewNode_cases) (simp add: bootstrap_ok_def IsBootstrapping_def)

lemma FormatInt_no_colon: "CHR '':'' \<notin> set (FormatInt x)"
  by (auto dest!: FormatInt_chars simp: is_digit_char_def)

lemma FormatInt_eq_zero_iff: "FormatInt x = ''0'' \<longleftrightarrow> x = 0"
proof -
  have "FormatInt 0 = ''0''"
    by code_simp
  then show ?thesis
    using FormatInt_inject [of x 0] by metis
qed

lemma new_manager:
  assumes "NewShardManager e NewShardPrefTable w = Some (sm, w')"
  obtains sub where "subs sm = [listeningShardTopic \<mapsto> sub]" "sm_table sm = NewShardPrefTable"
proof -
  have "SubscribeListeningShards e \<lparr>subs = Map.empty, sm_table = NewShardPrefTable, readers = []\<rparr> w
      = (None, sm, w')"
    using assms by (auto simp: NewShardManager_def split: prod.splits option.splits)
  then have "\<exists>sub. subs sm = [listeningShardTopic \<mapsto> sub] \<and> sm_table sm = NewShardPrefTable"
    unfolding SubscribeListeningShards_def by - (drule SubscribeTopic_ok, auto)
  with that show thesis by blast
qed

lemma StartBootstrapping_manager:
  "StartBootstrapping ne sched ctx peers n w = (r, n', w') \<Longrightarrow> n_manager n' = n_manager n"
  by (elim StartBootstrapping_cases) simp_all

lemma makeNode_cases:
  assumes "makeNode libs sched ctx ip port seed notifier bs peers w = Some (Inr (ne, n, w'))"
  obtains priv pid h w1 n0 w2 where "nl_makeKey libs seed = Inr (priv, pid)"
    "nl_newHost libs priv (listenAddr ip port) w = (Inr h, w1)"
    "NewNode (nl_newGossipSub libs) (nl_setStreamHandler libs) (nl_codec libs) h notifier w1 = Some (ne_sm ne, n0, w2)"
    "if bs then \<exists>r. StartBootstrapping ne sched ctx peers n0 w2 = (r, n, w') else n = n0 \<and> w' = w2"
    "e_host (ne_sm ne) = h"
proof -
  obtain priv pid where k: "nl_makeKey libs seed = Inr (priv, pid)"
    using assms by (auto simp: makeNode_def split: sum.splits)
  obtain h w1 where h: "nl_newHost libs priv (listenAddr ip port) w = (Inr h, w1)"
    using assms k by (auto simp: makeNode_def split: sum.splits prod.splits)
  obtain e n0 w2 where nn: "NewNode (nl_newGossipSub libs) (nl_setStreamHandler libs) (nl_codec libs) h notifier w1
      = Some (e, n0, w2)"
    using assms k h by (auto simp: makeNode_def bind_eq_Some_iff)
  have "e_host e = h" using nn by (elim NewNode_cases) simp
  with that [OF k h] nn show thesis
    using assms k h by (auto simp: makeNode_def Let_def split: if_splits prod.splits)
qed

section \<open>Properties\<close>

text \<open>
  C33: a node that was made is ready.  It has the global table for its discovery and the notifier it
  was given, it listens to no shard and has subscribed the preference topic and nothing else, it is
  in a state from which the invariants of the manager and of bootstrapping start, and it is
  bootstrapping only if it was told to; an error in starting to bootstrap is dropped.
\<close>

theorem makeNode_ready:
  assumes "makeNode libs sched ctx ip port seed notifier bs peers w = Some (Inr (ne, n, w'))"
  shows "uses_global_table (ne_sm ne) \<and> e_notifier (ne_sm ne) = notifier
    \<and> dom (subs (n_manager n)) = {listeningShardTopic}
    \<and> GetListeningShards (ne_sm ne) (n_manager n) = Some []
    \<and> (\<exists>v. sm_reachable (ne_sm ne) (n_manager n, v))
    \<and> bootstrap_ok n \<and> (IsBootstrapping n \<longrightarrow> bs)"
proof -
  obtain h w1 n0 w2 where mk: "NewNode (nl_newGossipSub libs) (nl_setStreamHandler libs) (nl_codec libs) h notifier w1
      = Some (ne_sm ne, n0, w2)"
    "if bs then \<exists>r. StartBootstrapping ne sched ctx peers n0 w2 = (r, n, w') else n = n0 \<and> w' = w2"
    using assms by (rule makeNode_cases)
  then have m: "n_manager n = n_manager n0"
    by (auto simp: StartBootstrapping_manager split: if_splits)
  obtain sub where "subs (n_manager n0) = [listeningShardTopic \<mapsto> sub]" "sm_table (n_manager n0) = NewShardPrefTable"
    using mk(1) by (elim NewNode_cases) (rule new_manager)
  moreover have "e_notifier (ne_sm ne) = notifier"
    using mk(1) by (elim NewNode_cases) simp
  moreover have "bootstrap_ok n \<and> (IsBootstrapping n \<longrightarrow> bs)"
    using NewNode_bootstrap_ok [OF mk(1)] mk(2) dht.start_ok [of n0 ne sched ctx peers w2]
    by (auto split: if_splits)
  ultimately show ?thesis
    using NewNode_uses_global_table [OF mk(1)] NewNode_reachable [OF mk(1)] m
    by (auto simp: GetListeningShards_def GetPeerListeningShardSlice_def isPeerRecorded_def NewShardPrefTable_def)
qed

definition sample_libs :: "(string, sample_world) NodeLibs" where
  "sample_libs = \<lparr>nl_makeKey = (\<lambda>seed. Inr (''key'', ''self'')), nl_newHost = (\<lambda>k addr w. (Inr sample_host, w)),
     nl_newGossipSub = (\<lambda>h w. (Inr sample_pubsub, w)), nl_setStreamHandler = (\<lambda>proto hd w. w),
     nl_codec = sample_codec, nl_WithCancel = (\<lambda>ctx w. ((Suc ctx, 7), w)), nl_cancel = (\<lambda>c w. w),
     nl_dht_Bootstrap = (\<lambda>ctx w. (None, w))\<rparr>"

lemma sample_makeNode:
  "makeNode sample_libs id 0 ''127.0.0.1'' 10000 0 mockReceive False [] [] =
    Some (Inr (\<lparr>ne_sm = sample_env, ne_ctx = 0, ne_WithCancel = nl_WithCancel sample_libs,
        ne_cancel = nl_cancel sample_libs, ne_dht_Bootstrap = nl_dht_Bootstrap sample_libs\<rparr>,
      \<lparr>n_manager = \<lparr>subs = [listeningShardTopic \<mapsto> length listeningShardTopic], sm_table = NewShardPrefTable,
          readers = [(length listeningShardTopic, makeShardPrefHandler)]\<rparr>,
        doBootstrapping = False, cancelBootstrapping = None\<rparr>, []))"
  by (simp add: makeNode_def NewNode_def NewShardManager_def SubscribeListeningShards_def SubscribeTopic_def
      NewRequestProtocol_def sample_libs_def sample_env_def Let_def)

theorem makeNode_ready_witness:
  "\<exists>ne n. makeNode sample_libs id 0 ''127.0.0.1'' 10000 0 mockReceive False [] [] = Some (Inr (ne, n, []))
    \<and> GetListeningShards (ne_sm ne) (n_manager n) = Some [] \<and> bootstrap_ok n"
  using makeNode_ready [OF sample_makeNode] sample_makeNode by blast

text \<open>
  Which notifier a server gets.  With an IP address without colon the mock is chosen exactly when
  the notifier port is 0.  With a colon in the address, as in IPv6, the port is not looked at: what
  decides is the part of the address behind the colon.
\<close>

lemma choose_mock_by_port:
  assumes "CHR '':'' \<notin> set a" and "CHR '':'' \<notin> set b"
  shows "choose_mock (joinAddr a port) = Some (port = 0)
    \<and> choose_mock (joinAddr (a @ '':'' @ b) port) = Some (b = ''0'')"
  using assms
  by (simp add: choose_mock_def joinAddr_def split_on_append split_on_absent FormatInt_no_colon FormatInt_eq_zero_iff)

end
