(* ===== verification/Collations.thy ===== *)
theory Collations
  imports Listening
begin

text \<open>
  The collations of \<open>src/shardmanager.go\<close> (lines 338 to 492): broadcasting one on the topic of its
  shard, and what a receiving node makes of it.  A collation goes out inside a
  \<open>MessageWithType\<close>; the receiver unpacks it in the validator of the topic and leaves the decision
  to its event notifier.  Protobuf encodings are parameters (\<open>codec\<close>).
\<close>

section \<open>Broadcasting\<close>

text \<open>The getters of protobuf messages accept a \<open>nil\<close> pointer; reading a field of it panics.\<close>

definition GetShardID :: "Collation option \<Rightarrow> PBInt" where
  "GetShardID m = (case m of Some c \<Rightarrow> co_ShardID c | None \<Rightarrow> 0)"

text \<open>
  The error of the first \<open>Marshal\<close> is overwritten by the one of the second, so that whatever bytes
  the first returned are sent.
\<close>

definition broadcastCollationMessage :: "'w SMEnv \<Rightarrow> Collation codec \<Rightarrow> Collation option \<Rightarrow> ShardManager
    \<Rightarrow> 'w \<Rightarrow> (go_error option \<times> 'w) run" where
  "broadcastCollationMessage e cc collation sm w =
     (if \<not> IsCollationSubscribed sm (GetShardID collation) then Some (Some NotSubscribed, w)
      else do {
        c \<leftarrow> collation;
        let collationsTopic = getCollationsTopic (co_ShardID c);
        let (dataBytes, _) = Marshal cc c;
        let typedMessage = \<lparr>mt_MsgType = typeCollation, mt_Data = dataBytes\<rparr>;
        (case Marshal (e_codec e) typedMessage of
           (_, Some err) \<Rightarrow> Some (Some err, w)
         | (msgBytes, None) \<Rightarrow>
             (case ps_Publish (e_pubsub e) collationsTopic msgBytes w of
                (Some err, w1) \<Rightarrow> Some (Some err, w1)
              | (None, w1) \<Rightarrow> Some (None, w1)))
      })"

definition broadcastCollation :: "'w SMEnv \<Rightarrow> Collation codec \<Rightarrow> ShardIDType \<Rightarrow> int64 \<Rightarrow> bytes
    \<Rightarrow> ShardManager \<Rightarrow> 'w \<Rightarrow> (go_error option \<times> 'w) run" where
  "broadcastCollation e cc shardID period blobs sm w =
     (let data = \<lparr>co_ShardID = shardID, co_Period = period, co_Blobs = blobs\<rparr>
      in do {
        (err, w1) \<leftarrow> broadcastCollationMessage e cc (Some data) sm w;
        (case err of
           Some er \<Rightarrow> Some (Some er, w1)
         | None \<Rightarrow> Some (None, w1))
      })"

section \<open>Lemmas: the sender\<close>

text \<open>Encoding succeeded with these bytes, and they decode to the message.\<close>

definition encodes :: "'m codec \<Rightarrow> 'm \<Rightarrow> bytes \<Rightarrow> bool" where
  "encodes c m bs \<longleftrightarrow> Marshal c m = (bs, None) \<and> Unmarshal c bs = Inr m"

lemma GetShardID_simps [simp]: "GetShardID None = 0" "GetShardID (Some c) = co_ShardID c"
  by (simp_all add: GetShardID_def)

lemma broadcast_not_subscribed:
  "\<not> IsCollationSubscribed sm (GetShardID c) \<Longrightarrow> broadcastCollationMessage e cc c sm w = Some (Some NotSubscribed, w)"
  by (simp add: broadcastCollationMessage_def)

lemma broadcast_publishes:
  assumes "IsCollationSubscribed sm (co_ShardID c)"
    and "Marshal (e_codec e) \<lparr>mt_MsgType = typeCollation, mt_Data = fst (Marshal cc c)\<rparr> = (bs, None)"
  shows "broadcastCollationMessage e cc (Some c) sm w = Some (ps_Publish (e_pubsub e) (getCollationsTopic (co_ShardID c)) bs w)"
  using assms by (auto simp: broadcastCollationMessage_def split: prod.splits option.splits)

lemma broadcastCollation_eq:
  "broadcastCollation e cc s period blobs sm w =
    broadcastCollationMessage e cc (Some \<lparr>co_ShardID = s, co_Period = period, co_Blobs = blobs\<rparr>) sm w"
  by (cases "broadcastCollationMessage e cc (Some \<lparr>co_ShardID = s, co_Period = period, co_Blobs = blobs\<rparr>) sm w")
    (auto simp: broadcastCollation_def split: option.splits)

section \<open>Lemmas: the receiver\<close>

definition verdict :: "go_error + bytes \<Rightarrow> bool" where
  "verdict r \<longleftrightarrow> (case r of Inl err \<Rightarrow> False | Inr bs \<Rightarrow> length bs = 1 \<and> bs ! 0 \<noteq> 0)"

lemma verdict_iff: "verdict r \<longleftrightarrow> (\<exists>b. r = Inr [b] \<and> b \<noteq> 0)"
proof (cases r)
  case (Inr bs)
  then show ?thesis
    by (cases bs; cases "tl bs") (simp_all add: verdict_def)
qed (simp add: verdict_def)

lemma makeGeneralValidator_decodes:
  assumes "Unmarshal (e_codec e) (msg_Data msg) = Inr m"
  shows "makeGeneralValidator e topic msg w =
    map_option (\<lambda>(r, w1). (verdict r, w1)) (e_notifier e (msg_From msg) (mt_MsgType m) (mt_Data m) w)"
proof (cases "e_notifier e (msg_From msg) (mt_MsgType m) (mt_Data m) w")
  case None
  with assms show ?thesis by (simp add: makeGeneralValidator_def)
next
  case (Some a)
  with assms show ?thesis
    by (cases a; cases "fst a") (simp_all add: makeGeneralValidator_def verdict_def)
qed

lemma makeGeneralValidator_undecodable:
  "Unmarshal (e_codec e) (msg_Data msg) = Inl err \<Longrightarrow> makeGeneralValidator e topic msg w = Some (False, w)"
  by (simp add: makeGeneralValidator_def)

text \<open>A notifier that returns makes a validator that returns.\<close>

context event_notifier begin

lemma validator_returns:
  assumes "e_notifier e = receive"
  shows "\<exists>b w'. makeGeneralValidator e topic msg w = Some (b, w')"
proof (cases "Unmarshal (e_codec e) (msg_Data msg)")
  case (Inl err)
  then show ?thesis by (auto simp: makeGeneralValidator_undecodable)
next
  case (Inr m)
  obtain r w' where "receive (msg_From msg) (mt_MsgType m) (mt_Data m) w = Some (r, w')"
    using returns by blast
  then show ?thesis by (simp add: makeGeneralValidator_decodes [OF Inr] assms)
qed

end

lemma test_server_collation:
  assumes "Unmarshal cc data = Inr c"
  shows "rpcReceive pretty (eventTestServer_Receive cc rc made_up) p typeCollation data w = Some (Inr [1], w)"
  using assms by (simp add: rpcReceive_def eventTestServer_Receive_def makeEventResponse_def)

section \<open>Properties\<close>

text \<open>
  C17: the decision about a received message.  The validator of a collation topic accepts exactly
  the messages that decode and on which the host answers with a single byte that is not zero; it
  ends the process exactly when a message decodes and the notifier panics on it; every other
  message is rejected.
\<close>

theorem makeGeneralValidator_decision:
  "(makeGeneralValidator e topic msg w = Some (True, w')
     \<longleftrightarrow> (\<exists>m b. Unmarshal (e_codec e) (msg_Data msg) = Inr m \<and> b \<noteq> 0
          \<and> e_notifier e (msg_From msg) (mt_MsgType m) (mt_Data m) w = Some (Inr [b], w')))
   \<and> (makeGeneralValidator e topic msg w = None
     \<longleftrightarrow> (\<exists>m. Unmarshal (e_codec e) (msg_Data msg) = Inr m
          \<and> e_notifier e (msg_From msg) (mt_MsgType m) (mt_Data m) w = None))"
proof (cases "Unmarshal (e_codec e) (msg_Data msg)")
  case (Inl err)
  then show ?thesis by (simp add: makeGeneralValidator_undecodable)
next
  case (Inr m)
  then show ?thesis
    by (auto simp: makeGeneralValidator_decodes [OF Inr] verdict_iff)
qed

text \<open>
  C16: a collation reaches the hosts of the shard.  Broadcasting a collation on a subscribed shard,
  when its encodings succeed and the publication does, reports success and publishes one message on
  the topic of the shard.  Any node whose notifier talks to the test host accepts that message, and
  a node with another notifier asks it about a message of type \<open>typeCollation\<close> whose data decode to
  the very collation.
\<close>

theorem broadcast_reaches_hosts:
  assumes "IsCollationSubscribed sm s" and "c = \<lparr>co_ShardID = s, co_Period = period, co_Blobs = blobs\<rparr>"
    and "encodes cc c data" and "encodes (e_codec e) \<lparr>mt_MsgType = typeCollation, mt_Data = data\<rparr> bs"
    and "ps_Publish (e_pubsub e) (getCollationsTopic s) bs w = (None, w')" and "e_codec e2 = e_codec e"
  shows "broadcastCollation e cc s period blobs sm w = Some (None, w')
    \<and> makeGeneralValidator e2 topic \<lparr>msg_From = p, msg_Data = bs\<rparr> w2
        = map_option (\<lambda>(r, w3). (verdict r, w3)) (e_notifier e2 p typeCollation data w2)
    \<and> Unmarshal cc data = Inr c
    \<and> (e_notifier e2 = rpcReceive pretty (eventTestServer_Receive cc rc made_up)
        \<longrightarrow> makeGeneralValidator e2 topic \<lparr>msg_From = p, msg_Data = bs\<rparr> w2 = Some (True, w2))"
proof -
  have "broadcastCollation e cc s period blobs sm w = Some (None, w')"
    using assms broadcast_publishes [of sm c e cc bs w] by (simp add: broadcastCollation_eq encodes_def)
  moreover have "Unmarshal (e_codec e2) (msg_Data \<lparr>msg_From = p, msg_Data = bs\<rparr>)
      = Inr \<lparr>mt_MsgType = typeCollation, mt_Data = data\<rparr>"
    using assms(4,6) by (simp add: encodes_def)
  ultimately show ?thesis
    using assms(3) by (simp add: makeGeneralValidator_decodes test_server_collation verdict_def encodes_def)
qed

definition sample_collation_codec :: "Collation codec" where
  "sample_collation_codec = \<lparr>
     Marshal = (\<lambda>c. (ucast (co_ShardID c) # ucast (co_Period c) # co_Blobs c, None)),
     Unmarshal = (\<lambda>bs. case bs of
         x # y # rest \<Rightarrow> Inr \<lparr>co_ShardID = ucast x, co_Period = ucast y, co_Blobs = rest\<rparr>
       | _ \<Rightarrow> Inl (External ''short''))\<rparr>"

theorem broadcast_reaches_hosts_witness:
  "broadcastCollation sample_env sample_collation_codec 42 1 [7]
      (sample_manager\<lparr>subs := [getCollationsTopic 42 \<mapsto> 0]\<rparr>) []
    = Some (None, [(getCollationsTopic 42, [1, 42, 1, 7])])"
  using broadcast_reaches_hosts [of "sample_manager\<lparr>subs := [getCollationsTopic 42 \<mapsto> 0]\<rparr>" 42 _ 1 "[7]"
      sample_collation_codec "[42, 1, 7]" sample_env "[1, 42, 1, 7]" "[]" _ sample_env]
  by (simp add: IsCollationSubscribed_def encodes_def sample_collation_codec_def sample_codec_def
      typeCollation_def sample_env_def)



end
