(* ===== verification/RpcServer.thy ===== *)
theory RpcServer
  imports NodeSetup Collations
begin

text \<open>
  Model of \<open>src/rpcserver.go\<close>: the handlers of the RPC interface by which the user and the host
  process drive a node.  A handler takes the node and the world and returns either an error or a
  response, with the new node and world; a panic in it ends the process, since gRPC does not recover
  from one.  Handlers run one after the other here; tracing and the pauses are left out.
\<close>

section \<open>Requests and responses\<close>

record RPCIdentifyResponse =
  ir_PeerID :: string
  ir_MultiAddrs :: "string list"

record RPCAddPeerRequest =
  ap_Ip :: string
  ap_Port :: PBInt
  ap_Seed :: PBInt

record RPCSubscribeShardRequest =
  ss_NumShardPeerToConnect :: PBInt
  ss_ShardIDs :: "PBInt list"

record RPCUnsubscribeShardRequest =
  us_ShardIDs :: "PBInt list"

record RPCGetSubscribedShardResponse =
  gsr_ShardIDs :: "PBInt list"

record RPCBroadcastCollationRequest =
  bc_ShardID :: PBInt
  bc_Number :: PBInt
  bc_Size :: PBInt
  bc_Period :: PBInt

record RPCSendCollationRequest =
  sc_Collation :: "Collation option"

record SendRequest =
  sd_PeerID :: string
  sd_Topic :: string
  sd_MsgType :: PBInt
  sd_Data :: bytes

record SendResponse =
  sn_Data :: bytes

record RPCListPeerResponse =
  lp_Peers :: "string list"

record RPCListTopicPeerRequest =
  lt_Topics :: "string list"

record RPCListTopicPeerResponse =
  lt_TopicPeers :: "string \<rightharpoonup> PBPeers"

record RPCRemovePeerRequest =
  rm_PeerID :: string

record RPCBootstrapRequest =
  bs_Flag :: bool
  bs_BootnodesStr :: string

text \<open>\<open>RPCPlainResponse\<close> has no field.\<close>

type_synonym RPCPlainResponse = unit

section \<open>The server\<close>

text \<open>
  What the handlers reach: the node's environment, the codecs and streams, the texts of peers, keys
  and addresses, and the largest slice that can be made.
\<close>

record ('key, 'w) server =
  sv_node :: "'w NodeEnv"
  sv_collation :: "Collation codec"
  sv_net :: "'w Network"
  sv_request :: "(GeneralRequest, 'w) wire"
  sv_response :: "(GeneralResponse, 'w) wire"
  sv_decode :: decoder
  sv_pretty :: printer
  sv_makeKey :: "int64 \<Rightarrow> go_error + 'key \<times> peer_ID"
  sv_NewMultiaddr :: "string \<Rightarrow> go_error + multiaddr"
  sv_StringCast :: "string \<Rightarrow> multiaddr run"
  sv_InfoFromAddr :: "multiaddr \<Rightarrow> go_error + PeerInfo"
  sv_maxAlloc :: int

abbreviation sv_sm :: "('key, 'w) server \<Rightarrow> 'w SMEnv" where
  "sv_sm s \<equiv> ne_sm (sv_node s)"

abbreviation sv_host :: "('key, 'w) server \<Rightarrow> 'w Host" where
  "sv_host s \<equiv> e_host (ne_sm (sv_node s))"

text \<open>What the scheduler and the random numbers decide in one call of \<open>ListenShard\<close>.\<close>

record schedule =
  s_visit :: "peer_ID list"
  s_rnd :: "nat \<Rightarrow> nat"
  s_dial :: "PeerInfo list \<Rightarrow> PeerInfo list"

text \<open>Splitting the address of a peer; the error of the second \<open>NewMultiaddr\<close> is dropped.\<close>

definition parseAddr :: "(string \<Rightarrow> go_error + multiaddr) \<Rightarrow> (multiaddr \<Rightarrow> go_error + string) \<Rightarrow> decoder \<Rightarrow> printer
    \<Rightarrow> (multiaddr \<Rightarrow> (go_error + multiaddr) \<Rightarrow> multiaddr) \<Rightarrow> string \<Rightarrow> go_error + peer_ID \<times> multiaddr" where
  "parseAddr newMultiaddr valueForIPFS decode encode decapsulate addrString =
     (case newMultiaddr addrString of
        Inl err \<Rightarrow> Inl err
      | Inr ipfsaddr \<Rightarrow>
          (case valueForIPFS ipfsaddr of
             Inl err \<Rightarrow> Inl err
           | Inr pid \<Rightarrow>
               (case decode pid of
                  Inl err \<Rightarrow> Inl err
                | Inr peerid \<Rightarrow>
                    let targetPeerAddr = newMultiaddr (''/ipfs/'' @ encode peerid);
                        targetAddr = decapsulate ipfsaddr targetPeerAddr
                    in Inr (peerid, targetAddr))))"

section \<open>Peers\<close>

definition Identify :: "('key, 'w) server \<Rightarrow> 'w \<Rightarrow> (go_error + RPCIdentifyResponse) \<times> 'w" where
  "Identify s w =
     (Inr \<lparr>ir_PeerID = sv_pretty s (h_ID (sv_host s)), ir_MultiAddrs = h_Addrs (sv_host s) w\<rparr>, w)"

definition AddPeer :: "('key, 'w) server \<Rightarrow> RPCAddPeerRequest \<Rightarrow> 'w \<Rightarrow> (go_error + RPCPlainResponse) \<times> 'w" where
  "AddPeer s req w =
     (case sv_makeKey s (ap_Seed req) of
        Inl err \<Rightarrow> (Inl (Errorf ''Failed to generate peer key/ID'' err), w)
      | Inr (_, targetPID) \<Rightarrow>
          (case sv_NewMultiaddr s (''/ip4/'' @ ap_Ip req @ ''/tcp/'' @ FormatInt (ap_Port req)) of
             Inl err \<Rightarrow> (Inl (Errorf ''Failed to convert to multiaddr format'' err), w)
           | Inr targetAddr \<Rightarrow>
               let w1 = h_AddAddrs (sv_host s) targetPID [targetAddr] w
               in case h_Connect (sv_host s) (h_PeerInfo (sv_host s) targetPID w1) w1 of
                    (Some err, w2) \<Rightarrow> (Inl (Errorf ''Failed to connect to peer'' err), w2)
                  | (None, w2) \<Rightarrow> (Inr (), w2)))"

definition ListPeer :: "('key, 'w) server \<Rightarrow> 'w \<Rightarrow> (go_error + RPCListPeerResponse) \<times> 'w" where
  "ListPeer s w =
     (let peerIDs = h_NetworkPeers (sv_host s) w
      in (Inr \<lparr>lp_Peers = peerIDsToPeersString (sv_pretty s) peerIDs\<rparr>, w))"

fun ListTopicPeer_loop :: "('key, 'w) server \<Rightarrow> 'w \<Rightarrow> string list \<Rightarrow> (string \<rightharpoonup> PBPeers) \<Rightarrow> (string \<rightharpoonup> PBPeers)" where
  "ListTopicPeer_loop s w [] topicPeers = topicPeers"
| "ListTopicPeer_loop s w (topic # topics) topicPeers =
     (let peerIDs = ps_ListPeers (e_pubsub (sv_sm s)) topic w
      in ListTopicPeer_loop s w topics (topicPeers(topic \<mapsto> peerIDsToPBPeers (sv_pretty s) peerIDs)))"

definition ListTopicPeer :: "('key, 'w) server \<Rightarrow> RPCListTopicPeerRequest \<Rightarrow> 'w
    \<Rightarrow> (go_error + RPCListTopicPeerResponse) \<times> 'w" where
  "ListTopicPeer s req w =
     (let topics = (if length (lt_Topics req) = 0 then ps_GetTopics (e_pubsub (sv_sm s)) w else lt_Topics req)
      in (Inr \<lparr>lt_TopicPeers = ListTopicPeer_loop s w topics Map.empty\<rparr>, w))"

definition RemovePeer :: "('key, 'w) server \<Rightarrow> RPCRemovePeerRequest \<Rightarrow> 'w \<Rightarrow> (go_error + RPCPlainResponse) \<times> 'w" where
  "RemovePeer s req w =
     (case stringToPeerID (sv_decode s) (rm_PeerID req) of
        Inl err \<Rightarrow> (Inl (NewError ''failed to parse the peerID''), w)
      | Inr peerID \<Rightarrow>
          (case h_ClosePeer (sv_host s) peerID w of
             (Some err, w1) \<Rightarrow> (Inl (Errorf ''failed to close the connection to peer'' err), w1)
           | (None, w1) \<Rightarrow> (Inr (), w1)))"

section \<open>Shards\<close>

fun DiscoverShard_loop :: "('key, 'w) server \<Rightarrow> (nat \<Rightarrow> peer_ID list) \<Rightarrow> ShardPrefTable \<Rightarrow> 'w \<Rightarrow> string list
    \<Rightarrow> (string \<rightharpoonup> PBPeers) \<Rightarrow> (string \<rightharpoonup> PBPeers) run" where
  "DiscoverShard_loop s visits t w [] topicPeers = Some topicPeers"
| "DiscoverShard_loop s visits t w (topic # topics) topicPeers = do {
     found \<leftarrow> d_FindPeers (e_discovery (sv_sm s)) (visits (length topics)) topic t w;
     (case found of
        Inl err \<Rightarrow> DiscoverShard_loop s visits t w topics topicPeers
      | Inr pInfos \<Rightarrow>
          let pIDs = map pi_ID pInfos
          in DiscoverShard_loop s visits t w topics (topicPeers(topic \<mapsto> peerIDsToPBPeers (sv_pretty s) pIDs)))
   }"

definition DiscoverShard :: "('key, 'w) server \<Rightarrow> (nat \<Rightarrow> peer_ID list) \<Rightarrow> RPCListTopicPeerRequest \<Rightarrow> Node \<Rightarrow> 'w
    \<Rightarrow> ((go_error + RPCListTopicPeerResponse) \<times> 'w) run" where
  "DiscoverShard s visits req n w = do {
     topics \<leftarrow>
       (if length (lt_Topics req) = 0 then do {
          shards \<leftarrow> GetListeningShards (sv_sm s) (n_manager n);
          Some (map FormatInt shards)
        } else Some (lt_Topics req));
     topicPeers \<leftarrow> DiscoverShard_loop s visits (sm_table (n_manager n)) w topics Map.empty;
     Some (Inr \<lparr>lt_TopicPeers = topicPeers\<rparr>, w)
   }"

fun SubscribeShard_loop :: "'w SMEnv \<Rightarrow> (nat \<Rightarrow> ShardManager \<Rightarrow> schedule) \<Rightarrow> int64 \<Rightarrow> PBInt list \<Rightarrow> PBInt list
    \<Rightarrow> ShardManager \<Rightarrow> 'w \<Rightarrow> (PBInt list \<times> ShardManager \<times> 'w) run" where
  "SubscribeShard_loop e scheds num [] subscribed sm w = Some (subscribed, sm, w)"
| "SubscribeShard_loop e scheds num (shardID # shardIDs) subscribed sm w = do {
     let sch = scheds (length shardIDs) sm;
     (err, sm1, w1) \<leftarrow> ListenShard e (s_visit sch) (s_rnd sch) (s_dial sch) num shardID sm w;
     SubscribeShard_loop e scheds num shardIDs
       (case err of Some er \<Rightarrow> subscribed | None \<Rightarrow> subscribed @ [shardID]) sm1 w1
   }"

definition SubscribeShard :: "('key, 'w) server \<Rightarrow> (nat \<Rightarrow> ShardManager \<Rightarrow> schedule) \<Rightarrow> RPCSubscribeShardRequest
    \<Rightarrow> Node \<Rightarrow> 'w \<Rightarrow> ((go_error + RPCPlainResponse) \<times> Node \<times> 'w) run" where
  "SubscribeShard s scheds req n w = do {
     (subscribedShardID, sm, w1) \<leftarrow> SubscribeShard_loop (sv_sm s) scheds (ss_NumShardPeerToConnect req)
       (ss_ShardIDs req) [] (n_manager n) w;
     Some (Inr (), n\<lparr>n_manager := sm\<rparr>, w1)
   }"

fun UnsubscribeShard_loop :: "'w SMEnv \<Rightarrow> PBInt list \<Rightarrow> PBInt list \<Rightarrow> ShardManager \<Rightarrow> 'w
    \<Rightarrow> (PBInt list \<times> ShardManager \<times> 'w) run" where
  "UnsubscribeShard_loop e [] unsubscribed sm w = Some (unsubscribed, sm, w)"
| "UnsubscribeShard_loop e (shardID # shardIDs) unsubscribed sm w = do {
     (err, sm1, w1) \<leftarrow> UnlistenShard e shardID sm w;
     UnsubscribeShard_loop e shardIDs
       (case err of Some er \<Rightarrow> unsubscribed | None \<Rightarrow> unsubscribed @ [shardID]) sm1 w1
   }"

definition UnsubscribeShard :: "('key, 'w) server \<Rightarrow> RPCUnsubscribeShardRequest \<Rightarrow> Node \<Rightarrow> 'w
    \<Rightarrow> ((go_error + RPCPlainResponse) \<times> Node \<times> 'w) run" where
  "UnsubscribeShard s req n w = do {
     (unsubscribedShardID, sm, w1) \<leftarrow> UnsubscribeShard_loop (sv_sm s) (us_ShardIDs req) [] (n_manager n) w;
     Some (Inr (), n\<lparr>n_manager := sm\<rparr>, w1)
   }"

definition GetSubscribedShard :: "('key, 'w) server \<Rightarrow> Node \<Rightarrow> (go_error + RPCGetSubscribedShardResponse) run" where
  "GetSubscribedShard s n = do {
     shardIDs \<leftarrow> GetListeningShards (sv_sm s) (n_manager n);
     Some (Inr \<lparr>gsr_ShardIDs = shardIDs\<rparr>)
   }"

section \<open>Collations\<close>

text \<open>
  Making a slice panics on a negative length and on one beyond what can be allocated.  The random
  bytes are the argument \<open>rnd\<close>.
\<close>

definition make_bytes :: "int \<Rightarrow> (nat \<Rightarrow> byte) \<Rightarrow> int64 \<Rightarrow> bytes run" where
  "make_bytes maxAlloc rnd len =
     (if sint len < 0 \<or> maxAlloc < sint len then None else Some (map rnd [0..<nat (sint len)]))"

fun BroadcastCollation_loop :: "'w SMEnv \<Rightarrow> Collation codec \<Rightarrow> int \<Rightarrow> (int64 \<Rightarrow> nat \<Rightarrow> byte) \<Rightarrow> ShardIDType \<Rightarrow> int64
    \<Rightarrow> nat \<Rightarrow> int64 \<Rightarrow> ShardManager \<Rightarrow> 'w \<Rightarrow> ((go_error + RPCPlainResponse) \<times> 'w) run" where
  "BroadcastCollation_loop e cc maxAlloc rnd shardID sizeInBytes 0 i sm w = Some (Inr (), w)"
| "BroadcastCollation_loop e cc maxAlloc rnd shardID sizeInBytes (Suc k) i sm w = do {
     randBytes \<leftarrow> make_bytes maxAlloc (rnd i) sizeInBytes;
     (err, w1) \<leftarrow> broadcastCollation e cc shardID i randBytes sm w;
     (case err of
        Some er \<Rightarrow> Some (Inl (Errorf ''Failed to broadcast collation'' er), w1)
      | None \<Rightarrow> BroadcastCollation_loop e cc maxAlloc rnd shardID sizeInBytes k (i + 1) sm w1)
   }"

definition BroadcastCollation :: "('key, 'w) server \<Rightarrow> (int64 \<Rightarrow> nat \<Rightarrow> byte) \<Rightarrow> RPCBroadcastCollationRequest
    \<Rightarrow> Node \<Rightarrow> 'w \<Rightarrow> ((go_error + RPCPlainResponse) \<times> 'w) run" where
  "BroadcastCollation s rnd req n w =
     (let numCollations = bc_Number req;
          sizeInBytes = (if 100 < sint (bc_Size req) then bc_Size req - 100 else bc_Size req)
      in BroadcastCollation_loop (sv_sm s) (sv_collation s) (sv_maxAlloc s) rnd (bc_ShardID req) sizeInBytes
           (nat (sint numCollations)) 0 (n_manager n) w)"

text \<open>The debug line reads fields of the collation, so a request without one panics.\<close>

definition SendCollation :: "('key, 'w) server \<Rightarrow> RPCSendCollationRequest \<Rightarrow> Node \<Rightarrow> 'w
    \<Rightarrow> ((go_error + RPCPlainResponse) \<times> 'w) run" where
  "SendCollation s req n w = do {
     collation \<leftarrow> sc_Collation req;
     (err, w1) \<leftarrow> broadcastCollationMessage (sv_sm s) (sv_collation s) (Some collation) (n_manager n) w;
     (case err of
        Some er \<Rightarrow> Some (Inl (Errorf ''Failed to broadcast collation message'' er), w1)
      | None \<Rightarrow> Some (Inr (), w1))
   }"

section \<open>Messages of the host\<close>

text \<open>
  With a peer the message is a general request to it; without one it is published on the topic.
\<close>

definition Send :: "('key, 'w) server \<Rightarrow> SendRequest \<Rightarrow> 'w \<Rightarrow> (go_error + SendResponse) \<times> 'w" where
  "Send s req w =
     (if sd_PeerID req = '''' then
        (case Marshal (e_codec (sv_sm s)) \<lparr>mt_MsgType = sd_MsgType req, mt_Data = sd_Data req\<rparr> of
           (_, Some err) \<Rightarrow> (Inl (Errorf ''failed to marshall typedMessage'' err), w)
         | (msgBytes, None) \<Rightarrow>
             (case ps_Publish (e_pubsub (sv_sm s)) (sd_Topic req) msgBytes w of
                (Some err, w1) \<Rightarrow> (Inl (Errorf ''failed to publish'' err), w1)
              | (None, w1) \<Rightarrow> (Inr \<lparr>sn_Data = []\<rparr>, w1)))
      else
        (case sv_decode s (sd_PeerID req) of
           Inl err \<Rightarrow> (Inl (NewError ''invalid peerID''), w)
         | Inr peerID \<Rightarrow>
             (case generalRequest (sv_net s) (sv_request s) (sv_response s) peerID (sd_MsgType req) (sd_Data req) w of
                (Inl err, w1) \<Rightarrow> (Inl (NewError ''failed to make request to peer''), w1)
              | (Inr dataBytes, w1) \<Rightarrow> (Inr \<lparr>sn_Data = dataBytes\<rparr>, w1))))"

section \<open>Bootstrapping\<close>

definition Bootstrap :: "('key, 'w) server \<Rightarrow> (PeerInfo list \<Rightarrow> PeerInfo list) \<Rightarrow> RPCBootstrapRequest \<Rightarrow> Node \<Rightarrow> 'w
    \<Rightarrow> ((go_error + RPCPlainResponse) \<times> Node \<times> 'w) run" where
  "Bootstrap s sched req n w =
     (if bs_Flag req then do {
        r \<leftarrow> convertPeers (sv_StringCast s) (sv_InfoFromAddr s) (split_on (CHR '','') (bs_BootnodesStr req));
        (case r of
           Inl err \<Rightarrow> Some (Inl (Errorf ''failed to convert bootnode address'' err), n, w)
         | Inr bootnodes \<Rightarrow>
             (case StartBootstrapping (sv_node s) sched (ne_ctx (sv_node s)) bootnodes n w of
                (Some err, n1, w1) \<Rightarrow> Some (Inl (Errorf ''failed to start bootstrapping'' err), n1, w1)
              | (None, n1, w1) \<Rightarrow> Some (Inr (), n1, w1)))
      }
      else do {
        (err, n1, w1) \<leftarrow> StopBootstrapping (sv_node s) n w;
        (case err of
           Some er \<Rightarrow> Some (Inl (Errorf ''failed to stop bootstrapping'' er), n1, w1)
         | None \<Rightarrow> Some (Inr (), n1, w1))
      })"

section \<open>The service\<close>

text \<open>The calls of the service and what each answers with.\<close>

datatype rpc_call =
    CallIdentify
  | CallAddPeer RPCAddPeerRequest
  | CallDiscoverShard RPCListTopicPeerRequest
  | CallSubscribeShard RPCSubscribeShardRequest
  | CallUnsubscribeShard RPCUnsubscribeShardRequest
  | CallGetSubscribedShard
  | CallBroadcastCollation RPCBroadcastCollationRequest
  | CallSendCollation RPCSendCollationRequest
  | CallStopServer
  | CallSend SendRequest
  | CallListPeer
  | CallListTopicPeer RPCListTopicPeerRequest
  | CallRemovePeer RPCRemovePeerRequest
  | CallBootstrap RPCBootstrapRequest

datatype rpc_answer =
    AnswerIdentify RPCIdentifyResponse
  | AnswerPlain
  | AnswerTopicPeers RPCListTopicPeerResponse
  | AnswerShards RPCGetSubscribedShardResponse
  | AnswerSend SendResponse
  | AnswerPeers RPCListPeerResponse

text \<open>
  What the scheduler, the range loops and the random numbers decide in one call, as a function of
  the manager the call meets.
\<close>

record choices =
  ch_visits :: "nat \<Rightarrow> ShardManager \<Rightarrow> peer_ID list"
  ch_scheds :: "nat \<Rightarrow> ShardManager \<Rightarrow> schedule"
  ch_bytes :: "int64 \<Rightarrow> nat \<Rightarrow> byte"
  ch_boot :: "PeerInfo list \<Rightarrow> PeerInfo list"

definition answer_with :: "('a \<Rightarrow> rpc_answer) \<Rightarrow> go_error + 'a \<Rightarrow> go_error + rpc_answer" where
  "answer_with f r = map_sum id f r"

text \<open>
  \<open>StopServer\<close> answers at once; the goroutine that stops the server after a second is not followed.
\<close>

fun handle :: "('key, 'w) server \<Rightarrow> choices \<Rightarrow> rpc_call \<Rightarrow> Node \<Rightarrow> 'w \<Rightarrow> ((go_error + rpc_answer) \<times> Node \<times> 'w) run" where
  "handle s ch CallIdentify n w = (let (r, w1) = Identify s w in Some (answer_with AnswerIdentify r, n, w1))"
| "handle s ch (CallAddPeer req) n w = (let (r, w1) = AddPeer s req w in Some (answer_with (\<lambda>_. AnswerPlain) r, n, w1))"
| "handle s ch (CallDiscoverShard req) n w = do {
     (r, w1) \<leftarrow> DiscoverShard s (\<lambda>k. ch_visits ch k (n_manager n)) req n w;
     Some (answer_with AnswerTopicPeers r, n, w1)
   }"
| "handle s ch (CallSubscribeShard req) n w = do {
     (r, n1, w1) \<leftarrow> SubscribeShard s (ch_scheds ch) req n w;
     Some (answer_with (\<lambda>_. AnswerPlain) r, n1, w1)
   }"
| "handle s ch (CallUnsubscribeShard req) n w = do {
     (r, n1, w1) \<leftarrow> UnsubscribeShard s req n w;
     Some (answer_with (\<lambda>_. AnswerPlain) r, n1, w1)
   }"
| "handle s ch CallGetSubscribedShard n w = do {
     r \<leftarrow> GetSubscribedShard s n;
     Some (answer_with AnswerShards r, n, w)
   }"
| "handle s ch (CallBroadcastCollation req) n w = do {
     (r, w1) \<leftarrow> BroadcastCollation s (ch_bytes ch) req n w;
     Some (answer_with (\<lambda>_. AnswerPlain) r, n, w1)
   }"
| "handle s ch (CallSendCollation req) n w = do {
     (r, w1) \<leftarrow> SendCollation s req n w;
     Some (answer_with (\<lambda>_. AnswerPlain) r, n, w1)
   }"
| "handle s ch CallStopServer n w = Some (Inr AnswerPlain, n, w)"
| "handle s ch (CallSend req) n w = (let (r, w1) = Send s req w in Some (answer_with AnswerSend r, n, w1))"
| "handle s ch CallListPeer n w = (let (r, w1) = ListPeer s w in Some (answer_with AnswerPeers r, n, w1))"
| "handle s ch (CallListTopicPeer req) n w =
     (let (r, w1) = ListTopicPeer s req w in Some (answer_with AnswerTopicPeers r, n, w1))"
| "handle s ch (CallRemovePeer req) n w =
     (let (r, w1) = RemovePeer s req w in Some (answer_with (\<lambda>_. AnswerPlain) r, n, w1))"
| "handle s ch (CallBootstrap req) n w = do {
     (r, n1, w1) \<leftarrow> Bootstrap s (ch_boot ch) req n w;
     Some (answer_with (\<lambda>_. AnswerPlain) r, n1, w1)
   }"

text \<open>
  The life of a node: calls of the service, and preference messages that the reader of the
  preference topic handles, one after the other.
\<close>

datatype node_event = RpcEvent choices rpc_call | PreferenceEvent pubsub_message

fun serve :: "('key, 'w) server \<Rightarrow> node_event list \<Rightarrow> Node \<Rightarrow> 'w
    \<Rightarrow> ((go_error + rpc_answer) list \<times> Node \<times> 'w) run" where
  "serve s [] n w = Some ([], n, w)"
| "serve s (RpcEvent ch call # events) n w = do {
     (r, n1, w1) \<leftarrow> handle s ch call n w;
     (rs, n2, w2) \<leftarrow> serve s events n1 w1;
     Some (r # rs, n2, w2)
   }"
| "serve s (PreferenceEvent msg # events) n w =
     serve s events
       (n\<lparr>n_manager := (n_manager n)\<lparr>sm_table := makeShardPrefHandler msg (sm_table (n_manager n))\<rparr>\<rparr>) w"

end
