(* ===== verification/Service.thy ===== *)
theory Service
  imports RpcServer "HOL-Library.List_Lexorder" "HOL-Library.Char_ord"
begin

text \<open>
  What the RPC service of \<open>src/rpcserver.go\<close> does to a node.  The invariant of a node is that its
  manager is consistent (a valid shard is listened to exactly when its topic is subscribed), that its
  table is finite, and that a cancel function is there exactly when bootstrapping is on.  In an
  environment in which nothing fails, every call with sane arguments returns and keeps it; the
  arguments excluded are exactly those that end the process.
\<close>

section \<open>The manager under one call\<close>

definition mgr_ok :: "'w SMEnv \<Rightarrow> ShardManager \<Rightarrow> bool" where
  "mgr_ok e sm \<longleftrightarrow> consistent e sm \<and> finite (dom (shardPrefMap (sm_table sm)))"

definition listened :: "'w SMEnv \<Rightarrow> ShardManager \<Rightarrow> ShardIDType set" where
  "listened e sm = pref (sm_table sm) (e_self e)"

definition wf_schedule :: "'w SMEnv \<Rightarrow> ShardManager \<Rightarrow> schedule \<Rightarrow> bool" where
  "wf_schedule e sm sch \<longleftrightarrow> distinct (s_visit sch)
     \<and> set (s_visit sch) = insert (e_self e) (dom (shardPrefMap (sm_table sm)))"

lemma mgr_okD:
  "mgr_ok e sm \<Longrightarrow> consistent e sm"
  "mgr_ok e sm \<Longrightarrow> wf_table (sm_table sm)"
  "mgr_ok e sm \<Longrightarrow> finite (dom (shardPrefMap (sm_table sm)))"
  unfolding mgr_ok_def by (blast intro: consistentD(1))+

lemma nonneg_cases:
  assumes "0 \<le> sint s"
  obtains "valid_shard s" | "sint numShards \<le> sint s" "\<not> valid_shard s"
  using assms by (cases "valid_shard s") (auto simp: valid_shard_def numShards_def not_less)

context discovery begin

lemma listen_large:
  assumes "e_discovery e = d" "wf_table (sm_table sm)" "sint numShards \<le> sint s" "\<not> valid_shard s"
  shows "ListenShard e visit rnd sched num s sm w = Some (Some (InvalidShardID s), sm, w)"
proof -
  have "s \<notin> pref (sm_table sm) p" for p
    using assms(4) pref_valid by blast
  then show ?thesis
    using assms(1,2) advertise_large [OF assms(3)] by (simp add: ListenShard_def IsShardListened_wf)
qed

lemma listen_dom:
  assumes "e_discovery e = d" "wf_table (sm_table sm)" "valid_shard s"
    "ListenShard e visit rnd sched num s sm w = Some (r, sm', w')"
  shows "dom (shardPrefMap (sm_table sm')) \<subseteq> insert self (dom (shardPrefMap (sm_table sm)))"
proof (cases "s \<in> pref (sm_table sm) (e_self e)")
  case True
  with assms show ?thesis by (auto simp: ListenShard_def IsShardListened_wf)
next
  case False
  obtain er t1 w1 where a: "d_Advertise d (FormatInt s) (sm_table sm) w = Some (er, t1, w1)"
    "dom (shardPrefMap t1) = insert self (dom (shardPrefMap (sm_table sm)))"
    using advertise_toggles [OF assms(2,3), of w] by blast
  have "sm_table sm' = t1"
  proof (cases er)
    case (Some x)
    then show ?thesis using assms a False by (auto simp: ListenShard_def IsShardListened_wf)
  next
    case None
    then obtain w2 where "SubscribeCollation e s (sm\<lparr>sm_table := t1\<rparr>) w2 = (r, sm', w')"
      using assms False a by (auto simp: ListenShard_def IsShardListened_wf bind_eq_Some_iff Let_def split: prod.splits)
    then show ?thesis
      using SubscribeCollation_ok [of e s "sm\<lparr>sm_table := t1\<rparr>" w2 sm' w']
        SubscribeCollation_error [of e s "sm\<lparr>sm_table := t1\<rparr>" w2 _ sm' w']
      by (cases r) auto
  qed
  with a(2) show ?thesis by simp
qed

lemma unlisten_dom:
  assumes "e_discovery e = d" "wf_table (sm_table sm)" "valid_shard s"
    "UnlistenShard e s sm w = Some (r, sm', w')"
  shows "dom (shardPrefMap (sm_table sm')) \<subseteq> insert self (dom (shardPrefMap (sm_table sm)))"
proof (cases "s \<in> pref (sm_table sm) (e_self e)")
  case False
  with assms show ?thesis by (auto simp: UnlistenShard_def IsShardListened_wf)
next
  case True
  obtain er t1 w1 where a: "d_Advertise d (FormatInt s) (sm_table sm) w = Some (er, t1, w1)"
    "dom (shardPrefMap t1) = insert self (dom (shardPrefMap (sm_table sm)))"
    using advertise_toggles [OF assms(2,3), of w] by blast
  obtain sm2 w2 where u: "UnsubscribeCollation e s (sm\<lparr>sm_table := t1\<rparr>) w1 = (sm2, w2)"
    by fastforce
  then have "sm_table sm2 = t1"
    using UnsubscribeCollation_subs(2) [of e s "sm\<lparr>sm_table := t1\<rparr>" w1] by simp
  with u have "sm_table sm' = t1"
    using assms a True by (cases er) (auto simp: UnlistenShard_def IsShardListened_wf)
  with a(2) show ?thesis by simp
qed

end

lemma listen_step:
  assumes "sound_env e" "mgr_ok e sm" "wf_schedule e sm sch" "0 \<le> sint s"
  obtains r sm' w' where "ListenShard e (s_visit sch) rnd sched num s sm w = Some (r, sm', w')" "mgr_ok e sm'"
    "listened e sm' = listened e sm \<union> ({s} \<inter> Collect valid_shard)" "r = None \<longleftrightarrow> valid_shard s"
proof (cases rule: nonneg_cases [OF assms(4)])
  case 2
  note gt.listen_large [OF uses_global_tableD(1) [OF uses_global_tableD(2) [OF assms(1)]] mgr_okD(2) [OF assms(2)] 2]
  with that 2 assms(2) show thesis by auto
next
  case 1
  note g = uses_global_tableD(2) [OF assms(1)] and wf = mgr_okD(2) [OF assms(2)]
  have "\<exists>r sm' w'. ListenShard e (s_visit sch) rnd sched num s sm w = Some (r, sm', w')"
    using assms(1,3)
    by (intro gt_listen_returns [OF g wf 1]) (simp_all add: wf_schedule_def sound_env_def lists_distinct_def)
  then obtain r sm' w' where run: "ListenShard e (s_visit sch) rnd sched num s sm w = Some (r, sm', w')"
    by blast
  have r: "r = None" by (rule listen_no_error [OF assms(1) wf 1 run])
  have "mgr_ok e sm'"
    using consistent_listen [OF g mgr_okD(1) [OF assms(2)] 1] run r mgr_okD(3) [OF assms(2)]
      finite_subset [OF gt.listen_dom [OF uses_global_tableD(1) [OF g] wf 1 run]]
    by (simp add: mgr_ok_def)
  moreover have "listened e sm' = insert s (listened e sm)"
    using gt_listen_cases [OF g wf 1 run] by (auto simp: listened_def)
  ultimately show thesis using that run r 1 by simp
qed

lemma unlisten_step:
  assumes "sound_env e" "mgr_ok e sm"
  obtains sm' w' where "UnlistenShard e s sm w = Some (None, sm', w')" "mgr_ok e sm'"
    "listened e sm' = listened e sm - {s}"
proof (cases "valid_shard s")
  case False
  then have "s \<notin> listened e sm"
    unfolding listened_def using pref_valid by blast
  then show thesis
    using that [of sm w] assms(2) mgr_okD(2) [OF assms(2)]
    by (simp add: UnlistenShard_def IsShardListened_wf listened_def)
next
  case True
  note g = uses_global_tableD(2) [OF assms(1)] and wf = mgr_okD(2) [OF assms(2)]
  obtain sm' w' where run: "UnlistenShard e s sm w = Some (None, sm', w')"
    using unlisten_no_error [OF assms(1) wf True] by blast
  have "mgr_ok e sm'"
    using consistent_unlisten [OF g mgr_okD(1) [OF assms(2)] True run] mgr_okD(3) [OF assms(2)]
      finite_subset [OF gt.unlisten_dom [OF uses_global_tableD(1) [OF g] wf True run]]
    by (simp add: mgr_ok_def)
  moreover have "listened e sm' = listened e sm - {s}"
    using gt_unlisten_cases [OF g wf True run] by (auto simp: listened_def)
  ultimately show thesis using that run by blast
qed

section \<open>The loops\<close>

lemma SubscribeShard_loop_ok:
  assumes "sound_env e" "\<forall>k sm. mgr_ok e sm \<longrightarrow> wf_schedule e sm (scheds k sm)" "\<forall>s\<in>set ids. 0 \<le> sint s"
    "mgr_ok e sm"
  shows "\<exists>sm' w'. SubscribeShard_loop e scheds num ids acc sm w = Some (acc @ filter valid_shard ids, sm', w')
    \<and> mgr_ok e sm' \<and> listened e sm' = listened e sm \<union> (set ids \<inter> Collect valid_shard)"
  using assms(3,4)
proof (induction ids arbitrary: acc sm w)
  case Nil
  then show ?case by simp
next
  case (Cons s ids)
  let ?sch = "scheds (length ids) sm"
  have sch: "wf_schedule e sm ?sch" and s: "0 \<le> sint s"
    using assms(2) Cons.prems by simp_all
  obtain r sm1 w1 where run: "ListenShard e (s_visit ?sch) (s_rnd ?sch) (s_dial ?sch) num s sm w = Some (r, sm1, w1)"
    "mgr_ok e sm1" "listened e sm1 = listened e sm \<union> ({s} \<inter> Collect valid_shard)" "r = None \<longleftrightarrow> valid_shard s"
    by (rule listen_step [OF assms(1) Cons.prems(2) sch s])
  obtain sm' w' where "SubscribeShard_loop e scheds num ids (if valid_shard s then acc @ [s] else acc) sm1 w1
      = Some ((if valid_shard s then acc @ [s] else acc) @ filter valid_shard ids, sm', w')"
    "mgr_ok e sm'" "listened e sm' = listened e sm1 \<union> (set ids \<inter> Collect valid_shard)"
    using Cons.IH [of sm1 "if valid_shard s then acc @ [s] else acc" w1] run(2) Cons.prems(1) by auto
  moreover have "(case r of None \<Rightarrow> acc @ [s] | Some er \<Rightarrow> acc) = (if valid_shard s then acc @ [s] else acc)"
    using run(4) by (auto split: option.splits)
  ultimately show ?case
    using run by (auto simp: Let_def)
qed

lemma UnsubscribeShard_loop_ok:
  assumes "sound_env e" "mgr_ok e sm"
  shows "\<exists>sm' w'. UnsubscribeShard_loop e ids acc sm w = Some (acc @ ids, sm', w')
    \<and> mgr_ok e sm' \<and> listened e sm' = listened e sm - set ids"
  using assms(2)
proof (induction ids arbitrary: acc sm w)
  case Nil
  then show ?case by simp
next
  case (Cons s ids)
  obtain sm1 w1 where run: "UnlistenShard e s sm w = Some (None, sm1, w1)" "mgr_ok e sm1"
    "listened e sm1 = listened e sm - {s}"
    by (rule unlisten_step [OF assms(1) Cons.prems])
  from Cons.IH [OF run(2), of "acc @ [s]" w1] run show ?case by auto
qed

section \<open>Discovery\<close>

definition names_shard :: "string \<Rightarrow> ShardIDType \<Rightarrow> bool" where
  "names_shard topic s \<longleftrightarrow> ParseInt (shardTopicToShardID topic) = Inr s"

lemma names_shard_simps [simp]:
  "names_shard (FormatInt s) s" "names_shard (getCollationsTopic s) s"
  by (simp_all add: names_shard_def ParseInt_FormatInt)

lemma names_shard_unique: "names_shard topic s \<Longrightarrow> names_shard topic s' \<Longrightarrow> s = s'"
  by (simp add: names_shard_def)

lemma FindPeers_named:
  assumes "names_shard topic s"
  shows "FindPeers h visit topic t w = FindPeers h visit (FormatInt s) t w"
  using assms by (simp add: names_shard_def FindPeers_def ParseInt_FormatInt)

lemma FindPeers_unnamed:
  assumes "\<nexists>s. names_shard topic s"
  shows "\<exists>err. FindPeers h visit topic t w = Some (Inl err)"
  using assms by (cases "ParseInt (shardTopicToShardID topic)") (auto simp: names_shard_def FindPeers_def)

lemma GetPeersInShard_loop_large:
  assumes "sint numShards \<le> sint s" "set visit \<subseteq> dom (shardPrefMap t)"
  shows "GetPeersInShard_loop t s visit acc = Some acc"
  using assms(2)
proof (induction visit)
  case (Cons p ps)
  then obtain ls where "shardPrefMap t p = Some ls" by auto
  with Cons assms(1) show ?case by (simp add: isShardSet_def shardIDToBitIndex_def)
qed simp

lemma FindPeers_large:
  assumes "sint numShards \<le> sint s" "range_visit t visit"
  shows "FindPeers h visit (FormatInt s) t w = Some (Inr [])"
  using assms GetPeersInShard_loop_large [OF assms(1), of visit t "[]"]
  by (simp add: FindPeers_def ParseInt_FormatInt GetPeersInShard_def range_visit_def)

text \<open>What discovery answers for a topic: nothing if it names no shard, else the peers.\<close>

definition found_peers :: "('key, 'w) server \<Rightarrow> ShardPrefTable \<Rightarrow> string \<Rightarrow> PBPeers \<Rightarrow> bool" where
  "found_peers s t topic entry \<longleftrightarrow> (\<exists>shard ps. names_shard topic shard
     \<and> entry = peerIDsToPBPeers (sv_pretty s) ps \<and> distinct ps
     \<and> set ps = {p. p \<noteq> e_self (sv_sm s) \<and> shard \<in> pref t p})"

lemma found_peersI:
  "names_shard topic shard \<Longrightarrow> distinct ps \<Longrightarrow> set ps = {p. p \<noteq> e_self (sv_sm s) \<and> shard \<in> pref t p} \<Longrightarrow>
    found_peers s t topic (peerIDsToPBPeers (sv_pretty s) ps)"
  unfolding found_peers_def by blast

lemma DiscoverShard_loop_ok:
  assumes "uses_global_table (sv_sm s)" "wf_table t" "\<forall>k. range_visit t (visits k)" "peerstore_ids (sv_host s) w"
    "\<forall>topic\<in>set topics. \<forall>shard. names_shard topic shard \<longrightarrow> 0 \<le> sint shard"
    "\<forall>topic entry. m topic = Some entry \<longrightarrow> found_peers s t topic entry"
  shows "\<exists>m'. DiscoverShard_loop s visits t w topics m = Some m'
    \<and> dom m' = dom m \<union> {topic\<in>set topics. \<exists>shard. names_shard topic shard}
    \<and> (\<forall>topic entry. m' topic = Some entry \<longrightarrow> found_peers s t topic entry)"
  using assms(5,6)
proof (induction topics arbitrary: m)
  case Nil
  then show ?case by simp
next
  case (Cons topic topics)
  let ?v = "visits (length topics)" and ?h = "sv_host s"
  have v: "range_visit t ?v" using assms(3) by blast
  have find: "d_FindPeers (e_discovery (sv_sm s)) ?v topic t w = FindPeers ?h ?v topic t w"
    unfolding uses_global_tableD(1) [OF assms(1)] by (simp add: NewGlobalTable_def)
  show ?case
  proof (cases "\<exists>shard. names_shard topic shard")
    case False
    obtain err where "FindPeers ?h ?v topic t w = Some (Inl err)"
      using FindPeers_unnamed [OF False, of ?h ?v t w] by (elim exE)
    with find have step: "DiscoverShard_loop s visits t w (topic # topics) m = DiscoverShard_loop s visits t w topics m"
      by simp
    have eq: "{x \<in> set (topic # topics). \<exists>shard. names_shard x shard} = {x \<in> set topics. \<exists>shard. names_shard x shard}"
      using False by auto
    show ?thesis
      unfolding eq step using Cons.prems by (intro Cons.IH) simp_all
  next
    case True
    then obtain shard where shard: "names_shard topic shard" by blast
    have nonneg: "0 \<le> sint shard" using Cons.prems(1) shard by simp
    have "\<exists>pinfos. FindPeers ?h ?v topic t w = Some (Inr pinfos)
        \<and> found_peers s t topic (peerIDsToPBPeers (sv_pretty s) (map pi_ID pinfos))"
    proof (cases rule: nonneg_cases [OF nonneg])
      case 1
      let ?ps = "filter (\<lambda>p. shard \<in> pref t p \<and> p \<noteq> h_ID ?h) ?v"
      have "map pi_ID (map (\<lambda>p. h_PeerInfo ?h p w) ?ps) = ?ps"
        using assms(4) by (simp add: peerstore_ids_def o_def)
      moreover have "distinct ?ps" "set ?ps = {p. p \<noteq> h_ID ?h \<and> shard \<in> pref t p}"
        using v by (auto simp: range_visit_def dest: pref_dom)
      then have "found_peers s t topic (peerIDsToPBPeers (sv_pretty s) ?ps)"
        by (rule found_peersI [OF shard])
      ultimately show ?thesis
        unfolding FindPeers_named [OF shard] FindPeers_valid [OF assms(2) 1 v] by (simp del: map_map)
    next
      case 2
      then have "{p. p \<noteq> e_self (sv_sm s) \<and> shard \<in> pref t p} = set []"
        using pref_valid by auto
      then have "found_peers s t topic (peerIDsToPBPeers (sv_pretty s) [])"
        by (intro found_peersI [OF shard]) simp_all
      then show ?thesis
        unfolding FindPeers_named [OF shard] FindPeers_large [OF 2(1) v] by simp
    qed
    then obtain pinfos where p: "FindPeers ?h ?v topic t w = Some (Inr pinfos)"
      "found_peers s t topic (peerIDsToPBPeers (sv_pretty s) (map pi_ID pinfos))" by blast
    let ?m = "m(topic \<mapsto> peerIDsToPBPeers (sv_pretty s) (map pi_ID pinfos))"
    have "\<exists>m'. DiscoverShard_loop s visits t w topics ?m = Some m'
      \<and> dom m' = dom ?m \<union> {topic\<in>set topics. \<exists>shard. names_shard topic shard}
      \<and> (\<forall>topic entry. m' topic = Some entry \<longrightarrow> found_peers s t topic entry)"
      using Cons.prems p(2) by (intro Cons.IH) auto
    moreover have "DiscoverShard_loop s visits t w (topic # topics) m = DiscoverShard_loop s visits t w topics ?m"
      using find p(1) by (simp add: Let_def)
    moreover have "dom ?m \<union> {x \<in> set topics. \<exists>shard. names_shard x shard}
        = dom m \<union> {x \<in> set (topic # topics). \<exists>shard. names_shard x shard}"
      using shard by auto
    ultimately show ?thesis by simp
  qed
qed

section \<open>Every call\<close>

definition node_ok :: "('key, 'w) server \<Rightarrow> Node \<Rightarrow> bool" where
  "node_ok s n \<longleftrightarrow> mgr_ok (sv_sm s) (n_manager n) \<and> bootstrap_ok n"

definition wf_choices :: "'w SMEnv \<Rightarrow> choices \<Rightarrow> bool" where
  "wf_choices e ch \<longleftrightarrow> (\<forall>k sm. mgr_ok e sm \<longrightarrow> wf_schedule e sm (ch_scheds ch k sm)
     \<and> range_visit (sm_table sm) (ch_visits ch k sm))"

text \<open>The arguments that cannot end the process.\<close>

fun sane_call :: "('key, 'w) server \<Rightarrow> rpc_call \<Rightarrow> bool" where
  "sane_call s (CallDiscoverShard req) = (\<forall>topic\<in>set (lt_Topics req).
     case ParseInt (shardTopicToShardID topic) of Inl err \<Rightarrow> True | Inr shard \<Rightarrow> 0 \<le> sint shard)"
| "sane_call s (CallSubscribeShard req) = (\<forall>shard\<in>set (ss_ShardIDs req). 0 \<le> sint shard)"
| "sane_call s (CallBroadcastCollation req) = (0 \<le> sint (bc_Size req) \<and> sint (bc_Size req) \<le> sv_maxAlloc s)"
| "sane_call s (CallSendCollation req) = (sc_Collation req \<noteq> None)"
| "sane_call s (CallBootstrap req) =
     (bs_Flag req \<longrightarrow> (\<forall>a\<in>set (split_on (CHR '','') (bs_BootnodesStr req)). sv_StringCast s a \<noteq> None))"
| "sane_call s _ = True"

fun sane_event :: "('key, 'w) server \<Rightarrow> node_event \<Rightarrow> bool" where
  "sane_event s (RpcEvent ch call) = (wf_choices (sv_sm s) ch \<and> sane_call s call)"
| "sane_event s (PreferenceEvent msg) = (msg_From msg \<noteq> e_self (sv_sm s) \<and> 13 \<le> length (msg_Data msg))"

text \<open>The environment in which nothing fails.\<close>

definition sound_server :: "('key, 'w) server \<Rightarrow> bool" where
  "sound_server s \<longleftrightarrow> sound_env (sv_sm s) \<and> (\<forall>w. peerstore_ids (sv_host s) w)"

lemma broadcast_returns: "\<exists>r w'. broadcastCollationMessage e cc (Some c) sm w = Some (r, w')"
  by (auto simp: broadcastCollationMessage_def Let_def split: prod.splits option.splits)

lemma BroadcastCollation_loop_returns:
  assumes "0 \<le> sint len" "sint len \<le> maxAlloc"
  shows "\<exists>r w'. BroadcastCollation_loop e cc maxAlloc rnd shardID len k i sm w = Some (r, w')"
proof (induction k arbitrary: i w)
  case (Suc k)
  obtain err w1 where "broadcastCollation e cc shardID i (map (rnd i) [0..<nat (sint len)]) sm w = Some (err, w1)"
    unfolding broadcastCollation_eq
    using broadcast_returns [of e cc "\<lparr>co_ShardID = shardID, co_Period = i, co_Blobs = map (rnd i) [0..<nat (sint len)]\<rparr>" sm w]
    by (elim exE)
  with Suc [of "i + 1" w1] assms show ?case
    by (cases err) (auto simp: make_bytes_def)
qed simp

lemma shorter_size:
  assumes "0 \<le> sint len" "sint len \<le> m"
  shows "0 \<le> sint (if 100 < sint len then len - 100 else len :: int64)"
    and "sint (if 100 < sint len then len - 100 else len :: int64) \<le> m"
proof -
  have "sint (len - 100) = sint len - 100" if "100 < sint len"
  proof -
    have "len - 100 = word_of_int (sint len - 100)" by simp
    then show ?thesis
      using that sint64_bounds(2) [of len] by (simp add: sint64_of_int del: of_int_diff)
  qed
  with assms show "0 \<le> sint (if 100 < sint len then len - 100 else len :: int64)"
    and "sint (if 100 < sint len then len - 100 else len :: int64) \<le> m" by auto
qed

lemma DiscoverShard_returns:
  assumes "sound_server s" "mgr_ok (sv_sm s) (n_manager n)" "wf_choices (sv_sm s) ch" "sane_call s (CallDiscoverShard req)"
  shows "\<exists>r w'. DiscoverShard s (\<lambda>k. ch_visits ch k (n_manager n)) req n w = Some (r, w')"
proof -
  let ?t = "sm_table (n_manager n)"
  obtain shards where g: "GetListeningShards (sv_sm s) (n_manager n) = Some shards"
    "set shards = pref ?t (e_self (sv_sm s))"
    using GetPeerListeningShardSlice_wf [OF mgr_okD(2) [OF assms(2)], of "e_self (sv_sm s)"]
    by (auto simp: GetListeningShards_def)
  define topics where "topics = (if length (lt_Topics req) = 0 then map FormatInt shards else lt_Topics req)"
  have "\<forall>topic\<in>set topics. \<forall>shard. names_shard topic shard \<longrightarrow> 0 \<le> sint shard"
  proof (cases "length (lt_Topics req) = 0")
    case True
    have "0 \<le> sint shard" if "shard \<in> set shards" for shard
      using that g(2) pref_valid unfolding valid_shard_def by blast
    with True show ?thesis
      by (auto simp: topics_def dest: names_shard_unique [OF names_shard_simps(1)])
  next
    case False
    with assms(4) show ?thesis by (auto simp: topics_def names_shard_def split: sum.splits)
  qed
  moreover have "\<forall>k. range_visit ?t (ch_visits ch k (n_manager n))"
    using assms(2,3) by (simp add: wf_choices_def)
  moreover have "uses_global_table (sv_sm s)" "peerstore_ids (sv_host s) w"
    using assms(1) by (simp_all add: sound_server_def uses_global_tableD(2))
  ultimately obtain m' where
    "DiscoverShard_loop s (\<lambda>k. ch_visits ch k (n_manager n)) ?t w topics Map.empty = Some m'"
    using DiscoverShard_loop_ok [of s ?t "\<lambda>k. ch_visits ch k (n_manager n)" w topics Map.empty]
      mgr_okD(2) [OF assms(2)] by auto
  with g(1) show ?thesis by (cases "length (lt_Topics req) = 0") (simp_all add: DiscoverShard_def topics_def)
qed

lemma Bootstrap_returns:
  assumes "bootstrap_ok n" "sane_call s (CallBootstrap req)"
  shows "\<exists>r n' w'. Bootstrap s sched req n w = Some (r, n', w') \<and> bootstrap_ok n' \<and> n_manager n' = n_manager n"
proof (cases "bs_Flag req")
  case True
  then have "convertPeers (sv_StringCast s) (sv_InfoFromAddr s) (split_on (CHR '','') (bs_BootnodesStr req)) \<noteq> None"
    using assms(2) by (auto simp: convertPeers_def convertPeers_loop_panics)
  then obtain r where r: "convertPeers (sv_StringCast s) (sv_InfoFromAddr s)
      (split_on (CHR '','') (bs_BootnodesStr req)) = Some r" by blast
  show ?thesis
  proof (cases r)
    case (Inl err)
    with r True assms(1) show ?thesis by (simp add: Bootstrap_def)
  next
    case (Inr peers)
    obtain e n1 w1 where st: "StartBootstrapping (sv_node s) sched (ne_ctx (sv_node s)) peers n w = (e, n1, w1)"
      by (metis prod.collapse)
    then have "bootstrap_ok n1" "n_manager n1 = n_manager n"
      using dht.start_ok [OF assms(1) st] StartBootstrapping_manager [OF st] by simp_all
    with r Inr st True show ?thesis by (cases e) (simp_all add: Bootstrap_def)
  qed
next
  case False
  obtain n' w' where "StopBootstrapping (sv_node s) n w = Some (None, n', w')" "bootstrap_ok n'"
    using dht.stop_ok [OF assms(1), of "sv_node s" w] by (elim exE conjE)
  moreover from this(1) have "n_manager n' = n_manager n"
    by (auto simp: StopBootstrapping_def bind_eq_Some_iff split: if_splits)
  ultimately show ?thesis using False by (simp add: Bootstrap_def)
qed

lemma handle_ok:
  assumes "sound_server s" "node_ok s n" "wf_choices (sv_sm s) ch" "sane_call s call"
  shows "\<exists>r n' w'. handle s ch call n w = Some (r, n', w') \<and> node_ok s n'"
proof (cases call)
  case (CallDiscoverShard req)
  then show ?thesis
    using DiscoverShard_returns [OF assms(1) _ assms(3), of n req w] assms(2,4) by (auto simp: node_ok_def)
next
  case (CallSubscribeShard req)
  have "sound_env (sv_sm s)" "mgr_ok (sv_sm s) (n_manager n)" "bootstrap_ok n"
    using assms(1,2) by (simp_all add: sound_server_def node_ok_def)
  moreover have "\<forall>k sm. mgr_ok (sv_sm s) sm \<longrightarrow> wf_schedule (sv_sm s) sm (ch_scheds ch k sm)"
    using assms(3) by (simp add: wf_choices_def)
  ultimately show ?thesis
    using SubscribeShard_loop_ok [of "sv_sm s" "ch_scheds ch" "ss_ShardIDs req" "n_manager n"
        "ss_NumShardPeerToConnect req" "[]" w] CallSubscribeShard assms(4)
    by (auto simp: SubscribeShard_def node_ok_def bootstrap_ok_def)
next
  case (CallUnsubscribeShard req)
  have "sound_env (sv_sm s)" "mgr_ok (sv_sm s) (n_manager n)" "bootstrap_ok n"
    using assms(1,2) by (simp_all add: sound_server_def node_ok_def)
  then show ?thesis
    using UnsubscribeShard_loop_ok [of "sv_sm s" "n_manager n" "us_ShardIDs req" "[]" w] CallUnsubscribeShard
    by (auto simp: UnsubscribeShard_def node_ok_def bootstrap_ok_def)
next
  case CallGetSubscribedShard
  obtain shards where "GetListeningShards (sv_sm s) (n_manager n) = Some shards"
    using GetPeerListeningShardSlice_wf [OF mgr_okD(2), of "sv_sm s" "n_manager n" "e_self (sv_sm s)"] assms(2)
    by (auto simp: GetListeningShards_def node_ok_def)
  with CallGetSubscribedShard assms(2) show ?thesis by (simp add: GetSubscribedShard_def)
next
  case (CallBroadcastCollation req)
  then have len: "0 \<le> sint (bc_Size req)" "sint (bc_Size req) \<le> sv_maxAlloc s"
    using assms(4) by simp_all
  obtain r w' where "BroadcastCollation s (ch_bytes ch) req n w = Some (r, w')"
    unfolding BroadcastCollation_def Let_def
    using BroadcastCollation_loop_returns [OF shorter_size [OF len], of "sv_sm s" "sv_collation s" "ch_bytes ch"
        "bc_ShardID req" "nat (sint (bc_Number req))" 0 "n_manager n" w] by (elim exE)
  with CallBroadcastCollation assms(2) show ?thesis by simp
next
  case (CallSendCollation req)
  then obtain c where c: "sc_Collation req = Some c" using assms(4) by auto
  obtain r w' where "broadcastCollationMessage (sv_sm s) (sv_collation s) (Some c) (n_manager n) w = Some (r, w')"
    using broadcast_returns [of "sv_sm s" "sv_collation s" c "n_manager n" w] by (elim exE)
  with CallSendCollation c assms(2) show ?thesis by (cases r) (simp_all add: SendCollation_def)
next
  case (CallBootstrap req)
  have "bootstrap_ok n" "sane_call s (CallBootstrap req)"
    using assms(2,4) CallBootstrap by (simp_all add: node_ok_def)
  then show ?thesis
    using Bootstrap_returns [of n s req "ch_boot ch" w] assms(2) CallBootstrap by (auto simp: node_ok_def)
qed (use assms(2) in \<open>auto split: prod.splits\<close>)

lemma preference_ok:
  assumes "node_ok s n" "msg_From msg \<noteq> e_self (sv_sm s)" "13 \<le> length (msg_Data msg)"
  shows "node_ok s (n\<lparr>n_manager := (n_manager n)\<lparr>sm_table := makeShardPrefHandler msg (sm_table (n_manager n))\<rparr>\<rparr>)"
  using assms(1) consistent_preference [OF _ assms(2,3), of "n_manager n"]
  by (simp add: node_ok_def mgr_ok_def bootstrap_ok_def handler_eq SetPeerListeningShard_def)

fun count_calls :: "node_event list \<Rightarrow> nat" where
  "count_calls [] = 0"
| "count_calls (RpcEvent ch call # events) = Suc (count_calls events)"
| "count_calls (PreferenceEvent msg # events) = count_calls events"

lemma serve_ok:
  assumes "sound_server s" "node_ok s n" "\<forall>ev\<in>set events. sane_event s ev"
  shows "\<exists>rs n' w'. serve s events n w = Some (rs, n', w') \<and> node_ok s n' \<and> length rs = count_calls events"
  using assms(2,3)
proof (induction events arbitrary: n w)
  case Nil
  then show ?case by simp
next
  case (Cons ev events)
  have evs: "\<forall>ev\<in>set events. sane_event s ev"
    using Cons.prems(2) by simp
  show ?case
  proof (cases ev)
    case (PreferenceEvent msg)
    then have "node_ok s (n\<lparr>n_manager := (n_manager n)\<lparr>sm_table := makeShardPrefHandler msg (sm_table (n_manager n))\<rparr>\<rparr>)"
      using Cons.prems by (intro preference_ok) simp_all
    from Cons.IH [OF this evs, of w] PreferenceEvent show ?thesis by simp
  next
    case (RpcEvent ch call)
    then have sane: "wf_choices (sv_sm s) ch" "sane_call s call"
      using Cons.prems(2) by simp_all
    obtain r n1 w1 where h: "handle s ch call n w = Some (r, n1, w1)" "node_ok s n1"
      using handle_ok [OF assms(1) Cons.prems(1) sane, of w] by (elim exE conjE)
    obtain rs n2 w2 where "serve s events n1 w1 = Some (rs, n2, w2)" "node_ok s n2" "length rs = count_calls events"
      using Cons.IH [OF h(2) evs, of w1] by (elim exE conjE)
    with h(1) RpcEvent show ?thesis by simp
  qed
qed

lemma subscribe_then_get:
  assumes "sound_env (sv_sm s)" and "mgr_ok (sv_sm s) (n_manager n)"
    and "\<forall>k sm. mgr_ok (sv_sm s) sm \<longrightarrow> wf_schedule (sv_sm s) sm (scheds k sm)"
    and "\<forall>shard\<in>set (ss_ShardIDs req). 0 \<le> sint shard"
  shows "\<exists>n' w' xs. SubscribeShard s scheds req n w = Some (Inr (), n', w')
    \<and> GetSubscribedShard s n' = Some (Inr \<lparr>gsr_ShardIDs = xs\<rparr>)
    \<and> set xs = listened (sv_sm s) (n_manager n) \<union> (set (ss_ShardIDs req) \<inter> Collect valid_shard)
    \<and> sorted_wrt (\<lambda>a b. sint a < sint b) xs
    \<and> (\<forall>shard\<in>set xs. IsCollationSubscribed (n_manager n') shard)
    \<and> (\<forall>ureq w1. \<exists>n2 w2. UnsubscribeShard s ureq n' w1 = Some (Inr (), n2, w2)
         \<and> listened (sv_sm s) (n_manager n2) = set xs - set (us_ShardIDs ureq))"
proof -
  obtain sm w' where sub: "SubscribeShard_loop (sv_sm s) scheds (ss_NumShardPeerToConnect req) (ss_ShardIDs req) []
      (n_manager n) w = Some ([] @ filter valid_shard (ss_ShardIDs req), sm, w')" "mgr_ok (sv_sm s) sm"
    "listened (sv_sm s) sm = listened (sv_sm s) (n_manager n) \<union> (set (ss_ShardIDs req) \<inter> Collect valid_shard)"
    using SubscribeShard_loop_ok [OF assms(1,3,4,2), of "ss_NumShardPeerToConnect req" "[]" w] by (elim exE conjE)
  obtain xs where xs: "GetListeningShards (sv_sm s) sm = Some xs" "set xs = listened (sv_sm s) sm"
    "sorted_wrt (\<lambda>a b. sint a < sint b) xs"
    using GetPeerListeningShardSlice_wf [OF mgr_okD(2) [OF sub(2)], of "e_self (sv_sm s)"]
    by (auto simp: GetListeningShards_def listened_def)
  have "IsCollationSubscribed sm shard" if "shard \<in> set xs" for shard
  proof -
    have "valid_shard shard" using that xs(2) pref_valid unfolding listened_def by blast
    then show ?thesis
      using that xs(2) consistentD(2) [OF mgr_okD(1) [OF sub(2)]] by (simp add: listened_def)
  qed
  moreover have "\<exists>n2 w2. UnsubscribeShard s ureq (n\<lparr>n_manager := sm\<rparr>) w1 = Some (Inr (), n2, w2)
      \<and> listened (sv_sm s) (n_manager n2) = set xs - set (us_ShardIDs ureq)" for ureq w1
    using UnsubscribeShard_loop_ok [OF assms(1) sub(2), of "us_ShardIDs ureq" "[]" w1] xs(2)
    by (auto simp: UnsubscribeShard_def)
  ultimately show ?thesis
    using sub(1,3) xs
    by (intro exI [of _ "n\<lparr>n_manager := sm\<rparr>"] exI [of _ w'] exI [of _ xs])
      (simp add: SubscribeShard_def GetSubscribedShard_def)
qed

section \<open>A sample server\<close>

definition sample_server :: "(string, sample_world) server" where
  "sample_server = \<lparr>sv_node = sample_node_env, sv_collation = sample_collation_codec, sv_net = sample_network,
     sv_request = \<lparr>wire_Encode = (\<lambda>st m w. (None, w)), wire_Decode = (\<lambda>st w. (Inl (External ''EOF''), w))\<rparr>,
     sv_response = \<lparr>wire_Encode = (\<lambda>st m w. (None, w)), wire_Decode = (\<lambda>st w. (Inl (External ''EOF''), w))\<rparr>,
     sv_decode = Inr, sv_pretty = id, sv_makeKey = (\<lambda>seed. Inr (''key'', ''self'')), sv_NewMultiaddr = Inr,
     sv_StringCast = (\<lambda>a. if a = '''' then None else Some a),
     sv_InfoFromAddr = (\<lambda>a. Inr \<lparr>pi_ID = a, pi_Addrs = []\<rparr>), sv_maxAlloc = 1000000\<rparr>"

text \<open>Ranges over the table in the order of the peers' identifiers.\<close>

definition sample_visit :: "peer_ID set \<Rightarrow> ShardManager \<Rightarrow> peer_ID list" where
  "sample_visit extra sm = sorted_list_of_set (extra \<union> dom (shardPrefMap (sm_table sm)))"

definition sample_scheds :: "nat \<Rightarrow> ShardManager \<Rightarrow> schedule" where
  "sample_scheds k sm = \<lparr>s_visit = sample_visit {''self''} sm, s_rnd = (\<lambda>_. 0), s_dial = id\<rparr>"

definition sample_choices :: choices where
  "sample_choices = \<lparr>ch_visits = (\<lambda>k. sample_visit {}), ch_scheds = sample_scheds, ch_bytes = (\<lambda>i j. 0), ch_boot = id\<rparr>"

lemma sample_server_sm [simp]:
  "ne_sm sample_node_env = sample_env" "sv_maxAlloc sample_server = 1000000"
  "sv_node sample_server = sample_node_env"
  "sv_StringCast sample_server = (\<lambda>a. if a = '''' then None else Some a)"
  by (simp_all add: sample_server_def sample_node_env_def)

lemma sample_server_sound [simp]: "sound_server sample_server"
  by (simp add: sound_server_def)

lemma sample_wf_scheds: "mgr_ok sample_env sm \<Longrightarrow> wf_schedule sample_env sm (sample_scheds k sm)"
  using mgr_okD(3) [of sample_env sm]
  by (simp add: wf_schedule_def sample_scheds_def sample_visit_def del: sorted_list_of_set_insert_remove)

lemma sample_wf_choices: "wf_choices sample_env sample_choices"
proof -
  have "range_visit (sm_table sm) (sample_visit {} sm)" if "mgr_ok sample_env sm" for sm
    using mgr_okD(3) [OF that] by (simp add: range_visit_def sample_visit_def)
  then show ?thesis
    by (simp add: wf_choices_def sample_choices_def sample_wf_scheds)
qed

lemma sample_node_ok': "node_ok sample_server sample_node"
  by (simp add: node_ok_def mgr_ok_def sample_node_def bootstrap_ok_def consistent_def IsCollationSubscribed_def)

section \<open>Properties\<close>

text \<open>
  C2: a node survives every sane call.  In an environment in which nothing fails, a node in the
  invariant that is given any sequence of calls with sane arguments, interleaved with long enough
  preference messages of other peers, never panics; it answers every call, and the invariant holds
  at the end, in particular every valid shard is listened to exactly when its topic is subscribed.
\<close>

theorem serve_survives:
  assumes "sound_server s" and "node_ok s n" and "\<forall>ev\<in>set events. sane_event s ev"
  shows "\<exists>rs n' w'. serve s events n w = Some (rs, n', w') \<and> length rs = count_calls events \<and> node_ok s n'
    \<and> (\<forall>shard. valid_shard shard \<longrightarrow>
         IsShardListened (sv_sm s) (n_manager n') shard = Some (IsCollationSubscribed (n_manager n') shard))"
proof -
  obtain rs n' w' where r: "serve s events n w = Some (rs, n', w')" "node_ok s n'" "length rs = count_calls events"
    using serve_ok [OF assms, of w] by (elim exE conjE)
  then have "consistent (sv_sm s) (n_manager n')"
    by (simp add: node_ok_def mgr_ok_def)
  with r show ?thesis
    using consistentD [of "sv_sm s" "n_manager n'"] by (auto simp: IsShardListened_wf)
qed

text \<open>
  C4: subscribing, asking and unsubscribing.  In such an environment \<open>SubscribeShard\<close> of non-negative
  identifiers always reports success; the valid ones among them, and no others, are added to the
  shards listened to.  \<open>GetSubscribedShard\<close> then lists the listened shards in increasing order, and
  \<open>UnsubscribeShard\<close> removes exactly the shards it names.
\<close>

theorem SubscribeShard_effect:
  assumes "sound_env (sv_sm s)" and "mgr_ok (sv_sm s) (n_manager n)"
    and "\<forall>k sm. mgr_ok (sv_sm s) sm \<longrightarrow> wf_schedule (sv_sm s) sm (scheds k sm)"
    and "\<forall>shard\<in>set (ss_ShardIDs req). 0 \<le> sint shard"
  shows "\<exists>n' w' xs. SubscribeShard s scheds req n w = Some (Inr (), n', w')
    \<and> GetSubscribedShard s n' = Some (Inr \<lparr>gsr_ShardIDs = xs\<rparr>)
    \<and> set xs = listened (sv_sm s) (n_manager n) \<union> (set (ss_ShardIDs req) \<inter> Collect valid_shard)
    \<and> sorted_wrt (\<lambda>a b. sint a < sint b) xs
    \<and> (\<forall>shard\<in>set xs. IsCollationSubscribed (n_manager n') shard)
    \<and> (\<forall>ureq w1. \<exists>n2 w2. UnsubscribeShard s ureq n' w1 = Some (Inr (), n2, w2)
         \<and> listened (sv_sm s) (n_manager n2) = set xs - set (us_ShardIDs ureq))"
  using assms by (rule subscribe_then_get)

theorem serve_survives_witness:
  "\<exists>rs n' w'. serve sample_server
      [RpcEvent sample_choices (CallSubscribeShard \<lparr>ss_NumShardPeerToConnect = 1, ss_ShardIDs = [42, 100]\<rparr>),
       PreferenceEvent \<lparr>msg_From = ''q'', msg_Data = replicate 13 255\<rparr>,
       RpcEvent sample_choices (CallBootstrap \<lparr>bs_Flag = True, bs_BootnodesStr = ''a''\<rparr>)] sample_node []
    = Some (rs, n', w') \<and> length rs = 2 \<and> node_ok sample_server n'"
  (is "\<exists>rs n' w'. serve _ ?events _ _ = _ \<and> _")
proof -
  have "\<forall>ev\<in>set ?events. sane_event sample_server ev"
    by (simp add: sample_wf_choices)
  from serve_survives [OF sample_server_sound sample_node_ok' this, of "[]"]
  obtain rs n' w' where "serve sample_server ?events sample_node [] = Some (rs, n', w')"
    "length rs = count_calls ?events" "node_ok sample_server n'"
    by (elim exE conjE)
  then show ?thesis
    by (intro exI [of _ rs] exI [of _ n'] exI [of _ w']) (simp del: serve.simps)
qed

theorem SubscribeShard_effect_witness:
  "\<exists>n' w' xs. SubscribeShard sample_server sample_scheds
      \<lparr>ss_NumShardPeerToConnect = 1, ss_ShardIDs = [42, 7]\<rparr> sample_node [] = Some (Inr (), n', w')
    \<and> GetSubscribedShard sample_server n' = Some (Inr \<lparr>gsr_ShardIDs = xs\<rparr>) \<and> set xs = {7, 42}"
proof -
  let ?req = "\<lparr>ss_NumShardPeerToConnect = 1, ss_ShardIDs = [42, 7]\<rparr>"
  have "mgr_ok (sv_sm sample_server) (n_manager sample_node)"
    using sample_node_ok' by (simp add: node_ok_def)
  then obtain n' w' xs where "SubscribeShard sample_server sample_scheds ?req sample_node [] = Some (Inr (), n', w')"
    "GetSubscribedShard sample_server n' = Some (Inr \<lparr>gsr_ShardIDs = xs\<rparr>)"
    "set xs = listened (sv_sm sample_server) (n_manager sample_node) \<union> (set (ss_ShardIDs ?req) \<inter> Collect valid_shard)"
    using SubscribeShard_effect [of sample_server sample_node sample_scheds ?req "[]"] sample_wf_scheds
    by auto
  then show ?thesis
    by (intro exI [of _ n'] exI [of _ w'] exI [of _ xs])
      (auto simp: listened_def sample_node_def valid_shard_def)
qed

end
