(* ===== verification/RpcCalls.thy ===== *)
theory RpcCalls
  imports Service
begin

text \<open>
  Single calls of the RPC service: what discovery answers, what the test broadcast publishes, which
  peer \<open>AddPeer\<close> dials, and the arguments that end the process.
\<close>

section \<open>Lemmas\<close>

lemma BroadcastCollation_loop_publishes:
  assumes "IsCollationSubscribed sm shardID" and "0 \<le> sint len" "sint len \<le> maxAlloc"
    and "\<forall>c. Marshal cc c = (enc c, None)" and "\<forall>m. Marshal (e_codec e) m = (menc m, None)"
    and "publishes e"
  shows "BroadcastCollation_loop e cc maxAlloc rnd shardID len k (of_nat j) sm w = Some (Inr (),
    fold (\<lambda>i w. snd (ps_Publish (e_pubsub e) (getCollationsTopic shardID)
        (menc \<lparr>mt_MsgType = typeCollation, mt_Data = enc \<lparr>co_ShardID = shardID, co_Period = of_nat i,
          co_Blobs = map (rnd (of_nat i)) [0..<nat (sint len)]\<rparr>\<rparr>) w)) [j..<j + k] w)"
proof (induction k arbitrary: j w)
  case 0
  then show ?case by simp
next
  case (Suc k)
  let ?c = "\<lparr>co_ShardID = shardID, co_Period = of_nat j, co_Blobs = map (rnd (of_nat j)) [0..<nat (sint len)]\<rparr>"
  let ?m = "menc \<lparr>mt_MsgType = typeCollation, mt_Data = enc ?c\<rparr>"
  obtain w1 where w1: "ps_Publish (e_pubsub e) (getCollationsTopic shardID) ?m w = (None, w1)"
    using assms(6) unfolding publishes_def by (metis prod.collapse)
  have "broadcastCollation e cc shardID (of_nat j) (co_Blobs ?c) sm w = Some (None, w1)"
    using broadcast_publishes [of sm ?c e cc ?m w] assms(1,4,5) w1 by (simp add: broadcastCollation_eq)
  moreover have "make_bytes maxAlloc (rnd (of_nat j)) len = Some (co_Blobs ?c)"
    using assms(2,3) by (simp add: make_bytes_def)
  moreover have "[j..<j + Suc k] = j # [Suc j..<Suc j + k]"
    by (simp add: upt_conv_Cons)
  moreover have "of_nat j + 1 = (of_nat (Suc j) :: int64)" by simp
  ultimately show ?case
    using Suc.IH [of "Suc j" w1] w1 by (simp del: upt_Suc of_nat_Suc)
qed

lemma shorter_size_eq:
  "100 < sint len \<Longrightarrow> sint (len - 100 :: int64) = sint len - 100"
proof -
  assume "100 < sint len"
  moreover have "len - 100 = word_of_int (sint len - 100)" by simp
  ultimately show ?thesis
    using sint64_bounds(2) [of len] by (simp add: sint64_of_int del: of_int_diff)
qed

lemma DiscoverShard_answers:
  assumes "uses_global_table (sv_sm s)" and "wf_table (sm_table (n_manager n))"
    and "\<forall>k. range_visit (sm_table (n_manager n)) (visits k)" and "peerstore_ids (sv_host s) w"
    and "lt_Topics req \<noteq> []" and "\<forall>topic\<in>set (lt_Topics req). \<forall>shard. names_shard topic shard \<longrightarrow> 0 \<le> sint shard"
  shows "\<exists>m. DiscoverShard s visits req n w = Some (Inr \<lparr>lt_TopicPeers = m\<rparr>, w)
    \<and> dom m = {topic\<in>set (lt_Topics req). \<exists>shard. names_shard topic shard}
    \<and> (\<forall>topic shard. topic \<in> dom m \<longrightarrow> names_shard topic shard \<longrightarrow>
        (\<exists>ps. m topic = Some (peerIDsToPBPeers (sv_pretty s) ps) \<and> distinct ps
          \<and> set ps = {p. p \<noteq> e_self (sv_sm s) \<and> shard \<in> pref (sm_table (n_manager n)) p}))"
proof -
  let ?t = "sm_table (n_manager n)"
  obtain m where m: "DiscoverShard_loop s visits ?t w (lt_Topics req) Map.empty = Some m"
    "dom m = dom Map.empty \<union> {topic\<in>set (lt_Topics req). \<exists>shard. names_shard topic shard}"
    "\<forall>topic entry. m topic = Some entry \<longrightarrow> found_peers s ?t topic entry"
    using DiscoverShard_loop_ok [OF assms(1-4,6), of Map.empty] by auto
  have "\<exists>ps. m topic = Some (peerIDsToPBPeers (sv_pretty s) ps) \<and> distinct ps
      \<and> set ps = {p. p \<noteq> e_self (sv_sm s) \<and> shard \<in> pref ?t p}"
    if h: "topic \<in> dom m" "names_shard topic shard" for topic shard
  proof -
    obtain entry where e: "m topic = Some entry" using h(1) by blast
    with m(3) obtain shard' ps where ps: "names_shard topic shard'" "entry = peerIDsToPBPeers (sv_pretty s) ps"
      "distinct ps" "set ps = {p. p \<noteq> e_self (sv_sm s) \<and> shard' \<in> pref ?t p}"
      unfolding found_peers_def by blast
    have "shard' = shard" by (rule names_shard_unique [OF ps(1) h(2)])
    with e ps show ?thesis by blast
  qed
  moreover have "DiscoverShard s visits req n w = Some (Inr \<lparr>lt_TopicPeers = m\<rparr>, w)"
    using m(1) assms(5) by (simp add: DiscoverShard_def)
  ultimately show ?thesis using m(2) by (intro exI [of _ m]) simp
qed

section \<open>Properties\<close>

text \<open>
  C15: what discovery answers.  For topics that name no negative shard, in a well-formed table,
  \<open>DiscoverShard\<close> answers with an entry for exactly those topics that name a shard, by number or by
  collation topic; the entry lists the other peers recorded in that shard, each once.
\<close>

theorem DiscoverShard_exact:
  assumes "uses_global_table (sv_sm s)" and "wf_table (sm_table (n_manager n))"
    and "\<forall>k. range_visit (sm_table (n_manager n)) (visits k)" and "peerstore_ids (sv_host s) w"
    and "lt_Topics req \<noteq> []" and "\<forall>topic\<in>set (lt_Topics req). \<forall>shard. names_shard topic shard \<longrightarrow> 0 \<le> sint shard"
  shows "\<exists>m. DiscoverShard s visits req n w = Some (Inr \<lparr>lt_TopicPeers = m\<rparr>, w)
    \<and> dom m = {topic\<in>set (lt_Topics req). \<exists>shard. names_shard topic shard}
    \<and> (\<forall>topic shard. topic \<in> dom m \<longrightarrow> names_shard topic shard \<longrightarrow>
        (\<exists>ps. m topic = Some (peerIDsToPBPeers (sv_pretty s) ps) \<and> distinct ps
          \<and> set ps = {p. p \<noteq> e_self (sv_sm s) \<and> shard \<in> pref (sm_table (n_manager n)) p}))"
  using assms by (rule DiscoverShard_answers)

theorem DiscoverShard_exact_witness:
  "\<exists>m. DiscoverShard sample_server (\<lambda>k. []) \<lparr>lt_Topics = [''x'', FormatInt 42]\<rparr> sample_node [] =
      Some (Inr \<lparr>lt_TopicPeers = m\<rparr>, []) \<and> FormatInt 42 \<in> dom m"
proof -
  have x: "\<not> names_shard ''x'' shard" for shard
    by (simp add: names_shard_def shardTopicToShardID_def remove_all_absent ParseInt_def is_digit_char_def
        collationTopicFmt_def)
  have "\<forall>topic\<in>set [''x'', FormatInt 42]. \<forall>shard. names_shard topic shard \<longrightarrow> 0 \<le> sint shard"
    using x by (auto dest: names_shard_unique [OF names_shard_simps(1)])
  moreover have "\<exists>shard. names_shard (FormatInt 42) shard"
    using names_shard_simps(1) by blast
  ultimately show ?thesis
    using DiscoverShard_exact [of sample_server sample_node "\<lambda>k. []" "[]" "\<lparr>lt_Topics = [''x'', FormatInt 42]\<rparr>"]
    by (auto simp: uses_global_tableD(2) sample_node_def range_visit_def)
qed

text \<open>
  C18: what the test broadcast publishes.  On a subscribed shard, with encodings and publications that
  succeed and a size that can be allocated, \<open>BroadcastCollation\<close> publishes exactly \<open>Number\<close>
  collations on the topic of the shard, numbered from 0 in their period, with blobs of the given
  size, of which 100 bytes are left off when it is larger than 100.
\<close>

theorem BroadcastCollation_publishes:
  assumes "IsCollationSubscribed (n_manager n) (bc_ShardID req)"
    and "0 \<le> sint (bc_Size req)" and "sint (bc_Size req) \<le> sv_maxAlloc s"
    and "\<forall>c. Marshal (sv_collation s) c = (enc c, None)" and "\<forall>m. Marshal (e_codec (sv_sm s)) m = (menc m, None)"
    and "publishes (sv_sm s)"
    and "len = (if 100 < sint (bc_Size req) then nat (sint (bc_Size req)) - 100 else nat (sint (bc_Size req)))"
  shows "BroadcastCollation s rnd req n w = Some (Inr (),
    fold (\<lambda>i w. snd (ps_Publish (e_pubsub (sv_sm s)) (getCollationsTopic (bc_ShardID req))
        (menc \<lparr>mt_MsgType = typeCollation, mt_Data = enc \<lparr>co_ShardID = bc_ShardID req, co_Period = of_nat i,
          co_Blobs = map (rnd (of_nat i)) [0..<len]\<rparr>\<rparr>) w)) [0..<nat (sint (bc_Number req))] w)"
proof -
  let ?len = "if 100 < sint (bc_Size req) then bc_Size req - 100 else bc_Size req"
  have "nat (sint ?len) = len"
    using assms(2,7) by (auto simp: shorter_size_eq nat_diff_distrib)
  then show ?thesis
    unfolding BroadcastCollation_def Let_def
    using BroadcastCollation_loop_publishes [OF assms(1) shorter_size [OF assms(2,3)] assms(4,5,6), where j = 0]
    by simp
qed

theorem BroadcastCollation_publishes_witness:
  "BroadcastCollation sample_server (\<lambda>i j. 9) \<lparr>bc_ShardID = 42, bc_Number = 2, bc_Size = 101, bc_Period = 0\<rparr>
      (sample_node\<lparr>n_manager := sample_manager\<lparr>subs := [getCollationsTopic 42 \<mapsto> 0]\<rparr>\<rparr>) []
    = Some (Inr (), [(getCollationsTopic 42, [1, 42, 0, 9]), (getCollationsTopic 42, [1, 42, 1, 9])])"
proof -
  let ?n = "sample_node\<lparr>n_manager := sample_manager\<lparr>subs := [getCollationsTopic 42 \<mapsto> 0]\<rparr>\<rparr>"
  let ?r = "\<lparr>bc_ShardID = 42, bc_Number = 2, bc_Size = 101, bc_Period = 0\<rparr>"
  have "sv_collation sample_server = sample_collation_codec" "e_codec sample_env = sample_codec"
    by (simp_all add: sample_server_def sample_env_def)
  moreover have "[0..<2] = [0, 1 :: nat]" by code_simp
  ultimately show ?thesis
    using BroadcastCollation_publishes [of ?n ?r sample_server "\<lambda>c. fst (Marshal sample_collation_codec c)"
        "\<lambda>m. fst (Marshal sample_codec m)" 1 "\<lambda>i j. 9" "[]"] sample_sound
    by (simp add: IsCollationSubscribed_def sample_collation_codec_def sample_codec_def sound_env_def typeCollation_def)
qed

text \<open>
  C26: arguments that end the process.  A test broadcast of at least one collation of negative size
  panics, whether or not the shard is subscribed; a \<open>SendCollation\<close> without collation panics; and
  so does switching bootstrapping on with a list of bootnodes whose first text is no multiaddress.
\<close>

theorem calls_that_panic:
  assumes "sint (bc_Size breq) < 0" and "0 < sint (bc_Number breq)"
    and "sv_StringCast s bad = None" and "CHR '','' \<notin> set bad"
  shows "BroadcastCollation s rnd breq n w = None
    \<and> SendCollation s \<lparr>sc_Collation = None\<rparr> n w = None
    \<and> Bootstrap s sched \<lparr>bs_Flag = True, bs_BootnodesStr = bad\<rparr> n w = None
    \<and> Bootstrap s sched \<lparr>bs_Flag = True, bs_BootnodesStr = bad @ '','' @ rest\<rparr> n w = None"
proof -
  obtain k where k: "nat (sint (bc_Number breq)) = Suc k"
    using assms(2) by (cases "nat (sint (bc_Number breq))") auto
  have "BroadcastCollation s rnd breq n w = None"
    using assms(1) by (simp add: BroadcastCollation_def k make_bytes_def)
  with assms(3,4) show ?thesis
    by (simp add: SendCollation_def Bootstrap_def convertPeers_def split_on_absent split_on_append)
qed

theorem calls_that_panic_witness:
  "BroadcastCollation sample_server (\<lambda>i j. 0) \<lparr>bc_ShardID = 42, bc_Number = 1, bc_Size = - 1, bc_Period = 0\<rparr>
      sample_node [] = None
    \<and> Bootstrap sample_server id \<lparr>bs_Flag = True, bs_BootnodesStr = ''''\<rparr> sample_node [] = None"
  using calls_that_panic [of "\<lparr>bc_ShardID = 42, bc_Number = 1, bc_Size = - 1, bc_Period = 0\<rparr>" sample_server
      "''''" "\<lambda>i j. 0" sample_node "[]" id] by simp

text \<open>
  C31: the service cannot start bootstrapping without bootnodes, the command line can.  If the empty
  text is no peer's address, a \<open>Bootstrap\<close> call with an empty list of bootnodes panics or returns an
  error and leaves the node as it is.  A node made with the bootstrapping flag and no bootnodes is
  bootstrapping, provided the DHT starts.
\<close>

theorem Bootstrap_call_needs_bootnodes:
  assumes "\<nexists>p. converts (sv_StringCast s) (sv_InfoFromAddr s) '''' p"
    and "makeNode libs bsched ctx ip port seed notifier True [] v = Some (Inr (ne, m, v'))"
    and "\<forall>c v. fst (nl_dht_Bootstrap libs c v) = None"
  shows "(Bootstrap s sched \<lparr>bs_Flag = True, bs_BootnodesStr = ''''\<rparr> n w = None
      \<or> (\<exists>err. Bootstrap s sched \<lparr>bs_Flag = True, bs_BootnodesStr = ''''\<rparr> n w = Some (Inl err, n, w)))
    \<and> IsBootstrapping m"
proof (intro conjI)
  show "Bootstrap s sched \<lparr>bs_Flag = True, bs_BootnodesStr = ''''\<rparr> n w = None
      \<or> (\<exists>err. Bootstrap s sched \<lparr>bs_Flag = True, bs_BootnodesStr = ''''\<rparr> n w = Some (Inl err, n, w))"
    using assms(1) by (cases "sv_StringCast s ''''")
      (auto simp: Bootstrap_def convertPeers_def converts_def split: sum.splits)
  obtain n0 v2 r where nn: "NewNode (nl_newGossipSub libs) (nl_setStreamHandler libs) (nl_codec libs) (e_host (ne_sm ne)) notifier v2
      = Some (ne_sm ne, n0, r)" "\<exists>q. StartBootstrapping ne bsched ctx [] n0 r = (q, m, v')"
    using assms(2) by (elim makeNode_cases) auto
  have dht: "ne_dht_Bootstrap ne = nl_dht_Bootstrap libs"
    using assms(2) by (auto simp: makeNode_def Let_def bind_eq_Some_iff case_prod_beta split: sum.splits)
  obtain q where st: "StartBootstrapping ne bsched ctx [] n0 r = (q, m, v')" using nn(2) by blast
  have off: "bootstrap_ok n0" "\<not> IsBootstrapping n0"
    using NewNode_bootstrap_ok [OF nn(1)] by simp_all
  have "q = None"
    using st assms(3) off(2) unfolding IsBootstrapping_def StartBootstrapping_def dht Let_def
    by (auto split: prod.splits option.splits) (metis fst_conv option.distinct(1))
  with dht.start_ok [OF off(1) st] show "IsBootstrapping m" by simp
qed

theorem Bootstrap_call_needs_bootnodes_witness:
  "\<exists>ne m. makeNode sample_libs id 0 ''127.0.0.1'' 10000 0 mockReceive True [] [] = Some (Inr (ne, m, []))
    \<and> IsBootstrapping m"
proof -
  obtain ne m where mk: "makeNode sample_libs id 0 ''127.0.0.1'' 10000 0 mockReceive True [] [] = Some (Inr (ne, m, []))"
    by (simp add: makeNode_def NewNode_def NewShardManager_def SubscribeListeningShards_def SubscribeTopic_def
        NewRequestProtocol_def sample_libs_def StartBootstrapping_def bootstrapConnect_def Let_def)
  have "\<nexists>p. converts (sv_StringCast sample_server) (sv_InfoFromAddr sample_server) '''' p"
    by (simp add: converts_def)
  moreover have "\<forall>c v. fst (nl_dht_Bootstrap sample_libs c v) = None"
    by (simp add: sample_libs_def)
  ultimately have "IsBootstrapping m"
    using Bootstrap_call_needs_bootnodes [OF _ mk, of sample_server id sample_node "[]"] by simp
  with mk show ?thesis by blast
qed

text \<open>
  C32: \<open>AddPeer\<close> reaches the node started with the same arguments.  Suppose a node was made with an IP
  address, a port and a seed, and the host library gives a host the identity of its key.  Then
  \<open>AddPeer\<close> with the same three values, on any node using the same key generation, records the
  address that node listens on under that node's identity and connects to it.
\<close>

theorem AddPeer_reaches_node:
  assumes "nl_makeKey libs = makeKey newRand genKey idOf"
    and "\<forall>priv addr v h v'. nl_newHost libs priv addr v = (Inr h, v') \<longrightarrow> idOf priv = Inr (h_ID h)"
    and "makeNode libs bsched ctx ip port seed notifier bs peers v = Some (Inr (ne, m, v'))"
    and "sv_makeKey s = nl_makeKey libs" and "sv_NewMultiaddr s (listenAddr ip port) = Inr addr"
  shows "AddPeer s \<lparr>ap_Ip = ip, ap_Port = port, ap_Seed = seed\<rparr> w =
    (let target = h_ID (ne_host ne);
         w1 = h_AddAddrs (sv_host s) target [addr] w;
         (err, w2) = h_Connect (sv_host s) (h_PeerInfo (sv_host s) target w1) w1
     in (case err of None \<Rightarrow> Inr () | Some e \<Rightarrow> Inl (Errorf ''Failed to connect to peer'' e), w2))"
proof -
  obtain priv pid h v1 where k: "nl_makeKey libs seed = Inr (priv, pid)"
    "nl_newHost libs priv (listenAddr ip port) v = (Inr h, v1)" "ne_host ne = h"
    using assms(3) by (rule makeNode_cases)
  have "idOf priv = Inr pid"
    using k(1) unfolding assms(1) by (auto simp: makeKey_def Let_def split: sum.splits)
  then have "pid = h_ID h"
    using assms(2) k(2) by force
  moreover have "sv_NewMultiaddr s (''/ip4/'' @ ip @ ''/tcp/'' @ FormatInt port) = Inr addr"
    using assms(5) by (simp add: listenAddr_def)
  ultimately show ?thesis
    using k(1,3) assms(4)
    by (simp add: AddPeer_def Let_def split: prod.splits option.splits)
qed

theorem AddPeer_reaches_node_witness:
  "AddPeer sample_server \<lparr>ap_Ip = ''127.0.0.1'', ap_Port = 10000, ap_Seed = 0\<rparr> [] = (Inr (), [])"
proof -
  have "nl_makeKey sample_libs = makeKey (\<lambda>seed. ()) (\<lambda>r. Inr ''key'') (\<lambda>k. Inr ''self'')"
    by (simp add: sample_libs_def makeKey_def fun_eq_iff)
  moreover have "\<forall>priv addr v h v'. nl_newHost sample_libs priv addr v = (Inr h, v')
      \<longrightarrow> (\<lambda>k. Inr ''self'') priv = (Inr (h_ID h) :: go_error + peer_ID)"
    by (auto simp: sample_libs_def)
  moreover have "sv_makeKey sample_server = nl_makeKey sample_libs"
    "sv_NewMultiaddr sample_server (listenAddr ''127.0.0.1'' 10000) = Inr (listenAddr ''127.0.0.1'' 10000)"
    by (simp_all add: sample_server_def sample_libs_def)
  ultimately show ?thesis
    using AddPeer_reaches_node [OF _ _ sample_makeNode, of "\<lambda>seed. ()" "\<lambda>r. Inr ''key''" "\<lambda>k. Inr ''self''"
        sample_server "listenAddr ''127.0.0.1'' 10000" "[]"]
    by (simp add: sample_host_def)
qed

end
