(* ===== verification/Cli.thy ===== *)
theory Cli
  imports RpcCalls
begin

text \<open>
  Model of \<open>src/cli.go\<close> and of \<open>runClient\<close> in \<open>src/main.go\<close>: the command line of the RPC client.  A
  command parses its arguments, makes one call of the service and prints what came back.  Every
  failure is fatal (\<open>None\<close>); usage errors and arguments that do not parse are found before anything
  is sent.  The connection is a parameter, and printing as JSON is left out: the result is the value
  that is printed.
\<close>

section \<open>Calling the service\<close>

record ('conn, 'w) client =
  cl_Dial :: "string \<Rightarrow> 'w \<Rightarrow> (go_error + 'conn) \<times> 'w"
  cl_Call :: "'conn \<Rightarrow> rpc_call \<Rightarrow> 'w \<Rightarrow> (go_error + rpc_answer) \<times> 'w"
  cl_Close :: "'conn \<Rightarrow> 'w \<Rightarrow> 'w"

datatype printed = NoOutput
  | OutIdentify RPCIdentifyResponse
  | OutPeerMap "string \<rightharpoonup> string list"
  | OutShards "int64 list"
  | OutPeers "string list"

definition invoke :: "('conn, 'w) client \<Rightarrow> string \<Rightarrow> rpc_call \<Rightarrow> 'w \<Rightarrow> (rpc_answer \<times> 'w) run" where
  "invoke cl rpcAddr call w =
     (case cl_Dial cl rpcAddr w of
        (Inl err, w1) \<Rightarrow> None
      | (Inr conn, w1) \<Rightarrow>
          (case cl_Call cl conn call w1 of
             (Inl err, w2) \<Rightarrow> None
           | (Inr res, w2) \<Rightarrow> Some (res, cl_Close cl conn w2)))"

definition callIdentify :: "('conn, 'w) client \<Rightarrow> string \<Rightarrow> 'w \<Rightarrow> (printed \<times> 'w) run" where
  "callIdentify cl rpcAddr w = do {
     (res, w1) \<leftarrow> invoke cl rpcAddr CallIdentify w;
     (case res of AnswerIdentify r \<Rightarrow> Some (OutIdentify r, w1) | _ \<Rightarrow> None)
   }"

definition callRPCAddPeer :: "('conn, 'w) client \<Rightarrow> string \<Rightarrow> string \<Rightarrow> int64 \<Rightarrow> int64 \<Rightarrow> 'w \<Rightarrow> (printed \<times> 'w) run" where
  "callRPCAddPeer cl rpcAddr ipAddr port seed w = do {
     (res, w1) \<leftarrow> invoke cl rpcAddr (CallAddPeer \<lparr>ap_Ip = ipAddr, ap_Port = port, ap_Seed = seed\<rparr>) w;
     Some (NoOutput, w1)
   }"

text \<open>
  Answers by topic are turned into answers by shard; \<open>keys\<close> is the order in which the map is ranged
  over.
\<close>

fun shardPeers_of :: "(string \<Rightarrow> string) \<Rightarrow> (string \<rightharpoonup> PBPeers) \<Rightarrow> string list \<Rightarrow> (string \<rightharpoonup> string list)
    \<Rightarrow> (string \<rightharpoonup> string list) run" where
  "shardPeers_of name res [] shardPeers = Some shardPeers"
| "shardPeers_of name res (topic # topics) shardPeers = do {
     peers \<leftarrow> res topic;
     let peerSlice = Peers peers;
     shardPeers_of name res topics (shardPeers(name topic \<mapsto> peerSlice))
   }"

definition callRPCDiscover :: "('conn, 'w) client \<Rightarrow> ((string \<rightharpoonup> PBPeers) \<Rightarrow> string list) \<Rightarrow> string
    \<Rightarrow> ShardIDType list \<Rightarrow> 'w \<Rightarrow> (printed \<times> 'w) run" where
  "callRPCDiscover cl keys rpcAddr shards w = do {
     let topics = map getCollationsTopic shards;
     (res, w1) \<leftarrow> invoke cl rpcAddr (CallDiscoverShard \<lparr>lt_Topics = topics\<rparr>) w;
     (case res of
        AnswerTopicPeers r \<Rightarrow> do {
          shardPeers \<leftarrow> shardPeers_of shardTopicToShardID (lt_TopicPeers r) (keys (lt_TopicPeers r)) Map.empty;
          Some (OutPeerMap shardPeers, w1)
        }
      | _ \<Rightarrow> None)
   }"

definition callRPCSubscribeShard :: "('conn, 'w) client \<Rightarrow> string \<Rightarrow> int64 \<Rightarrow> ShardIDType list \<Rightarrow> 'w
    \<Rightarrow> (printed \<times> 'w) run" where
  "callRPCSubscribeShard cl rpcAddr numShardPeerToConnect shardIDs w = do {
     (res, w1) \<leftarrow> invoke cl rpcAddr (CallSubscribeShard
       \<lparr>ss_NumShardPeerToConnect = numShardPeerToConnect, ss_ShardIDs = shardIDs\<rparr>) w;
     Some (NoOutput, w1)
   }"

definition callRPCUnsubscribeShard :: "('conn, 'w) client \<Rightarrow> string \<Rightarrow> ShardIDType list \<Rightarrow> 'w \<Rightarrow> (printed \<times> 'w) run" where
  "callRPCUnsubscribeShard cl rpcAddr shardIDs w = do {
     (res, w1) \<leftarrow> invoke cl rpcAddr (CallUnsubscribeShard \<lparr>us_ShardIDs = shardIDs\<rparr>) w;
     Some (NoOutput, w1)
   }"

definition callRPCGetSubscribedShard :: "('conn, 'w) client \<Rightarrow> string \<Rightarrow> 'w \<Rightarrow> (printed \<times> 'w) run" where
  "callRPCGetSubscribedShard cl rpcAddr w = do {
     (res, w1) \<leftarrow> invoke cl rpcAddr CallGetSubscribedShard w;
     (case res of AnswerShards r \<Rightarrow> Some (OutShards (gsr_ShardIDs r), w1) | _ \<Rightarrow> None)
   }"

definition callRPCBroadcastCollation :: "('conn, 'w) client \<Rightarrow> string \<Rightarrow> ShardIDType \<Rightarrow> int64 \<Rightarrow> int64 \<Rightarrow> int64
    \<Rightarrow> 'w \<Rightarrow> (printed \<times> 'w) run" where
  "callRPCBroadcastCollation cl rpcAddr shardID numCollations collationSize period w = do {
     (res, w1) \<leftarrow> invoke cl rpcAddr (CallBroadcastCollation
       \<lparr>bc_ShardID = shardID, bc_Number = numCollations, bc_Size = collationSize, bc_Period = period\<rparr>) w;
     Some (NoOutput, w1)
   }"

definition callRPCStopServer :: "('conn, 'w) client \<Rightarrow> string \<Rightarrow> 'w \<Rightarrow> (printed \<times> 'w) run" where
  "callRPCStopServer cl rpcAddr w = do {
     (res, w1) \<leftarrow> invoke cl rpcAddr CallStopServer w;
     Some (NoOutput, w1)
   }"

definition callRPCListPeer :: "('conn, 'w) client \<Rightarrow> string \<Rightarrow> 'w \<Rightarrow> (printed \<times> 'w) run" where
  "callRPCListPeer cl rpcAddr w = do {
     (res, w1) \<leftarrow> invoke cl rpcAddr CallListPeer w;
     (case res of AnswerPeers r \<Rightarrow> Some (OutPeers (lp_Peers r), w1) | _ \<Rightarrow> None)
   }"

definition callRPCListTopicPeer :: "('conn, 'w) client \<Rightarrow> ((string \<rightharpoonup> PBPeers) \<Rightarrow> string list) \<Rightarrow> string
    \<Rightarrow> string list \<Rightarrow> 'w \<Rightarrow> (printed \<times> 'w) run" where
  "callRPCListTopicPeer cl keys rpcAddr topics w = do {
     (res, w1) \<leftarrow> invoke cl rpcAddr (CallListTopicPeer \<lparr>lt_Topics = topics\<rparr>) w;
     (case res of
        AnswerTopicPeers r \<Rightarrow> do {
          topicPeers \<leftarrow> shardPeers_of id (lt_TopicPeers r) (keys (lt_TopicPeers r)) Map.empty;
          Some (OutPeerMap topicPeers, w1)
        }
      | _ \<Rightarrow> None)
   }"

definition callRPCListShardPeer :: "('conn, 'w) client \<Rightarrow> ((string \<rightharpoonup> PBPeers) \<Rightarrow> string list) \<Rightarrow> string
    \<Rightarrow> ShardIDType list \<Rightarrow> 'w \<Rightarrow> (printed \<times> 'w) run" where
  "callRPCListShardPeer cl keys rpcAddr shards w = do {
     let topics = map getCollationsTopic shards;
     (res, w1) \<leftarrow> invoke cl rpcAddr (CallListTopicPeer \<lparr>lt_Topics = topics\<rparr>) w;
     (case res of
        AnswerTopicPeers r \<Rightarrow> do {
          shardPeers \<leftarrow> shardPeers_of shardTopicToShardID (lt_TopicPeers r) (keys (lt_TopicPeers r)) Map.empty;
          Some (OutPeerMap shardPeers, w1)
        }
      | _ \<Rightarrow> None)
   }"

definition callRPCRemovePeer :: "('conn, 'w) client \<Rightarrow> printer \<Rightarrow> string \<Rightarrow> peer_ID \<Rightarrow> 'w \<Rightarrow> (printed \<times> 'w) run" where
  "callRPCRemovePeer cl pretty rpcAddr peerID w = do {
     (res, w1) \<leftarrow> invoke cl rpcAddr (CallRemovePeer \<lparr>rm_PeerID = peerIDToString pretty peerID\<rparr>) w;
     Some (NoOutput, w1)
   }"

definition callRPCBootstrap :: "('conn, 'w) client \<Rightarrow> string \<Rightarrow> bool \<Rightarrow> string \<Rightarrow> 'w \<Rightarrow> (printed \<times> 'w) run" where
  "callRPCBootstrap cl rpcAddr flag bootnodesStr w = do {
     (res, w1) \<leftarrow> invoke cl rpcAddr (CallBootstrap \<lparr>bs_Flag = flag, bs_BootnodesStr = bootnodesStr\<rparr>) w;
     Some (NoOutput, w1)
   }"

section \<open>The commands\<close>

text \<open>The value of a parse, or the end of the client (\<open>logger.Fatal\<close>).\<close>

definition or_fatal :: "go_error + 'a \<Rightarrow> 'a run" where
  "or_fatal r = (case r of Inl err \<Rightarrow> None | Inr x \<Rightarrow> Some x)"

fun parse_shards :: "string list \<Rightarrow> ShardIDType list \<Rightarrow> ShardIDType list run" where
  "parse_shards [] shardIDs = Some shardIDs"
| "parse_shards (shardIDString # rest) shardIDs = do {
     shardID \<leftarrow> or_fatal (ParseInt shardIDString);
     parse_shards rest (shardIDs @ [shardID])
   }"

definition doIdentify :: "('conn, 'w) client \<Rightarrow> string \<Rightarrow> 'w \<Rightarrow> (printed \<times> 'w) run" where
  "doIdentify cl rpcAddr w = callIdentify cl rpcAddr w"

definition doAddPeer :: "('conn, 'w) client \<Rightarrow> string list \<Rightarrow> string \<Rightarrow> 'w \<Rightarrow> (printed \<times> 'w) run" where
  "doAddPeer cl rpcArgs rpcAddr w =
     (if length rpcArgs \<noteq> 3 then None
      else do {
        let targetIP = rpcArgs ! 0;
        targetPort \<leftarrow> or_fatal (Atoi (rpcArgs ! 1));
        targetSeed \<leftarrow> or_fatal (Atoi (rpcArgs ! 2));
        callRPCAddPeer cl rpcAddr targetIP targetPort targetSeed w
      })"

definition doDiscover :: "('conn, 'w) client \<Rightarrow> ((string \<rightharpoonup> PBPeers) \<Rightarrow> string list) \<Rightarrow> string list \<Rightarrow> string
    \<Rightarrow> 'w \<Rightarrow> (printed \<times> 'w) run" where
  "doDiscover cl keys rpcArgs rpcAddr w = do {
     shardIDs \<leftarrow> parse_shards rpcArgs [];
     callRPCDiscover cl keys rpcAddr shardIDs w
   }"

text \<open>
  The number of peers is parsed as an unsigned 64-bit number and then converted to a signed one.
\<close>

definition doSubShard :: "('conn, 'w) client \<Rightarrow> string list \<Rightarrow> string \<Rightarrow> 'w \<Rightarrow> (printed \<times> 'w) run" where
  "doSubShard cl rpcArgs rpcAddr w =
     (if length rpcArgs \<le> 1 then None
      else do {
        numShardPeerToConnect \<leftarrow> or_fatal (ParseUint (rpcArgs ! 0));
        shardIDs \<leftarrow> parse_shards (tl rpcArgs) [];
        callRPCSubscribeShard cl rpcAddr numShardPeerToConnect shardIDs w
      })"

definition doUnsubShard :: "('conn, 'w) client \<Rightarrow> string list \<Rightarrow> string \<Rightarrow> 'w \<Rightarrow> (printed \<times> 'w) run" where
  "doUnsubShard cl rpcArgs rpcAddr w =
     (if length rpcArgs = 0 then None
      else do {
        shardIDs \<leftarrow> parse_shards rpcArgs [];
        callRPCUnsubscribeShard cl rpcAddr shardIDs w
      })"

definition doBroadcastCollation :: "('conn, 'w) client \<Rightarrow> string list \<Rightarrow> string \<Rightarrow> 'w \<Rightarrow> (printed \<times> 'w) run" where
  "doBroadcastCollation cl rpcArgs rpcAddr w =
     (if length rpcArgs \<noteq> 4 then None
      else do {
        shardID \<leftarrow> or_fatal (ParseInt (rpcArgs ! 0));
        numCollations \<leftarrow> or_fatal (Atoi (rpcArgs ! 1));
        collationSize \<leftarrow> or_fatal (Atoi (rpcArgs ! 2));
        timeInMs \<leftarrow> or_fatal (Atoi (rpcArgs ! 3));
        callRPCBroadcastCollation cl rpcAddr shardID numCollations collationSize timeInMs w
      })"

definition doListTopicPeer :: "('conn, 'w) client \<Rightarrow> ((string \<rightharpoonup> PBPeers) \<Rightarrow> string list) \<Rightarrow> string list
    \<Rightarrow> string \<Rightarrow> 'w \<Rightarrow> (printed \<times> 'w) run" where
  "doListTopicPeer cl keys rpcArgs rpcAddr w = callRPCListTopicPeer cl keys rpcAddr rpcArgs w"

definition doListShardPeer :: "('conn, 'w) client \<Rightarrow> ((string \<rightharpoonup> PBPeers) \<Rightarrow> string list) \<Rightarrow> string list
    \<Rightarrow> string \<Rightarrow> 'w \<Rightarrow> (printed \<times> 'w) run" where
  "doListShardPeer cl keys rpcArgs rpcAddr w = do {
     shardIDs \<leftarrow> parse_shards rpcArgs [];
     callRPCListShardPeer cl keys rpcAddr shardIDs w
   }"

definition doRemovePeer :: "('conn, 'w) client \<Rightarrow> decoder \<Rightarrow> printer \<Rightarrow> string list \<Rightarrow> string \<Rightarrow> 'w
    \<Rightarrow> (printed \<times> 'w) run" where
  "doRemovePeer cl decode pretty rpcArgs rpcAddr w =
     (if length rpcArgs \<noteq> 1 then None
      else do {
        peerID \<leftarrow> or_fatal (stringToPeerID decode (rpcArgs ! 0));
        callRPCRemovePeer cl pretty rpcAddr peerID w
      })"

definition doBootstrap :: "('conn, 'w) client \<Rightarrow> string list \<Rightarrow> string \<Rightarrow> 'w \<Rightarrow> (printed \<times> 'w) run" where
  "doBootstrap cl rpcArgs rpcAddr w =
     (if length rpcArgs = 0 \<or> 2 < length rpcArgs then None
      else
        let flagStr = rpcArgs ! 0
        in if flagStr = ''start'' then
             callRPCBootstrap cl rpcAddr True (if length rpcArgs = 2 then rpcArgs ! 1 else '''') w
           else if flagStr = ''stop'' then callRPCBootstrap cl rpcAddr False '''' w
           else None)"

definition runClient :: "('conn, 'w) client \<Rightarrow> decoder \<Rightarrow> printer \<Rightarrow> ((string \<rightharpoonup> PBPeers) \<Rightarrow> string list)
    \<Rightarrow> string \<Rightarrow> string list \<Rightarrow> 'w \<Rightarrow> (printed \<times> 'w) run" where
  "runClient cl decode pretty keys rpcAddr cliArgs w =
     (case cliArgs of
        [] \<Rightarrow> None
      | rpcCmd # rpcArgs \<Rightarrow>
          if rpcCmd = ''identify'' then doIdentify cl rpcAddr w
          else if rpcCmd = ''addpeer'' then doAddPeer cl rpcArgs rpcAddr w
          else if rpcCmd = ''discovershard'' then doDiscover cl keys rpcArgs rpcAddr w
          else if rpcCmd = ''subshard'' then doSubShard cl rpcArgs rpcAddr w
          else if rpcCmd = ''unsubshard'' then doUnsubShard cl rpcArgs rpcAddr w
          else if rpcCmd = ''getsubshard'' then callRPCGetSubscribedShard cl rpcAddr w
          else if rpcCmd = ''broadcastcollation'' then doBroadcastCollation cl rpcArgs rpcAddr w
          else if rpcCmd = ''stop'' then callRPCStopServer cl rpcAddr w
          else if rpcCmd = ''listpeer'' then callRPCListPeer cl rpcAddr w
          else if rpcCmd = ''listtopicpeer'' then doListTopicPeer cl keys rpcArgs rpcAddr w
          else if rpcCmd = ''listshardpeer'' then doListShardPeer cl keys rpcArgs rpcAddr w
          else if rpcCmd = ''removepeer'' then doRemovePeer cl decode pretty rpcArgs rpcAddr w
          else if rpcCmd = ''bootstrap'' then doBootstrap cl rpcArgs rpcAddr w
          else None)"

section \<open>A client and its server\<close>

text \<open>
  A connection to a node in the same world: calls are handled one at a time, and a node that dies in
  a call is an error to the client.
\<close>

definition local_client :: "('key, 'w) server \<Rightarrow> choices \<Rightarrow> (unit, Node \<times> 'w) client" where
  "local_client s ch = \<lparr>
     cl_Dial = (\<lambda>addr nw. (Inr (), nw)),
     cl_Call = (\<lambda>conn call nw. case handle s ch call (fst nw) (snd nw) of
        None \<Rightarrow> (Inl (External ''server died''), nw)
      | Some (r, nw1) \<Rightarrow> (r, nw1)),
     cl_Close = (\<lambda>conn nw. nw)\<rparr>"

section \<open>Lemmas\<close>

lemma or_fatal_simps [simp]: "or_fatal (Inr x) = Some x" "or_fatal (Inl err) = None"
  by (simp_all add: or_fatal_def)

lemma parse_shards_print: "parse_shards (map FormatInt shards) acc = Some (acc @ shards)"
  by (induction shards arbitrary: acc) (simp_all add: ParseInt_FormatInt)

lemma Atoi_FormatInt [simp]: "Atoi (FormatInt x) = Inr x"
  by (simp add: Atoi_def ParseInt_FormatInt)

lemma ParseUint_FormatInt:
  assumes "0 \<le> sint x"
  shows "ParseUint (FormatInt x) = Inr x"
proof -
  have "nat (sint x) < 2 ^ 64"
    using assms sint64_bounds(2) [of x] by simp
  from parse_format_nat [OF this] assms show ?thesis
    by (simp add: ParseUint_def FormatInt_def not_less)
qed

lemma invoke_local:
  "invoke (local_client s ch) addr call (n, w) =
    (case handle s ch call n w of Some (Inr ans, n1, w1) \<Rightarrow> Some (ans, n1, w1) | _ \<Rightarrow> None)"
  by (auto simp: invoke_def local_client_def split: option.splits prod.splits sum.splits)

lemma shardPeers_of_dom:
  assumes "set topics \<subseteq> dom res"
  shows "\<exists>m'. shardPeers_of name res topics m = Some m'
    \<and> (\<forall>x. m' x = m x \<and> x \<notin> name ` set topics
          \<or> (\<exists>topic\<in>set topics. x = name topic \<and> m' x = map_option Peers (res topic)))"
  using assms
proof (induction topics arbitrary: m)
  case Nil
  then show ?case by simp
next
  case (Cons t ts)
  obtain ps where ps: "res t = Some ps" using Cons.prems by auto
  have sub: "set ts \<subseteq> dom res" using Cons.prems by simp
  obtain m' where m': "shardPeers_of name res ts (m(name t \<mapsto> Peers ps)) = Some m'"
    "\<forall>x. m' x = (m(name t \<mapsto> Peers ps)) x \<and> x \<notin> name ` set ts
        \<or> (\<exists>topic\<in>set ts. x = name topic \<and> m' x = map_option Peers (res topic))"
    using Cons.IH [OF sub, of "m(name t \<mapsto> Peers ps)"] by (elim exE conjE)
  have "m' x = m x \<and> x \<notin> name ` set (t # ts)
      \<or> (\<exists>topic\<in>set (t # ts). x = name topic \<and> m' x = map_option Peers (res topic))" for x
    using spec [OF m'(2), of x] ps by (cases "x = name t") auto
  with m'(1) ps show ?case by (intro exI [of _ m']) (simp add: Let_def)
qed

lemma shardPeers_of_topics:
  assumes "set topics = dom res" "dom res \<subseteq> range getCollationsTopic"
  shows "\<exists>m. shardPeers_of shardTopicToShardID res topics Map.empty = Some m
    \<and> (\<forall>s. m (FormatInt s) = map_option Peers (res (getCollationsTopic s)))"
proof -
  obtain m where m: "shardPeers_of shardTopicToShardID res topics Map.empty = Some m"
    "\<forall>x. m x = None \<and> x \<notin> shardTopicToShardID ` set topics
      \<or> (\<exists>topic\<in>set topics. x = shardTopicToShardID topic \<and> m x = map_option Peers (res topic))"
    using shardPeers_of_dom [of topics res shardTopicToShardID Map.empty] assms(1) by auto
  have "m (FormatInt s) = map_option Peers (res (getCollationsTopic s))" for s
    using spec [OF m(2), of "FormatInt s"]
  proof
    assume h: "m (FormatInt s) = None \<and> FormatInt s \<notin> shardTopicToShardID ` set topics"
    have "getCollationsTopic s \<notin> set topics"
    proof
      assume "getCollationsTopic s \<in> set topics"
      then have "shardTopicToShardID (getCollationsTopic s) \<in> shardTopicToShardID ` set topics" by (rule imageI)
      with h show False by simp
    qed
    then have "res (getCollationsTopic s) = None" using assms(1) by auto
    with h show ?thesis by simp
  next
    assume "\<exists>topic\<in>set topics. FormatInt s = shardTopicToShardID topic \<and> m (FormatInt s) = map_option Peers (res topic)"
    then obtain topic where t: "topic \<in> set topics" "FormatInt s = shardTopicToShardID topic"
      "m (FormatInt s) = map_option Peers (res topic)" by blast
    obtain s' where "topic = getCollationsTopic s'" using t(1) assms by blast
    with t(2) have "topic = getCollationsTopic s" by simp
    with t(3) show ?thesis by simp
  qed
  with m(1) show ?thesis by blast
qed

section \<open>Properties\<close>



text \<open>
  C36: a count of peers of \<open>2^63\<close> or more turns negative.  The command accepts any unsigned 64-bit
  number, and sends it as a signed one; the node then connects to nobody.
\<close>

theorem large_count_connects_nobody:
  assumes "ParseUint arg = Inr u" and "2 ^ 63 \<le> uint u" and "shards \<noteq> []"
  shows "\<exists>num. runClient cl decode pretty keys addr (''subshard'' # arg # map FormatInt shards) w
      = callRPCSubscribeShard cl addr num shards w
    \<and> sint num < 0 \<and> connectShardNodes e visit rnd sched num s sm w2 = Some (None, w2)"
proof (intro exI conjI)
  obtain x xs where "shards = x # xs" using assms(3) by (cases shards) auto
  with assms(1) show "runClient cl decode pretty keys addr (''subshard'' # arg # map FormatInt shards) w
      = callRPCSubscribeShard cl addr u shards w"
    by (simp add: runClient_def doSubShard_def parse_shards_print ParseInt_FormatInt)
  show neg: "sint u < 0"
    using assms(2) uint_nonneg [of u] sint64_bounds(2) [of u] by (cases "0 \<le> sint u") simp_all
  have "sint u \<le> int k" for k using neg by simp
  then show "connectShardNodes e visit rnd sched u s sm w2 = Some (None, w2)"
    by (simp add: connectShardNodes_def)
qed

text \<open>
  C34: listing what was subscribed.  A user who runs \<open>subshard\<close> with non-negative shards on a node in
  the invariant, and then \<open>getsubshard\<close>, sees the shards listened to before together with the valid
  ones subscribed, in increasing order.
\<close>

theorem user_sees_subscription:
  assumes "sound_server s" and "node_ok s n" and "wf_choices (sv_sm s) ch"
    and "0 \<le> sint num" and "shards \<noteq> []" and "\<forall>shard\<in>set shards. 0 \<le> sint shard"
  shows "\<exists>nw xs. runClient (local_client s ch) decode pretty keys addr
        (''subshard'' # FormatInt num # map FormatInt shards) (n, w) = Some (NoOutput, nw)
    \<and> runClient (local_client s ch) decode pretty keys addr [''getsubshard''] nw = Some (OutShards xs, nw)
    \<and> set xs = listened (sv_sm s) (n_manager n) \<union> (set shards \<inter> Collect valid_shard)
    \<and> sorted_wrt (\<lambda>a b. sint a < sint b) xs"
proof -
  let ?req = "\<lparr>ss_NumShardPeerToConnect = num, ss_ShardIDs = shards\<rparr>"
  have env: "sound_env (sv_sm s)" "mgr_ok (sv_sm s) (n_manager n)"
    "\<forall>k sm. mgr_ok (sv_sm s) sm \<longrightarrow> wf_schedule (sv_sm s) sm (ch_scheds ch k sm)"
    using assms(1-3) by (simp_all add: sound_server_def node_ok_def wf_choices_def)
  obtain n' w' xs where r: "SubscribeShard s (ch_scheds ch) ?req n w = Some (Inr (), n', w')"
    "GetSubscribedShard s n' = Some (Inr \<lparr>gsr_ShardIDs = xs\<rparr>)"
    "set xs = listened (sv_sm s) (n_manager n) \<union> (set shards \<inter> Collect valid_shard)"
    "sorted_wrt (\<lambda>a b. sint a < sint b) xs"
    using subscribe_then_get [OF env, where req = ?req and w = w] assms(6) by auto
  have args: "1 < length (FormatInt num # map FormatInt shards)"
    using assms(5) by (cases shards) auto
  have "runClient (local_client s ch) decode pretty keys addr
      (''subshard'' # FormatInt num # map FormatInt shards) (n, w) = Some (NoOutput, (n', w'))"
    using args r(1) assms(4)
    by (simp add: runClient_def doSubShard_def ParseUint_FormatInt parse_shards_print callRPCSubscribeShard_def
        invoke_local answer_with_def)
  moreover have "runClient (local_client s ch) decode pretty keys addr [''getsubshard''] (n', w')
      = Some (OutShards xs, (n', w'))"
    using r(2) by (simp add: runClient_def callRPCGetSubscribedShard_def invoke_local answer_with_def)
  ultimately show ?thesis using r(3,4) by blast
qed

theorem large_count_connects_nobody_witness:
  "\<exists>num. runClient (local_client sample_server sample_choices) Inr id (\<lambda>_. []) ''addr''
      [''subshard'', ''18446744073709551615'', FormatInt 42] (sample_node, [])
    = callRPCSubscribeShard (local_client sample_server sample_choices) ''addr'' num [42] (sample_node, []) \<and> sint num < 0"
proof -
  have parsed: "ParseUint ''18446744073709551615'' = Inr (- 1)"
    by (simp add: ParseUint_def is_digit_char_def digit_value_def)
  have uint: "2 ^ 63 \<le> uint (- 1 :: int64)"
    by (simp add: unsigned_minus_1_eq_mask mask_eq_exp_minus_1)
  from large_count_connects_nobody [OF parsed uint, of "[42]" "local_client sample_server sample_choices" Inr id "\<lambda>_. []" "''addr''" "(sample_node, [])" sample_env "[]" "\<lambda>_. 0" id 42 sample_manager "[]"]
  show ?thesis by auto
qed

theorem user_sees_subscription_witness:
  "\<exists>nw xs. runClient (local_client sample_server sample_choices) Inr id (\<lambda>_. []) ''addr''
      (''subshard'' # FormatInt 1 # map FormatInt [42, 7, 100]) (sample_node, []) = Some (NoOutput, nw)
    \<and> runClient (local_client sample_server sample_choices) Inr id (\<lambda>_. []) ''addr'' [''getsubshard''] nw
      = Some (OutShards xs, nw) \<and> set xs = {7, 42}"
proof -
  have "listened sample_env (n_manager sample_node) \<union> (set [42, 7, 100] \<inter> Collect valid_shard) = {7, 42}"
    by (auto simp: listened_def sample_node_def valid_shard_def)
  then show ?thesis
    using user_sees_subscription [OF sample_server_sound sample_node_ok', of sample_choices 1 "[42, 7, 100]" Inr id "\<lambda>_. []"
        "''addr''" "[]"] sample_wf_choices
    by auto
qed

end
