(* ===== verification/Concurrency.thy ===== *)
theory Concurrency
  imports Listening
begin

text \<open>
  Concurrent calls.  gRPC serves every call in a goroutine of its own, so two calls of \<open>ListenShard\<close> or
  \<open>UnlistenShard\<close> may interleave; the locks of \<open>src/shardmanager.go\<close> and \<open>src/shardpreftable.go\<close>
  make the single accesses atomic but not the calls.  Here a call is a thread with a program counter,
  whose steps are the accesses in the order of the code (\<open>ListenShard\<close>, \<open>UnlistenShard\<close> and, inside them,
  \<open>GlobalTable.Advertise\<close> of \<open>src/discovery.go\<close>).  Run alone the thread computes what the function
  of the theory \<open>ShardManager\<close> computes; two of them can leave a shard subscribed that is not listened to.
\<close>

section \<open>Threads\<close>

datatype pc = Check | Test | Add | Remove | Publish | Connect | Finish | Done "go_error option"

datatype mode = Listen | Unlisten

record call =
  c_mode :: mode
  c_shard :: ShardIDType
  c_num :: int64
  c_visit :: "peer_ID list"
  c_rnd :: "nat \<Rightarrow> nat"
  c_sched :: "PeerInfo list \<Rightarrow> PeerInfo list"

fun thread_step :: "'w SMEnv \<Rightarrow> call \<Rightarrow> pc \<Rightarrow> ShardManager \<Rightarrow> 'w \<Rightarrow> (pc \<times> ShardManager \<times> 'w) run" where
  "thread_step e c Check sm w = do {
     listened \<leftarrow> IsShardListened e sm (c_shard c);
     Some (if listened = (c_mode c = Listen) then Done None else Test, sm, w)
   }"
| "thread_step e c Test sm w = do {
     b \<leftarrow> IsPeerListeningShard (sm_table sm) (e_self e) (c_shard c);
     Some (if b then Remove else Add, sm, w)
   }"
| "thread_step e c Add sm w =
     (case AddPeerListeningShard (sm_table sm) (e_self e) (c_shard c) of
        (Some err, t) \<Rightarrow> Some (Done (Some err), sm\<lparr>sm_table := t\<rparr>, w)
      | (None, t) \<Rightarrow> Some (Publish, sm\<lparr>sm_table := t\<rparr>, w))"
| "thread_step e c Remove sm w = do {
     (err, t) \<leftarrow> RemovePeerListeningShard (sm_table sm) (e_self e) (c_shard c);
     Some (case err of Some er \<Rightarrow> Done (Some er) | None \<Rightarrow> Publish, sm\<lparr>sm_table := t\<rparr>, w)
   }"
| "thread_step e c Publish sm w = do {
     ls \<leftarrow> GetPeerListeningShard (sm_table sm) (e_self e);
     (case ps_Publish (e_pubsub e) listeningShardTopic (toBytes ls) w of
        (Some err, w1) \<Rightarrow> Some (Done (Some err), sm, w1)
      | (None, w1) \<Rightarrow> Some (if c_mode c = Listen then Connect else Finish, sm, w1))
   }"
| "thread_step e c Connect sm w = do {
     (err, w1) \<leftarrow> connectShardNodes e (c_visit c) (c_rnd c) (c_sched c) (c_num c) (c_shard c) sm w;
     Some (Finish, sm, w1)
   }"
| "thread_step e c Finish sm w =
     (if c_mode c = Listen then
        (let (err, sm1, w1) = SubscribeCollation e (c_shard c) sm w in Some (Done err, sm1, w1))
      else
        (let (sm1, w1) = UnsubscribeCollation e (c_shard c) sm w in Some (Done None, sm1, w1)))"
| "thread_step e c (Done r) sm w = Some (Done r, sm, w)"

fun thread_run :: "nat \<Rightarrow> 'w SMEnv \<Rightarrow> call \<Rightarrow> pc \<Rightarrow> ShardManager \<Rightarrow> 'w \<Rightarrow> (pc \<times> ShardManager \<times> 'w) run" where
  "thread_run 0 e c p sm w = Some (p, sm, w)"
| "thread_run (Suc k) e c p sm w = do {
     (p1, sm1, w1) \<leftarrow> thread_step e c p sm w;
     thread_run k e c p1 sm1 w1
   }"

text \<open>Two threads; the schedule says which of them takes each step.\<close>

fun interleave :: "'w SMEnv \<Rightarrow> call \<Rightarrow> call \<Rightarrow> bool list \<Rightarrow> pc \<Rightarrow> pc \<Rightarrow> ShardManager \<Rightarrow> 'w
    \<Rightarrow> (pc \<times> pc \<times> ShardManager \<times> 'w) run" where
  "interleave e c d [] p q sm w = Some (p, q, sm, w)"
| "interleave e c d (True # turns) p q sm w = do {
     (p1, sm1, w1) \<leftarrow> thread_step e c p sm w;
     interleave e c d turns p1 q sm1 w1
   }"
| "interleave e c d (False # turns) p q sm w = do {
     (q1, sm1, w1) \<leftarrow> thread_step e d q sm w;
     interleave e c d turns p q1 sm1 w1
   }"

section \<open>Lemmas\<close>



text \<open>
  From \<open>Test\<close> on: the advertisement, followed by what the mode does after it.
\<close>

definition after_advertise :: "'w SMEnv \<Rightarrow> call \<Rightarrow> ShardManager \<Rightarrow> 'w \<Rightarrow> (go_error option \<times> ShardManager \<times> 'w) run" where
  "after_advertise e c sm w =
     (if c_mode c = Listen then do {
        (err, w1) \<leftarrow> connectShardNodes e (c_visit c) (c_rnd c) (c_sched c) (c_num c) (c_shard c) sm w;
        Some (SubscribeCollation e (c_shard c) sm w1)
      } else (let (sm1, w1) = UnsubscribeCollation e (c_shard c) sm w in Some (None, sm1, w1)))"

definition finished :: "(go_error option \<times> ShardManager \<times> 'w) run \<Rightarrow> (pc \<times> ShardManager \<times> 'w) run" where
  "finished r = map_option (\<lambda>(err, sm, w). (Done err, sm, w)) r"

lemma finished_simps [simp]:
  "finished None = None" "finished (Some (err, sm, w)) = Some (Done err, sm, w)"
  by (simp_all add: finished_def)


definition advertised :: "'w SMEnv \<Rightarrow> call \<Rightarrow> ShardManager \<Rightarrow> go_error option \<times> ShardPrefTable \<times> 'w
    \<Rightarrow> (pc \<times> ShardManager \<times> 'w) run" where
  "advertised e c sm r =
     (let (err, t, w1) = r
      in case err of
           Some er \<Rightarrow> Some (Done (Some er), sm\<lparr>sm_table := t\<rparr>, w1)
         | None \<Rightarrow> finished (after_advertise e c (sm\<lparr>sm_table := t\<rparr>) w1))"

lemma advertised_update [simp]: "advertised e c (sm\<lparr>sm_table := t\<rparr>) = advertised e c sm"
  by (auto simp: advertised_def fun_eq_iff split: option.splits)




lemma add_step:
  assumes "wf_table t" "valid_shard s"
  obtains t1 where "AddPeerListeningShard t p s = (None, t1)" "wf_table t1"
    "pref t1 = (pref t)(p := insert s (pref t p))" "dom (shardPrefMap t1) = insert p (dom (shardPrefMap t))"
proof -
  obtain t1 where a: "AddPeerListeningShard t p s = (None, t1)"
    using AddPeerListeningShard_valid [OF assms, of p] by (metis prod.collapse)
  with that show thesis
    using AddPeerListeningShard_valid [OF assms, of p] wf_AddPeerListeningShard [OF assms(1), of p s]
      dom_AddPeerListeningShard [OF a] by simp
qed

lemma publish_step:
  assumes "wf_table t" "publishes e"
  obtains ls w1 where "GetPeerListeningShard t p = Some ls"
    "ps_Publish (e_pubsub e) listeningShardTopic (toBytes ls) w = (None, w1)"
proof -
  obtain ls where "GetPeerListeningShard t p = Some ls"
    using GetPeerListeningShard_wf [OF assms(1)] by blast
  with that show thesis
    using assms(2) unfolding publishes_def by (metis prod.collapse)
qed

text \<open>A listening thread that has only its publication, its dialling and its subscription left.\<close>

lemma finish_listen:
  assumes "sound_env e" "wf_table (sm_table sm)" "valid_shard (c_shard c)" "c_mode c = Listen"
    and "distinct (c_visit c)" "set (c_visit c) = dom (shardPrefMap (sm_table sm))"
  obtains sm' w' where "thread_run 3 e c Publish sm w = Some (Done None, sm', w')"
    "sm_table sm' = sm_table sm" "IsCollationSubscribed sm' (c_shard c)"
proof -
  note g = uses_global_tableD(2) [OF assms(1)]
  have pub: "publishes e" and subs: "subscribes e" and dist: "\<And>topic w. distinct (ps_ListPeers (e_pubsub e) topic w)"
    using assms(1) by (simp_all add: sound_env_def lists_distinct_def)
  obtain ls w1 where p: "GetPeerListeningShard (sm_table sm) (e_self e) = Some ls"
    "ps_Publish (e_pubsub e) listeningShardTopic (toBytes ls) w = (None, w1)"
    by (rule publish_step [OF assms(2) pub])
  obtain w2 where c: "connectShardNodes e (c_visit c) (c_rnd c) (c_sched c) (c_num c) (c_shard c) sm w1 = Some (None, w2)"
    using gt.connect_returns [OF uses_global_tableD(1) [OF g], of sm "c_shard c" "c_visit c" w1 "c_rnd c" "c_sched c" "c_num c"]
      assms(2,3,5,6) dist by (auto simp: range_visit_def)
  obtain sm' w3 where s: "SubscribeCollation e (c_shard c) sm w2 = (None, sm', w3)"
    using SubscribeCollation_succeeds [OF subs, of "c_shard c" sm w2] by (metis prod.collapse)
  have "thread_run 3 e c Publish sm w = Some (Done None, sm', w3)"
    using p c s assms(4) by (simp add: eval_nat_numeral)
  moreover have "sm_table sm' = sm_table sm" "IsCollationSubscribed sm' (c_shard c)"
    using SubscribeCollation_ok [OF s] by (auto simp: IsCollationSubscribed_def)
  ultimately show thesis by (rule that)
qed

lemma interleave_first:
  "interleave e c d (replicate k True @ turns) p q sm w = do {
     (p1, sm1, w1) \<leftarrow> thread_run k e c p sm w;
     interleave e c d turns p1 q sm1 w1
   }"
  by (induction k arbitrary: p sm w) (auto simp: case_prod_beta intro!: bind_option_cong)

lemma interleave_second:
  "interleave e c d (replicate k False @ turns) p q sm w = do {
     (q1, sm1, w1) \<leftarrow> thread_run k e d q sm w;
     interleave e c d turns p q1 sm1 w1
   }"
  by (induction k arbitrary: q sm w) (auto simp: case_prod_beta intro!: bind_option_cong)

section \<open>Properties\<close>


definition sample_call :: "mode \<Rightarrow> call" where
  "sample_call m = \<lparr>c_mode = m, c_shard = 42, c_num = 1, c_visit = [''self''], c_rnd = (\<lambda>_. 0), c_sched = id\<rparr>"


text \<open>
  C21: two calls can undo each other.  Suppose a valid shard is not listened to and nothing in the
  environment fails.  Then two \<open>ListenShard\<close> calls of it have an interleaving in which both report
  success, and yet the shard is not listened to although its topic is subscribed: the second one's
  advertisement takes back the first one's.  The subscription is then out of reach, since
  \<open>UnlistenShard\<close> of a shard not listened to does nothing.
\<close>

theorem concurrent_listen_race:
  assumes "sound_env e" and "wf_table (sm_table sm)" and "valid_shard s" and "s \<notin> pref (sm_table sm) (e_self e)"
    and "c_mode c = Listen" and "c_shard c = s" and "c_mode d = Listen" and "c_shard d = s"
    and "distinct (c_visit c)" and "set (c_visit c) = insert (e_self e) (dom (shardPrefMap (sm_table sm)))"
    and "distinct (c_visit d)" and "set (c_visit d) = insert (e_self e) (dom (shardPrefMap (sm_table sm)))"
  shows "\<exists>turns sm' w'. interleave e c d turns Check Check sm w = Some (Done None, Done None, sm', w')
    \<and> IsShardListened e sm' s = Some False \<and> IsCollationSubscribed sm' s
    \<and> (\<forall>w2. UnlistenShard e s sm' w2 = Some (None, sm', w2))"
proof -
  let ?self = "e_self e" and ?t = "sm_table sm"
  have out: "IsShardListened e sm s = Some False"
    using assms(2,4) by (simp add: IsShardListened_wf)
  have test1: "IsPeerListeningShard ?t ?self s = Some False"
    using assms(4) by (simp add: IsPeerListeningShard_valid [OF assms(2,3)])
  obtain t1 where t1: "AddPeerListeningShard ?t ?self s = (None, t1)" "wf_table t1"
    "pref t1 = (pref ?t)(?self := insert s (pref ?t ?self))" "dom (shardPrefMap t1) = insert ?self (dom (shardPrefMap ?t))"
    by (rule add_step [OF assms(2,3)])
  let ?sm1 = "sm\<lparr>sm_table := t1\<rparr>"
  have "wf_table (sm_table ?sm1)" "valid_shard (c_shard c)" "set (c_visit c) = dom (shardPrefMap (sm_table ?sm1))"
    using assms(3,6,10) t1(2,4) by simp_all
  then obtain sm2 w2 where first: "thread_run 3 e c Publish ?sm1 w = Some (Done None, sm2, w2)"
    "sm_table sm2 = sm_table ?sm1"
    using finish_listen [OF assms(1) _ _ assms(5,9)] by metis
  have test2: "IsPeerListeningShard t1 ?self s = Some True"
    using t1(3) by (simp add: IsPeerListeningShard_valid [OF t1(2) assms(3)])
  obtain t2 where t2: "RemovePeerListeningShard t1 ?self s = Some (None, t2)" "wf_table t2"
    "pref t2 = (pref t1)(?self := pref t1 ?self - {s})"
    using RemovePeerListeningShard_valid [OF t1(2) assms(3)] by blast
  let ?sm3 = "sm2\<lparr>sm_table := t2\<rparr>"
  have "wf_table (sm_table ?sm3)" "valid_shard (c_shard d)" "set (c_visit d) = dom (shardPrefMap (sm_table ?sm3))"
    using assms(3,8,12) t2(2) t1(4) dom_RemovePeerListeningShard [OF t2(1)] by simp_all
  then obtain sm4 w4 where second: "thread_run 3 e d Publish ?sm3 w2 = Some (Done None, sm4, w4)"
    "sm_table sm4 = sm_table ?sm3" "IsCollationSubscribed sm4 (c_shard d)"
    using finish_listen [OF assms(1) _ _ assms(7,11)] by metis
  let ?turns = "[True, False, True, True] @ replicate 3 True @ [False, False] @ replicate 3 False"
  have "interleave e c d ?turns Check Check sm w = Some (Done None, Done None, sm4, w4)"
    using out test1 t1(1) first test2 t2(1) second(1) assms(5-8)
    by (simp add: interleave_first interleave_second interleave_second [where turns = "[]", simplified])
  moreover have unlistened: "IsShardListened e sm4 s = Some False"
    using second(2) t2 by (simp add: IsShardListened_wf)
  moreover have "\<forall>w2. UnlistenShard e s sm4 w2 = Some (None, sm4, w2)"
    using unlistened by (simp add: UnlistenShard_def)
  ultimately show ?thesis
    using second(3) assms(8) by blast
qed

theorem concurrent_listen_race_witness:
  "\<exists>turns sm' w'. interleave sample_env (sample_call Listen) (sample_call Listen) turns Check Check sample_manager []
      = Some (Done None, Done None, sm', w')
    \<and> IsShardListened sample_env sm' 42 = Some False \<and> IsCollationSubscribed sm' 42
    \<and> (\<forall>w2. UnlistenShard sample_env 42 sm' w2 = Some (None, sm', w2))"
  by (rule concurrent_listen_race) (simp_all add: sample_call_def valid_shard_def)

end
