(* ===== verification/Gossip.thy ===== *)
theory Gossip
  imports Listening
begin

text \<open>
  How preferences travel.  A node that starts or stops listening publishes its whole vector on the
  preference topic (\<open>GlobalTable.Advertise\<close>); every other node's reader stores the last vector it
  received from each peer (\<open>makeShardPrefHandler\<close>).  If the pubsub service delivers the messages of
  each sender in the order in which they were published, the remote record of a node agrees with
  the node's own once everything is delivered, whatever other peers publish in between.
\<close>

section \<open>The published preferences\<close>

text \<open>
  \<open>log w\<close> lists the node's own publications on the preference topic.  A successful publication is
  appended, and nothing else the manager calls changes the list.
\<close>

definition logs :: "'w SMEnv \<Rightarrow> ('w \<Rightarrow> bytes list) \<Rightarrow> bool" where
  "logs e log \<longleftrightarrow>
     (\<forall>data w w'. ps_Publish (e_pubsub e) listeningShardTopic data w = (None, w') \<longrightarrow> log w' = log w @ [data])
     \<and> (\<forall>topic w. log (snd (ps_Subscribe (e_pubsub e) topic w)) = log w)
     \<and> (\<forall>topic v w. log (snd (ps_RegisterTopicValidator (e_pubsub e) topic v w)) = log w)
     \<and> (\<forall>sub w. log (sub_Cancel (e_pubsub e) sub w) = log w)
     \<and> (\<forall>p w. log (snd (h_Connect (e_host e) p w)) = log w)"

text \<open>
  The steps of a node: listening to and leaving a valid shard without error, receiving a preference of
  another peer, and a move of the world that publishes nothing.
\<close>

inductive own_step :: "'w SMEnv \<Rightarrow> ('w \<Rightarrow> bytes list) \<Rightarrow> ShardManager \<times> 'w \<Rightarrow> ShardManager \<times> 'w \<Rightarrow> bool"
  for e log where
  listen: "valid_shard s \<Longrightarrow> ListenShard e visit rnd sched num s sm w = Some (None, sm', w') \<Longrightarrow>
    own_step e log (sm, w) (sm', w')"
| unlisten: "valid_shard s \<Longrightarrow> UnlistenShard e s sm w = Some (None, sm', w') \<Longrightarrow>
    own_step e log (sm, w) (sm', w')"
| preference: "msg_From msg \<noteq> e_self e \<Longrightarrow> 13 \<le> length (msg_Data msg) \<Longrightarrow>
    own_step e log (sm, w) (sm\<lparr>sm_table := makeShardPrefHandler msg (sm_table sm)\<rparr>, w)"
| world: "log w' = log w \<Longrightarrow> own_step e log (sm, w) (sm, w')"

inductive_cases own_stepE: "own_step e log (sm, w) (sm', w')"

inductive own_reachable :: "'w SMEnv \<Rightarrow> ('w \<Rightarrow> bytes list) \<Rightarrow> ShardManager \<times> 'w \<Rightarrow> bool" for e log where
  start: "sm_table sm = NewShardPrefTable \<Longrightarrow> log w = [] \<Longrightarrow> own_reachable e log (sm, w)"
| step: "own_reachable e log c \<Longrightarrow> own_step e log c c' \<Longrightarrow> own_reachable e log c'"

text \<open>The last publication is the node's present preference.\<close>

definition announced :: "'w SMEnv \<Rightarrow> ('w \<Rightarrow> bytes list) \<Rightarrow> ShardManager \<Rightarrow> 'w \<Rightarrow> bool" where
  "announced e log sm w \<longleftrightarrow> wf_table (sm_table sm)
     \<and> pref (sm_table sm) (e_self e) = (if log w = [] then {} else shards_of \<lparr>shardBits = last (log w)\<rparr>)"

section \<open>Lemmas: the sender\<close>

lemma logsD:
  assumes "logs e log"
  shows "ps_Publish (e_pubsub e) listeningShardTopic data w = (None, w') \<Longrightarrow> log w' = log w @ [data]"
    and "log (snd (ps_Subscribe (e_pubsub e) topic w)) = log w"
    and "log (snd (ps_RegisterTopicValidator (e_pubsub e) topic v w)) = log w"
    and "log (sub_Cancel (e_pubsub e) sub w) = log w"
    and "log (snd (h_Connect (e_host e) p w)) = log w"
  using assms unfolding logs_def by blast+

lemma log_Subscribe:
  assumes "logs e log" "SubscribeCollation e s sm w = (r, sm', w')"
  shows "log w' = log w"
proof -
  obtain res w1 where r: "ps_Subscribe (e_pubsub e) (getCollationsTopic s) w = (res, w1)" by fastforce
  then have "log w1 = log w" using logsD(2) [OF assms(1), of "getCollationsTopic s" w] by simp
  with r show ?thesis
    using assms(2) logsD(3) [OF assms(1)]
    by (cases res) (auto simp: SubscribeCollation_def SubscribeGeneral_def SubscribeTopic_def)
qed

lemma log_Unsubscribe:
  "logs e log \<Longrightarrow> log (snd (UnsubscribeCollation e s sm w)) = log w"
  by (auto simp: UnsubscribeCollation_def UnsubscribeTopic_def logsD(4) split: option.splits)

lemma log_dial: "logs e log \<Longrightarrow> log (fold (\<lambda>p w. snd (h_Connect (e_host e) p w)) ps w) = log w"
  by (induction ps arbitrary: w) (simp_all add: logsD(5))

lemma log_connect:
  assumes "logs e log" "connectShardNodes e visit rnd sched num s sm w = Some (r, w')"
  shows "log w' = log w"
proof (cases "sint num \<le> int (length (remdups (ps_ListPeers (e_pubsub e) (getCollationsTopic s) w)))")
  case True
  with assms(2) show ?thesis by (simp add: connectShardNodes_def)
next
  case False
  then obtain found where f: "d_FindPeers (e_discovery e) visit (FormatInt s) (sm_table sm) w = Some found"
    using assms(2) by (auto simp: connectShardNodes_def Let_def bind_eq_Some_iff)
  with False assms(2) show ?thesis
    by (cases found) (auto simp: connectShardNodes_def Let_def dial_all_def bind_eq_Some_iff log_dial [OF assms(1)])
qed

lemma advertise_log:
  assumes "uses_global_table e" "logs e log" "wf_table t" "valid_shard s"
    and "d_Advertise (e_discovery e) (FormatInt s) t w = Some (None, t1, w1)"
  shows "\<exists>ls. wf_table t1 \<and> wf_shards ls \<and> shards_of ls = pref t1 (e_self e) \<and> log w1 = log w @ [shardBits ls]"
proof -
  obtain t' ls where a: "wf_table t'" "wf_shards ls" "shards_of ls = pref t' (e_self e)"
    "Advertise (e_host e) (e_pubsub e) (FormatInt s) t w =
      (let (perr, w1) = ps_Publish (e_pubsub e) listeningShardTopic (toBytes ls) w in Some (perr, t', w1))"
    by (rule Advertise_valid [OF assms(3,4), where h = "e_host e" and ps = "e_pubsub e" and w = w])
  obtain perr w2 where p: "ps_Publish (e_pubsub e) listeningShardTopic (toBytes ls) w = (perr, w2)" by fastforce
  have "perr = None" "t' = t1" "w2 = w1"
    using assms(5) a(4) p unfolding uses_global_tableD(1) [OF assms(1)] by (simp_all add: NewGlobalTable_def)
  with p have "ps_Publish (e_pubsub e) listeningShardTopic (shardBits ls) w = (None, w1)"
    by (simp add: toBytes_def)
  then have "log w1 = log w @ [shardBits ls]" by (rule logsD(1) [OF assms(2)])
  with a(1-3) \<open>t' = t1\<close> show ?thesis by blast
qed

lemma announced_listen:
  assumes "uses_global_table e" "logs e log" "announced e log sm w" "valid_shard s"
    "ListenShard e visit rnd sched num s sm w = Some (None, sm', w')"
  shows "announced e log sm' w'"
proof -
  have wf: "wf_table (sm_table sm)" using assms(3) by (simp add: announced_def)
  show ?thesis
  proof (cases "s \<in> pref (sm_table sm) (e_self e)")
    case True
    with assms(3,5) wf show ?thesis by (simp add: ListenShard_def IsShardListened_wf)
  next
    case False
    obtain er t1 w1 where a: "d_Advertise (e_discovery e) (FormatInt s) (sm_table sm) w = Some (er, t1, w1)"
      using assms(5) False wf by (auto simp: ListenShard_def IsShardListened_wf bind_eq_Some_iff)
    with assms(5) False wf have er: "er = None"
      by (cases er) (auto simp: ListenShard_def IsShardListened_wf Let_def)
    obtain r2 w2 where c: "connectShardNodes e visit rnd sched num s (sm\<lparr>sm_table := t1\<rparr>) w1 = Some (r2, w2)"
      "SubscribeCollation e s (sm\<lparr>sm_table := t1\<rparr>) w2 = (None, sm', w')"
      using assms(5) False wf a er by (auto simp: ListenShard_def IsShardListened_wf bind_eq_Some_iff Let_def)
    obtain ls where ls: "wf_table t1" "wf_shards ls" "shards_of ls = pref t1 (e_self e)" "log w1 = log w @ [shardBits ls]"
      using advertise_log [OF assms(1,2) wf assms(4)] a er by blast
    have "sm_table sm' = t1"
      using SubscribeCollation_ok [OF c(2)] by auto
    moreover have "log w' = log w1"
      using log_connect [OF assms(2) c(1)] log_Subscribe [OF assms(2) c(2)] by simp
    ultimately show ?thesis using ls by (simp add: announced_def)
  qed
qed

lemma announced_unlisten:
  assumes "uses_global_table e" "logs e log" "announced e log sm w" "valid_shard s"
    "UnlistenShard e s sm w = Some (None, sm', w')"
  shows "announced e log sm' w'"
proof -
  have wf: "wf_table (sm_table sm)" using assms(3) by (simp add: announced_def)
  show ?thesis
  proof (cases "s \<in> pref (sm_table sm) (e_self e)")
    case False
    with assms(3,5) wf show ?thesis by (simp add: UnlistenShard_def IsShardListened_wf)
  next
    case True
    obtain er t1 w1 where a: "d_Advertise (e_discovery e) (FormatInt s) (sm_table sm) w = Some (er, t1, w1)"
      using assms(5) True wf by (auto simp: UnlistenShard_def IsShardListened_wf bind_eq_Some_iff)
    with assms(5) True wf have er: "er = None"
      by (cases er) (auto simp: UnlistenShard_def IsShardListened_wf Let_def)
    have u: "UnsubscribeCollation e s (sm\<lparr>sm_table := t1\<rparr>) w1 = (sm', w')"
      using assms(5) True wf a er by (auto simp: UnlistenShard_def IsShardListened_wf split: prod.splits)
    obtain ls where ls: "wf_table t1" "wf_shards ls" "shards_of ls = pref t1 (e_self e)" "log w1 = log w @ [shardBits ls]"
      using advertise_log [OF assms(1,2) wf assms(4)] a er by blast
    moreover have "sm_table sm' = t1" "log w' = log w1"
      using UnsubscribeCollation_subs(2) [of e s "sm\<lparr>sm_table := t1\<rparr>" w1]
        log_Unsubscribe [OF assms(2), of s "sm\<lparr>sm_table := t1\<rparr>" w1] u by simp_all
    ultimately show ?thesis by (simp add: announced_def)
  qed
qed

lemma own_step_announced:
  assumes "own_step e log (sm, w) (sm', w')" "uses_global_table e" "logs e log" "announced e log sm w"
  shows "announced e log sm' w'"
  using assms(1)
proof (rule own_stepE)
  fix s visit rnd sched num
  assume "valid_shard s" "ListenShard e visit rnd sched num s sm w = Some (None, sm', w')"
  then show ?thesis by (rule announced_listen [OF assms(2-4)])
next
  fix s
  assume "valid_shard s" "UnlistenShard e s sm w = Some (None, sm', w')"
  then show ?thesis by (rule announced_unlisten [OF assms(2-4)])
next
  fix msg
  assume "sm' = sm\<lparr>sm_table := makeShardPrefHandler msg (sm_table sm)\<rparr>" "w' = w" "msg_From msg \<noteq> e_self e"
    "13 \<le> length (msg_Data msg)"
  then show ?thesis using assms(4) by (simp add: announced_def handler_eq wf_shards_iff)
next
  assume "sm' = sm" "log w' = log w"
  then show ?thesis using assms(4) by (simp add: announced_def)
qed

lemma own_reachable_announced:
  "own_reachable e log c \<Longrightarrow> uses_global_table e \<Longrightarrow> logs e log \<Longrightarrow> announced e log (fst c) (snd c)"
proof (induction rule: own_reachable.induct)
  case (start sm w)
  then show ?case by (simp add: announced_def)
next
  case (step c c')
  then show ?case
    using own_step_announced [of e log "fst c" "snd c" "fst c'" "snd c'"] by simp
qed

section \<open>Lemmas: the receiver\<close>

lemma reader_pref:
  "pref (reader_loop makeShardPrefHandler (map NextMsg msgs) t) p =
    (let own = filter (\<lambda>m. msg_From m = p) msgs
     in if own = [] then pref t p else shards_of \<lparr>shardBits = msg_Data (last own)\<rparr>)"
  by (induction msgs arbitrary: t) (auto simp: handler_eq Let_def)

section \<open>Properties\<close>

text \<open>
  C3: every other node gets the preference right.  Take any state a node reaches from its start by
  listening to and leaving valid shards without error.  If another node has nothing recorded for it
  and its reader processes a sequence of messages in which the messages of the first node are exactly
  its publications, in order, then whatever comes from other peers in between, the record it ends
  with for the first node is the set of shards that node listens to.
\<close>

theorem remote_view_agrees:
  assumes "own_reachable e log (sm, w)" and "uses_global_table e" and "logs e log"
    and "map msg_Data (filter (\<lambda>m. msg_From m = e_self e) msgs) = log w" and "pref t (e_self e) = {}"
  shows "pref (reader_loop makeShardPrefHandler (map NextMsg msgs) t) (e_self e) = pref (sm_table sm) (e_self e)"
proof -
  let ?own = "filter (\<lambda>m. msg_From m = e_self e) msgs"
  have a: "pref (sm_table sm) (e_self e) = (if log w = [] then {} else shards_of \<lparr>shardBits = last (log w)\<rparr>)"
    using own_reachable_announced [OF assms(1-3)] by (simp add: announced_def)
  show ?thesis
  proof (cases "?own = []")
    case True
    with a assms(4,5) show ?thesis by (simp add: reader_pref Let_def)
  next
    case False
    then have "log w \<noteq> []" "last (log w) = msg_Data (last ?own)"
      using assms(4) [symmetric] by (simp_all add: last_map)
    with a False show ?thesis by (simp add: reader_pref Let_def)
  qed
qed

definition sample_log :: "sample_world \<Rightarrow> bytes list" where
  "sample_log w = map snd (filter (\<lambda>m. fst m = listeningShardTopic) w)"

lemma sample_logs: "logs sample_env sample_log"
  by (simp add: logs_def sample_log_def sample_host_def)

theorem remote_view_agrees_witness:
  "\<exists>sm w. IsShardListened sample_env sm 42 = Some True
    \<and> pref (reader_loop makeShardPrefHandler
          (map NextMsg (map (\<lambda>d. \<lparr>msg_From = ''self'', msg_Data = d\<rparr>) (sample_log w))) NewShardPrefTable) ''self''
      = pref (sm_table sm) ''self''"
proof -
  obtain sm w where run: "ListenShard sample_env [''self''] (\<lambda>_. 0) id 1 42 sample_manager [] = Some (None, sm, w)"
    "IsShardListened sample_env sm 42 = Some True"
    using sample_listen_run [of sample_manager "[]"] by auto
  have "own_reachable sample_env sample_log (sample_manager, [])"
    by (rule own_reachable.start) (simp_all add: sample_log_def)
  moreover have "own_step sample_env sample_log (sample_manager, []) (sm, w)"
    by (rule own_step.listen [OF _ run(1)]) (simp add: valid_shard_def)
  ultimately have "own_reachable sample_env sample_log (sm, w)" by (rule own_reachable.step)
  from remote_view_agrees [OF this uses_global_tableD(2) [OF sample_sound] sample_logs,
      of "map (\<lambda>d. \<lparr>msg_From = ''self'', msg_Data = d\<rparr>) (sample_log w)" NewShardPrefTable]
  have "pref (reader_loop makeShardPrefHandler
          (map NextMsg (map (\<lambda>d. \<lparr>msg_From = ''self'', msg_Data = d\<rparr>) (sample_log w))) NewShardPrefTable) ''self''
      = pref (sm_table sm) ''self''"
    by (simp add: o_def)
  with run(2) show ?thesis by blast
qed

end
