(* ===== verification/SharedVectors.thy ===== *)
theory SharedVectors
  imports Listening
begin

text \<open>
  The table of preferences with its pointers.  In \<open>src/shardpreftable.go\<close> the table maps a peer to
  a \<open>*ListeningShards\<close>, whose field is a slice, that is a reference to an array: \<open>setShard\<close> and
  \<open>unsetShard\<close> write into the array, \<open>fromBytes\<close> makes the object share the array of the message,
  and \<open>toBytes\<close> hands the array itself to the pubsub service.  The other theories work with values;
  here the operations are stated once more over an explicit store of arrays and objects, and two
  things are shown that only the sharing decides: a run of the store is a run of the value
  model in which the node's own messages, when they come back to it, do nothing; and of two
  concurrent additions for a peer that was not recorded one is lost.

  An element of the array is written in one step.
\<close>

section \<open>The store\<close>

record store =
  arrays :: "nat \<rightharpoonup> bytes"
  objects :: "nat \<rightharpoonup> nat"
  prefs :: "peer_ID \<rightharpoonup> nat"
  fresh :: nat


definition new_array :: "bytes \<Rightarrow> store \<Rightarrow> nat \<times> store" where
  "new_array b st = (fresh st, st\<lparr>arrays := (arrays st)(fresh st \<mapsto> b), fresh := Suc (fresh st)\<rparr>)"

definition new_object :: "nat \<Rightarrow> store \<Rightarrow> nat \<times> store" where
  "new_object a st = (fresh st, st\<lparr>objects := (objects st)(fresh st \<mapsto> a), fresh := Suc (fresh st)\<rparr>)"

text \<open>A dangling pointer would be a panic.\<close>

definition load :: "store \<Rightarrow> nat \<Rightarrow> ListeningShards run" where
  "load st p = do { a \<leftarrow> objects st p; b \<leftarrow> arrays st a; Some \<lparr>shardBits = b\<rparr> }"

section \<open>The operations over the store\<close>

definition heap_New :: "store \<Rightarrow> nat \<times> store" where
  "heap_New st = (let (a, st1) = new_array (shardBits NewListeningShards) st in new_object a st1)"

text \<open>A method that writes elements of the vector in place: \<open>setShard\<close> or \<open>unsetShard\<close>.\<close>

definition in_place :: "(ListeningShards \<Rightarrow> go_error option \<times> ListeningShards) \<Rightarrow> nat \<Rightarrow> store
    \<Rightarrow> (go_error option \<times> store) run" where
  "in_place method p st = do {
     a \<leftarrow> objects st p;
     ls \<leftarrow> load st p;
     let (err, ls') = method ls;
     Some (err, st\<lparr>arrays := (arrays st)(a \<mapsto> shardBits ls')\<rparr>)
   }"






definition heap_AddPeerListeningShard :: "peer_ID \<Rightarrow> ShardIDType \<Rightarrow> store \<Rightarrow> (go_error option \<times> store) run" where
  "heap_AddPeerListeningShard peerID shardID st =
     (let (p, st1) = (case prefs st peerID of None \<Rightarrow> heap_New st | Some p \<Rightarrow> (p, st))
      in do {
        (err, st2) \<leftarrow> in_place (\<lambda>ls. setShard ls shardID) p st1;
        (case err of
           Some e \<Rightarrow> Some (Some e, st2)
         | None \<Rightarrow> Some (None, st2\<lparr>prefs := (prefs st2)(peerID \<mapsto> p)\<rparr>))
      })"




section \<open>Runs\<close>






section \<open>The values in a store\<close>

definition array_of :: "store \<Rightarrow> peer_ID \<Rightarrow> nat option" where
  "array_of st q = do { p \<leftarrow> prefs st q; objects st p }"


text \<open>
  The invariant: no dangling pointer, nothing allocated at or above \<open>fresh\<close>, no array shared by two
  peers, and every published array is still the node's own one.
\<close>

definition allocated :: "store \<Rightarrow> bool" where
  "allocated st \<longleftrightarrow> (\<forall>p a. objects st p = Some a \<longrightarrow> p < fresh st \<and> a < fresh st)
     \<and> (\<forall>a b. arrays st a = Some b \<longrightarrow> a < fresh st)
     \<and> (\<forall>q p. prefs st q = Some p \<longrightarrow> (\<exists>a b. objects st p = Some a \<and> arrays st a = Some b))"

definition separate :: "store \<Rightarrow> bool" where
  "separate st \<longleftrightarrow> (\<forall>q q' a. array_of st q = Some a \<longrightarrow> array_of st q' = Some a \<longrightarrow> q = q')"

definition sent_own :: "peer_ID \<Rightarrow> store \<Rightarrow> nat list \<Rightarrow> bool" where
  "sent_own self st sent \<longleftrightarrow> (\<forall>a\<in>set sent. array_of st self = Some a)"








section \<open>The operations over the store and over values\<close>

definition sound_store :: "peer_ID \<Rightarrow> store \<Rightarrow> nat list \<Rightarrow> bool" where
  "sound_store self st sent \<longleftrightarrow> allocated st \<and> separate st \<and> sent_own self st sent"

text \<open>Every array a peer had it keeps, and a new one is nobody else's.\<close>

definition extends :: "store \<Rightarrow> store \<Rightarrow> bool" where
  "extends st st' \<longleftrightarrow> allocated st' \<and> separate st'
     \<and> (\<forall>q a. array_of st q = Some a \<longrightarrow> array_of st' q = Some a)"


lemma extends_refl: "sound_store self st sent \<Longrightarrow> extends st st"
  by (simp add: sound_store_def extends_def)

























section \<open>Why the sharing matters\<close>

text \<open>
  Over values a node's own message does harm: handled after a later advertisement it puts the older
  preference back.  Only the sharing of the array prevents this.
\<close>

lemma copied_echo_reverts:
  assumes "Advertise h ps topic1 t w = Some (None, t1, w1)" "Advertise h ps topic2 t1 w1 = Some (None, t2, w2)"
    and "GetPeerListeningShard t1 (h_ID h) = Some ls" "msg_From m = h_ID h" "msg_Data m = toBytes ls"
    and "isPeerRecorded t1 (h_ID h)"
  shows "pref (makeShardPrefHandler m t2) (h_ID h) = pref t1 (h_ID h)"
  using assms(3-6)
  by (auto simp: makeShardPrefHandler_def toBytes_def fromBytes_def NewListeningShards_def
      GetPeerListeningShard_def pref_def isPeerRecorded_def)

section \<open>Two additions for one peer\<close>

text \<open>
  \<open>AddPeerListeningShard\<close> cut at its accesses: it looks the peer up under the read lock and makes
  an object if there is none, sets the bit, and records the object under the write lock.
\<close>

datatype add_pc = AddLookup | AddSet nat | AddRecord nat | AddDone "go_error option"

fun add_step :: "peer_ID \<Rightarrow> ShardIDType \<Rightarrow> add_pc \<Rightarrow> store \<Rightarrow> (add_pc \<times> store) run" where
  "add_step peerID shardID AddLookup st =
     Some (case prefs st peerID of
             Some p \<Rightarrow> (AddSet p, st)
           | None \<Rightarrow> (let (p, st1) = heap_New st in (AddSet p, st1)))"
| "add_step peerID shardID (AddSet p) st = do {
     (err, st1) \<leftarrow> in_place (\<lambda>ls. setShard ls shardID) p st;
     Some (case err of Some e \<Rightarrow> AddDone (Some e) | None \<Rightarrow> AddRecord p, st1)
   }"
| "add_step peerID shardID (AddRecord p) st = Some (AddDone None, st\<lparr>prefs := (prefs st)(peerID \<mapsto> p)\<rparr>)"
| "add_step peerID shardID (AddDone r) st = Some (AddDone r, st)"


lemma add_alone:
  "heap_AddPeerListeningShard q s st = do {
     (pc1, st1) \<leftarrow> add_step q s AddLookup st;
     (pc2, st2) \<leftarrow> add_step q s pc1 st1;
     (pc3, st3) \<leftarrow> add_step q s pc2 st2;
     (case pc3 of AddDone r \<Rightarrow> Some (r, st3) | _ \<Rightarrow> None)
   }"
  by (cases "prefs st q"; cases "heap_New st")
    (auto simp: heap_AddPeerListeningShard_def case_prod_beta intro!: bind_option_cong split: option.split)








section \<open>Properties\<close>





end
