(* ===== verification/Lifecycle.thy ===== *)
theory Lifecycle
  imports Service
begin

text \<open>
  The life of the process: \<open>runRPCServer\<close> and the call \<open>StopServer\<close> of \<open>src/rpcserver.go\<close>.  The
  server listens, then serves calls until somebody stops it: the interrupt handler at once, or the
  goroutine that a \<open>StopServer\<close> call leaves behind, when it wakes up after a second.  Until then the
  server goes on answering.  What the outside world does is a list of events; the gRPC library is
  used as documented (\<open>Serve\<close> returns without error once \<open>Stop\<close> has been called).
\<close>

section \<open>The process\<close>



datatype process_event = Handle node_event | TimerFires | Interrupt | AcceptFails go_error



section \<open>Lemmas\<close>



text \<open>When a server with \<open>k\<close> goroutines waiting is stopped.\<close>

definition stop_call :: "process_event \<Rightarrow> bool" where
  "stop_call ev \<longleftrightarrow> (\<exists>ch. ev = Handle (RpcEvent ch CallStopServer))"

definition stops :: "nat \<Rightarrow> process_event list \<Rightarrow> bool" where
  "stops k events \<longleftrightarrow> Interrupt \<in> set events \<or> (0 < k \<and> TimerFires \<in> set events)
     \<or> (\<exists>before call after. events = before @ call # after \<and> stop_call call \<and> TimerFires \<in> set after)"

lemma stops_Nil [simp]: "\<not> stops k []"
  by (simp add: stops_def)

lemma split_Cons: "(\<exists>before call after. x # xs = before @ call # after \<and> P call after)
    \<longleftrightarrow> P x xs \<or> (\<exists>before call after. xs = before @ call # after \<and> P call after)"
  by (auto simp: Cons_eq_append_conv)

lemma stops_Cons [simp]:
  "stops k (Interrupt # events)"
  "stops k (TimerFires # events) \<longleftrightarrow> 0 < k \<or> stops k events"
  "stop_call ev \<Longrightarrow> stops k (ev # events) \<longleftrightarrow> stops (Suc k) events"
  "\<not> stop_call (Handle ev') \<Longrightarrow> stops k (Handle ev' # events) \<longleftrightarrow> stops k events"
  by (auto simp: stops_def split_Cons stop_call_def)

lemma stop_call_simps [simp]:
  "stop_call (Handle (RpcEvent ch CallStopServer))"
  "\<not> stop_call (Handle (PreferenceEvent msg))"
  "call \<noteq> CallStopServer \<Longrightarrow> \<not> stop_call (Handle (RpcEvent ch call))"
  by (auto simp: stop_call_def)




section \<open>Properties\<close>




end
