(* ===== verification/Spec2Isabelle.thy ===== *)
theory Spec2Isabelle
  imports NegativeShards EventNotifier Cli DistinctShards Gossip SharedVectors Lifecycle
begin

text \<open>
  A model of the sharding peer-to-peer node of this repository (the Go files under \<open>src/\<close>), and the
  theorems that make it correct or show where it is not.

  The program.  A node keeps, for every peer it has heard of and for itself, the set of shards
  that peer listens to (\<open>shardpreftable.go\<close>).  Listening to a shard (\<open>ShardManager.ListenShard\<close>)
  toggles the node's own bit, publishes the whole vector on the preference topic
  (\<open>GlobalTable.Advertise\<close> in \<open>discovery.go\<close>), dials other peers of the shard
  (\<open>connectShardNodes\<close>) and subscribes the collation topic of the shard; leaving
  undoes this.  Every node stores the vectors it receives.  Received collations are judged by a
  host behind \<open>EventNotifier.Receive\<close> (\<open>eventrpc.go\<close>); two stream protocols (\<open>requests.go\<close>) ask a
  peer for the peers of shards or pass a request on to its host; the gRPC service
  (\<open>rpcserver.go\<close>) drives all of this, and the command-line client (\<open>cli.go\<close>) drives the
  service.  \<open>bootstrap.go\<close>, \<open>node.go\<close> and \<open>main.go\<close> start a node.

  The theories, in the order of their dependencies.

    \<^item> \<open>Prelude\<close>: Go's integers as words, panics as \<open>None\<close>, errors as a datatype, shared lemmas.
    \<^item> \<open>ListeningShards\<close>, \<open>ShardPrefTable\<close> (\<open>shardpreftable.go\<close>): the bit vector of a peer and the
      table of all peers.  Lemmas: the vector implements a set of valid shards and the table a map
      from peers to sets, on every branch; exactly when the unchecked index panics.
    \<^item> \<open>GoStrings\<close>, \<open>Utils\<close> (\<open>utils.go\<close>, topics of \<open>shardmanager.go\<close>): decimal printing and
      parsing, splitting, topic names, lists of peers.  Lemmas: round trips.
    \<^item> \<open>Services\<close>: the host, pubsub, stream and codec libraries as records of functions over an
      abstract world \<open>'w\<close>, with the documented laws that some theorems assume, and one concrete
      instance on which the hypotheses are shown to hold.
    \<^item> \<open>EventNotifier\<close> (\<open>eventrpc.go\<close>, the event messages, and the test server of \<open>main_test.go\<close>).
    \<^item> \<open>Discovery\<close> (\<open>discovery.go\<close>): advertising as a toggle, finding peers.
    \<^item> \<open>ShardManager\<close> (\<open>shardmanager.go\<close>): topics, handlers, validators, dialling, listening.
      \<open>Listening\<close> has what the operations do to preference and subscription, the step relation of a
      manager and its invariant; \<open>NegativeShards\<close> what happens below zero; \<open>Collations\<close> the
      broadcast of collations and the decision about received ones.
    \<^item> \<open>Requests\<close> (\<open>requests.go\<close>): both protocols, and a requester and a handler joined by a wire.
    \<^item> \<open>Bootstrapping\<close> (\<open>bootstrap.go\<close>, part of \<open>node.go\<close>), \<open>NodeSetup\<close> (\<open>node.go\<close>, \<open>main.go\<close>).
    \<^item> \<open>RpcServer\<close> (\<open>rpcserver.go\<close>): every call of the service.  \<open>Service\<close> shows that any sequence of
      sane calls keeps a node in its invariant, \<open>RpcCalls\<close> what single calls do, \<open>Lifecycle\<close> how the
      process is stopped.
    \<^item> \<open>Cli\<close> (\<open>cli.go\<close>, \<open>runClient\<close> of \<open>main.go\<close>): the commands, and the client joined to the server.
    \<^item> \<open>Concurrency\<close>: \<open>ListenShard\<close> and \<open>UnlistenShard\<close> as threads of atomic steps; alone, a thread is
      the function; two of them for one shard can undo each other.  \<open>DistinctShards\<close>: any number of
      them for different shards cannot.
    \<^item> \<open>Gossip\<close>: the table of a remote node agrees with the sender once its messages have arrived.
    \<^item> \<open>SharedVectors\<close>: the table with its pointers, over a store of arrays.

  Interfaces.  The locale \<open>shard_set\<close> is what the table needs of a vector, \<open>pref_table\<close> what
  discovery needs of the table, \<open>discovery\<close> what the manager needs of discovery, \<open>event_notifier\<close>
  and \<open>event_server\<close> what the validators need of a host, \<open>stream_handler\<close> that a handler
  closes its stream, \<open>switch\<close> the starting and stopping of bootstrapping.  Each is interpreted on the
  definitions that model the code.

  How Go is read.  A run-time panic, and \<open>logger.Fatal\<close>, is \<open>None\<close>: nothing in the repository
  recovers.  \<open>ShardIDType\<close> and protobuf's \<open>int64\<close> are 64-bit words read as signed numbers, a byte an
  8-bit word; conversions truncate as in Go.  What Go leaves open is an argument: \<open>visit\<close> is the
  order in which a map is ranged over, \<open>rnd\<close> the numbers drawn, \<open>sched\<close> the order in which
  dialling goroutines finish; where the code calls an operation several times these depend on the
  number of the call.  Methods of the manager are functions on its state, one call after the
  other, except in \<open>Concurrency\<close>, \<open>DistinctShards\<close> and \<open>SharedVectors\<close>.  A thread is run for six
  steps, or gets at least six turns: that is the longest path through \<open>thread_step\<close> (\<open>Check\<close>, \<open>Test\<close>, \<open>Add\<close> or \<open>Remove\<close>,
  \<open>Publish\<close>, \<open>Connect\<close>, \<open>Finish\<close>); every other loop is a structural recursion or terminates by a
  measure, so nothing else needs fuel.

  Where values stand for pointers.  The vectors of the table are shared with the messages the node
  publishes.  \<open>SharedVectors\<close> proves that the values used everywhere else are right as
  long as the node's own messages are dropped when they come back; this is why the step
  relations of \<open>Listening\<close>, \<open>Gossip\<close> and \<open>Service\<close> receive messages of other peers only.

  Not modelled.  Tracing spans, tags and log lines; the set-up of the Jaeger tracer in \<open>runServer\<close>;
  the generated protobuf and gRPC code other than the message structs; \<open>marshalToJSONString\<close>, that is
  the JSON text in which the client prints an answer (the answer itself is the value that is
  printed); timeouts, which are errors of the library calls; the Kademlia DHT, GossipSub,
  multiaddresses, keys and base58, which are parameters; deployment, scripts and tests.
\<close>

end
